(* ===== verification/Prelude.thy ===== *)
theory Prelude
  imports Complex_Main
begin

text \<open>
  What every theory of the development shares: Python exceptions as values and
  the sequencing of computations that may raise, Python dictionaries as
  insertion-ordered association lists, and the interface of a keyed store with its laws.
\<close>

named_theorems dict_simps \<open>lookups in updated dictionaries\<close>
named_theorems exec_defs \<open>small definitions a symbolic run unfolds\<close>

section \<open>Exceptions as values\<close>

text \<open>
  One constructor per exception class the modelled code raises or distinguishes in
  an \<open>except\<close> clause; the text is the message.
\<close>

datatype pyexc =
    TypeError string
  | ValueError string
  | ZeroDivisionError
  | OverflowError
  | KeyError string
  | IndexError
  | RuntimeError string
  | PlatformError string
  | CredentialsError string
  | MfaRequired
  | SafetyError string
  | CachedSessionError string string "int option"
  | StatePersistenceError string
  | FeeScheduleError string
  | ReconciliationUnavailable string
  | AccountFactsUnavailable string
  | AccountFactsPublishError string
  | OtherException string string

text \<open>\<open>FirstradePlatformError\<close> and its subclasses (\<open>application/firstrade_client.py\<close>).\<close>

fun is_platform_error :: "pyexc \<Rightarrow> bool" where
  "is_platform_error (PlatformError _) = True"
| "is_platform_error (CredentialsError _) = True"
| "is_platform_error MfaRequired = True"
| "is_platform_error (SafetyError _) = True"
| "is_platform_error (CachedSessionError _ _ _) = True"
| "is_platform_error _ = False"

text \<open>\<open>except (TypeError, ValueError)\<close>; \<open>FeeScheduleError\<close> is a \<open>ValueError\<close>.\<close>

fun is_value_error :: "pyexc \<Rightarrow> bool" where
  "is_value_error (ValueError _) = True"
| "is_value_error (FeeScheduleError _) = True"
| "is_value_error _ = False"

fun is_type_or_value_error :: "pyexc \<Rightarrow> bool" where
  "is_type_or_value_error (TypeError _) = True"
| "is_type_or_value_error e = is_value_error e"

type_synonym 'a exc = "pyexc + 'a"

definition bindE :: "'e + 'a \<Rightarrow> ('a \<Rightarrow> 'e + 'b) \<Rightarrow> 'e + 'b" where
  "bindE m f = (case m of Inl e \<Rightarrow> Inl e | Inr x \<Rightarrow> f x)"

lemma bindE_simps [simp]: "bindE (Inl e) f = Inl e" "bindE (Inr x) f = f x"
  by (simp_all add: bindE_def)

lemma bindE_Inr_iff: "bindE m f = Inr y \<longleftrightarrow> (\<exists>x. m = Inr x \<and> f x = Inr y)"
  by (cases m) auto

lemma bindE_Inl_iff: "bindE m f = Inl e \<longleftrightarrow> m = Inl e \<or> (\<exists>x. m = Inr x \<and> f x = Inl e)"
  by (cases m) auto

lemma bindE_cong [fundef_cong]:
  "m = m' \<Longrightarrow> (\<And>x. m' = Inr x \<Longrightarrow> f x = f' x) \<Longrightarrow> bindE m f = bindE m' f'"
  by (cases m') auto

definition guardE :: "bool \<Rightarrow> 'e \<Rightarrow> 'e + unit" where
  "guardE b e = (if b then Inr () else Inl e)"

lemma guardE_simps [simp]:
  "guardE True e = Inr ()" "guardE False e = Inl e"
  "guardE b e = Inr u \<longleftrightarrow> b" "guardE b e = Inl e' \<longleftrightarrow> \<not> b \<and> e' = e"
  by (auto simp: guardE_def)

text \<open>A comprehension whose body may raise: the first exception wins.\<close>

fun mapE :: "('a \<Rightarrow> 'e + 'b) \<Rightarrow> 'a list \<Rightarrow> 'e + 'b list" where
  "mapE f [] = Inr []"
| "mapE f (x # xs) = bindE (f x) (\<lambda>y. bindE (mapE f xs) (\<lambda>ys. Inr (y # ys)))"

lemma mapE_Inr_length: "mapE f xs = Inr ys \<Longrightarrow> length ys = length xs"
  by (induction xs arbitrary: ys) (auto simp: bindE_Inr_iff)

lemma mapE_Inr_set:
  "mapE f xs = Inr ys \<Longrightarrow> y \<in> set ys \<Longrightarrow> \<exists>x\<in>set xs. f x = Inr y"
  by (induction xs arbitrary: ys) (auto simp: bindE_Inr_iff)

lemma mapE_pure: "(\<And>x. x \<in> set xs \<Longrightarrow> f x = Inr (g x)) \<Longrightarrow> mapE f xs = Inr (map g xs)"
  by (induction xs) auto

section \<open>Computations on a world\<close>

text \<open>
  A call that acts on a world and may raise; the effects made before an exception stay.
\<close>

type_synonym ('w, 'a) io = "'w \<Rightarrow> 'a exc \<times> 'w"

definition returnIO :: "'a \<Rightarrow> ('w, 'a) io" where
  "returnIO x w = (Inr x, w)"

definition raiseIO :: "pyexc \<Rightarrow> ('w, 'a) io" where
  "raiseIO e w = (Inl e, w)"

definition liftE :: "'a exc \<Rightarrow> ('w, 'a) io" where
  "liftE r w = (r, w)"

definition bindIO :: "('w, 'a) io \<Rightarrow> ('a \<Rightarrow> ('w, 'b) io) \<Rightarrow> ('w, 'b) io" where
  "bindIO m f w = (case m w of (Inl e, w') \<Rightarrow> (Inl e, w') | (Inr x, w') \<Rightarrow> f x w')"

text \<open>\<open>try: m except Exception as e: h e\<close>.\<close>

definition catchIO :: "('w, 'a) io \<Rightarrow> (pyexc \<Rightarrow> ('w, 'a) io) \<Rightarrow> ('w, 'a) io" where
  "catchIO m h w = (case m w of (Inl e, w') \<Rightarrow> h e w' | (Inr x, w') \<Rightarrow> (Inr x, w'))"

lemma bindIO_return [simp]: "bindIO (returnIO x) f = f x"
  by (simp add: fun_eq_iff bindIO_def returnIO_def)

lemma bindIO_raise [simp]: "bindIO (raiseIO e) f = raiseIO e"
  by (simp add: fun_eq_iff bindIO_def raiseIO_def)

lemma bindIO_assoc: "bindIO (bindIO m f) g = bindIO m (\<lambda>x. bindIO (f x) g)"
  by (auto simp: fun_eq_iff bindIO_def split: sum.splits prod.splits)

lemma liftE_simps [simp]: "liftE (Inr x) = returnIO x" "liftE (Inl e) = raiseIO e"
  by (simp_all add: fun_eq_iff liftE_def returnIO_def raiseIO_def)

lemma returnIO_eq: "returnIO x w = (Inr x, w)"
  by (simp add: returnIO_def)

lemma raiseIO_eq: "raiseIO e w = (Inl e, w)"
  by (simp add: raiseIO_def)

lemma returnIO_sel [simp]:
  "fst (returnIO x w) = Inr x" "snd (returnIO x w) = w"
  "returnIO x w = (r, w') \<longleftrightarrow> r = Inr x \<and> w' = w"
  by (auto simp: returnIO_def)

lemma raiseIO_sel [simp]:
  "fst (raiseIO e w) = Inl e" "snd (raiseIO e w) = w"
  "raiseIO e w = (r, w') \<longleftrightarrow> r = Inl e \<and> w' = w"
  by (auto simp: raiseIO_def)

lemma bindIO_Inr:
  "bindIO m f w = (Inr y, w'') \<longleftrightarrow> (\<exists>x w'. m w = (Inr x, w') \<and> f x w' = (Inr y, w''))"
  by (auto simp: bindIO_def split: sum.splits prod.splits)

lemma bindIO_case:
  "bindIO m f w = (case m w of (Inl e, w') \<Rightarrow> (Inl e, w') | (Inr x, w') \<Rightarrow> f x w')"
  by (simp add: bindIO_def)

text \<open>A computation inside one that also keeps a variable of its own.\<close>

definition lift_fst :: "('w, 'a) io \<Rightarrow> ('w \<times> 's, 'a) io" where
  "lift_fst m s = (case m (fst s) of (r, w') \<Rightarrow> (r, (w', snd s)))"

text \<open>
  An observation that no step of a composite computation changes, or that each step
  may only change along a preorder, is kept by the whole.
\<close>

definition steps_along :: "('w \<Rightarrow> 'w \<Rightarrow> bool) \<Rightarrow> ('w, 'a) io \<Rightarrow> bool" where
  "steps_along R m \<longleftrightarrow> (\<forall>w. R w (snd (m w)))"

lemma steps_along_return: "reflp R \<Longrightarrow> steps_along R (returnIO x)"
  by (simp add: steps_along_def reflp_def returnIO_def)

lemma steps_along_raise: "reflp R \<Longrightarrow> steps_along R (raiseIO e)"
  by (simp add: steps_along_def reflp_def raiseIO_def)

lemma steps_along_bind:
  assumes "transp R" "steps_along R m" "\<And>x. steps_along R (f x)"
  shows "steps_along R (bindIO m f)"
  unfolding steps_along_def
proof
  fix w
  show "R w (snd (bindIO m f w))"
  proof (cases "m w")
    case (Pair r w')
    then have "R w w'" using assms(2) by (metis snd_conv steps_along_def)
    then show ?thesis
      using Pair assms(1,3) by (cases r) (auto simp: bindIO_def steps_along_def dest: transpD)
  qed
qed

section \<open>Dictionaries\<close>

text \<open>
  A \<open>dict\<close> with string keys: an association list without repeated keys, in insertion
  order. Assigning to a present key keeps its position, as Python does.
\<close>

type_synonym 'v dict = "(string \<times> 'v) list"

definition dget :: "'v dict \<Rightarrow> string \<Rightarrow> 'v option" where
  "dget d k = map_of d k"

fun dset :: "'v dict \<Rightarrow> string \<Rightarrow> 'v \<Rightarrow> 'v dict" where
  "dset [] k v = [(k, v)]"
| "dset ((k', v') # d) k v = (if k' = k then (k, v) # d else (k', v') # dset d k v)"

definition ddel :: "'v dict \<Rightarrow> string \<Rightarrow> 'v dict" where
  "ddel d k = filter (\<lambda>e. fst e \<noteq> k) d"

definition dupdate :: "'v dict \<Rightarrow> 'v dict \<Rightarrow> 'v dict" where
  "dupdate d e = foldl (\<lambda>a (k, v). dset a k v) d e"

definition dict_of :: "(string \<times> 'v) list \<Rightarrow> 'v dict" where
  "dict_of ps = dupdate [] ps"

abbreviation dkeys :: "'v dict \<Rightarrow> string list" where
  "dkeys d \<equiv> map fst d"

definition dget_or :: "'v dict \<Rightarrow> string \<Rightarrow> 'v \<Rightarrow> 'v" where
  "dget_or d k z = (case dget d k of None \<Rightarrow> z | Some v \<Rightarrow> v)"

lemma dget_Nil [simp]: "dget [] k = None"
  by (simp add: dget_def)

lemma dget_Cons [simp]: "dget ((k', v) # d) k = (if k' = k then Some v else dget d k)"
  by (simp add: dget_def)

lemma dget_dset [dict_simps]: "dget (dset d k v) k' = (if k' = k then Some v else dget d k')"
  by (induction d k v rule: dset.induct) auto

lemma dget_ddel [dict_simps]: "dget (ddel d k) k' = (if k' = k then None else dget d k')"
  by (induction d) (auto simp: ddel_def)

lemma dkeys_dset: "fst ` set (dset d k v) = insert k (fst ` set d)"
  by (induction d k v rule: dset.induct) auto

lemma distinct_dset [simp]: "distinct (dkeys d) \<Longrightarrow> distinct (dkeys (dset d k v))"
  by (induction d k v rule: dset.induct) (auto simp: dkeys_dset)

lemma distinct_dupdate: "distinct (dkeys d) \<Longrightarrow> distinct (dkeys (dupdate d e))"
  by (induction e arbitrary: d) (auto simp: dupdate_def split: prod.splits)

lemma distinct_dict_of [simp]: "distinct (dkeys (dict_of ps))"
  by (simp add: dict_of_def distinct_dupdate)

lemma dupdate_simps [simp]:
  "dupdate d [] = d" "dupdate d ((k, v) # e) = dupdate (dset d k v) e"
  by (simp_all add: dupdate_def)

lemma dget_dupdate:
  "distinct (dkeys e) \<Longrightarrow>
   dget (dupdate d e) k = (case dget e k of None \<Rightarrow> dget d k | Some v \<Rightarrow> Some v)"
proof (induction e arbitrary: d)
  case (Cons p e)
  obtain k' v where p: "p = (k', v)" by (cases p)
  have "dget e k' = None" using Cons.prems by (simp add: p dget_def map_of_eq_None_iff)
  with Cons show ?case by (auto simp: p dget_dset split: option.splits)
qed simp

lemma dget_Some_in: "dget d k = Some v \<Longrightarrow> (k, v) \<in> set d"
  by (simp add: dget_def map_of_SomeD)

text \<open>\<open>dict.fromkeys\<close> of a sequence, as a tuple of keys: first occurrences, in order.\<close>

fun dedup :: "'a list \<Rightarrow> 'a list" where
  "dedup [] = []"
| "dedup (x # xs) = x # filter (\<lambda>y. y \<noteq> x) (dedup xs)"

lemma set_dedup [simp]: "set (dedup xs) = set xs"
  by (induction xs) auto

lemma distinct_dedup [simp]: "distinct (dedup xs)"
  by (induction xs) auto

section \<open>Keyed stores\<close>

text \<open>
  The contract of a keyed store: a write is read back, and changes no other key.
  Dictionaries and the runtime's object store both provide it.
\<close>

locale keyed_store =
  fixes look :: "'s \<Rightarrow> 'k \<Rightarrow> 'v option"
    and put :: "'s \<Rightarrow> 'k \<Rightarrow> 'v \<Rightarrow> 's"
  assumes look_put: "look (put s k v) k' = (if k' = k then Some v else look s k')"
begin

lemma put_same: "look (put s k v) k = Some v"
  by (simp add: look_put)

lemma put_other: "k' \<noteq> k \<Longrightarrow> look (put s k v) k' = look s k'"
  by (simp add: look_put)

lemma put_keeps_bound: "look s k' \<noteq> None \<Longrightarrow> look (put s k v) k' \<noteq> None"
  by (simp add: look_put)

lemma put_commute_obs:
  "k \<noteq> k' \<Longrightarrow> look (put (put s k v) k' v') j = look (put (put s k' v') k v) j"
  by (simp add: look_put)

end

interpretation dict_store: keyed_store dget dset
  by unfold_locales (rule dget_dset)

end
