(* ===== verification/Rounding.thy ===== *)
theory Rounding
  imports Prelude
begin

text \<open>
  Correct rounding of rationals: round half to even on integers, the magnitude of
  a positive rational in a base, and rounding to \<open>p\<close> significant digits in base \<open>b\<close>
  with a least exponent \<open>emin\<close> (gradual underflow below it). Python's \<open>float\<close> is the
  instance with base 2, precision 53 and \<open>emin = -1022\<close>; the default \<open>decimal\<close>
  context is the one with base 10 and precision 28. The laws both share are the
  locale \<open>rounding\<close>.
\<close>

section \<open>Round half to even\<close>

definition rhe :: "rat \<Rightarrow> int" where
  "rhe q = (let f = \<lfloor>q\<rfloor>; r = q - of_int f in
     if r < 1/2 then f else if 1/2 < r then f + 1 else if even f then f else f + 1)"

lemma rhe_of_int [simp]: "rhe (of_int n) = n"
  by (simp add: rhe_def)

lemma rhe_cases: "rhe q = \<lfloor>q\<rfloor> \<or> rhe q = \<lfloor>q\<rfloor> + 1"
  by (auto simp: rhe_def Let_def)

lemma rhe_dist: "\<bar>of_int (rhe q) - q\<bar> \<le> 1/2"
proof -
  have "of_int \<lfloor>q\<rfloor> \<le> q" "q < of_int \<lfloor>q\<rfloor> + 1" by linarith+
  then show ?thesis by (auto simp: rhe_def Let_def abs_le_iff)
qed

lemma rhe_mono: assumes "q \<le> r" shows "rhe q \<le> rhe r"
proof (cases "\<lfloor>q\<rfloor> = \<lfloor>r\<rfloor>")
  case True
  with assms show ?thesis by (auto simp: rhe_def Let_def)
next
  case False
  with assms have "\<lfloor>q\<rfloor> + 1 \<le> \<lfloor>r\<rfloor>" using floor_mono [OF assms] by linarith
  moreover have "rhe q \<le> \<lfloor>q\<rfloor> + 1" "\<lfloor>r\<rfloor> \<le> rhe r" using rhe_cases [of q] rhe_cases [of r] by auto
  ultimately show ?thesis by linarith
qed

lemma rhe_minus: "rhe (- q) = - rhe q"
proof (cases "q \<in> \<int>")
  case True
  then obtain n where "q = of_int n" by (auto elim: Ints_cases)
  then show ?thesis using rhe_of_int [of n] rhe_of_int [of "- n"] by simp
next
  case False
  define f where "f = \<lfloor>q\<rfloor>"
  have "of_int f \<noteq> q" using False by (metis Ints_of_int)
  moreover have "of_int f \<le> q" by (simp add: f_def)
  ultimately have lt: "of_int f < q" by (rule order_le_neq_trans [rotated])
  have "q < of_int f + 1" unfolding f_def by linarith
  with lt have f: "\<lfloor>- q\<rfloor> = - f - 1"
    by (subst floor_eq_iff) simp
  show ?thesis
    unfolding rhe_def Let_def f f_def [symmetric]
    by (auto simp: field_simps)
qed

section \<open>Magnitude\<close>

text \<open>The integer logarithm, and the exponent of the leading digit of a positive rational.\<close>

function ilog :: "int \<Rightarrow> int \<Rightarrow> int" where
  "ilog b n = (if b < 2 \<or> n < b then 0 else 1 + ilog b (n div b))"
  by pat_completeness auto
termination
proof (relation "measure (\<lambda>(b, n). nat n)")
  fix b n :: int assume a: "\<not> (b < 2 \<or> n < b)"
  have "n div b < n" by (rule int_div_less_self) (use a in auto)
  with a show "((b, n div b), b, n) \<in> measure (\<lambda>(b, n). nat n)" by simp
qed simp

declare ilog.simps [simp del]

lemma ilog_nonneg: "0 \<le> ilog b n"
  by (induction b n rule: ilog.induct) (subst ilog.simps, auto)

lemma ilog_bounds:
  assumes "2 \<le> b" "0 < n"
  shows "b ^ nat (ilog b n) \<le> n \<and> n < b ^ (nat (ilog b n) + 1)"
  using assms
proof (induction b n rule: ilog.induct)
  case (1 b n)
  show ?case
  proof (cases "n < b")
    case True
    with 1 show ?thesis by (simp add: ilog.simps)
  next
    case False
    define k where "k = nat (ilog b (n div b))"
    have pos: "0 < n div b" using False 1 by (simp add: pos_imp_zdiv_pos_iff)
    have IH: "b ^ k \<le> n div b \<and> n div b < b ^ (k + 1)"
      unfolding k_def by (rule "1.IH") (use False 1 pos in auto)
    have e: "nat (ilog b n) = Suc k"
      using False 1 ilog_nonneg [of b "n div b"] by (simp add: ilog.simps [of b n] k_def nat_add_distrib)
    have dm: "n = b * (n div b) + n mod b" by simp
    have mb: "0 \<le> n mod b" "n mod b < b" using 1 by auto
    have "b * b ^ k \<le> b * (n div b)" using IH 1 by (intro mult_left_mono) auto
    also have "\<dots> \<le> n" using dm mb by linarith
    finally have lo: "b ^ nat (ilog b n) \<le> n" by (simp add: e)
    have "n < b * (n div b + 1)" unfolding distrib_left using dm mb by linarith
    also have "\<dots> \<le> b * b ^ (k + 1)" using IH 1 by (intro mult_left_mono) auto
    finally show ?thesis using lo by (simp add: e)
  qed
qed

definition mag :: "int \<Rightarrow> rat \<Rightarrow> int" where
  "mag b q = (let (n, d) = quotient_of q;
                  k = ilog b n - ilog b d
              in if of_int b powi k \<le> q then k else k - 1)"

lemma mag_bounds:
  assumes "0 < q" and "2 \<le> b"
  shows "of_int b powi mag b q \<le> q" and "q < of_int b powi (mag b q + 1)"
proof -
  obtain n d where nd: "quotient_of q = (n, d)" by (cases "quotient_of q")
  have d: "0 < d" using nd by (rule quotient_of_denom_pos)
  have q: "q = of_int n / of_int d" using nd by (rule quotient_of_div)
  have n: "0 < n" using \<open>0 < q\<close> d by (simp add: q zero_less_divide_iff)
  define B where "B = (of_int b :: rat)"
  have B: "1 < B" using \<open>2 \<le> b\<close> by (simp add: B_def)
  have conv: "of_int (b ^ m) = B powi int m" for m by (simp add: B_def)
  have bnd: "B powi ilog b z \<le> of_int z \<and> of_int z < B powi (ilog b z + 1)" if "0 < z" for z
  proof -
    have "of_int (b ^ nat (ilog b z)) \<le> (of_int z :: rat)" "of_int z < (of_int (b ^ (nat (ilog b z) + 1)) :: rat)"
      unfolding of_int_le_iff of_int_less_iff using ilog_bounds [OF assms(2) that] by auto
    then show ?thesis unfolding conv using ilog_nonneg [of b z] by (simp add: add.commute)
  qed
  define k where "k = ilog b n - ilog b d"
  have lo: "B powi (k - 1) \<le> q"
  proof -
    have "B powi (k - 1) * of_int d \<le> B powi (k - 1) * B powi (ilog b d + 1)"
      using bnd [OF d] B by (intro mult_left_mono) auto
    also have "\<dots> = B powi ilog b n"
      by (subst power_int_add [symmetric]) (use B in \<open>auto simp: k_def\<close>)
    also have "\<dots> \<le> of_int n" using bnd [OF n] by simp
    finally show ?thesis using d by (simp add: q le_divide_eq)
  qed
  have hi: "q < B powi (k + 1)"
  proof -
    have "of_int n < B powi (ilog b n + 1)" using bnd [OF n] by simp
    also have "\<dots> = B powi (k + 1) * B powi ilog b d"
      by (subst power_int_add [symmetric]) (use B in \<open>auto simp: k_def\<close>)
    also have "\<dots> \<le> B powi (k + 1) * of_int d" using bnd [OF d] B by (intro mult_left_mono) auto
    finally show ?thesis using d by (simp add: q divide_less_eq)
  qed
  have m: "mag b q = (if B powi k \<le> q then k else k - 1)"
    by (simp add: mag_def nd k_def B_def)
  show "of_int b powi mag b q \<le> q" "q < of_int b powi (mag b q + 1)"
    using lo hi by (auto simp: m B_def [symmetric])
qed

lemma mag_mono:
  assumes "0 < q" "q \<le> r" "2 \<le> b"
  shows "mag b q \<le> mag b r"
proof -
  have B: "(1::rat) < of_int b" using assms(3) by simp
  have "(of_int b :: rat) powi mag b q < of_int b powi (mag b r + 1)"
    using mag_bounds(1) [OF assms(1,3)] mag_bounds(2) [of r b] assms by linarith
  then show ?thesis using B power_int_increasing [of "mag b r + 1" "mag b q" "of_int b :: rat"] by linarith
qed

section \<open>Rounding to a number of significant digits\<close>

definition uexp :: "int \<Rightarrow> nat \<Rightarrow> int \<Rightarrow> rat \<Rightarrow> int" where
  "uexp b p emin q = max (mag b \<bar>q\<bar>) emin + 1 - int p"

definition round_sig :: "int \<Rightarrow> nat \<Rightarrow> int \<Rightarrow> rat \<Rightarrow> rat" where
  "round_sig b p emin q =
     (if q = 0 then 0
      else let u = of_int b powi uexp b p emin q in of_int (rhe (q / u)) * u)"

lemma round_sig_0 [simp]: "round_sig b p emin 0 = 0"
  by (simp add: round_sig_def)

lemma round_sig_minus: "round_sig b p emin (- q) = - round_sig b p emin q"
  by (simp add: round_sig_def uexp_def Let_def rhe_minus)

lemma round_sig_mono_pos:
  assumes "0 < q" "q \<le> r" "2 \<le> b" "1 \<le> p"
  shows "round_sig b p emin q \<le> round_sig b p emin r"
proof -
  define B where "B = (of_int b :: rat)"
  have B: "1 < B" using assms(3) by (simp add: B_def)
  have r: "0 < r" using assms by linarith
  define e f where "e = uexp b p emin q" and "f = uexp b p emin r"
  have mm: "mag b q \<le> mag b r" using assms by (intro mag_mono)
  have pm: "B ^ (p - 1) * B powi z = B powi (int p - 1 + z)" for z
    using B assms(4) power_int_add [of B "int (p - 1)" z] by (simp add: of_nat_diff del: power_int_of_nat flip: power_int_of_nat)
  have ef: "e \<le> f" using mm assms r by (simp add: e_def f_def uexp_def)
  have R: "round_sig b p emin q = of_int (rhe (q / B powi e)) * B powi e"
          "round_sig b p emin r = of_int (rhe (r / B powi f)) * B powi f"
    using assms r by (simp_all add: round_sig_def B_def e_def f_def Let_def)
  have pw: "0 < B powi z" for z using B by simp
  show ?thesis
  proof (cases "e = f")
    case True
    have "rhe (q / B powi e) \<le> rhe (r / B powi e)"
      using assms(2) pw [of e] by (intro rhe_mono divide_right_mono) auto
    then show ?thesis using pw [of e] by (simp add: R True [symmetric])
  next
    case False
    with ef have lt: "e < f" by simp
    have fm: "f = mag b r + 1 - int p"
      using lt mm r assms by (auto simp: e_def f_def uexp_def max_def split: if_splits)
    have q1: "q < B powi (e + int p)"
    proof -
      have "q < B powi (mag b q + 1)" using mag_bounds(2) [OF assms(1,3)] by (simp add: B_def)
      also have "\<dots> \<le> B powi (e + int p)"
        using B assms(1) by (intro power_int_increasing) (auto simp: e_def uexp_def)
      finally show ?thesis .
    qed
    have "q / B powi e \<le> of_int (b ^ p)"
    proof -
      have "q \<le> B powi int p * B powi e"
        using q1 B by (subst power_int_add [symmetric]) (auto simp: add.commute)
      then show ?thesis using pw [of e] by (simp add: divide_le_eq B_def)
    qed
    then have "rhe (q / B powi e) \<le> b ^ p" using rhe_mono rhe_of_int by metis
    then have "of_int (rhe (q / B powi e)) \<le> (of_int (b ^ p) :: rat)" by (simp only: of_int_le_iff)
    then have "of_int (rhe (q / B powi e)) * B powi e \<le> B ^ p * B powi e"
      using pw [of e] by (intro mult_right_mono) (auto simp: B_def)
    also have "\<dots> = B powi (int p + e)"
      using B power_int_add [of B "int p" e] by simp
    also have "\<dots> \<le> B powi (mag b r)" using lt fm B by (intro power_int_increasing) auto
    also have "\<dots> = B ^ (p - 1) * B powi f"
      using pm [of f] by (simp add: fm)
    also have "\<dots> \<le> of_int (rhe (r / B powi f)) * B powi f"
    proof -
      have "B powi mag b r \<le> r" using mag_bounds(1) [OF r assms(3)] by (simp add: B_def)
      then have "B ^ (p - 1) * B powi f \<le> r"
        using pm [of f] by (simp add: fm)
      then have "of_int (b ^ (p - 1)) \<le> r / B powi f"
        using pw [of f] by (simp add: le_divide_eq B_def)
      then have "b ^ (p - 1) \<le> rhe (r / B powi f)" using rhe_mono rhe_of_int by metis
      then have "of_int (b ^ (p - 1)) \<le> (of_int (rhe (r / B powi f)) :: rat)" by (simp only: of_int_le_iff)
      then show ?thesis using pw [of f] by (intro mult_right_mono) (auto simp: B_def)
    qed
    finally show ?thesis by (simp add: R)
  qed
qed

lemma round_sig_nonneg:
  assumes "0 \<le> q" "0 \<le> b" shows "0 \<le> round_sig b p emin q"
proof (cases "q = 0")
  case False
  with assms have "0 < q" by simp
  have pos: "0 \<le> (of_int b :: rat) powi uexp b p emin q" using assms(2) by simp
  then have "0 \<le> q / of_int b powi uexp b p emin q" using assms(1) by simp
  then have "rhe 0 \<le> rhe (q / of_int b powi uexp b p emin q)" by (rule rhe_mono)
  then show ?thesis using rhe_of_int [of 0] pos by (simp add: round_sig_def Let_def)
qed simp

lemma round_sig_mono:
  assumes "q \<le> r" "2 \<le> b" "1 \<le> p"
  shows "round_sig b p emin q \<le> round_sig b p emin r"
proof -
  consider "0 < q" | "q \<le> 0" "0 \<le> r" | "r < 0" by linarith
  then show ?thesis
  proof cases
    case 1 then show ?thesis using assms by (intro round_sig_mono_pos)
  next
    case 2
    then have "0 \<le> round_sig b p emin (- q)" "0 \<le> round_sig b p emin r"
      using assms by (auto intro: round_sig_nonneg)
    then show ?thesis by (simp add: round_sig_minus)
  next
    case 3
    then have "round_sig b p emin (- r) \<le> round_sig b p emin (- q)"
      using assms by (intro round_sig_mono_pos) auto
    then show ?thesis by (simp add: round_sig_minus)
  qed
qed

lemma round_sig_exact_pos:
  assumes b: "2 \<le> b" and m: "0 < m" "m < b ^ p" and e: "emin + 1 - int p \<le> e"
  shows "round_sig b p emin (of_int m * of_int b powi e) = of_int m * of_int b powi e"
proof -
  define B where "B = (of_int b :: rat)"
  have B: "1 < B" using b by (simp add: B_def)
  have pw: "0 < B powi z" for z using B by simp
  define q where "q = of_int m * B powi e"
  have q: "0 < q" using m pw [of e] by (simp add: q_def)
  have "of_int m < (of_int (b ^ p) :: rat)" using m(2) by (simp only: of_int_less_iff)
  then have "q < B ^ p * B powi e" using pw [of e] by (simp add: q_def B_def)
  also have "\<dots> = B powi (int p + e)" using B power_int_add [of B "int p" e] by simp
  finally have "B powi mag b q < B powi (int p + e)" using mag_bounds(1) [OF q b] by (simp add: B_def)
  then have "mag b q < int p + e"
    using B power_int_increasing [of "int p + e" "mag b q" B] by linarith
  then have le: "uexp b p emin q \<le> e" using e q by (simp add: uexp_def)
  define k where "k = nat (e - uexp b p emin q)"
  have k: "e = int k + uexp b p emin q" using le by (simp add: k_def)
  define U where "U = B powi uexp b p emin q"
  have U: "0 < U" using pw by (simp add: U_def)
  have "B powi e = B ^ k * U"
    using B power_int_add [of B "int k" "uexp b p emin q"] unfolding U_def k [symmetric] by simp
  then have qU: "q = of_int (m * b ^ k) * U" by (simp add: q_def B_def)
  then have "q / U = of_int (m * b ^ k)" using U by simp
  then have "rhe (q / U) = m * b ^ k" using rhe_of_int by metis
  moreover have "round_sig b p emin q = of_int (rhe (q / U)) * U"
    using q by (simp add: round_sig_def B_def [symmetric] U_def [symmetric] Let_def)
  ultimately have "round_sig b p emin q = q" using qU by simp
  then show ?thesis by (simp add: q_def B_def)
qed

lemma round_sig_exact:
  assumes "2 \<le> b" "\<bar>m\<bar> < b ^ p" "emin + 1 - int p \<le> e"
  shows "round_sig b p emin (of_int m * of_int b powi e) = of_int m * of_int b powi e"
proof -
  consider "m = 0" | "0 < m" | "0 < - m" by linarith
  then show ?thesis
  proof cases
    case 3
    then have "round_sig b p emin (of_int (- m) * of_int b powi e) = of_int (- m) * of_int b powi e"
      using assms by (intro round_sig_exact_pos) auto
    then show ?thesis by (simp add: round_sig_minus)
  qed (use assms in \<open>auto intro: round_sig_exact_pos\<close>)
qed

lemma round_sig_error:
  assumes "2 \<le> b" "1 \<le> p" "q \<noteq> 0" "of_int b powi emin \<le> \<bar>q\<bar>"
  shows "\<bar>round_sig b p emin q - q\<bar> \<le> \<bar>q\<bar> * of_int b powi (1 - int p) / 2"
proof -
  define B where "B = (of_int b :: rat)"
  have B: "1 < B" using assms(1) by (simp add: B_def)
  have pw: "0 < B powi z" for z using B by simp
  have q: "0 < \<bar>q\<bar>" using assms(3) by simp
  have "B powi emin < B powi (mag b \<bar>q\<bar> + 1)" using assms(4) mag_bounds(2) [OF q assms(1)] by (simp add: B_def)
  then have "emin \<le> mag b \<bar>q\<bar>"
    using B power_int_increasing [of "mag b \<bar>q\<bar> + 1" emin B] by linarith
  then have u: "uexp b p emin q = mag b \<bar>q\<bar> + (1 - int p)" by (simp add: uexp_def)
  define U where "U = B powi uexp b p emin q"
  have U: "0 < U" using pw by (simp add: U_def)
  have "round_sig b p emin q - q = (of_int (rhe (q / U)) - q / U) * U"
    using assms(3) U by (simp add: round_sig_def B_def [symmetric] U_def [symmetric] Let_def left_diff_distrib)
  then have "\<bar>round_sig b p emin q - q\<bar> = \<bar>of_int (rhe (q / U)) - q / U\<bar> * U"
    using U by (simp add: abs_mult)
  also have "\<dots> \<le> 1/2 * U" using rhe_dist U by (intro mult_right_mono) auto
  also have "U = B powi mag b \<bar>q\<bar> * B powi (1 - int p)"
    unfolding U_def u using B by (intro power_int_add) auto
  also have "1/2 * (B powi mag b \<bar>q\<bar> * B powi (1 - int p)) \<le> 1/2 * (\<bar>q\<bar> * B powi (1 - int p))"
    using mag_bounds(1) [OF q assms(1)] pw [of "1 - int p"] by (simp add: B_def)
  finally show ?thesis by (simp add: B_def)
qed

lemma round_sig_idem:
  assumes "2 \<le> b" "1 \<le> p"
  shows "round_sig b p emin (round_sig b p emin q) = round_sig b p emin q"
proof (cases "q = 0")
  case False
  define B where "B = (of_int b :: rat)"
  have B: "1 < B" using assms(1) by (simp add: B_def)
  have pw: "0 < B powi z" for z using B by simp
  define e where "e = uexp b p emin q"
  define m where "m = rhe (q / B powi e)"
  have R: "round_sig b p emin q = of_int m * B powi e"
    using False by (simp add: round_sig_def m_def e_def B_def Let_def)
  have e: "emin + 1 - int p \<le> e" by (simp add: e_def uexp_def)
  have "\<bar>q\<bar> < B powi (mag b \<bar>q\<bar> + 1)" using mag_bounds(2) [of "\<bar>q\<bar>" b] False assms by (simp add: B_def)
  also have "\<dots> \<le> B powi (int p + e)"
    using B by (intro power_int_increasing) (auto simp: e_def uexp_def)
  also have "\<dots> = B ^ p * B powi e" using B power_int_add [of B "int p" e] by simp
  finally have "\<bar>q / B powi e\<bar> \<le> of_int (b ^ p)"
    using pw [of e] by (simp add: abs_divide divide_le_eq B_def)
  then have "- of_int (b ^ p) \<le> q / B powi e" "q / B powi e \<le> of_int (b ^ p)" by linarith+
  then have "rhe (of_int (- (b ^ p))) \<le> m" "m \<le> rhe (of_int (b ^ p))"
    unfolding m_def by (intro rhe_mono; simp)+
  then have m: "\<bar>m\<bar> \<le> b ^ p" unfolding rhe_of_int by linarith
  show ?thesis
  proof (cases "\<bar>m\<bar> = b ^ p")
    case True
    have "of_int m * B powi e = of_int (sgn m) * B powi (int p + e)"
    proof -
      have "m = sgn m * b ^ p" using True by (metis mult.commute mult_sgn_abs)
      then have "of_int m = of_int (sgn m) * B ^ p" by (metis B_def of_int_mult of_int_power)
      then show ?thesis using B power_int_add [of B "int p" e] by simp
    qed
    moreover have "\<bar>sgn m\<bar> < b ^ p"
    proof -
      have "1 < b ^ p" using assms by (intro one_less_power) auto
      then show ?thesis by (simp add: abs_sgn_eq)
    qed
    ultimately show ?thesis
      using round_sig_exact [of b "sgn m" p emin "int p + e"] assms e by (simp add: R B_def)
  next
    case False
    with m show ?thesis using round_sig_exact [of b m p emin e] assms e by (simp add: R B_def)
  qed
qed simp

section \<open>The laws of a rounding\<close>

locale rounding =
  fixes rnd :: "rat \<Rightarrow> rat"
  assumes rnd_mono: "q \<le> r \<Longrightarrow> rnd q \<le> rnd r"
    and rnd_odd: "rnd (- q) = - rnd q"
    and rnd_idem: "rnd (rnd q) = rnd q"
begin

lemma rnd_zero [simp]: "rnd 0 = 0"
  using rnd_odd [of 0] by simp

lemma rnd_nonneg: "0 \<le> q \<Longrightarrow> 0 \<le> rnd q"
  using rnd_mono [of 0 q] by simp

lemma rnd_nonpos: "q \<le> 0 \<Longrightarrow> rnd q \<le> 0"
  using rnd_mono [of q 0] by simp

lemma rnd_le_fixed: "rnd r = r \<Longrightarrow> q \<le> r \<Longrightarrow> rnd q \<le> r"
  using rnd_mono [of q r] by simp

lemma rnd_ge_fixed: "rnd r = r \<Longrightarrow> r \<le> q \<Longrightarrow> r \<le> rnd q"
  using rnd_mono [of r q] by simp

lemma rnd_abs: "rnd \<bar>q\<bar> = \<bar>rnd q\<bar>"
  using rnd_nonneg [of q] rnd_nonpos [of q] by (cases "0 \<le> q") (auto simp: rnd_odd)

end

lemma round_sig_rounding: "2 \<le> b \<Longrightarrow> 1 \<le> p \<Longrightarrow> rounding (round_sig b p emin)"
  by unfold_locales (auto intro: round_sig_mono simp: round_sig_minus round_sig_idem)

text \<open>The two instances: IEEE binary64 (overflow is treated where it is used) and the default decimal context.\<close>

definition b64 :: "rat \<Rightarrow> rat" where
  "b64 = round_sig 2 53 (-1022)"

definition dec28 :: "rat \<Rightarrow> rat" where
  "dec28 = round_sig 10 28 (-999999)"

interpretation b64: rounding b64
  unfolding b64_def by (rule round_sig_rounding) simp_all

interpretation dec28: rounding dec28
  unfolding dec28_def by (rule round_sig_rounding) simp_all

lemma b64_exact: "\<bar>m\<bar> < 2 ^ 53 \<Longrightarrow> -1074 \<le> e \<Longrightarrow> b64 (of_int m * 2 powi e) = of_int m * 2 powi e"
  using round_sig_exact [of 2 m 53 "-1022" e] by (simp add: b64_def)

lemma b64_int: "\<bar>m\<bar> < 2 ^ 53 \<Longrightarrow> b64 (of_int m) = of_int m"
  using b64_exact [of m 0] by simp

lemma b64_error_normal:
  assumes "2 powi (-1022) \<le> \<bar>q\<bar>" shows "\<bar>b64 q - q\<bar> \<le> \<bar>q\<bar> / 2 ^ 53"
proof -
  have "(0::rat) < 2 powi (-1022)" by (rule zero_less_power_int) simp
  with assms have "q \<noteq> 0" by auto
  with assms have "\<bar>b64 q - q\<bar> \<le> \<bar>q\<bar> * 2 powi (1 - int 53) / 2"
    unfolding b64_def using round_sig_error [of 2 53 q "-1022"] by simp
  then show ?thesis by (simp add: power_int_minus)
qed

lemma b64_error:
  assumes "1/1024 \<le> \<bar>q\<bar>" shows "\<bar>b64 q - q\<bar> \<le> \<bar>q\<bar> / 2 ^ 53"
proof (rule b64_error_normal)
  have "(2::rat) powi (-1022) \<le> 2 powi (-10)" by (intro power_int_increasing) auto
  also have "\<dots> = 1/1024" by (simp add: power_int_minus)
  finally show "2 powi (-1022) \<le> \<bar>q\<bar>" using assms by linarith
qed

end
