(* ===== verification/PyText.thy ===== *)
theory PyText
  imports Prelude
begin

text \<open>
  The \<open>str\<close> methods the source calls, on ASCII text: a \<open>char\<close> outside ASCII is kept as it
  is by case conversion, is not alphanumeric and is not white space.
\<close>

definition cp :: "char \<Rightarrow> int" where
  "cp c = of_char c"

definition is_space :: "char \<Rightarrow> bool" where
  "is_space c \<longleftrightarrow> cp c = 32 \<or> (9 \<le> cp c \<and> cp c \<le> 13) \<or> (28 \<le> cp c \<and> cp c \<le> 31)"

definition is_digit :: "char \<Rightarrow> bool" where
  "is_digit c \<longleftrightarrow> 48 \<le> cp c \<and> cp c \<le> 57"

definition is_lower :: "char \<Rightarrow> bool" where
  "is_lower c \<longleftrightarrow> 97 \<le> cp c \<and> cp c \<le> 122"

definition is_upper :: "char \<Rightarrow> bool" where
  "is_upper c \<longleftrightarrow> 65 \<le> cp c \<and> cp c \<le> 90"

definition is_alnum :: "char \<Rightarrow> bool" where
  "is_alnum c \<longleftrightarrow> is_digit c \<or> is_lower c \<or> is_upper c"

definition up_char :: "char \<Rightarrow> char" where
  "up_char c = (if is_lower c then char_of (cp c - 32) else c)"

definition low_char :: "char \<Rightarrow> char" where
  "low_char c = (if is_upper c then char_of (cp c + 32) else c)"

definition py_upper :: "string \<Rightarrow> string" where
  "py_upper s = map up_char s"

definition py_lower :: "string \<Rightarrow> string" where
  "py_lower s = map low_char s"

definition py_lstrip :: "string \<Rightarrow> string" where
  "py_lstrip s = dropWhile is_space s"

definition py_rstrip :: "string \<Rightarrow> string" where
  "py_rstrip s = rev (dropWhile is_space (rev s))"

definition py_strip :: "string \<Rightarrow> string" where
  "py_strip s = py_rstrip (py_lstrip s)"

text \<open>\<open>s.strip(chars)\<close> and its one-sided forms.\<close>

definition strip_chars :: "string \<Rightarrow> string \<Rightarrow> string" where
  "strip_chars cs s =
     rev (dropWhile (\<lambda>c. c \<in> set cs) (rev (dropWhile (\<lambda>c. c \<in> set cs) s)))"

definition rstrip_chars :: "string \<Rightarrow> string \<Rightarrow> string" where
  "rstrip_chars cs s = rev (dropWhile (\<lambda>c. c \<in> set cs) (rev s))"

text \<open>\<open>"".join(ch for ch in s.lower() if ch.isalnum())\<close>, the source's key normalisation.\<close>

definition alnum_lower :: "string \<Rightarrow> string" where
  "alnum_lower s = filter is_alnum (py_lower s)"

fun starts_with :: "string \<Rightarrow> string \<Rightarrow> bool" where
  "starts_with s [] = True"
| "starts_with [] (c # p) = False"
| "starts_with (d # s) (c # p) = (d = c \<and> starts_with s p)"

definition ends_with :: "string \<Rightarrow> string \<Rightarrow> bool" where
  "ends_with s p = starts_with (rev s) (rev p)"

text \<open>\<open>sub in s\<close>.\<close>

fun contains :: "string \<Rightarrow> string \<Rightarrow> bool" where
  "contains [] p = (p = [])"
| "contains (c # s) p = (starts_with (c # s) p \<or> contains s p)"

definition remove_prefix :: "string \<Rightarrow> string \<Rightarrow> string" where
  "remove_prefix p s = (if starts_with s p then drop (length p) s else s)"

definition remove_suffix :: "string \<Rightarrow> string \<Rightarrow> string" where
  "remove_suffix p s = (if ends_with s p \<and> p \<noteq> [] then take (length s - length p) s else s)"

text \<open>\<open>key.rsplit(".", 1)[-1]\<close>: what follows the last occurrence of the character.\<close>

definition after_last :: "char \<Rightarrow> string \<Rightarrow> string" where
  "after_last c s = rev (takeWhile (\<lambda>d. d \<noteq> c) (rev s))"

text \<open>\<open>s.partition(c)\<close>: what precedes the first \<open>c\<close>, whether it occurs, what follows.\<close>

definition partition_at :: "char \<Rightarrow> string \<Rightarrow> string \<times> bool \<times> string" where
  "partition_at c s =
     (let a = takeWhile (\<lambda>d. d \<noteq> c) s; r = dropWhile (\<lambda>d. d \<noteq> c) s
      in case r of [] \<Rightarrow> (a, False, []) | _ # t \<Rightarrow> (a, True, t))"

fun join_with :: "string \<Rightarrow> string list \<Rightarrow> string" where
  "join_with sep [] = []"
| "join_with sep [x] = x"
| "join_with sep (x # y # xs) = x @ sep @ join_with sep (y # xs)"

text \<open>Decimal digits of a natural number given as an integer.\<close>

definition digit_char :: "int \<Rightarrow> char" where
  "digit_char d = char_of (48 + d)"

function int_digits :: "int \<Rightarrow> string" where
  "int_digits n = (if n < 10 then [digit_char n] else int_digits (n div 10) @ [digit_char (n mod 10)])"
  by pat_completeness auto
termination by (relation "measure nat") auto

declare int_digits.simps [simp del]

definition int_str :: "int \<Rightarrow> string" where
  "int_str n = (if n < 0 then CHR ''-'' # int_digits (- n) else int_digits n)"

definition digit_val :: "char \<Rightarrow> int" where
  "digit_val c = cp c - 48"

definition digits_val :: "string \<Rightarrow> int" where
  "digits_val s = foldl (\<lambda>a c. 10 * a + digit_val c) 0 s"

section \<open>Facts about text\<close>

lemma cp_char_of [simp]: "0 \<le> n \<Longrightarrow> n < 256 \<Longrightarrow> cp (char_of n) = n"
  by (simp add: cp_def)

lemma cp_range: "0 \<le> cp c" "cp c < 256"
  by (cases c, simp add: cp_def)+

lemma up_char_idem [simp]: "up_char (up_char c) = up_char c"
  by (auto simp: up_char_def is_lower_def)

lemma low_char_idem [simp]: "low_char (low_char c) = low_char c"
  by (auto simp: low_char_def is_upper_def)

lemma is_space_up_char [simp]: "is_space (up_char c) = is_space c"
  by (auto simp: up_char_def is_space_def is_lower_def)

lemma is_space_low_char [simp]: "is_space (low_char c) = is_space c"
  by (auto simp: low_char_def is_space_def is_upper_def)

lemma is_alnum_low_char [simp]: "is_alnum (low_char c) = is_alnum c"
  by (auto simp: low_char_def is_alnum_def is_upper_def is_lower_def is_digit_def)

lemma py_upper_idem [simp]: "py_upper (py_upper s) = py_upper s"
  by (simp add: py_upper_def comp_def)

lemma py_lower_idem [simp]: "py_lower (py_lower s) = py_lower s"
  by (simp add: py_lower_def comp_def)

lemma py_upper_Nil_iff [simp]: "py_upper s = [] \<longleftrightarrow> s = []"
  by (simp add: py_upper_def)

lemma py_lower_Nil_iff [simp]: "py_lower s = [] \<longleftrightarrow> s = []"
  by (simp add: py_lower_def)

lemma dropWhile_idem: "dropWhile P (dropWhile P xs) = dropWhile P xs"
  by (induction xs) auto

lemma strip_no_lead: "py_strip s = [] \<or> \<not> is_space (hd (py_strip s))"
proof -
  define t where "t = py_lstrip s"
  have t: "t = [] \<or> \<not> is_space (hd t)"
    unfolding t_def py_lstrip_def by (induction s) auto
  have "py_rstrip t = [] \<or> hd (py_rstrip t) = hd t"
  proof (cases "py_rstrip t = []")
    case False
    have "rev (dropWhile is_space (rev t)) @ rev (takeWhile is_space (rev t)) = t"
      by (metis rev_append rev_rev_ident takeWhile_dropWhile_id)
    with False show ?thesis unfolding py_rstrip_def by (metis hd_append)
  qed simp
  with t show ?thesis
    unfolding py_strip_def t_def [symmetric]
    by (auto simp: py_rstrip_def)
qed

lemma strip_no_trail: "py_strip s = [] \<or> \<not> is_space (last (py_strip s))"
proof -
  define r where "r = rev (py_lstrip s)"
  have "dropWhile is_space r = [] \<or> \<not> is_space (hd (dropWhile is_space r))"
    by (induction r) auto
  then show ?thesis
    unfolding py_strip_def py_rstrip_def r_def [symmetric] by (auto simp: last_rev simp del: dropWhile_eq_Nil_conv)
qed

lemma py_rstrip_id: "s = [] \<or> \<not> is_space (last s) \<Longrightarrow> py_rstrip s = s"
  by (cases s rule: rev_cases) (auto simp: py_rstrip_def)

lemma py_lstrip_id: "s = [] \<or> \<not> is_space (hd s) \<Longrightarrow> py_lstrip s = s"
  by (cases s) (auto simp: py_lstrip_def)

lemma py_strip_id: "s = [] \<or> (\<not> is_space (hd s) \<and> \<not> is_space (last s)) \<Longrightarrow> py_strip s = s"
  using py_lstrip_id [of s] py_rstrip_id [of s] by (auto simp: py_strip_def)

lemma py_strip_Nil [simp]: "py_strip [] = []"
  by (simp add: py_strip_def py_lstrip_def py_rstrip_def)

lemma py_strip_idem [simp]: "py_strip (py_strip s) = py_strip s"
  using strip_no_lead [of s] strip_no_trail [of s] by (intro py_strip_id) auto

lemma py_strip_upper: "py_strip (py_upper s) = py_upper (py_strip s)"
  by (simp add: py_strip_def py_rstrip_def py_lstrip_def py_upper_def dropWhile_map comp_def
      rev_map)

lemma py_strip_lower: "py_strip (py_lower s) = py_lower (py_strip s)"
  by (simp add: py_strip_def py_rstrip_def py_lstrip_def py_lower_def dropWhile_map comp_def
      rev_map)

lemma alnum_lower_idem [simp]: "alnum_lower (alnum_lower s) = alnum_lower s"
  by (simp add: alnum_lower_def py_lower_def filter_map comp_def)

lemma starts_with_iff: "starts_with s p \<longleftrightarrow> (\<exists>t. s = p @ t)"
  by (induction s p rule: starts_with.induct) auto

lemma starts_with_append [simp]: "starts_with (p @ s) p"
  by (auto simp: starts_with_iff)

lemma contains_iff: "contains s p \<longleftrightarrow> (\<exists>a b. s = a @ p @ b)"
proof (induction s)
  case (Cons c s)
  show ?case
  proof
    assume "contains (c # s) p"
    then consider "starts_with (c # s) p" | "contains s p" by auto
    then show "\<exists>a b. c # s = a @ p @ b"
    proof cases
      case 1 then show ?thesis by (metis append_Nil starts_with_iff)
    next
      case 2 then show ?thesis using Cons.IH by (metis append_Cons)
    qed
  next
    assume "\<exists>a b. c # s = a @ p @ b"
    then obtain a b where ab: "c # s = a @ p @ b" by blast
    show "contains (c # s) p"
    proof (cases a)
      case Nil
      with ab have "starts_with (c # s) p" by (simp add: starts_with_iff)
      then show ?thesis by simp
    next
      case (Cons d a') with ab Cons.IH show ?thesis by auto
    qed
  qed
qed auto

lemma is_digit_digit_char: "0 \<le> d \<Longrightarrow> d < 10 \<Longrightarrow> is_digit (digit_char d)"
  by (simp add: is_digit_def digit_char_def)

lemma digit_val_digit_char [simp]: "0 \<le> d \<Longrightarrow> d < 10 \<Longrightarrow> digit_val (digit_char d) = d"
  by (simp add: digit_val_def digit_char_def)

lemma int_digits_nonempty [simp]: "int_digits n \<noteq> []"
  by (subst int_digits.simps) auto

lemma digits_val_snoc: "digits_val (s @ [c]) = 10 * digits_val s + digit_val c"
  by (simp add: digits_val_def)

lemma int_digits_all_digits: "0 \<le> n \<Longrightarrow> list_all is_digit (int_digits n)"
proof (induction n rule: int_digits.induct)
  case (1 n)
  then show ?case
    by (subst int_digits.simps) (auto simp: is_digit_digit_char pos_imp_zdiv_nonneg_iff)
qed

lemma digits_val_int_digits [simp]: "0 \<le> n \<Longrightarrow> digits_val (int_digits n) = n"
proof (induction n rule: int_digits.induct)
  case (1 n)
  show ?case
  proof (cases "n < 10")
    case True with 1 show ?thesis
      by (subst int_digits.simps) (simp add: digits_val_def)
  next
    case False
    then have "digits_val (int_digits (n div 10)) = n div 10" using 1 by (simp add: pos_imp_zdiv_nonneg_iff)
    with False 1 show ?thesis
      by (subst int_digits.simps) (simp add: digits_val_snoc)
  qed
qed

end
