(* ===== verification/PyFloat.thy ===== *)
theory PyFloat
  imports Rounding PyText
begin

text \<open>
  Python's \<open>float\<close>: a finite value is the rational it denotes (the two zeros are one
  value), beside the infinities and not-a-number. Every operation rounds its exact
  result to binary64 with \<open>fl\<close>; comparisons with \<open>NaN\<close> are false; division by zero,
  and \<open>int\<close> or \<open>floor\<close> of a value that is not finite, raise.
\<close>

section \<open>Values and arithmetic\<close>

datatype pyfloat = Fin rat | PInf | NInf | NaN

definition fl :: "rat \<Rightarrow> pyfloat" where
  "fl q = (let r = b64 q in
     if r \<noteq> 0 \<and> 1024 \<le> mag 2 \<bar>r\<bar> then (if 0 < r then PInf else NInf) else Fin r)"

instantiation pyfloat :: "{ord, zero, plus, minus, times, uminus}"
begin

fun less_eq_pyfloat :: "pyfloat \<Rightarrow> pyfloat \<Rightarrow> bool" where
  "less_eq_pyfloat (Fin a) (Fin b) = (a \<le> b)"
| "less_eq_pyfloat NaN y = False"
| "less_eq_pyfloat x NaN = False"
| "less_eq_pyfloat NInf y = True"
| "less_eq_pyfloat x PInf = True"
| "less_eq_pyfloat x y = False"

fun less_pyfloat :: "pyfloat \<Rightarrow> pyfloat \<Rightarrow> bool" where
  "less_pyfloat (Fin a) (Fin b) = (a < b)"
| "less_pyfloat NaN y = False"
| "less_pyfloat x NaN = False"
| "less_pyfloat NInf y = (y \<noteq> NInf)"
| "less_pyfloat x PInf = (x \<noteq> PInf)"
| "less_pyfloat x y = False"

definition zero_pyfloat :: pyfloat where
  "zero_pyfloat = Fin 0"

fun uminus_pyfloat :: "pyfloat \<Rightarrow> pyfloat" where
  "uminus_pyfloat (Fin a) = Fin (- a)"
| "uminus_pyfloat PInf = NInf"
| "uminus_pyfloat NInf = PInf"
| "uminus_pyfloat NaN = NaN"

fun plus_pyfloat :: "pyfloat \<Rightarrow> pyfloat \<Rightarrow> pyfloat" where
  "plus_pyfloat (Fin a) (Fin b) = fl (a + b)"
| "plus_pyfloat NaN y = NaN"
| "plus_pyfloat x NaN = NaN"
| "plus_pyfloat PInf y = (if y = NInf then NaN else PInf)"
| "plus_pyfloat NInf y = (if y = PInf then NaN else NInf)"
| "plus_pyfloat x y = y"

definition minus_pyfloat :: "pyfloat \<Rightarrow> pyfloat \<Rightarrow> pyfloat" where
  "minus_pyfloat x y = x + (- y)"

fun fsign :: "pyfloat \<Rightarrow> rat" where
  "fsign (Fin a) = sgn a"
| "fsign PInf = 1"
| "fsign NInf = - 1"
| "fsign NaN = 0"

fun times_pyfloat :: "pyfloat \<Rightarrow> pyfloat \<Rightarrow> pyfloat" where
  "times_pyfloat (Fin a) (Fin b) = fl (a * b)"
| "times_pyfloat NaN y = NaN"
| "times_pyfloat x NaN = NaN"
| "times_pyfloat x y =
     (let s = fsign x * fsign y in if s = 0 then NaN else if 0 < s then PInf else NInf)"

instance ..

end

text \<open>\<open>==\<close> on floats, \<open>abs\<close>, \<open>bool\<close>, \<open>math.isfinite\<close>, and \<open>max\<close> and \<open>min\<close> of two values, which keep the first on a tie.\<close>

definition feq :: "pyfloat \<Rightarrow> pyfloat \<Rightarrow> bool" where
  "feq x y \<longleftrightarrow> x = y \<and> x \<noteq> NaN"

fun fabs :: "pyfloat \<Rightarrow> pyfloat" where
  "fabs (Fin a) = Fin \<bar>a\<bar>"
| "fabs PInf = PInf"
| "fabs NInf = PInf"
| "fabs NaN = NaN"

definition ftrue :: "pyfloat \<Rightarrow> bool" where
  "ftrue x \<longleftrightarrow> x \<noteq> 0"

fun is_fin :: "pyfloat \<Rightarrow> bool" where
  "is_fin (Fin _) = True"
| "is_fin _ = False"

definition pmax :: "pyfloat \<Rightarrow> pyfloat \<Rightarrow> pyfloat" where
  "pmax x y = (if x < y then y else x)"

definition pmin :: "pyfloat \<Rightarrow> pyfloat \<Rightarrow> pyfloat" where
  "pmin x y = (if y < x then y else x)"

fun pdiv :: "pyfloat \<Rightarrow> pyfloat \<Rightarrow> pyfloat exc" where
  "pdiv x (Fin b) =
     (if b = 0 then Inl ZeroDivisionError
      else Inr (case x of Fin a \<Rightarrow> fl (a / b) | NaN \<Rightarrow> NaN
                | PInf \<Rightarrow> (if 0 < b then PInf else NInf) | NInf \<Rightarrow> (if 0 < b then NInf else PInf)))"
| "pdiv x NaN = Inr NaN"
| "pdiv (Fin _) y = Inr 0"
| "pdiv x y = Inr NaN"

definition rtrunc :: "rat \<Rightarrow> int" where
  "rtrunc q = (if 0 \<le> q then \<lfloor>q\<rfloor> else - \<lfloor>- q\<rfloor>)"

fun ptrunc :: "pyfloat \<Rightarrow> int exc" where
  "ptrunc (Fin q) = Inr (rtrunc q)"
| "ptrunc NaN = Inl (ValueError ''cannot convert float NaN to integer'')"
| "ptrunc _ = Inl OverflowError"

fun pfloor :: "pyfloat \<Rightarrow> int exc" where
  "pfloor (Fin q) = Inr \<lfloor>q\<rfloor>"
| "pfloor NaN = Inl (ValueError ''cannot convert float NaN to integer'')"
| "pfloor _ = Inl OverflowError"

text \<open>\<open>round(x, 2)\<close>: the correctly rounded decimal, as a float again.\<close>

fun pround2 :: "pyfloat \<Rightarrow> pyfloat" where
  "pround2 (Fin q) = fl (of_int (rhe (q * 100)) / 100)"
| "pround2 x = x"

text \<open>\<open>float(n)\<close> of an integer raises where the rounded value would be infinite.\<close>

definition float_of_int :: "int \<Rightarrow> pyfloat exc" where
  "float_of_int n = (case fl (of_int n) of Fin q \<Rightarrow> Inr (Fin q) | _ \<Rightarrow> Inl OverflowError)"

text \<open>
  \<open>sum\<close> of floats (Python 3.12 and later): Neumaier's compensated sum, whose correction is
  added at the end when it is finite and not zero.
\<close>

fun sum_loop :: "pyfloat \<Rightarrow> pyfloat \<Rightarrow> pyfloat list \<Rightarrow> pyfloat \<times> pyfloat" where
  "sum_loop f c [] = (f, c)"
| "sum_loop f c (x # xs) =
     (let t = f + x in
      sum_loop t (c + (if fabs x \<le> fabs f then (f - t) + x else (x - t) + f)) xs)"

definition py_sum :: "pyfloat list \<Rightarrow> pyfloat" where
  "py_sum xs =
     (case xs of [] \<Rightarrow> 0
      | x # r \<Rightarrow> (case sum_loop (0 + x) 0 r of (f, c) \<Rightarrow> if ftrue c \<and> is_fin c then f + c else f))"

section \<open>Text\<close>

text \<open>
  \<open>float(text)\<close>: white space around it is dropped, digits may be separated by single
  underscores, and the exact decimal is rounded once.
\<close>

fun digit_groups :: "bool \<Rightarrow> string \<Rightarrow> bool" where
  "digit_groups after [] = after"
| "digit_groups after (c # s) =
     (if is_digit c then digit_groups True s
      else c = CHR ''_'' \<and> after \<and> digit_groups False s)"

definition only_digits :: "string \<Rightarrow> string" where
  "only_digits s = filter is_digit s"

definition parse_exponent :: "string \<Rightarrow> int option" where
  "parse_exponent s =
     (let (neg, t) = (case s of [] \<Rightarrow> (False, [])
        | c # r \<Rightarrow> if c = CHR ''-'' then (True, r) else if c = CHR ''+'' then (False, r) else (False, s))
      in if digit_groups False t
         then Some (if neg then - digits_val (only_digits t) else digits_val (only_digits t))
         else None)"

definition parse_mantissa :: "string \<Rightarrow> rat option" where
  "parse_mantissa s =
     (let (a, dot, b) = partition_at (CHR ''.'') s
      in if (a = [] \<or> digit_groups False a) \<and> (b = [] \<or> digit_groups False b) \<and> (a \<noteq> [] \<or> b \<noteq> [])
         then Some (of_int (digits_val (only_digits a @ only_digits b)) / 10 ^ length (only_digits b))
         else None)"

definition parse_unsigned :: "string \<Rightarrow> pyfloat option" where
  "parse_unsigned s =
     (let t = py_lower s in
      if t \<in> {''inf'', ''infinity''} then Some PInf
      else if t = ''nan'' then Some NaN
      else let (m, e, x) = partition_at (CHR ''e'') t
           in case parse_mantissa m of None \<Rightarrow> None
              | Some q \<Rightarrow> if e then (case parse_exponent x of None \<Rightarrow> None
                                    | Some k \<Rightarrow> Some (fl (q * 10 powi k)))
                         else Some (fl q))"

definition parse_float :: "string \<Rightarrow> pyfloat option" where
  "parse_float s =
     (case py_strip s of [] \<Rightarrow> None
      | c # r \<Rightarrow> if c = CHR ''-'' then map_option uminus (parse_unsigned r)
                else if c = CHR ''+'' then parse_unsigned r
                else parse_unsigned (c # r))"

text \<open>
  \<open>repr\<close>: the decimal with the fewest digits that rounds back to the value, the nearer
  one when two do; positional for exponents from -4 to 15.
\<close>

definition repr_cands :: "rat \<Rightarrow> nat \<Rightarrow> (int \<times> int) list" where
  "repr_cands q n =
     (let e = mag 10 q + 1 - int n; u = 10 powi e; f = \<lfloor>q / u\<rfloor>;
          cs = (if 2 * (q / u - of_int f) \<le> 1 then [f, f + 1] else [f + 1, f])
      in map (\<lambda>m. (m, e)) (filter (\<lambda>m. b64 (of_int m * u) = q) cs))"

fun repr_search :: "rat \<Rightarrow> nat \<Rightarrow> nat \<Rightarrow> int \<times> int" where
  "repr_search q n 0 = (rhe q, 0)"
| "repr_search q n (Suc k) =
     (case repr_cands q n of c # _ \<Rightarrow> c | [] \<Rightarrow> repr_search q (Suc n) k)"

definition strip_zeros :: "string \<Rightarrow> string" where
  "strip_zeros s = rstrip_chars ''0'' s"

definition repr_pos :: "rat \<Rightarrow> string" where
  "repr_pos q =
     (let (m, e) = repr_search q 1 17; full = int_digits m; point = int (length full) + e;
          ds = (case strip_zeros full of [] \<Rightarrow> ''0'' | d \<Rightarrow> d); n = int (length ds)
      in if - 4 < point \<and> point \<le> 16
         then (if point \<le> 0 then ''0.'' @ replicate (nat (- point)) (CHR ''0'') @ ds
               else if n \<le> point then ds @ replicate (nat (point - n)) (CHR ''0'') @ ''.0''
               else take (nat point) ds @ ''.'' @ drop (nat point) ds)
         else take 1 ds @ (if n = 1 then [] else CHR ''.'' # drop 1 ds) @ ''e''
              @ (if point - 1 < 0 then ''-'' else ''+'')
              @ (if \<bar>point - 1\<bar> < 10 then ''0'' else []) @ int_digits \<bar>point - 1\<bar>)"

fun float_repr :: "pyfloat \<Rightarrow> string" where
  "float_repr (Fin q) = (if q = 0 then ''0.0'' else if q < 0 then CHR ''-'' # repr_pos (- q) else repr_pos q)"
| "float_repr PInf = ''inf''"
| "float_repr NInf = ''-inf''"
| "float_repr NaN = ''nan''"

text \<open>The format \<open>.2f\<close>.\<close>

definition fixed2 :: "rat \<Rightarrow> string" where
  "fixed2 q =
     (let n = rhe (\<bar>q\<bar> * 100); cents = int_digits (n mod 100)
      in (if q < 0 then ''-'' else []) @ int_digits (n div 100) @ ''.''
         @ (if length cents = 1 then ''0'' else []) @ cents)"

fun float_fixed2 :: "pyfloat \<Rightarrow> string" where
  "float_fixed2 (Fin q) = fixed2 q"
| "float_fixed2 x = float_repr x"

section \<open>Order\<close>

lemma zero_Fin: "(0 :: pyfloat) = Fin 0"
  by (simp add: zero_pyfloat_def)

lemma Fin_0_simps [simp]:
  "0 \<le> Fin q \<longleftrightarrow> 0 \<le> q" "Fin q \<le> 0 \<longleftrightarrow> q \<le> 0" "0 < Fin q \<longleftrightarrow> 0 < q" "Fin q < 0 \<longleftrightarrow> q < 0"
  by (simp_all add: zero_Fin)

lemma flt_le: "(x :: pyfloat) < y \<Longrightarrow> x \<le> y"
  by (cases x; cases y) auto

lemma fle_refl: "(x :: pyfloat) \<noteq> NaN \<Longrightarrow> x \<le> x"
  by (cases x) auto

lemma fle_trans: "(x :: pyfloat) \<le> y \<Longrightarrow> y \<le> z \<Longrightarrow> x \<le> z"
  by (cases x; cases y; cases z) auto

lemma fle_lt_trans: "(x :: pyfloat) \<le> y \<Longrightarrow> y < z \<Longrightarrow> x < z"
  by (cases x; cases y; cases z) auto

lemma flt_le_trans: "(x :: pyfloat) < y \<Longrightarrow> y \<le> z \<Longrightarrow> x < z"
  by (cases x; cases y; cases z) auto

lemma flt_irrefl [simp]: "\<not> (x :: pyfloat) < x"
  by (cases x) auto

lemma fle_not_nan: "(x :: pyfloat) \<le> y \<Longrightarrow> x \<noteq> NaN \<and> y \<noteq> NaN"
  by (cases x; cases y) auto

lemma fnot_lt: "x \<noteq> NaN \<Longrightarrow> y \<noteq> NaN \<Longrightarrow> \<not> x < y \<longleftrightarrow> (y :: pyfloat) \<le> x"
  by (cases x; cases y) auto

lemma fnot_le: "x \<noteq> NaN \<Longrightarrow> y \<noteq> NaN \<Longrightarrow> \<not> x \<le> y \<longleftrightarrow> (y :: pyfloat) < x"
  by (cases x; cases y) auto

lemma fle_cases: "(x :: pyfloat) \<le> y \<longleftrightarrow> x < y \<or> (x = y \<and> x \<noteq> NaN)"
  by (cases x; cases y) auto

text \<open>\<open>max(0.0, x)\<close> is a number and not negative, whatever \<open>x\<close> is.\<close>

lemma pmax_0_nonneg [simp]: "0 \<le> pmax 0 x"
  by (cases x) (auto simp: pmax_def zero_Fin)

lemma pmax_0_not_nan [simp]: "pmax 0 x \<noteq> NaN"
  by (cases x) (auto simp: pmax_def zero_Fin)

lemma pmax_ge1: "x \<noteq> NaN \<Longrightarrow> x \<le> pmax x y"
  by (auto simp: pmax_def fle_refl intro: flt_le)

lemma pmax_0_id: "0 \<le> x \<Longrightarrow> pmax 0 x = x"
  by (cases x) (auto simp: pmax_def zero_Fin)

lemma pmax_cases: "pmax x y = x \<or> pmax x y = y"
  by (auto simp: pmax_def)

lemma pmin_cases: "pmin x y = x \<or> pmin x y = y"
  by (auto simp: pmin_def)

lemma pmin_le1: "x \<noteq> NaN \<Longrightarrow> pmin x y \<le> x"
  by (auto simp: pmin_def fle_refl intro: flt_le)

lemma pmin_le2: "x \<noteq> NaN \<Longrightarrow> y \<noteq> NaN \<Longrightarrow> pmin x y \<le> y"
  by (auto simp: pmin_def fle_refl fnot_lt)

lemma pmin_nonneg: "0 \<le> x \<Longrightarrow> 0 \<le> y \<Longrightarrow> 0 \<le> pmin x y"
  by (auto simp: pmin_def)

lemma pmin_not_nan: "x \<noteq> NaN \<Longrightarrow> pmin x y \<noteq> NaN"
  by (cases x; cases y) (auto simp: pmin_def)

section \<open>Rounding\<close>

lemma fl_cases: "fl q = Fin (b64 q) \<or> (fl q = PInf \<and> 0 < b64 q) \<or> (fl q = NInf \<and> b64 q < 0)"
  by (simp add: fl_def Let_def)

lemma fl_not_nan [simp]: "fl q \<noteq> NaN"
  using fl_cases [of q] by auto

lemma fl_0 [simp]: "fl 0 = 0"
  by (simp add: fl_def zero_Fin)

lemma fl_mono: assumes "q \<le> r" shows "fl q \<le> fl r"
proof -
  have le: "b64 q \<le> b64 r" using assms by (rule b64.rnd_mono)
  have up: "mag 2 \<bar>b64 q\<bar> \<le> mag 2 \<bar>b64 r\<bar>" if "0 < b64 q"
    using that le by (intro mag_mono) auto
  have dn: "mag 2 \<bar>b64 r\<bar> \<le> mag 2 \<bar>b64 q\<bar>" if "b64 r < 0"
    using that le by (intro mag_mono) auto
  show ?thesis
    using le up dn by (auto simp: fl_def Let_def)
qed

lemma fl_nonneg: "0 \<le> q \<Longrightarrow> 0 \<le> fl q"
  using fl_mono [of 0 q] by simp

lemma fl_nonpos: "q \<le> 0 \<Longrightarrow> fl q \<le> 0"
  using fl_mono [of q 0] by simp

lemma fl_Fin: "fl q = Fin r \<Longrightarrow> r = b64 q"
  using fl_cases [of q] by auto

lemma fl_error:
  assumes "fl q = Fin r" "1/1024 \<le> \<bar>q\<bar>" shows "\<bar>r - q\<bar> \<le> \<bar>q\<bar> / 2 ^ 53"
  using b64_error [OF assms(2)] fl_Fin [OF assms(1)] by simp

lemma fl_finite:
  assumes "0 \<le> q" "q \<le> 2 powi e" "-1074 \<le> e" "e < 1024" shows "fl q = Fin (b64 q)"
proof -
  have "b64 q \<le> b64 (of_int 1 * 2 powi e)" using assms(2) by (intro b64.rnd_mono) simp
  also have "\<dots> = 2 powi e" using assms(3) by (subst b64_exact) simp_all
  finally have le: "b64 q \<le> 2 powi e" .
  have "mag 2 (b64 q) \<le> e" if "0 < b64 q"
  proof (rule ccontr)
    assume "\<not> ?thesis"
    then have "(2::rat) powi (e + 1) \<le> 2 powi mag 2 (b64 q)" by (intro power_int_increasing) auto
    also have "\<dots> \<le> b64 q" using mag_bounds(1) [OF that, of 2] by simp
    also note le
    finally have "(2::rat) powi (e + 1) \<le> 2 powi e" .
    moreover have "(2::rat) powi (e + 1) = 2 powi e * 2" by (simp add: power_int_add)
    moreover have "(0::rat) < 2 powi e" by (rule zero_less_power_int) simp
    ultimately show False by linarith
  qed
  then show ?thesis using assms(1,4) b64.rnd_nonneg [OF assms(1)] by (auto simp: fl_def Let_def)
qed

lemma fl_idem: assumes "fl q = Fin r" shows "fl r = Fin r"
proof -
  have r: "b64 q = r" using fl_Fin [OF assms] by simp
  then have rr: "b64 r = r" using b64.rnd_idem [of q] by simp
  show ?thesis using assms unfolding fl_def Let_def r rr .
qed

lemma fl_small_int: assumes "\<bar>n\<bar> < 2 ^ 53" shows "fl (of_int n) = Fin (of_int n)"
proof -
  have "mag 2 \<bar>of_int n :: rat\<bar> < 1024" if n: "n \<noteq> 0"
  proof (rule ccontr)
    assume "\<not> ?thesis"
    then have "(2::rat) powi 53 \<le> 2 powi mag 2 \<bar>of_int n :: rat\<bar>" by (intro power_int_increasing) auto
    also have "\<dots> \<le> \<bar>of_int n\<bar>" using mag_bounds(1) [of "\<bar>of_int n :: rat\<bar>" 2] n by simp
    also have "\<dots> < of_int (2 ^ 53)" using assms by (metis of_int_abs of_int_less_iff)
    finally show False by simp
  qed
  then show ?thesis using b64_int [OF assms] by (auto simp: fl_def Let_def)
qed

lemma mult_nonneg: "0 \<le> x \<Longrightarrow> 0 \<le> y \<Longrightarrow> x * y = NaN \<or> 0 \<le> x * (y :: pyfloat)"
  using fl_nonneg by (cases x; cases y) (auto simp: zero_Fin sgn_if Let_def)

lemma fabs_nonneg: "x \<noteq> NaN \<Longrightarrow> 0 \<le> fabs x"
  by (cases x) (auto simp: zero_Fin)

lemma rtrunc_le: "0 \<le> q \<Longrightarrow> of_int (rtrunc q) \<le> q"
  by (simp add: rtrunc_def)

lemma rtrunc_pos: "0 < rtrunc q \<Longrightarrow> 1 \<le> q"
  by (simp add: rtrunc_def split: if_splits)

text \<open>
  The whole number of shares a budget buys costs at most the budget, up to the one
  rounding of the quotient.
\<close>

lemma trunc_quotient_cost:
  assumes p: "0 < p" and d: "pdiv (Fin b) (Fin p) = Inr x" and t: "ptrunc x = Inr n" and n: "0 < n"
  shows "of_int n * p \<le> b * (1 + 1 / 2 ^ 53)"
proof -
  have x: "x = fl (b / p)" using p d by simp
  from t obtain r where r: "x = Fin r" and nr: "n = rtrunc r" by (cases x) auto
  have r1: "1 \<le> r" using n nr rtrunc_pos by simp
  have fr: "fl (b / p) = Fin r" using x r by simp
  have "1/2 \<le> b / p"
  proof (rule ccontr)
    assume "\<not> 1/2 \<le> b / p"
    then have "b64 (b / p) \<le> b64 (of_int 1 * 2 powi (-1))"
      by (intro b64.rnd_mono) (simp add: power_int_minus)
    also have "\<dots> = 1/2" by (subst b64_exact) (simp_all add: power_int_minus)
    finally show False using r1 fl_Fin [OF fr] by simp
  qed
  then have "\<bar>r - b / p\<bar> \<le> b / p / 2 ^ 53"
    using fl_error [OF fr] abs_of_nonneg [of "b / p"] by linarith
  then have "r \<le> b / p * (1 + 1 / 2 ^ 53)" by (simp add: distrib_left)
  moreover have "of_int n \<le> r" using nr r1 by (simp add: rtrunc_le)
  ultimately have "of_int n \<le> b / p * (1 + 1 / 2 ^ 53)" by linarith
  then have "of_int n * p \<le> b / p * (1 + 1 / 2 ^ 53) * p" using p by (intro mult_right_mono) auto
  then show ?thesis using p by simp
qed

end
