(* ===== verification/PyValue.thy ===== *)
theory PyValue
  imports PyFloat
begin

text \<open>
  The values that cross the program's boundaries (broker payloads, plans, stored JSON):
  what \<open>json\<close> produces, with string keys. Truth, \<open>or\<close>, \<open>str\<close>, \<open>float\<close>, \<open>int\<close>, \<open>dict\<close> and
  \<open>tuple\<close> of such a value are those of Python; a tuple is a list here.
\<close>

datatype pyval =
    PNone
  | PBool bool
  | PInt int
  | PFloat pyfloat
  | PStr string
  | PList "pyval list"
  | PDict "(string \<times> pyval) list"

fun truthy :: "pyval \<Rightarrow> bool" where
  "truthy PNone = False"
| "truthy (PBool b) = b"
| "truthy (PInt n) = (n \<noteq> 0)"
| "truthy (PFloat x) = ftrue x"
| "truthy (PStr s) = (s \<noteq> [])"
| "truthy (PList xs) = (xs \<noteq> [])"
| "truthy (PDict d) = (d \<noteq> [])"

definition py_or :: "pyval \<Rightarrow> pyval \<Rightarrow> pyval" where
  "py_or a b = (if truthy a then a else b)"

text \<open>\<open>repr\<close> of text: single quotes unless only single quotes occur in it; controls are escaped.\<close>

definition hex_digit :: "int \<Rightarrow> char" where
  "hex_digit n = (if n < 10 then char_of (48 + n) else char_of (87 + n))"

definition escape_char :: "char \<Rightarrow> char \<Rightarrow> string" where
  "escape_char q c =
     (if c = q \<or> cp c = 92 then [char_of (92::int), c]
      else if cp c = 10 then char_of (92::int) # ''n''
      else if cp c = 13 then char_of (92::int) # ''r''
      else if cp c = 9 then char_of (92::int) # ''t''
      else if cp c < 32 \<or> cp c = 127
      then char_of (92::int) # ''x'' @ [hex_digit (cp c div 16), hex_digit (cp c mod 16)]
      else [c])"

definition str_repr :: "string \<Rightarrow> string" where
  "str_repr s =
     (let q = (if CHR 0x27 \<in> set s \<and> CHR 0x22 \<notin> set s then CHR 0x22 else CHR 0x27)
      in q # concat (map (escape_char q) s) @ [q])"

fun py_repr :: "pyval \<Rightarrow> string" where
  "py_repr PNone = ''None''"
| "py_repr (PBool b) = (if b then ''True'' else ''False'')"
| "py_repr (PInt n) = int_str n"
| "py_repr (PFloat x) = float_repr x"
| "py_repr (PStr s) = str_repr s"
| "py_repr (PList xs) = CHR ''['' # join_with '', '' (map py_repr xs) @ '']''"
| "py_repr (PDict d) =
     CHR ''{'' # join_with '', '' (map (\<lambda>(k, v). str_repr k @ '': '' @ py_repr v) d) @ ''}''"

fun py_str :: "pyval \<Rightarrow> string" where
  "py_str (PStr s) = s"
| "py_str v = py_repr v"

text \<open>\<open>str(value or "")\<close> and its usual normal forms.\<close>

definition str_or :: "pyval \<Rightarrow> string" where
  "str_or v = py_str (py_or v (PStr []))"

definition symbol_of :: "pyval \<Rightarrow> string" where
  "symbol_of v = py_upper (py_strip (str_or v))"

fun py_float :: "pyval \<Rightarrow> pyfloat exc" where
  "py_float (PBool b) = Inr (if b then fl 1 else 0)"
| "py_float (PInt n) = float_of_int n"
| "py_float (PFloat x) = Inr x"
| "py_float (PStr s) = (case parse_float s of None \<Rightarrow> Inl (ValueError ''could not convert string to float'') | Some x \<Rightarrow> Inr x)"
| "py_float _ = Inl (TypeError ''float() argument must be a string or a real number'')"

text \<open>\<open>float(value or 0.0)\<close>.\<close>

definition float_or0 :: "pyval \<Rightarrow> pyfloat exc" where
  "float_or0 v = py_float (py_or v (PFloat 0))"

text \<open>\<open>int(text)\<close> and \<open>int(value)\<close>.\<close>

definition parse_int :: "string \<Rightarrow> int option" where
  "parse_int s = parse_exponent (py_strip s)"

fun py_int :: "pyval \<Rightarrow> int exc" where
  "py_int (PBool b) = Inr (if b then 1 else 0)"
| "py_int (PInt n) = Inr n"
| "py_int (PFloat x) = ptrunc x"
| "py_int (PStr s) = (case parse_int s of None \<Rightarrow> Inl (ValueError ''invalid literal for int()'') | Some n \<Rightarrow> Inr n)"
| "py_int _ = Inl (TypeError ''int() argument must be a string or a real number'')"

text \<open>\<open>==\<close>: numbers compare across their types, dictionaries without regard to order.\<close>

fun num_of :: "pyval \<Rightarrow> pyfloat option" where
  "num_of (PBool b) = Some (Fin (if b then 1 else 0))"
| "num_of (PInt n) = Some (Fin (of_int n))"
| "num_of (PFloat x) = Some x"
| "num_of _ = None"

definition num_eq :: "pyval \<Rightarrow> pyval \<Rightarrow> bool" where
  "num_eq a b = (case (num_of a, num_of b) of (Some x, Some y) \<Rightarrow> feq x y | _ \<Rightarrow> False)"

lemma zip_size [termination_simp]:
  "(a, b) \<in> set (zip xs ys) \<Longrightarrow> size a < Suc (size_list size xs)"
  by (metis le_imp_less_Suc order_refl set_zip_leftD size_list_estimation')

fun py_eq :: "pyval \<Rightarrow> pyval \<Rightarrow> bool" where
  "py_eq PNone b = (b = PNone)"
| "py_eq (PStr s) b = (b = PStr s)"
| "py_eq (PList xs) b =
     (case b of PList ys \<Rightarrow> length xs = length ys \<and> list_all (\<lambda>(x, y). py_eq x y) (zip xs ys) | _ \<Rightarrow> False)"
| "py_eq (PDict d) b =
     (case b of PDict e \<Rightarrow> length d = length e
        \<and> list_all (\<lambda>(k, v). (case dget e k of None \<Rightarrow> False | Some w \<Rightarrow> py_eq v w)) d | _ \<Rightarrow> False)"
| "py_eq a b = num_eq a b"

text \<open>\<open>d.get(k)\<close>, \<open>d.get(k, z)\<close> and \<open>dict(value or {})\<close>.\<close>

definition pget :: "pyval dict \<Rightarrow> string \<Rightarrow> pyval" where
  "pget d k = dget_or d k PNone"

fun as_dict :: "pyval \<Rightarrow> pyval dict exc" where
  "as_dict (PDict d) = Inr d"
| "as_dict v = Inl (TypeError ''not a mapping'')"

definition dict_or :: "pyval \<Rightarrow> pyval dict exc" where
  "dict_or v = as_dict (py_or v (PDict []))"

fun is_dict :: "pyval \<Rightarrow> bool" where
  "is_dict (PDict _) = True"
| "is_dict _ = False"

text \<open>\<open>tuple(value)\<close>: the characters of a text, the keys of a dictionary.\<close>

fun py_tuple :: "pyval \<Rightarrow> pyval list exc" where
  "py_tuple (PList xs) = Inr xs"
| "py_tuple (PStr s) = Inr (map (\<lambda>c. PStr [c]) s)"
| "py_tuple (PDict d) = Inr (map (\<lambda>(k, v). PStr k) d)"
| "py_tuple v = Inl (TypeError ''object is not iterable'')"

fun pyval_depth :: "pyval \<Rightarrow> nat" where
  "pyval_depth (PList xs) = Suc (sum_list (map pyval_depth xs))"
| "pyval_depth (PDict d) = Suc (sum_list (map (\<lambda>(k, v). pyval_depth v) d))"
| "pyval_depth _ = 0"

section \<open>Facts\<close>

lemma py_or_simps [simp]:
  "truthy a \<Longrightarrow> py_or a b = a" "\<not> truthy a \<Longrightarrow> py_or a b = b"
  by (simp_all add: py_or_def)

lemma truthy_py_or: "truthy (py_or a b) \<longleftrightarrow> truthy a \<or> truthy b"
  by (simp add: py_or_def)

lemma pget_Nil [simp]: "pget [] k = PNone"
  by (simp add: pget_def dget_or_def)

lemma pget_Cons [simp]: "pget ((k', v) # d) k = (if k' = k then v else pget d k)"
  by (simp add: pget_def dget_or_def)

lemma pget_dset [dict_simps]: "pget (dset d k v) k' = (if k' = k then v else pget d k')"
  by (simp add: pget_def dget_or_def dget_dset)

lemma symbol_of_idem: "symbol_of (PStr (symbol_of v)) = symbol_of v"
  by (cases "symbol_of v = []")
     (simp_all add: symbol_of_def str_or_def py_or_def py_strip_upper)

lemma float_or0_PFloat [simp]: "float_or0 (PFloat x) = Inr x"
  by (cases "ftrue x") (auto simp: float_or0_def py_or_def ftrue_def)

lemma float_or0_PNone [simp]: "float_or0 PNone = Inr 0"
  by (simp add: float_or0_def)

lemma dict_or_PDict [simp]: "dict_or (PDict d) = Inr d"
  by (cases d) (auto simp: dict_or_def py_or_def)

lemma dict_or_PNone [simp]: "dict_or PNone = Inr []"
  by (simp add: dict_or_def)

lemma py_eq_str [simp]: "py_eq (PStr s) (PStr t) \<longleftrightarrow> s = t"
  by auto

end
