(* ===== verification/PayloadUtils.thy ===== *)
theory PayloadUtils
  imports PyValue
begin

text \<open>
  \<open>application/account_payload_utils.py\<close> and the payload helpers at the end of
  \<open>application/firstrade_client.py\<close>: numbers written as broker text, payloads flattened to
  dotted keys, and the searches by key the adapters use.
\<close>

section \<open>Numbers\<close>

definition remove_commas :: "string \<Rightarrow> string" where
  "remove_commas s = filter (\<lambda>c. c \<noteq> CHR '','') s"

definition float_or_none :: "pyval \<Rightarrow> pyfloat option" where
  "float_or_none v =
     (if v = PNone \<or> v = PStr [] then None
      else let t0 = py_strip (py_str v) in
        if t0 = [] then None
        else let neg = (starts_with t0 ''('' \<and> ends_with t0 '')'');
                 t1 = (if neg then py_strip (take (length t0 - 2) (drop 1 t0)) else t0);
                 t2 = (if starts_with t1 ''$'' then py_strip (drop 1 t1) else t1)
             in map_option (\<lambda>x. if neg then - x else x) (parse_float (remove_commas t2)))"

section \<open>Flattened payloads\<close>

definition child_key :: "string \<Rightarrow> string \<Rightarrow> string" where
  "child_key prefix k = (if prefix \<noteq> [] then prefix @ ''.'' @ k else k)"

fun flatten_values :: "pyval \<Rightarrow> string \<Rightarrow> pyval dict"
  and flatten_items :: "(string \<times> pyval) list \<Rightarrow> string \<Rightarrow> pyval dict \<Rightarrow> pyval dict"
  and flatten_elems :: "pyval list \<Rightarrow> string \<Rightarrow> int \<Rightarrow> pyval dict \<Rightarrow> pyval dict" where
  "flatten_values (PDict d) prefix = flatten_items d prefix []"
| "flatten_values (PList xs) prefix = flatten_elems xs prefix 0 []"
| "flatten_values v prefix = [(prefix, v)]"
| "flatten_items [] prefix acc = acc"
| "flatten_items ((k, v) # d) prefix acc =
     flatten_items d prefix (dupdate acc (flatten_values v (child_key prefix k)))"
| "flatten_elems [] prefix i acc = acc"
| "flatten_elems (v # xs) prefix i acc =
     flatten_elems xs prefix (i + 1) (dupdate acc (flatten_values v (prefix @ ''.'' @ int_str i)))"

fun first_some :: "('a \<Rightarrow> 'b option) \<Rightarrow> 'a list \<Rightarrow> 'b option" where
  "first_some f [] = None"
| "first_some f (x # xs) = (case f x of Some y \<Rightarrow> Some y | None \<Rightarrow> first_some f xs)"

definition first_numeric_by_keywords :: "pyval \<Rightarrow> string list \<Rightarrow> pyfloat option" where
  "first_numeric_by_keywords payload keywords =
     first_some (\<lambda>(k, v). if list_all (contains (py_lower k)) keywords then float_or_none v else None)
       (flatten_values payload [])"

definition selected_numeric_metrics :: "pyval \<Rightarrow> string list \<Rightarrow> pyfloat dict" where
  "selected_numeric_metrics payload keywords =
     foldl (\<lambda>m (k, v). if list_ex (contains (py_lower k)) keywords
                       then (case float_or_none v of None \<Rightarrow> m | Some x \<Rightarrow> dset m k x) else m)
       [] (flatten_values payload [])"

definition dict_rows :: "pyval list \<Rightarrow> pyval dict list" where
  "dict_rows xs = concat (map (\<lambda>x. case x of PDict d \<Rightarrow> [d] | _ \<Rightarrow> []) xs)"

fun iter_position_rows :: "pyval \<Rightarrow> pyval dict list" where
  "iter_position_rows (PDict d) =
     (case first_some (\<lambda>k. case pget d k of PList xs \<Rightarrow> Some (dict_rows xs) | _ \<Rightarrow> None)
             [''items'', ''positions'', ''data'', ''result''] of
        Some rows \<Rightarrow> rows
      | None \<Rightarrow> (if dget d ''symbol'' \<noteq> None then [d] else []))"
| "iter_position_rows (PList xs) = dict_rows xs"
| "iter_position_rows _ = []"

definition get_first :: "pyval dict \<Rightarrow> string list \<Rightarrow> pyval" where
  "get_first row keys =
     (case first_some (dget row) keys of
        Some v \<Rightarrow> v
      | None \<Rightarrow>
          (case first_some (\<lambda>k. dget (dict_of (map (\<lambda>(k, v). (py_lower k, v)) row)) (py_lower k)) keys of
             Some v \<Rightarrow> v | None \<Rightarrow> PNone))"

section \<open>Search by normalised key\<close>

definition sanitize_payload_key :: "string \<Rightarrow> string" where
  "sanitize_payload_key s = alnum_lower s"

definition first_payload_value :: "pyval \<Rightarrow> string list \<Rightarrow> pyval" where
  "first_payload_value payload candidate_keys =
     (case first_some
             (\<lambda>(k, v). if sanitize_payload_key (after_last (CHR ''.'') k)
                          \<in> set (map sanitize_payload_key candidate_keys) then Some v else None)
             (flatten_values payload []) of
        Some v \<Rightarrow> v | None \<Rightarrow> PNone)"

definition first_text_from_payload :: "pyval \<Rightarrow> string list \<Rightarrow> string option" where
  "first_text_from_payload payload candidate_keys =
     (let t = py_strip (str_or (first_payload_value payload candidate_keys))
      in if t = [] then None else Some t)"

definition first_numeric_from_payload :: "pyval \<Rightarrow> string list \<Rightarrow> pyfloat option" where
  "first_numeric_from_payload payload candidate_keys =
     float_or_none (first_payload_value payload candidate_keys)"

definition payload_contains_order_id :: "pyval \<Rightarrow> string \<Rightarrow> bool" where
  "payload_contains_order_id payload order_id =
     (let wanted = py_strip order_id in
      wanted \<noteq> [] \<and>
      list_ex (\<lambda>(k, v). let n = sanitize_payload_key k in
                 contains n ''order'' \<and> list_ex (contains n) [''id'', ''number'', ''orderno'']
                 \<and> py_strip (str_or v) = wanted)
        (flatten_values payload []))"

text \<open>
  \<open>get_order_status\<close> reads execution fields from the nested payload itself, so that an
  empty container or an explicit zero is found and does not fall through.
\<close>

fun execution_field :: "pyval \<Rightarrow> string \<Rightarrow> pyval option"
  and execution_field_items :: "(string \<times> pyval) list \<Rightarrow> string \<Rightarrow> pyval option"
  and execution_field_elems :: "pyval list \<Rightarrow> string \<Rightarrow> pyval option" where
  "execution_field (PDict d) key = execution_field_items d key"
| "execution_field (PList xs) key = execution_field_elems xs key"
| "execution_field v key = None"
| "execution_field_items [] key = None"
| "execution_field_items ((k, v) # d) key =
     (if sanitize_payload_key (after_last (CHR ''.'') k) = key then Some v
      else case execution_field v key of Some w \<Rightarrow> Some w | None \<Rightarrow> execution_field_items d key)"
| "execution_field_elems [] key = None"
| "execution_field_elems (v # xs) key =
     (case execution_field v key of Some w \<Rightarrow> Some w | None \<Rightarrow> execution_field_elems xs key)"

fun execution_number :: "pyval \<Rightarrow> string list \<Rightarrow> pyfloat option" where
  "execution_number row [] = None"
| "execution_number row (k # ks) =
     (case execution_field row (sanitize_payload_key k) of
        Some v \<Rightarrow> (if v = PNone then execution_number row ks else float_or_none v)
      | None \<Rightarrow> execution_number row ks)"

section \<open>Facts\<close>

lemma first_some_Some: "first_some f xs = Some y \<Longrightarrow> \<exists>x\<in>set xs. f x = Some y"
  by (induction xs) (auto split: option.splits)

lemma first_some_None_iff: "first_some f xs = None \<longleftrightarrow> (\<forall>x\<in>set xs. f x = None)"
  by (induction xs) (auto split: option.splits)

text \<open>Flattening yields a dictionary: no dotted key occurs twice.\<close>

lemma flatten_distinct:
  "distinct (dkeys (flatten_values v p))"
  "distinct (dkeys acc) \<Longrightarrow> distinct (dkeys (flatten_items d p acc))"
  "distinct (dkeys acc) \<Longrightarrow> distinct (dkeys (flatten_elems xs p i acc))"
  by (induction v p and d p acc and xs p i acc rule: flatten_values_flatten_items_flatten_elems.induct)
     (auto intro: distinct_dupdate)

text \<open>Flattening keeps scalars only.\<close>

definition scalar :: "pyval \<Rightarrow> bool" where
  "scalar v \<longleftrightarrow> (case v of PDict _ \<Rightarrow> False | PList _ \<Rightarrow> False | _ \<Rightarrow> True)"

definition all_values :: "('v \<Rightarrow> bool) \<Rightarrow> 'v dict \<Rightarrow> bool" where
  "all_values P d \<longleftrightarrow> list_all (\<lambda>e. P (snd e)) d"

lemma all_values_dset: "all_values P d \<Longrightarrow> P v \<Longrightarrow> all_values P (dset d k v)"
  by (induction d k v rule: dset.induct) (auto simp: all_values_def)

lemma all_values_dupdate: "all_values P d \<Longrightarrow> all_values P e \<Longrightarrow> all_values P (dupdate d e)"
proof (induction e arbitrary: d)
  case (Cons p e)
  obtain k v where p: "p = (k, v)" by (cases p)
  have "all_values P e" "P v" using Cons.prems by (simp_all add: all_values_def p)
  then show ?case using Cons by (simp add: p all_values_dset)
qed simp

lemma all_values_Nil [simp]: "all_values P []"
  by (simp add: all_values_def)

lemma all_values_dget: "all_values P d \<Longrightarrow> dget d k = Some v \<Longrightarrow> P v"
  using dget_Some_in [of d k v] by (auto simp: all_values_def list_all_iff)

lemma flatten_scalar:
  "all_values scalar (flatten_values v p)"
  "all_values scalar acc \<Longrightarrow> all_values scalar (flatten_items d p acc)"
  "all_values scalar acc \<Longrightarrow> all_values scalar (flatten_elems xs p i acc)"
  by (induction v p and d p acc and xs p i acc rule: flatten_values_flatten_items_flatten_elems.induct)
     (simp_all add: all_values_dupdate, simp_all add: all_values_def scalar_def)

end
