(* ===== verification/OrderGuard.thy ===== *)
theory OrderGuard
  imports PayloadUtils
begin

text \<open>
  The order boundary of \<open>application/firstrade_client.py\<close>: account identifiers,
  credentials, the request record, \<open>validate_stock_order\<close> and \<open>place_stock_order\<close>. The
  SDK's \<open>Order(session).place_order\<close> is a parameter: a function of the ticket and the
  world it acts on, which may raise.
\<close>

section \<open>Account identifiers\<close>

definition mask_account_id :: "string \<Rightarrow> string" where
  "mask_account_id v =
     (if length v \<le> 2 then replicate (length v) (CHR ''*'')
      else replicate (length v - 2) (CHR ''*'') @ drop (length v - 2) v)"

fun normalize_account_number :: "pyval \<Rightarrow> string option" where
  "normalize_account_number (PInt n) = Some (int_str n)"
| "normalize_account_number (PFloat (Fin q)) =
     (if of_int \<lfloor>q\<rfloor> = q then Some (int_str \<lfloor>q\<rfloor>) else None)"
| "normalize_account_number (PStr s) = (let t = py_strip s in if t = [] then None else Some t)"
| "normalize_account_number _ = None"

section \<open>Credentials\<close>

record credentials =
  c_username :: string
  c_password :: string
  c_pin :: string
  c_email :: string
  c_phone :: string
  c_mfa_secret :: string
  c_mfa_code :: string
  c_cookie_dir :: string
  c_reuse_session :: bool
  c_session_cache_ttl_seconds :: int
  c_persist_session_cache :: bool
  c_gcs_state_bucket :: string
  c_gcs_state_prefix :: string
  c_debug :: bool

type_synonym env = "string \<Rightarrow> string option"

text \<open>\<open>env(name, default) or fallback\<close>.\<close>

definition env_or :: "env \<Rightarrow> string \<Rightarrow> string \<Rightarrow> string" where
  "env_or env k z = (case env k of None \<Rightarrow> z | Some v \<Rightarrow> if v = [] then z else v)"

definition env_true :: "env \<Rightarrow> string \<Rightarrow> bool" where
  "env_true env k \<longleftrightarrow> py_lower (py_strip (env_or env k [])) = ''true''"

definition coerce_positive_int :: "string option \<Rightarrow> int \<Rightarrow> int" where
  "coerce_positive_int v z =
     (case parse_int (py_strip (case v of None \<Rightarrow> [] | Some s \<Rightarrow> s)) of
        None \<Rightarrow> z | Some n \<Rightarrow> if 0 < n then n else z)"

definition get_credential :: "(string \<Rightarrow> string exc) \<Rightarrow> env \<Rightarrow> string \<Rightarrow> string \<Rightarrow> string" where
  "get_credential secrets env secret_name env_var =
     (case secrets secret_name of Inr v \<Rightarrow> v | Inl _ \<Rightarrow> env_or env env_var [])"

definition credentials_from_env :: "(string \<Rightarrow> string exc) \<Rightarrow> env \<Rightarrow> bool \<Rightarrow> credentials" where
  "credentials_from_env secrets env include_login =
     \<lparr> c_username = py_strip (get_credential secrets env ''firstrade-username'' ''FIRSTRADE_USERNAME''),
       c_password = (if include_login then get_credential secrets env ''firstrade-password'' ''FIRSTRADE_PASSWORD'' else []),
       c_pin = (if include_login then env_or env ''FIRSTRADE_PIN'' [] else []),
       c_email = (if include_login then env_or env ''FIRSTRADE_MFA_EMAIL'' [] else []),
       c_phone = (if include_login then env_or env ''FIRSTRADE_MFA_PHONE'' [] else []),
       c_mfa_secret = (if include_login then get_credential secrets env ''firstrade-mfa-secret'' ''FIRSTRADE_MFA_SECRET'' else []),
       c_mfa_code = (if include_login then env_or env ''FIRSTRADE_MFA_CODE'' [] else []),
       c_cookie_dir = env_or env ''FIRSTRADE_COOKIE_DIR'' ''.runtime/firstrade-cookies'',
       c_reuse_session = env_true env ''FIRSTRADE_REUSE_SESSION'',
       c_session_cache_ttl_seconds =
         coerce_positive_int (Some (case env ''FIRSTRADE_SESSION_CACHE_TTL_SECONDS'' of None \<Rightarrow> ''21600'' | Some v \<Rightarrow> v)) 21600,
       c_persist_session_cache = env_true env ''FIRSTRADE_PERSIST_SESSION_CACHE'',
       c_gcs_state_bucket = py_strip (env_or env ''FIRSTRADE_GCS_STATE_BUCKET'' []),
       c_gcs_state_prefix = env_or env ''FIRSTRADE_STATE_PREFIX'' ''firstrade-platform'',
       c_debug = (py_lower (env_or env ''FIRSTRADE_DEBUG'' []) = ''true'') \<rparr>"

definition require_login_fields :: "credentials \<Rightarrow> unit exc" where
  "require_login_fields c =
     (let missing = (if c_username c = [] then [''FIRSTRADE_USERNAME''] else [])
                    @ (if c_password c = [] then [''FIRSTRADE_PASSWORD''] else [])
      in if missing \<noteq> []
         then Inl (CredentialsError
           (''Missing required Firstrade credential environment variables: '' @ join_with '', '' missing))
         else Inr ())"

definition is_live_trading_enabled :: "env \<Rightarrow> bool" where
  "is_live_trading_enabled env = env_true env ''FIRSTRADE_ENABLE_LIVE_TRADING''"

section \<open>The order request and its validation\<close>

record stock_order_request =
  r_account :: string
  r_symbol :: string
  r_side :: string
  r_quantity :: "int option"
  r_notional_usd :: "pyfloat option"
  r_price_type :: string
  r_duration :: string
  r_limit_price :: "pyfloat option"
  r_stop_price :: "pyfloat option"
  r_max_notional_usd :: "pyfloat option"

definition coerce_positive_float :: "pyfloat option \<Rightarrow> string \<Rightarrow> pyfloat option exc" where
  "coerce_positive_float v field =
     (case v of None \<Rightarrow> Inr None
      | Some x \<Rightarrow> if x \<le> 0 then Inl (SafetyError (field @ '' must be positive.'')) else Inr (Some x))"

definition exceeds :: "pyfloat \<Rightarrow> pyfloat option \<Rightarrow> bool" where
  "exceeds x cap = (case cap of None \<Rightarrow> False | Some c \<Rightarrow> c < x)"

definition cap_text :: "pyfloat option \<Rightarrow> string" where
  "cap_text cap = (case cap of None \<Rightarrow> [] | Some c \<Rightarrow> float_fixed2 c)"

definition validate_notional :: "string \<Rightarrow> string \<Rightarrow> pyfloat option \<Rightarrow> pyfloat option \<Rightarrow> unit exc" where
  "validate_notional side price_type notional cap =
     (case notional of None \<Rightarrow> Inr ()
      | Some x \<Rightarrow>
          bindE (guardE (side = ''buy'') (SafetyError ''Notional orders are restricted to buy-side validation.'')) (\<lambda>_.
          bindE (guardE (price_type = ''market'') (SafetyError ''Notional validation only supports market preview/orders.'')) (\<lambda>_.
          guardE (\<not> exceeds x cap)
            (SafetyError (''notional_usd '' @ float_fixed2 x @ '' exceeds max_notional_usd '' @ cap_text cap @ ''.'')))))"

definition validate_live :: "stock_order_request \<Rightarrow> pyfloat option \<Rightarrow> bool \<Rightarrow> bool \<Rightarrow> unit exc" where
  "validate_live r cap enabled ack =
     bindE (guardE enabled (SafetyError ''Live trading is blocked unless FIRSTRADE_ENABLE_LIVE_TRADING=true.'')) (\<lambda>_.
     bindE (guardE ack (SafetyError ''Live trading requires --yes-i-understand-unofficial-api-risk.'')) (\<lambda>_.
     (case r_quantity r of None \<Rightarrow> Inr ()
      | Some n \<Rightarrow>
          (case r_limit_price r of
             None \<Rightarrow> Inl (SafetyError ''Live quantity orders must use a limit price for local notional checks.'')
           | Some p \<Rightarrow>
               bindE (float_of_int n) (\<lambda>f.
               guardE (\<not> exceeds (f * p) cap)
                 (SafetyError (''estimated order notional '' @ float_fixed2 (f * p)
                    @ '' exceeds max_notional_usd '' @ cap_text cap @ ''.'')))))))"

definition validate_stock_order :: "stock_order_request \<Rightarrow> bool \<Rightarrow> bool \<Rightarrow> bool \<Rightarrow> unit exc" where
  "validate_stock_order r dry_run enabled ack =
     (let side = py_lower (py_strip (r_side r));
          price_type = py_lower (py_strip (r_price_type r));
          duration = py_lower (py_strip (r_duration r)) in
      bindE (guardE (py_upper (py_strip (r_symbol r)) \<noteq> []) (SafetyError ''Order symbol must be non-empty.'')) (\<lambda>_.
      bindE (guardE (side \<in> {''buy'', ''sell''}) (SafetyError ''Order side must be either 'buy' or 'sell'.'')) (\<lambda>_.
      bindE (guardE ((r_quantity r \<noteq> None) \<noteq> (r_notional_usd r \<noteq> None))
               (SafetyError ''Set exactly one of quantity or notional_usd.'')) (\<lambda>_.
      bindE (guardE (case r_quantity r of None \<Rightarrow> True | Some n \<Rightarrow> 0 < n)
               (SafetyError ''quantity must be a positive integer.'')) (\<lambda>_.
      bindE (coerce_positive_float (r_notional_usd r) ''notional_usd'') (\<lambda>notional.
      bindE (coerce_positive_float (r_max_notional_usd r) ''max_notional_usd'') (\<lambda>cap.
      bindE (guardE (price_type \<in> {''market'', ''limit'', ''stop'', ''stop_limit''})
               (SafetyError ''price_type must be market, limit, stop, or stop_limit.'')) (\<lambda>_.
      bindE (guardE (duration \<in> {''day'', ''day_ext'', ''overnight'', ''gt90''})
               (SafetyError ''duration must be day, day_ext, overnight, or gt90.'')) (\<lambda>_.
      bindE (validate_notional side price_type notional cap) (\<lambda>_.
      bindE (if price_type \<in> {''limit'', ''stop_limit''}
             then coerce_positive_float (r_limit_price r) ''limit_price'' else Inr None) (\<lambda>_.
      bindE (if price_type \<in> {''stop'', ''stop_limit''}
             then coerce_positive_float (r_stop_price r) ''stop_price'' else Inr None) (\<lambda>_.
      if dry_run then Inr () else validate_live r cap enabled ack))))))))))))"

section \<open>Placing an order\<close>

datatype price_type = MARKET | LIMIT | STOP | STOP_LIMIT
datatype duration = DAY | DAY_EXT | OVERNIGHT | GT90
datatype order_type = BUY | SELL

record order_ticket =
  t_account :: string
  t_symbol :: string
  t_price_type :: price_type
  t_order_type :: order_type
  t_duration :: duration
  t_quantity :: int
  t_price :: pyfloat
  t_stop_price :: "pyfloat option"
  t_dry_run :: bool
  t_notional :: bool

definition lookup_key :: "(string \<times> 'v) list \<Rightarrow> string \<Rightarrow> 'v exc" where
  "lookup_key d k = (case dget d k of None \<Rightarrow> Inl (KeyError k) | Some v \<Rightarrow> Inr v)"

definition order_ticket_of :: "stock_order_request \<Rightarrow> bool \<Rightarrow> order_ticket exc" where
  "order_ticket_of r dry_run =
     bindE (lookup_key [(''market'', MARKET), (''limit'', LIMIT), (''stop'', STOP), (''stop_limit'', STOP_LIMIT)]
              (py_lower (r_price_type r))) (\<lambda>pt.
     bindE (lookup_key [(''day'', DAY), (''day_ext'', DAY_EXT), (''overnight'', OVERNIGHT), (''gt90'', GT90)]
              (py_lower (r_duration r))) (\<lambda>du.
     bindE (lookup_key [(''buy'', BUY), (''sell'', SELL)] (py_lower (r_side r))) (\<lambda>ot.
     Inr \<lparr> t_account = r_account r, t_symbol = py_upper (r_symbol r), t_price_type = pt,
           t_order_type = ot, t_duration = du,
           t_quantity = (case r_quantity r of None \<Rightarrow> 0 | Some n \<Rightarrow> n),
           t_price = (case r_notional_usd r of Some x \<Rightarrow> x
                      | None \<Rightarrow> (case r_limit_price r of Some p \<Rightarrow> p | None \<Rightarrow> 0)),
           t_stop_price = r_stop_price r, t_dry_run = dry_run,
           t_notional = (r_notional_usd r \<noteq> None) \<rparr>)))"

definition place_stock_order ::
  "(order_ticket \<Rightarrow> 'w \<Rightarrow> pyval exc \<times> 'w) \<Rightarrow> bool \<Rightarrow> bool \<Rightarrow>
   stock_order_request \<Rightarrow> bool \<Rightarrow> bool \<Rightarrow> 'w \<Rightarrow> pyval dict exc \<times> 'w" where
  "place_stock_order sdk_place is_connected enabled r dry_run ack w =
     (case bindE (validate_stock_order r dry_run enabled ack) (\<lambda>_.
           bindE (guardE is_connected (PlatformError ''Firstrade client is not connected.'')) (\<lambda>_.
           order_ticket_of r dry_run)) of
        Inl e \<Rightarrow> (Inl e, w)
      | Inr t \<Rightarrow> (case sdk_place t w of (res, w') \<Rightarrow> (bindE res as_dict, w')))"

section \<open>What validation establishes\<close>

lemma coerce_positive_float_Inr [simp]:
  "coerce_positive_float v f = Inr x \<longleftrightarrow> x = v \<and> (\<forall>y. v = Some y \<longrightarrow> \<not> y \<le> 0)"
  by (auto simp: coerce_positive_float_def split: option.splits if_splits)

lemma validate_stock_order_Inr:
  assumes "validate_stock_order r dry enabled ack = Inr ()"
  shows "py_strip (r_symbol r) \<noteq> []"
    and "py_lower (py_strip (r_side r)) \<in> {''buy'', ''sell''}"
    and "(r_quantity r \<noteq> None) \<noteq> (r_notional_usd r \<noteq> None)"
    and "r_quantity r = Some n \<Longrightarrow> 0 < n"
    and "r_notional_usd r = Some x \<Longrightarrow> \<not> x \<le> 0"
    and "r_max_notional_usd r = Some c \<Longrightarrow> \<not> c \<le> 0"
    and "validate_notional (py_lower (py_strip (r_side r))) (py_lower (py_strip (r_price_type r)))
           (r_notional_usd r) (r_max_notional_usd r) = Inr ()"
    and "\<not> dry \<Longrightarrow> validate_live r (r_max_notional_usd r) enabled ack = Inr ()"
  using assms by (auto simp: validate_stock_order_def bindE_Inr_iff Let_def split: if_splits)

lemma place_stock_order_blocked:
  assumes "validate_stock_order r dry enabled ack = Inl e"
  shows "place_stock_order sdk is_connected enabled r dry ack w = (Inl e, w)"
  using assms by (simp add: place_stock_order_def)

lemma validate_live_refuses:
  "\<not> (enabled \<and> ack) \<Longrightarrow> \<exists>e. validate_live r cap enabled ack = Inl (SafetyError e)"
  by (cases enabled) (auto simp: validate_live_def)

lemma validate_notional_error:
  "validate_notional side pt n cap = Inl e \<Longrightarrow> \<exists>m. e = SafetyError m"
  by (auto simp: validate_notional_def bindE_Inl_iff split: option.splits)

lemma coerce_positive_float_error:
  "coerce_positive_float v f = Inl e \<Longrightarrow> \<exists>m. e = SafetyError m"
  by (auto simp: coerce_positive_float_def split: option.splits if_splits)

section \<open>Properties\<close>

text \<open>
  Property C34. A live order reaches the broker only when live trading is enabled and the
  caller acknowledged the risk: without both, \<open>place_stock_order\<close> raises and leaves the
  world as it was, whatever the request and the SDK do.
\<close>

theorem live_order_needs_both_switches:
  assumes "\<not> (enabled \<and> ack)"
  shows "\<exists>e. place_stock_order sdk is_connected enabled r False ack w = (Inl e, w)"
proof (cases "validate_stock_order r False enabled ack")
  case (Inl e)
  then show ?thesis by (auto intro: place_stock_order_blocked)
next
  case (Inr u)
  then have "validate_live r (r_max_notional_usd r) enabled ack = Inr ()"
    using validate_stock_order_Inr(8) [of r False enabled ack] by simp
  with validate_live_refuses [OF assms] show ?thesis by (metis Inl_Inr_False)
qed

definition sample_request :: stock_order_request where
  "sample_request = \<lparr> r_account = ''12345678'', r_symbol = ''soxx'', r_side = ''buy'', r_quantity = Some 2,
     r_notional_usd = None, r_price_type = ''limit'', r_duration = ''day'', r_limit_price = Some (Fin 10),
     r_stop_price = None, r_max_notional_usd = Some (Fin 100) \<rparr>"

definition counting_sdk :: "order_ticket \<Rightarrow> nat \<Rightarrow> pyval exc \<times> nat" where
  "counting_sdk t n = (Inr (PDict []), Suc n)"

theorem live_order_needs_both_switches_witness:
  "(\<exists>e. place_stock_order counting_sdk True True sample_request False False 0 = (Inl e, 0))
   \<and> place_stock_order counting_sdk True True sample_request False True 0 = (Inr [], 1)"
proof
  show "\<exists>e. place_stock_order counting_sdk True True sample_request False False 0 = (Inl e, 0)"
    by (rule live_order_needs_both_switches) simp
  show "place_stock_order counting_sdk True True sample_request False True 0 = (Inr [], 1)"
    by code_simp
qed

text \<open>What every ticket that reaches the SDK satisfies.\<close>

definition ticket_ok :: "bool \<Rightarrow> bool \<Rightarrow> bool \<Rightarrow> pyfloat option \<Rightarrow> order_ticket \<Rightarrow> bool" where
  "ticket_ok dry enabled ack cap t \<longleftrightarrow>
     t_dry_run t = dry
     \<and> (dry \<or> (enabled \<and> ack))
     \<and> (if t_notional t
         then t_quantity t = 0 \<and> t_order_type t = BUY \<and> t_price_type t = MARKET
              \<and> \<not> t_price t \<le> 0 \<and> \<not> exceeds (t_price t) cap
         else 0 < t_quantity t
              \<and> (dry \<or> (\<exists>f. float_of_int (t_quantity t) = Inr f \<and> \<not> exceeds (f * t_price t) cap)))"

lemma strip_keys:
  "py_strip ''sell'' = ''sell''" "py_strip ''limit'' = ''limit''" "py_strip ''stop'' = ''stop''"
  "py_strip ''stop_limit'' = ''stop_limit''"
  by code_simp+

lemma buy_key:
  "lookup_key [(''buy'', BUY), (''sell'', SELL)] k = Inr v \<Longrightarrow> py_strip k = ''buy'' \<Longrightarrow> v = BUY"
  using strip_keys by (auto simp: lookup_key_def split: if_splits)

lemma market_key:
  "lookup_key [(''market'', MARKET), (''limit'', LIMIT), (''stop'', STOP), (''stop_limit'', STOP_LIMIT)] k = Inr v
   \<Longrightarrow> py_strip k = ''market'' \<Longrightarrow> v = MARKET"
  using strip_keys by (auto simp: lookup_key_def split: if_splits)

lemma order_ticket_of_ok:
  assumes v: "validate_stock_order r dry enabled ack = Inr ()"
    and t: "order_ticket_of r dry = Inr t"
  shows "ticket_ok dry enabled ack (r_max_notional_usd r) t"
proof (cases "r_quantity r")
  case None
  then obtain x where x: "r_notional_usd r = Some x" using validate_stock_order_Inr(3) [OF v] by auto
  have n: "py_lower (py_strip (r_side r)) = ''buy''" "py_lower (py_strip (r_price_type r)) = ''market''"
    "\<not> exceeds x (r_max_notional_usd r)"
    using validate_stock_order_Inr(7) [OF v] by (auto simp: x validate_notional_def bindE_Inr_iff)
  have l: "dry \<or> (enabled \<and> ack)"
    using validate_stock_order_Inr(8) [OF v] by (auto simp: validate_live_def bindE_Inr_iff)
  have pos: "\<not> x \<le> 0" using validate_stock_order_Inr(5) [OF v x] .
  have s: "py_strip (py_lower (r_side r)) = ''buy''" "py_strip (py_lower (r_price_type r)) = ''market''"
    using n by (simp_all add: py_strip_lower)
  have "t_order_type t = BUY" "t_price_type t = MARKET"
    using t s by (auto simp: order_ticket_of_def bindE_Inr_iff dest!: buy_key market_key)
  then show ?thesis
    using t None x n l pos by (auto simp: ticket_ok_def order_ticket_of_def bindE_Inr_iff)
next
  case (Some n)
  then have x: "r_notional_usd r = None" using validate_stock_order_Inr(3) [OF v] by auto
  have pos: "0 < n" using validate_stock_order_Inr(4) [OF v Some] .
  have l: "dry \<or> (enabled \<and> ack \<and> (\<exists>p f. r_limit_price r = Some p \<and> float_of_int n = Inr f
      \<and> \<not> exceeds (f * p) (r_max_notional_usd r)))"
    using validate_stock_order_Inr(8) [OF v]
    by (auto simp: Some validate_live_def bindE_Inr_iff split: option.splits)
  show ?thesis
    using t Some x l pos by (auto simp: ticket_ok_def order_ticket_of_def bindE_Inr_iff)
qed


text \<open>
  Property C26. The value checks of \<open>validate_stock_order\<close> compare with \<open>\<le>\<close> and \<open>>\<close>, which
  are false for not-a-number: a live notional order of \<open>nan\<close> dollars passes the positivity
  check and every cap, and its ticket is sent.
\<close>

theorem nan_notional_passes_every_cap:
  "validate_stock_order
     (sample_request \<lparr> r_quantity := None, r_notional_usd := Some NaN, r_price_type := ''market'',
        r_limit_price := None, r_max_notional_usd := Some (Fin 1) \<rparr>) False True True = Inr ()"
  by code_simp

definition evading_request :: stock_order_request where
  "evading_request = sample_request \<lparr> r_quantity := Some 1000000, r_price_type := ''market'',
     r_limit_price := Some (Fin (- 1)), r_max_notional_usd := Some (Fin 1) \<rparr>"

text \<open>
  Property C27. The live cap of a share order multiplies by the limit price without asking
  that the order be a limit order: a live \<open>market\<close> order for a million shares with a limit
  price of minus one dollar passes a one-dollar cap, and its ticket is a market order.
\<close>

theorem market_share_order_evades_cap:
  "validate_stock_order evading_request False True True = Inr ()
   \<and> (case order_ticket_of evading_request False of Inl e \<Rightarrow> False
      | Inr t \<Rightarrow> t_price_type t = MARKET \<and> t_quantity t = 1000000 \<and> \<not> t_dry_run t)"
  by code_simp

end
