(* ===== verification/BrokerClient.thy ===== *)
theory BrokerClient
  imports OrderGuard
begin

text \<open>
  The reading side of \<open>FirstradeBrokerClient\<close> (\<open>application/firstrade_client.py\<close>): account
  numbers and selection, balances, positions, orders and the status of one order. What the
  SDK's account data object holds and answers is the record \<open>account_data\<close>; \<open>None\<close> is a
  client that is not connected.
\<close>

record 'w account_data =
  ad_account_numbers :: "pyval list"
  ad_account_balances :: "(pyval \<times> pyval) list"
  ad_get_balances :: "string \<Rightarrow> ('w, pyval) io"
  ad_get_positions :: "string \<Rightarrow> ('w, pyval) io"
  ad_get_orders :: "string \<Rightarrow> int \<Rightarrow> ('w, pyval) io"

definition require_connected :: "'w account_data option \<Rightarrow> 'w account_data exc" where
  "require_connected c =
     (case c of None \<Rightarrow> Inl (PlatformError ''Firstrade client is not connected.'') | Some ad \<Rightarrow> Inr ad)"

definition normal_account_numbers :: "pyval list \<Rightarrow> string list" where
  "normal_account_numbers xs = concat (map (\<lambda>v. case normalize_account_number v of None \<Rightarrow> [] | Some a \<Rightarrow> [a]) xs)"

definition account_numbers :: "'w account_data option \<Rightarrow> string list exc" where
  "account_numbers c = bindE (require_connected c) (\<lambda>ad. Inr (normal_account_numbers (ad_account_numbers ad)))"

definition only_account :: "string list \<Rightarrow> string exc" where
  "only_account accounts =
     (case accounts of [a] \<Rightarrow> Inr a
      | [] \<Rightarrow> Inl (PlatformError ''Firstrade returned no accounts.'')
      | _ \<Rightarrow> Inl (PlatformError ''Multiple Firstrade accounts are available; set FIRSTRADE_ACCOUNT or pass --account.''))"

definition requested_account :: "string list \<Rightarrow> string \<Rightarrow> string exc" where
  "requested_account accounts r =
     (case normalize_account_number (PStr r) of
        None \<Rightarrow> Inl (PlatformError (''Requested account '' @ mask_account_id r @ '' was not returned by Firstrade.''))
      | Some wanted \<Rightarrow> if wanted \<in> set accounts then Inr wanted
          else Inl (PlatformError (''Requested account '' @ mask_account_id r @ '' was not returned by Firstrade.'')))"

definition select_account :: "'w account_data option \<Rightarrow> string option \<Rightarrow> string exc" where
  "select_account c requested =
     bindE (account_numbers c) (\<lambda>accounts.
     case requested of
       Some r \<Rightarrow> if r \<noteq> [] then requested_account accounts r else only_account accounts
     | None \<Rightarrow> only_account accounts)"

lemma only_account_Inr: "only_account as = Inr a \<longleftrightarrow> as = [a]"
  by (auto simp: only_account_def split: list.splits)

lemma requested_account_Inr: "requested_account as r = Inr a \<Longrightarrow> a \<in> set as \<and> a = py_strip r"
  by (auto simp: requested_account_def Let_def split: option.splits if_splits)

fun assoc_get :: "(pyval \<times> pyval) list \<Rightarrow> pyval \<Rightarrow> pyval" where
  "assoc_get [] k = PNone"
| "assoc_get ((k', v) # d) k = (if py_eq k' k then v else assoc_get d k)"

definition list_account_summaries :: "'w account_data option \<Rightarrow> pyval list exc" where
  "list_account_summaries c =
     bindE (require_connected c) (\<lambda>ad.
     bindE (account_numbers c) (\<lambda>accounts.
     Inr (map (\<lambda>a. PDict [(''account'', PStr (mask_account_id a)),
                          (''total_value'', assoc_get (ad_account_balances ad) (PStr a))]) accounts)))"

text \<open>The account list's balances under their normal account numbers; a later entry wins.\<close>

definition normal_balances :: "(pyval \<times> pyval) list \<Rightarrow> pyval dict" where
  "normal_balances d =
     dict_of (concat (map (\<lambda>(k, v). case normalize_account_number k of None \<Rightarrow> [] | Some a \<Rightarrow> [(a, v)]) d))"

definition get_balances :: "'w account_data option \<Rightarrow> string \<Rightarrow> ('w, pyval dict) io" where
  "get_balances c account =
     bindIO (liftE (require_connected c)) (\<lambda>ad.
     bindIO (ad_get_balances ad account) (\<lambda>raw.
     bindIO (liftE (as_dict raw)) (\<lambda>balances.
     let listed = pget (normal_balances (ad_account_balances ad)) account in
     returnIO (if listed \<noteq> PNone \<and> dget balances ''account_list_total_value'' = None
               then dset balances ''account_list_total_value'' listed else balances))))"

definition get_positions :: "'w account_data option \<Rightarrow> string \<Rightarrow> ('w, pyval dict) io" where
  "get_positions c account =
     bindIO (liftE (require_connected c)) (\<lambda>ad.
     bindIO (ad_get_positions ad account) (\<lambda>raw. liftE (as_dict raw)))"

definition order_rows :: "pyval \<Rightarrow> pyval dict list exc" where
  "order_rows payload =
     (let p = (case payload of
                 PDict d \<Rightarrow> (case first_some (\<lambda>k. case pget d k of PList xs \<Rightarrow> Some (PList xs) | _ \<Rightarrow> None)
                                  [''items'', ''orders'', ''data'', ''result''] of Some v \<Rightarrow> v | None \<Rightarrow> payload)
               | _ \<Rightarrow> payload)
      in case p of
           PList xs \<Rightarrow> (if list_all is_dict xs then Inr (dict_rows xs)
                        else Inl (PlatformError ''Firstrade returned an invalid order response.''))
         | _ \<Rightarrow> Inl (PlatformError ''Firstrade returned an invalid order response.''))"

definition get_orders :: "'w account_data option \<Rightarrow> string \<Rightarrow> int \<Rightarrow> ('w, pyval dict list) io" where
  "get_orders c account per_page =
     bindIO (liftE (require_connected c)) (\<lambda>ad.
     bindIO (ad_get_orders ad account per_page) (\<lambda>payload. liftE (order_rows payload)))"

record order_status =
  os_status :: string
  os_executed_qty :: pyfloat
  os_executed_price :: pyfloat
  os_broker_order_id :: string
  os_raw_payload :: "pyval dict"

definition float_opt_or0 :: "pyfloat option \<Rightarrow> pyfloat" where
  "float_opt_or0 x = (case x of None \<Rightarrow> 0 | Some y \<Rightarrow> y)"

definition order_status_of :: "string \<Rightarrow> pyval dict \<Rightarrow> order_status" where
  "order_status_of oid row =
     \<lparr> os_status = (case first_text_from_payload (PDict row)
          [''status'', ''order_status'', ''state'', ''status_description'', ''description''] of None \<Rightarrow> [] | Some t \<Rightarrow> t),
       os_executed_qty = pmax 0 (float_opt_or0 (execution_number (PDict row)
          [''executed_qty'', ''executed_quantity'', ''filled_quantity'', ''filled_qty'', ''filled'', ''filled_shares'',
           ''executed_shares'', ''quantity_filled''])),
       os_executed_price = pmax 0 (float_opt_or0 (execution_number (PDict row)
          [''executed_price'', ''average_fill_price'', ''avg_fill_price'', ''avg_price'', ''average_price'',
           ''fill_price'', ''filled_price''])),
       os_broker_order_id = oid, os_raw_payload = row \<rparr>"

definition get_order_status :: "'w account_data option \<Rightarrow> string \<Rightarrow> string \<Rightarrow> ('w, order_status option) io" where
  "get_order_status c account order_id =
     (let oid = py_strip order_id in
      if oid = [] then returnIO None
      else bindIO (get_orders c account 0) (\<lambda>rows.
           returnIO (first_some (\<lambda>row. if payload_contains_order_id (PDict row) oid then Some (order_status_of oid row) else None) rows)))"

section \<open>Facts\<close>

lemma select_account_known: "select_account c r = Inr a \<Longrightarrow> \<exists>as. account_numbers c = Inr as \<and> a \<in> set as"
  by (cases r; cases "account_numbers c")
     (auto simp: select_account_def only_account_Inr dest: requested_account_Inr split: if_splits)

lemma normal_account_numbers_nonempty: "a \<in> set (normal_account_numbers xs) \<Longrightarrow> a \<noteq> []"
proof -
  assume "a \<in> set (normal_account_numbers xs)"
  then obtain v where "normalize_account_number v = Some a" by (auto simp: normal_account_numbers_def split: option.splits)
  then show ?thesis
    by (cases v rule: normalize_account_number.cases) (auto simp: int_str_def Let_def split: if_splits)
qed

lemma order_rows_dicts: "order_rows p = Inr rows \<Longrightarrow> \<forall>row\<in>set rows. PDict row \<noteq> PNone"
  by auto

section \<open>Properties\<close>

text \<open>
  The status of an order is read from a row that carries its id, and reported
  executions are numbers that are not negative, whatever the broker's payload holds.
\<close>

theorem order_status_is_of_the_order:
  assumes "get_order_status c account order_id w = (Inr (Some st), w')"
  shows "payload_contains_order_id (PDict (os_raw_payload st)) (py_strip order_id)
    \<and> os_broker_order_id st = py_strip order_id \<and> 0 \<le> os_executed_qty st \<and> 0 \<le> os_executed_price st"
proof -
  obtain rows where r: "first_some (\<lambda>row. if payload_contains_order_id (PDict row) (py_strip order_id)
        then Some (order_status_of (py_strip order_id) row) else None) rows = Some st"
    using assms by (auto simp: get_order_status_def Let_def bindIO_Inr split: if_splits)
  from first_some_Some [OF r] obtain row where "payload_contains_order_id (PDict row) (py_strip order_id)"
    "st = order_status_of (py_strip order_id) row"
    by (auto split: if_splits)
  then show ?thesis by (simp add: order_status_of_def)
qed

definition sample_account_data :: "unit account_data" where
  "sample_account_data =
     \<lparr> ad_account_numbers = [PStr '' 12345678 ''], ad_account_balances = [], ad_get_balances = (\<lambda>a. returnIO (PDict [])),
       ad_get_positions = (\<lambda>a. returnIO (PDict [])),
       ad_get_orders = (\<lambda>a n. returnIO (PDict [(''items'', PList [PDict [(''orderId'', PInt 77), (''filled_qty'', PStr ''-3''), (''state'', PStr ''Filled'')]])])) \<rparr>"

lemma sample_order_found:
  "case get_order_status (Some sample_account_data) ''12345678'' '' 77 '' () of
     (Inr (Some st), w) \<Rightarrow> os_status st = ''Filled'' | _ \<Rightarrow> False"
  by code_simp

theorem order_status_is_of_the_order_witness:
  "\<exists>st. fst (get_order_status (Some sample_account_data) ''12345678'' '' 77 '' ()) = Inr (Some st)
     \<and> os_broker_order_id st = ''77'' \<and> 0 \<le> os_executed_qty st"
proof -
  obtain r w where p: "get_order_status (Some sample_account_data) ''12345678'' '' 77 '' () = (r, w)"
    by (cases "get_order_status (Some sample_account_data) ''12345678'' '' 77 '' ()") blast
  obtain st where r: "r = Inr (Some st)"
    using sample_order_found by (cases r) (auto simp: p split: option.splits)
  have "py_strip '' 77 '' = ''77''" by code_simp
  then show ?thesis using order_status_is_of_the_order [OF p [unfolded r]] by (simp add: p r)
qed

text \<open>
  The account a client selects is one the broker returned, and never empty;
  without a request it is the only one.
\<close>

theorem selected_account_is_the_brokers:
  assumes "select_account c r = Inr a"
  shows "\<exists>as. account_numbers c = Inr as \<and> a \<in> set as \<and> a \<noteq> []
    \<and> (r = None \<longrightarrow> as = [a]) \<and> (\<forall>t. r = Some t \<and> t \<noteq> [] \<longrightarrow> a = py_strip t)"
proof -
  obtain as where as: "account_numbers c = Inr as" "a \<in> set as" using select_account_known [OF assms] by auto
  then have "a \<noteq> []"
    using normal_account_numbers_nonempty by (fastforce simp: account_numbers_def bindE_Inr_iff)
  moreover have "r = None \<longrightarrow> as = [a]"
    using assms as by (auto simp: select_account_def only_account_Inr)
  moreover have "\<forall>t. r = Some t \<and> t \<noteq> [] \<longrightarrow> a = py_strip t"
    using assms as by (auto simp: select_account_def dest: requested_account_Inr)
  ultimately show ?thesis using as by blast
qed

theorem selected_account_is_the_brokers_witness:
  "\<exists>as. select_account (Some sample_account_data) None = Inr ''12345678''
     \<and> account_numbers (Some sample_account_data) = Inr as \<and> as = [''12345678'']"
proof -
  have "select_account (Some sample_account_data) None = Inr ''12345678''" by code_simp
  from selected_account_is_the_brokers [OF this] this show ?thesis by auto
qed

end
