(* ===== verification/ExecPolicy.thy ===== *)
theory ExecPolicy
  imports PayloadUtils
begin

text \<open>
  The sizing and compatibility rules of \<open>application/execution_service.py\<close> (the functions
  above \<open>execute_value_target_plan\<close>). The small-account tables and the cash substitution of
  \<open>quant_platform_kit\<close> are the fields of \<open>qpk\<close>; quotes come from a port on the world.
\<close>

section \<open>Parameters\<close>

record compat_result =
  cr_targets :: "pyval dict"
  cr_substituted :: "pyval list"
  cr_safe_haven_substituted :: "pyval list"
  cr_notes :: "pyval list"

record qpk =
  retention_symbols :: "string list"
  retention_ratio_default :: "pyfloat dict"
  bootstrap_ratio_default :: "pyfloat dict"
  cash_substitute_limit_usd :: pyfloat
  cash_compatibility ::
    "pyfloat dict \<Rightarrow> pyfloat dict \<Rightarrow> string list \<Rightarrow> string list \<Rightarrow> pyfloat \<Rightarrow> pyfloat \<Rightarrow> compat_result exc"

section \<open>Constants\<close>

definition min_notional_buy_usd :: pyfloat where
  "min_notional_buy_usd = fl 1"

definition notional_buy_cash_utilization_ratio :: pyfloat where
  "notional_buy_cash_utilization_ratio = fl (98 / 100)"

definition retention_min_ratio_default :: pyfloat where
  "retention_min_ratio_default = fl (85 / 100)"

definition accepted_order_statuses :: "string list" where
  "accepted_order_statuses = [''accepted'', ''filled'', ''partiallyfilled'', ''previewed'', ''submitted'']"

definition retention_ratio :: "qpk \<Rightarrow> pyfloat dict" where
  "retention_ratio k = dset (retention_ratio_default k) ''SOXX'' (fl (90 / 100))"

definition bootstrap_ratio :: "qpk \<Rightarrow> pyfloat dict" where
  "bootstrap_ratio k = dset (bootstrap_ratio_default k) ''SOXX'' (fl (90 / 100))"

section \<open>Prices and budgets\<close>

definition float_except :: "pyval \<Rightarrow> pyfloat \<Rightarrow> pyfloat exc" where
  "float_except v z =
     (case py_float v of Inr x \<Rightarrow> Inr x
      | Inl e \<Rightarrow> if is_type_or_value_error e then Inr z else Inl e)"

definition limit_buy_premium_for_symbol :: "pyval \<Rightarrow> pyval \<Rightarrow> pyval \<Rightarrow> pyfloat exc" where
  "limit_buy_premium_for_symbol symbol default_premium premium_by_symbol =
     bindE (float_except default_premium (fl (1005 / 1000))) (\<lambda>fallback.
     case premium_by_symbol of
       PDict d \<Rightarrow>
         (let raw = pget d (symbol_of symbol) in
          if raw = PNone then Inr fallback
          else bindE (float_except raw fallback) (\<lambda>premium.
               Inr (if 0 < premium then premium else fallback)))
     | _ \<Rightarrow> Inr fallback)"

definition limit_buy_price :: "string \<Rightarrow> pyfloat \<Rightarrow> pyval \<Rightarrow> pyval \<Rightarrow> pyfloat exc" where
  "limit_buy_price symbol price default_premium premium_by_symbol =
     bindE (limit_buy_premium_for_symbol (PStr symbol) default_premium premium_by_symbol) (\<lambda>premium.
     Inr (pround2 (price * premium)))"

definition floor_quantity :: "pyfloat \<Rightarrow> int exc" where
  "floor_quantity q = bindE (ptrunc q) (\<lambda>n. Inr (max 0 n))"

definition sell_budget :: "pyfloat \<Rightarrow> pyfloat \<Rightarrow> pyfloat \<Rightarrow> pyfloat \<Rightarrow> pyfloat option \<Rightarrow> pyfloat" where
  "sell_budget delta_value target_value sellable_quantity price cap =
     (let sellable_notional = pmax 0 sellable_quantity * pmax 0 price in
      if sellable_notional \<le> 0 then 0
      else let value_delta_budget = pmax 0 (fabs delta_value);
               position_budget = pmax 0 (sellable_notional - pmax 0 target_value);
               budget = pmin (pmax value_delta_budget position_budget) sellable_notional
           in case cap of None \<Rightarrow> budget | Some c \<Rightarrow> pmin budget (pmax 0 c))"

definition apply_notional_cash_buffer :: "pyfloat \<Rightarrow> pyfloat \<Rightarrow> pyfloat exc" where
  "apply_notional_cash_buffer buy_budget investable_cash =
     (let budget = pmax 0 buy_budget; available = pmax 0 investable_cash in
      if budget + fl (5 / 1000) < available then Inr budget
      else bindE (pfloor (available * notional_buy_cash_utilization_ratio * fl 100)) (\<lambda>cents.
           bindE (float_of_int cents) (\<lambda>c.
           bindE (pdiv c (fl 100)) (\<lambda>b0.
           let b1 = (if min_notional_buy_usd \<le> budget \<and> min_notional_buy_usd \<le> available
                     then pmax b0 min_notional_buy_usd else b0)
           in Inr (pmin budget b1)))))"

section \<open>Reading the plan\<close>

definition normal_symbols :: "pyval list \<Rightarrow> string list" where
  "normal_symbols xs = filter (\<lambda>s. s \<noteq> []) (map symbol_of xs)"

definition float_dict :: "(string \<Rightarrow> string) \<Rightarrow> pyval dict \<Rightarrow> pyfloat dict exc" where
  "float_dict nrm d =
     bindE (mapE (\<lambda>(k, v). bindE (float_or0 v) (\<lambda>x. Inr (nrm k, x))) d) (\<lambda>ps. Inr (dict_of ps))"

definition norm_symbol :: "string \<Rightarrow> string" where
  "norm_symbol k = py_upper (py_strip k)"

definition safe_haven_cash_symbols :: "pyval dict \<Rightarrow> pyval dict \<Rightarrow> string list exc" where
  "safe_haven_cash_symbols portfolio allocation =
     bindE (py_tuple (dget_or allocation ''safe_haven_symbols'' (PList []))) (\<lambda>xs.
     Inr (dedup (normal_symbols xs @ normal_symbols [pget portfolio ''cash_sweep_symbol''])))"

definition strategy_symbols :: "pyval dict \<Rightarrow> string list exc" where
  "strategy_symbols allocation =
     bindE (py_tuple (dget_or allocation ''risk_symbols'' (PList []))) (\<lambda>risk.
     bindE (py_tuple (dget_or allocation ''income_symbols'' (PList []))) (\<lambda>income.
     Inr (dedup (normal_symbols (risk @ income)))))"

definition small_account_drift_reference_targets :: "pyval dict \<Rightarrow> pyval dict \<Rightarrow> pyfloat dict exc" where
  "small_account_drift_reference_targets allocation portfolio =
     bindE (dict_or (pget allocation ''targets'')) (\<lambda>td.
     bindE (float_dict norm_symbol td) (\<lambda>targets.
     bindE (strategy_symbols allocation) (\<lambda>syms.
     bindE (if syms = []
            then bindE (safe_haven_cash_symbols portfolio allocation) (\<lambda>hav.
                 Inr (filter (\<lambda>s. s \<notin> set hav) (dkeys targets)))
            else Inr syms) (\<lambda>cands.
     Inr (map (\<lambda>s. (s, dget_or targets s 0)) (filter (\<lambda>s. dget targets s \<noteq> None) cands))))))"

fun positive_target_total :: "pyval dict \<Rightarrow> pyfloat \<Rightarrow> pyfloat exc" where
  "positive_target_total [] acc = Inr acc"
| "positive_target_total ((k, v) # d) acc =
     (case float_or0 v of
        Inr x \<Rightarrow> positive_target_total d (acc + pmax 0 x)
      | Inl e \<Rightarrow> if is_type_or_value_error e then positive_target_total d acc else Inl e)"

definition float_pdict :: "pyfloat dict \<Rightarrow> pyval" where
  "float_pdict d = PDict (map (\<lambda>(k, x). (k, PFloat x)) d)"

definition zero_small_targets :: "pyfloat \<Rightarrow> string list \<Rightarrow> pyfloat dict \<Rightarrow> pyfloat dict" where
  "zero_small_targets threshold hav targets =
     foldl (\<lambda>t s. let v = dget_or t s 0 in if 0 < v \<and> v < threshold then dset t s 0 else t) targets hav"

definition has_small_target :: "pyfloat \<Rightarrow> string list \<Rightarrow> pyfloat dict \<Rightarrow> bool" where
  "has_small_target threshold hav targets \<longleftrightarrow>
     list_ex (\<lambda>s. 0 < dget_or targets s 0 \<and> dget_or targets s 0 < threshold) hav"

definition substitute_small_safe_haven_targets_with_cash :: "pyval dict \<Rightarrow> pyfloat \<Rightarrow> pyval dict exc" where
  "substitute_small_safe_haven_targets_with_cash plan threshold_usd =
     (let threshold = pmax 0 threshold_usd in
      if threshold \<le> 0 then Inr plan
      else bindE (dict_or (pget plan ''allocation'')) (\<lambda>allocation.
           bindE (dict_or (pget plan ''portfolio'')) (\<lambda>portfolio.
           bindE (dict_or (pget allocation ''targets'')) (\<lambda>td.
           bindE (float_dict norm_symbol td) (\<lambda>targets.
           bindE (safe_haven_cash_symbols portfolio allocation) (\<lambda>hav.
           Inr (if has_small_target threshold hav targets
                then dset plan ''allocation''
                       (PDict (dset allocation ''targets'' (float_pdict (zero_small_targets threshold hav targets))))
                else plan)))))))"

section \<open>Whole-share rules\<close>

definition should_retain_existing_whole_share :: "qpk \<Rightarrow> string \<Rightarrow> pyfloat \<Rightarrow> pyfloat \<Rightarrow> pyfloat \<Rightarrow> bool" where
  "should_retain_existing_whole_share k symbol target price held =
     (let s = norm_symbol symbol; quote_price = pmax 0 price in
      if 0 < held \<and> 0 < target \<and> 0 < quote_price \<and> quote_price * retention_min_ratio_default \<le> target then True
      else if s \<in> set (retention_symbols k) then True
      else case dget (retention_ratio k) s of
             None \<Rightarrow> False
           | Some r \<Rightarrow> if quote_price \<le> 0 then False else quote_price * r \<le> target)"

definition should_bootstrap_whole_share_buy :: "qpk \<Rightarrow> string \<Rightarrow> pyfloat \<Rightarrow> pyfloat \<Rightarrow> bool" where
  "should_bootstrap_whole_share_buy k symbol target limit_price =
     (case dget (bootstrap_ratio k) (norm_symbol symbol) of
        None \<Rightarrow> False
      | Some r \<Rightarrow> (let p = pmax 0 limit_price in if p \<le> 0 then False else p * r \<le> pmax 0 target))"

definition should_top_up_existing_whole_share_buy ::
  "pyfloat \<Rightarrow> pyfloat \<Rightarrow> pyfloat \<Rightarrow> pyfloat \<Rightarrow> bool exc" where
  "should_top_up_existing_whole_share_buy target current quantity limit_price =
     (let held = pmax 0 quantity; p = pmax 0 limit_price in
      if held < fl 1 \<or> p \<le> 0 then Inr False
      else let remaining = pmax 0 (target - current) in
           if remaining \<le> 0 \<or> p \<le> remaining then Inr False
           else bindE (ptrunc held) (\<lambda>shares.
                if shares \<le> 0 then Inr False
                else bindE (pdiv (pmax 0 target) p) (\<lambda>target_quantity.
                     bindE (float_of_int shares) (\<lambda>sh.
                     Inr (sh + fl (1 / 2) \<le> target_quantity)))))"

definition planned_buy_order_quantity ::
  "pyfloat \<Rightarrow> pyfloat \<Rightarrow> pyfloat \<Rightarrow> pyfloat \<Rightarrow> pyfloat \<Rightarrow> pyfloat \<Rightarrow> bool \<Rightarrow> int exc" where
  "planned_buy_order_quantity target current quantity buy_budget buying_power limit_price allow_top_up =
     (let p = pmax 0 limit_price in
      if p \<le> 0 then Inr 0
      else bindE (pdiv (pmax 0 buy_budget) p) (\<lambda>q.
           bindE (floor_quantity q) (\<lambda>planned.
           if 0 < planned then Inr planned
           else if \<not> allow_top_up then Inr 0
           else if pmax 0 buying_power < p then Inr 0
           else bindE (should_top_up_existing_whole_share_buy target current quantity p) (\<lambda>up.
                Inr (if up then 1 else 0)))))"

section \<open>Whole-share compatibility of a plan\<close>

text \<open>\<open>_quote_price\<close>: any failure of the quote is "no price", and so is a price that is not positive.\<close>

definition quote_price :: "(string \<Rightarrow> ('w, pyval) io) \<Rightarrow> string \<Rightarrow> 'w \<Rightarrow> pyfloat option \<times> 'w" where
  "quote_price get_quote symbol w =
     (case get_quote symbol w of (r, w') \<Rightarrow>
        (case bindE r py_float of Inl _ \<Rightarrow> None | Inr p \<Rightarrow> if 0 < p then Some p else None, w'))"

fun quote_prices :: "(string \<Rightarrow> ('w, pyval) io) \<Rightarrow> string list \<Rightarrow> 'w \<Rightarrow> pyfloat dict \<Rightarrow> pyfloat dict \<times> 'w" where
  "quote_prices get_quote [] w prices = (prices, w)"
| "quote_prices get_quote (s # ss) w prices =
     (case quote_price get_quote (norm_symbol s) w of (p, w') \<Rightarrow>
        quote_prices get_quote ss w' (case p of None \<Rightarrow> prices | Some x \<Rightarrow> dset prices (norm_symbol s) x))"

text \<open>One symbol: the target after retention or bootstrap, and which of the two applied.\<close>

datatype share_rule = Kept | Retained | Bootstrapped

definition whole_share_rule ::
  "qpk \<Rightarrow> string \<Rightarrow> pyfloat \<Rightarrow> pyfloat \<Rightarrow> pyfloat \<Rightarrow> pyfloat \<Rightarrow> pyfloat \<Rightarrow> share_rule" where
  "whole_share_rule k symbol target price limit_price held buying_power =
     (let afford = (0 < limit_price \<and> limit_price \<le> buying_power);
          boot = (held \<le> 0 \<and> 0 < target \<and> target < limit_price \<and> afford
                  \<and> should_bootstrap_whole_share_buy k symbol target limit_price)
      in if \<not> should_retain_existing_whole_share k symbol target price held
         then (if boot then Bootstrapped else Kept)
         else if 0 < price \<and> 0 < target \<and> target < price \<and> fl 1 \<le> held then Retained
         else if boot then Bootstrapped else Kept)"

record share_state =
  ss_targets :: "pyfloat dict"
  ss_retained :: "string list"
  ss_bootstrap :: "string list"

definition whole_share_step ::
  "qpk \<Rightarrow> pyval \<Rightarrow> pyval \<Rightarrow> pyfloat dict \<Rightarrow> pyfloat dict \<Rightarrow> pyfloat \<Rightarrow> string \<Rightarrow> share_state \<Rightarrow> share_state exc" where
  "whole_share_step k prem prem_by prices quantities buying_power symbol st =
     (let target = pmax 0 (dget_or (ss_targets st) symbol 0);
          price = pmax 0 (dget_or prices symbol 0);
          held = dget_or quantities symbol 0
      in bindE (if 0 < price then limit_buy_price symbol price prem prem_by else Inr 0) (\<lambda>limit_price.
         Inr (case whole_share_rule k symbol target price limit_price held buying_power of
                Kept \<Rightarrow> st
              | Retained \<Rightarrow> st \<lparr> ss_targets := dset (ss_targets st) symbol price, ss_retained := ss_retained st @ [symbol] \<rparr>
              | Bootstrapped \<Rightarrow> st \<lparr> ss_targets := dset (ss_targets st) symbol limit_price, ss_bootstrap := ss_bootstrap st @ [symbol] \<rparr>)))"

fun whole_share_loop ::
  "qpk \<Rightarrow> pyval \<Rightarrow> pyval \<Rightarrow> pyfloat dict \<Rightarrow> pyfloat dict \<Rightarrow> pyfloat \<Rightarrow> string list \<Rightarrow> share_state \<Rightarrow> share_state exc" where
  "whole_share_loop k prem prem_by prices quantities bp [] st = Inr st"
| "whole_share_loop k prem prem_by prices quantities bp (s # ss) st =
     bindE (whole_share_step k prem prem_by prices quantities bp s st)
       (whole_share_loop k prem prem_by prices quantities bp ss)"

definition set_if :: "bool \<Rightarrow> string \<Rightarrow> pyval \<Rightarrow> pyval dict \<Rightarrow> pyval dict" where
  "set_if b key v d = (if b then dset d key v else d)"

definition compat_candidates :: "pyval dict \<Rightarrow> pyval dict \<Rightarrow> pyval dict \<Rightarrow> string list exc" where
  "compat_candidates allocation portfolio targets =
     bindE (strategy_symbols allocation) (\<lambda>syms.
     if syms \<noteq> [] then Inr syms
     else bindE (safe_haven_cash_symbols portfolio allocation) (\<lambda>hav.
          Inr (filter (\<lambda>s. s \<notin> set hav) (map norm_symbol (dkeys targets)))))"

definition apply_small_account_whole_share_compatibility ::
  "qpk \<Rightarrow> (string \<Rightarrow> ('w, pyval) io) \<Rightarrow> pyval \<Rightarrow> pyval \<Rightarrow> pyval dict \<Rightarrow> ('w, pyval dict) io" where
  "apply_small_account_whole_share_compatibility k get_quote prem prem_by plan =
     bindIO (liftE (dict_or (pget plan ''allocation''))) (\<lambda>allocation.
     bindIO (liftE (dict_or (pget plan ''portfolio''))) (\<lambda>portfolio.
     bindIO (liftE (dict_or (pget allocation ''targets''))) (\<lambda>targets.
     bindIO (liftE (compat_candidates allocation portfolio targets)) (\<lambda>cands.
     bindIO (\<lambda>w. case quote_prices get_quote cands w [] of (p, w') \<Rightarrow> (Inr p, w')) (\<lambda>prices.
     liftE (
       bindE (dict_or (pget portfolio ''quantities'')) (\<lambda>qd.
       bindE (float_dict norm_symbol qd) (\<lambda>quantities.
       bindE (dict_or (pget plan ''execution'')) (\<lambda>execution.
       bindE (float_or0 (dget_or portfolio ''liquid_cash'' (PFloat 0))) (\<lambda>liquid.
       bindE (float_or0 (dget_or execution ''reserved_cash'' (PFloat 0))) (\<lambda>reserved.
       bindE (float_dict norm_symbol targets) (\<lambda>tf.
       bindE (whole_share_loop k prem prem_by prices quantities (pmax 0 (liquid - reserved)) cands
                \<lparr> ss_targets = tf, ss_retained = [], ss_bootstrap = [] \<rparr>) (\<lambda>st.
       bindE (safe_haven_cash_symbols portfolio allocation) (\<lambda>hav.
       bindE (cash_compatibility k (ss_targets st) prices cands hav (fl 1) (cash_substitute_limit_usd k)) (\<lambda>cr.
       Inr (dset plan ''allocation'' (PDict (
         set_if (cr_notes cr \<noteq> []) ''small_account_whole_share_cash_notes'' (PList (cr_notes cr)) (
         set_if (ss_bootstrap st \<noteq> []) ''small_account_whole_share_bootstrap_symbols''
           (PList (map PStr (dedup (ss_bootstrap st)))) (
         set_if (ss_retained st \<noteq> []) ''small_account_existing_whole_share_retained_symbols''
           (PList (map PStr (dedup (ss_retained st)))) (
         set_if (cr_safe_haven_substituted cr \<noteq> []) ''small_account_safe_haven_cash_substituted_symbols''
           (PList (cr_safe_haven_substituted cr)) (
         set_if (cr_substituted cr \<noteq> []) ''small_account_whole_share_substituted_symbols''
           (PList (cr_substituted cr)) (
         ddel (dset allocation ''targets'' (PDict (cr_targets cr))) ''small_account_whole_share_cash_notes''))))))
       )))))))))))))))))"

end
