(* ===== verification/ExecCycle.thy ===== *)
theory ExecCycle
  imports ExecPolicy "HOL-Library.List_Lexorder" "HOL-Library.Char_ord"
begin

text \<open>
  \<open>execute_value_target_plan\<close> of \<open>application/execution_service.py\<close>: one rebalancing cycle.
  The ports (quotes, order submission, the submission claim, confirmed sale proceeds) act
  on a world of any type; the drift notes of \<open>quant_platform_kit\<close> are a parameter.
\<close>

section \<open>Orders, skips and results\<close>

record order_intent =
  i_symbol :: string
  i_side :: string
  i_quantity :: pyfloat
  i_order_type :: string
  i_limit_price :: "pyfloat option"
  i_time_in_force :: string
  i_notional_usd :: "pyfloat option"
  i_max_notional_usd :: "pyfloat option"

record order_report =
  p_symbol :: string
  p_side :: string
  p_quantity :: pyfloat
  p_status :: string
  p_broker_order_id :: "string option"
  p_raw_payload :: pyval

record order_row =
  o_symbol :: string
  o_side :: string
  o_quantity :: pyfloat
  o_order_type :: string
  o_limit_price :: "pyfloat option"
  o_notional_usd :: "pyfloat option"
  o_status :: string
  o_broker_order_id :: "string option"
  o_raw_payload :: pyval

datatype skip =
    BelowTradeThreshold string pyfloat
  | QuoteUnavailable string
  | SellQuantityZero string "pyfloat option"
  | DuplicateLiveRun string
  | PendingSellRelease string "string list"
  | NegativeCash string pyfloat
  | BuyNotionalBelowMinimum string pyfloat pyfloat
  | InsufficientCashForWholeShare string pyfloat pyfloat pyfloat
  | BuyQuantityZero string "pyfloat option"
  | BrokerRejection order_row string

fun skip_reason :: "skip \<Rightarrow> string" where
  "skip_reason (BelowTradeThreshold _ _) = ''below_trade_threshold''"
| "skip_reason (QuoteUnavailable _) = ''quote_unavailable''"
| "skip_reason (SellQuantityZero _ _) = ''sell_quantity_zero''"
| "skip_reason (DuplicateLiveRun _) = ''duplicate_live_strategy_run''"
| "skip_reason (PendingSellRelease _ _) = ''pending_sell_release''"
| "skip_reason (NegativeCash _ _) = ''negative_cash''"
| "skip_reason (BuyNotionalBelowMinimum _ _ _) = ''buy_notional_below_minimum''"
| "skip_reason (InsufficientCashForWholeShare _ _ _ _) = ''insufficient_cash_for_whole_share''"
| "skip_reason (BuyQuantityZero _ _) = ''buy_quantity_zero''"
| "skip_reason (BrokerRejection _ r) = r"

record cycle_result =
  submitted_orders :: "order_row list"
  skipped_orders :: "skip list"
  action_done :: bool
  broker_submission_done :: bool
  pending_reconciliation :: bool
  execution_notes :: "pyval list"
  idempotency_blocked :: bool

section \<open>Ports and options\<close>

record 'w exec_ports =
  get_quote :: "string \<Rightarrow> ('w, pyval) io"
  submit_port :: "order_intent \<Rightarrow> ('w, order_report) io"
  before_live_submission :: "('w, bool) io option"
  confirmed_sell_release :: "order_row list \<Rightarrow> ('w, pyfloat) io"

record exec_options =
  x_dry_run_only :: bool
  x_limit_sell_discount :: pyfloat
  x_limit_buy_premium :: pyval
  x_limit_buy_premium_by_symbol :: pyval
  x_max_order_notional_usd :: "pyfloat option"
  x_safe_haven_threshold_usd :: pyfloat
  x_cash_only_execution :: bool
  x_notional_buy_execution :: bool

section \<open>Order results\<close>

definition normal_status :: "order_row \<Rightarrow> string" where
  "normal_status o1 = alnum_lower (py_strip (o_status o1))"

definition order_submission_accepted :: "order_row \<Rightarrow> bool" where
  "order_submission_accepted o1 \<longleftrightarrow> normal_status o1 \<in> set accepted_order_statuses"

definition order_submission_unknown :: "order_row \<Rightarrow> bool" where
  "order_submission_unknown o1 \<longleftrightarrow>
     normal_status o1 \<notin> set accepted_order_statuses \<and> normal_status o1 \<noteq> ''rejected''"

definition broker_rejection_reason :: "order_row \<Rightarrow> string exc" where
  "broker_rejection_reason o1 =
     bindE (dict_or (o_raw_payload o1)) (\<lambda>raw.
     Inr (if list_ex (\<lambda>(k, v). alnum_lower k = ''refcode'' \<and> py_strip (str_or v) = ''1219'') raw
          then ''fractional_trading_disclosure_required'' else ''broker_rejected''))"

text \<open>The rows a cycle collects.\<close>

record cycle =
  c_submitted :: "order_row list"
  c_skipped :: "skip list"
  c_pending :: "string list"
  c_sell_orders :: "order_row list"
  c_sell_submitted :: bool
  c_cash :: pyfloat

definition record_order_result :: "order_row \<Rightarrow> cycle \<Rightarrow> (bool \<times> cycle) exc" where
  "record_order_result o1 c =
     (if order_submission_accepted o1 \<or> order_submission_unknown o1
      then Inr (order_submission_accepted o1, c \<lparr> c_submitted := c_submitted c @ [o1] \<rparr>)
      else bindE (broker_rejection_reason o1) (\<lambda>reason.
           Inr (False, c \<lparr> c_skipped := c_skipped c @ [BrokerRejection o1 reason] \<rparr>)))"

definition submit_order ::
  "'w exec_ports \<Rightarrow> string \<Rightarrow> string \<Rightarrow> int \<Rightarrow> pyfloat \<Rightarrow> pyfloat option \<Rightarrow> ('w, order_row) io" where
  "submit_order ports symbol side quantity limit_price max_notional =
     bindIO (liftE (float_of_int quantity)) (\<lambda>q.
     bindIO (submit_port ports
       \<lparr> i_symbol = symbol, i_side = side, i_quantity = q, i_order_type = ''limit'',
         i_limit_price = Some (pround2 limit_price), i_time_in_force = ''day'',
         i_notional_usd = None, i_max_notional_usd = max_notional \<rparr>) (\<lambda>r.
     returnIO \<lparr> o_symbol = p_symbol r, o_side = p_side r, o_quantity = p_quantity r, o_order_type = ''limit'',
       o_limit_price = Some (pround2 limit_price), o_notional_usd = None, o_status = p_status r,
       o_broker_order_id = p_broker_order_id r, o_raw_payload = p_raw_payload r \<rparr>))"

definition submit_notional_buy_order ::
  "'w exec_ports \<Rightarrow> string \<Rightarrow> pyfloat \<Rightarrow> pyfloat option \<Rightarrow> ('w, order_row) io" where
  "submit_notional_buy_order ports symbol notional_usd max_notional =
     bindIO (submit_port ports
       \<lparr> i_symbol = symbol, i_side = ''buy'', i_quantity = 0, i_order_type = ''market'',
         i_limit_price = None, i_time_in_force = ''day'',
         i_notional_usd = Some (pround2 notional_usd), i_max_notional_usd = max_notional \<rparr>) (\<lambda>r.
     returnIO \<lparr> o_symbol = p_symbol r, o_side = p_side r, o_quantity = p_quantity r, o_order_type = ''market'',
       o_limit_price = None, o_notional_usd = Some (pround2 notional_usd), o_status = p_status r,
       o_broker_order_id = p_broker_order_id r, o_raw_payload = p_raw_payload r \<rparr>)"

definition may_submit_live_order :: "'w exec_ports \<Rightarrow> bool \<Rightarrow> ('w, bool) io" where
  "may_submit_live_order ports dry =
     (if dry then returnIO True
      else case before_live_submission ports of
             None \<Rightarrow> raiseIO (ValueError ''Live submission requires a durable submission claim callback.'')
           | Some m \<Rightarrow> m)"

definition orders_for_allocation_drift :: "pyfloat dict \<Rightarrow> order_row list \<Rightarrow> order_row list exc" where
  "orders_for_allocation_drift prices orders =
     mapE (\<lambda>o1. let n = (case o_notional_usd o1 of None \<Rightarrow> 0 | Some x \<Rightarrow> x);
                    p = dget_or prices (norm_symbol (o_symbol o1)) 0
                in if 0 < n \<and> 0 < p
                   then bindE (pdiv n p) (\<lambda>q. Inr (o1 \<lparr> o_quantity := q \<rparr>)) else Inr o1) orders"

section \<open>The parsed plan\<close>

record book =
  b_targets :: "pyfloat dict"
  b_market_values :: "pyfloat dict"
  b_sellable :: "pyfloat dict"
  b_quantities :: "pyfloat dict"
  b_threshold :: pyfloat
  b_base_cash :: pyfloat
  b_raw_cash :: pyfloat
  b_cap :: "pyfloat option"
  b_notes :: "pyval list"
  b_total_value :: pyval

definition order_cap :: "pyfloat option \<Rightarrow> pyfloat option" where
  "order_cap m = (case m of None \<Rightarrow> None | Some x \<Rightarrow> if 0 < x then Some (pmax 0 x) else None)"

definition read_book :: "pyval dict \<Rightarrow> pyfloat option \<Rightarrow> book exc" where
  "read_book plan max_order_notional =
     bindE (dict_or (pget plan ''allocation'')) (\<lambda>allocation.
     bindE (dict_or (pget plan ''portfolio'')) (\<lambda>portfolio.
     bindE (dict_or (pget plan ''execution'')) (\<lambda>execution.
     bindE (py_tuple (py_or (pget allocation ''small_account_whole_share_cash_notes'') (PList []))) (\<lambda>notes.
     bindE (dict_or (pget allocation ''targets'')) (\<lambda>td.
     bindE (float_dict py_upper td) (\<lambda>targets.
     bindE (dict_or (pget portfolio ''market_values'')) (\<lambda>md.
     bindE (float_dict py_upper md) (\<lambda>market_values.
     bindE (dict_or (pget portfolio ''sellable_quantities'')) (\<lambda>sd.
     bindE (float_dict py_upper sd) (\<lambda>sellable.
     bindE (if truthy (pget portfolio ''quantities'')
            then bindE (as_dict (pget portfolio ''quantities'')) (float_dict py_upper)
            else Inr sellable) (\<lambda>quantities.
     bindE (py_float (py_or (py_or (pget execution ''current_min_trade'') (pget execution ''trade_threshold_value'')) (PFloat 0))) (\<lambda>threshold.
     bindE (py_float (py_or (py_or (pget execution ''investable_cash'') (pget portfolio ''liquid_cash'')) (PFloat 0))) (\<lambda>base.
     bindE (float_or0 (pget portfolio ''liquid_cash'')) (\<lambda>raw.
     Inr \<lparr> b_targets = targets, b_market_values = market_values, b_sellable = sellable, b_quantities = quantities,
           b_threshold = threshold, b_base_cash = base, b_raw_cash = raw, b_cap = order_cap max_order_notional,
           b_notes = notes,
           b_total_value = py_or (py_or (pget portfolio ''total_equity'') (pget portfolio ''total_strategy_equity'')) (PFloat 0) \<rparr>))))))))))))))"

section \<open>Deltas worth trading\<close>

type_synonym delta = "string \<times> pyfloat \<times> pyfloat"

record deltas =
  d_skipped :: "skip list"
  d_prices :: "pyfloat dict"
  d_deltas :: "delta list"

definition plan_symbols :: "book \<Rightarrow> string list" where
  "plan_symbols b = sort (dedup (dkeys (b_targets b) @ dkeys (b_market_values b)))"

definition delta_of :: "book \<Rightarrow> string \<Rightarrow> pyfloat" where
  "delta_of b s = dget_or (b_targets b) s 0 - dget_or (b_market_values b) s 0"

fun tradable_deltas :: "'w exec_ports \<Rightarrow> book \<Rightarrow> string list \<Rightarrow> deltas \<Rightarrow> 'w \<Rightarrow> deltas \<times> 'w" where
  "tradable_deltas ports b [] d w = (d, w)"
| "tradable_deltas ports b (s # ss) d w =
     (if fabs (delta_of b s) < b_threshold b
      then tradable_deltas ports b ss
             (d \<lparr> d_skipped := d_skipped d @ [BelowTradeThreshold s (pround2 (delta_of b s))] \<rparr>) w
      else case quote_price (get_quote ports) s w of
             (None, w') \<Rightarrow> tradable_deltas ports b ss (d \<lparr> d_skipped := d_skipped d @ [QuoteUnavailable s] \<rparr>) w'
           | (Some p, w') \<Rightarrow> tradable_deltas ports b ss
               (d \<lparr> d_prices := dset (d_prices d) s p, d_deltas := d_deltas d @ [(s, delta_of b s, p)] \<rparr>) w')"

section \<open>Early returns\<close>

datatype 'r outcome = Continue cycle | Stop 'r

definition unknown_submission_result :: "book \<Rightarrow> cycle \<Rightarrow> cycle_result" where
  "unknown_submission_result b c =
     \<lparr> submitted_orders = c_submitted c, skipped_orders = c_skipped c, action_done = False,
       broker_submission_done = list_ex order_submission_accepted (c_submitted c),
       pending_reconciliation = True, execution_notes = b_notes b, idempotency_blocked = False \<rparr>"

definition submission_claim_unavailable :: "book \<Rightarrow> string \<Rightarrow> cycle \<Rightarrow> cycle_result" where
  "submission_claim_unavailable b symbol c =
     \<lparr> submitted_orders = c_submitted c, skipped_orders = c_skipped c @ [DuplicateLiveRun symbol],
       action_done = False, broker_submission_done = False, pending_reconciliation = False,
       execution_notes = b_notes b, idempotency_blocked = True \<rparr>"

section \<open>Sells\<close>

definition sell_step ::
  "'w exec_ports \<Rightarrow> exec_options \<Rightarrow> book \<Rightarrow> delta \<Rightarrow> cycle \<Rightarrow> ('w, cycle_result outcome) io" where
  "sell_step ports x b = (\<lambda>(symbol, delta_value, price) c.
     bindIO (liftE (bindE (pdiv (sell_budget delta_value (dget_or (b_targets b) symbol 0)
                                  (dget_or (b_sellable b) symbol 0) price (b_cap b)) price) floor_quantity)) (\<lambda>quantity.
     if quantity \<le> 0
     then returnIO (Continue (c \<lparr> c_pending := c_pending c @ [symbol],
                                  c_skipped := c_skipped c @ [SellQuantityZero symbol (map_option pround2 (b_cap b))] \<rparr>))
     else bindIO (may_submit_live_order ports (x_dry_run_only x)) (\<lambda>may.
          if \<not> may then returnIO (Stop (submission_claim_unavailable b symbol c))
          else bindIO (submit_order ports symbol ''sell'' quantity (price * x_limit_sell_discount x)
                         (x_max_order_notional_usd x)) (\<lambda>o1.
               bindIO (liftE (record_order_result o1 (c \<lparr> c_pending := c_pending c @ [symbol] \<rparr>))) (\<lambda>(accepted, c1).
               let c2 = (if accepted then c1 \<lparr> c_sell_orders := c_sell_orders c1 @ [o1], c_sell_submitted := True \<rparr> else c1)
               in returnIO (if order_submission_unknown o1 then Stop (unknown_submission_result b c2) else Continue c2))))))"

fun run_steps :: "(delta \<Rightarrow> cycle \<Rightarrow> ('w, cycle_result outcome) io) \<Rightarrow> delta list \<Rightarrow> cycle \<Rightarrow> ('w, cycle_result outcome) io" where
  "run_steps step [] c = returnIO (Continue c)"
| "run_steps step (d # ds) c =
     bindIO (step d c) (\<lambda>r. case r of Stop res \<Rightarrow> returnIO (Stop res) | Continue c' \<Rightarrow> run_steps step ds c')"

section \<open>Buys\<close>

text \<open>The budget of a buy before the cash buffer, and the buying power a top-up may use.\<close>

definition buy_budget_of :: "book \<Rightarrow> pyfloat \<Rightarrow> pyfloat \<Rightarrow> pyfloat" where
  "buy_budget_of b delta_value cash =
     (let bud = pmin delta_value cash in case b_cap b of None \<Rightarrow> bud | Some c \<Rightarrow> pmin bud c)"

definition buying_power_of :: "book \<Rightarrow> pyfloat \<Rightarrow> pyfloat" where
  "buying_power_of b cash = (case b_cap b of None \<Rightarrow> cash | Some c \<Rightarrow> pmin cash c)"

record estimate =
  e_cost :: pyfloat
  e_requires_release :: bool

definition estimate_step :: "exec_options \<Rightarrow> book \<Rightarrow> pyfloat \<Rightarrow> bool \<Rightarrow> delta \<Rightarrow> estimate \<Rightarrow> estimate exc" where
  "estimate_step x b cash sell_submitted = (\<lambda>(symbol, delta_value, price) e.
     let bud = buy_budget_of b delta_value cash in
     if x_notional_buy_execution x
     then bindE (apply_notional_cash_buffer bud cash) (\<lambda>n.
          Inr (if min_notional_buy_usd \<le> n then e \<lparr> e_cost := e_cost e + n \<rparr>
               else if min_notional_buy_usd \<le> delta_value then e \<lparr> e_requires_release := True \<rparr> else e))
     else bindE (limit_buy_price symbol price (x_limit_buy_premium x) (x_limit_buy_premium_by_symbol x)) (\<lambda>lp.
          bindE (planned_buy_order_quantity (delta_value + dget_or (b_market_values b) symbol 0)
                   (dget_or (b_market_values b) symbol 0) (dget_or (b_quantities b) symbol 0) bud
                   (buying_power_of b cash) lp sell_submitted) (\<lambda>quantity.
          if 0 < quantity
          then bindE (float_of_int quantity) (\<lambda>q. Inr (e \<lparr> e_cost := e_cost e + q * lp \<rparr>))
          else Inr (if 0 < delta_value \<and> pmax 0 bud < lp then e \<lparr> e_requires_release := True \<rparr> else e))))"

fun estimate_buys :: "exec_options \<Rightarrow> book \<Rightarrow> pyfloat \<Rightarrow> bool \<Rightarrow> delta list \<Rightarrow> estimate \<Rightarrow> estimate exc" where
  "estimate_buys x b cash ss [] e = Inr e"
| "estimate_buys x b cash ss (d # ds) e =
     bindE (estimate_step x b cash ss d e) (estimate_buys x b cash ss ds)"

text \<open>Cash-only gating: buys wait for sale proceeds, or for negative cash to clear.\<close>

definition gate_buys :: "exec_options \<Rightarrow> book \<Rightarrow> delta list \<Rightarrow> cycle \<Rightarrow> (delta list \<times> cycle) exc" where
  "gate_buys x b buys c =
     (if x_cash_only_execution x \<and> buys \<noteq> [] \<and> c_pending c \<noteq> []
      then bindE (estimate_buys x b (c_cash c) (c_sell_submitted c) buys \<lparr> e_cost = 0, e_requires_release = False \<rparr>) (\<lambda>e.
           if c_cash c < e_cost e \<or> e_requires_release e
           then Inr ([], c \<lparr> c_skipped := c_skipped c @ map (\<lambda>(s, _, _). PendingSellRelease s (c_pending c)) buys \<rparr>)
           else Inr (buys, c))
      else if x_cash_only_execution x \<and> buys \<noteq> [] \<and> b_raw_cash b < 0
      then Inr ([], c \<lparr> c_skipped := c_skipped c @ map (\<lambda>(s, _, _). NegativeCash s (pround2 (b_raw_cash b))) buys \<rparr>)
      else Inr (buys, c))"

definition settle_buy :: "book \<Rightarrow> order_row \<Rightarrow> pyfloat \<Rightarrow> cycle \<Rightarrow> cycle_result outcome exc" where
  "settle_buy b o1 spent c =
     bindE (record_order_result o1 c) (\<lambda>(accepted, c1).
     let c2 = (if accepted then c1 \<lparr> c_cash := pmax 0 (c_cash c1 - spent) \<rparr> else c1)
     in Inr (if order_submission_unknown o1 then Stop (unknown_submission_result b c2) else Continue c2))"

definition notional_buy_step ::
  "'w exec_ports \<Rightarrow> exec_options \<Rightarrow> book \<Rightarrow> delta \<Rightarrow> cycle \<Rightarrow> ('w, cycle_result outcome) io" where
  "notional_buy_step ports x b = (\<lambda>(symbol, delta_value, price) c.
     bindIO (liftE (apply_notional_cash_buffer (buy_budget_of b delta_value (c_cash c)) (c_cash c))) (\<lambda>bud.
     if bud < min_notional_buy_usd
     then returnIO (Continue (c \<lparr> c_skipped := c_skipped c @ [BuyNotionalBelowMinimum symbol (pround2 bud) min_notional_buy_usd] \<rparr>))
     else bindIO (may_submit_live_order ports (x_dry_run_only x)) (\<lambda>may.
          if \<not> may then returnIO (Stop (submission_claim_unavailable b symbol c))
          else bindIO (submit_notional_buy_order ports symbol bud (x_max_order_notional_usd x)) (\<lambda>o1.
               liftE (settle_buy b o1 bud c)))))"

definition zero_quantity_skip :: "book \<Rightarrow> string \<Rightarrow> pyfloat \<Rightarrow> pyfloat \<Rightarrow> skip" where
  "zero_quantity_skip b symbol cash limit_price =
     (if b_cap b = None \<and> cash < limit_price
      then InsufficientCashForWholeShare symbol (pround2 limit_price) (pround2 cash) (pround2 limit_price)
      else BuyQuantityZero symbol (map_option pround2 (b_cap b)))"

definition share_buy_step ::
  "'w exec_ports \<Rightarrow> exec_options \<Rightarrow> book \<Rightarrow> delta \<Rightarrow> cycle \<Rightarrow> ('w, cycle_result outcome) io" where
  "share_buy_step ports x b = (\<lambda>(symbol, delta_value, price) c.
     bindIO (liftE (limit_buy_price symbol price (x_limit_buy_premium x) (x_limit_buy_premium_by_symbol x))) (\<lambda>lp.
     bindIO (liftE (planned_buy_order_quantity (dget_or (b_targets b) symbol 0) (dget_or (b_market_values b) symbol 0)
               (dget_or (b_quantities b) symbol 0) (buy_budget_of b delta_value (c_cash c))
               (buying_power_of b (c_cash c)) lp (c_sell_submitted c))) (\<lambda>quantity.
     if quantity \<le> 0
     then returnIO (Continue (c \<lparr> c_skipped := c_skipped c @ [zero_quantity_skip b symbol (c_cash c) lp] \<rparr>))
     else bindIO (may_submit_live_order ports (x_dry_run_only x)) (\<lambda>may.
          if \<not> may then returnIO (Stop (submission_claim_unavailable b symbol c))
          else bindIO (submit_order ports symbol ''buy'' quantity lp (x_max_order_notional_usd x)) (\<lambda>o1.
               bindIO (liftE (float_of_int quantity)) (\<lambda>q.
               liftE (settle_buy b o1 (q * lp) c)))))))"

definition buy_step ::
  "'w exec_ports \<Rightarrow> exec_options \<Rightarrow> book \<Rightarrow> delta \<Rightarrow> cycle \<Rightarrow> ('w, cycle_result outcome) io" where
  "buy_step ports x b = (if x_notional_buy_execution x then notional_buy_step ports x b else share_buy_step ports x b)"

section \<open>The result of a cycle that ran to its end\<close>

definition pending_statuses :: "string list" where
  "pending_statuses = [''accepted'', ''submitted'', ''partiallyfilled'']"

definition completed_statuses :: "string list" where
  "completed_statuses = [''previewed'', ''filled'']"

definition broker_rejection_skip_reasons :: "string list" where
  "broker_rejection_skip_reasons = [''broker_rejected'', ''fractional_trading_disclosure_required'']"

type_synonym drift_input = "pyfloat dict \<times> book \<times> pyfloat dict \<times> order_row list \<times> pyfloat"

definition finish_cycle ::
  "(drift_input \<Rightarrow> pyval list exc) \<Rightarrow> pyfloat dict \<Rightarrow> book \<Rightarrow> pyfloat dict \<Rightarrow> cycle \<Rightarrow> cycle_result exc" where
  "finish_cycle drift_notes reference b prices c =
     bindE (py_float (b_total_value b)) (\<lambda>total.
     bindE (if list_ex (\<lambda>s. skip_reason s \<in> set broker_rejection_skip_reasons) (c_skipped c) then Inr []
            else bindE (orders_for_allocation_drift prices (c_submitted c)) (\<lambda>projected.
                 drift_notes (reference, b, prices, projected, total))) (\<lambda>notes.
     let statuses = map normal_status (c_submitted c);
         pending = list_ex (\<lambda>s. s \<in> set pending_statuses) statuses
     in Inr \<lparr> submitted_orders = c_submitted c, skipped_orders = c_skipped c,
              action_done = (c_submitted c \<noteq> [] \<and> \<not> pending \<and> list_all (\<lambda>s. s \<in> set completed_statuses) statuses),
              broker_submission_done = pending, pending_reconciliation = pending,
              execution_notes = b_notes b @ notes, idempotency_blocked = False \<rparr>))"

section \<open>The cycle\<close>

definition sell_phase :: "'w exec_ports \<Rightarrow> exec_options \<Rightarrow> book \<Rightarrow> deltas \<Rightarrow> ('w, cycle_result outcome) io" where
  "sell_phase ports x b d =
     run_steps (sell_step ports x b) (filter (\<lambda>(_, v, _). v < 0) (d_deltas d))
       \<lparr> c_submitted = [], c_skipped = d_skipped d, c_pending = [], c_sell_orders = [],
         c_sell_submitted = False, c_cash = 0 \<rparr>"

definition buy_phase :: "'w exec_ports \<Rightarrow> exec_options \<Rightarrow> book \<Rightarrow> deltas \<Rightarrow> cycle \<Rightarrow> ('w, cycle_result outcome) io" where
  "buy_phase ports x b d c =
     bindIO (confirmed_sell_release ports (c_sell_orders c)) (\<lambda>released.
     bindIO (liftE (gate_buys x b (filter (\<lambda>(_, v, _). 0 < v) (d_deltas d))
               (c \<lparr> c_cash := pmax 0 (b_base_cash b + released) \<rparr>))) (\<lambda>(buys, c').
     run_steps (buy_step ports x b) buys c'))"

definition then_continue :: "cycle_result outcome \<Rightarrow> (cycle \<Rightarrow> ('w, cycle_result) io) \<Rightarrow> ('w, cycle_result) io" where
  "then_continue r f = (case r of Stop res \<Rightarrow> returnIO res | Continue c \<Rightarrow> f c)"

definition execute_book ::
  "'w exec_ports \<Rightarrow> (drift_input \<Rightarrow> pyval list exc) \<Rightarrow> exec_options \<Rightarrow> pyfloat dict \<Rightarrow> book \<Rightarrow> ('w, cycle_result) io" where
  "execute_book ports drift_notes x reference b w =
     (case tradable_deltas ports b (plan_symbols b) \<lparr> d_skipped = [], d_prices = [], d_deltas = [] \<rparr> w of
        (d, w') \<Rightarrow>
          bindIO (sell_phase ports x b d) (\<lambda>r.
          then_continue r (\<lambda>c.
          bindIO (buy_phase ports x b d c) (\<lambda>r2.
          then_continue r2 (\<lambda>c2. liftE (finish_cycle drift_notes reference b (d_prices d) c2))))) w')"

definition execute_value_target_plan ::
  "qpk \<Rightarrow> 'w exec_ports \<Rightarrow> (drift_input \<Rightarrow> pyval list exc) \<Rightarrow> exec_options \<Rightarrow> pyval dict \<Rightarrow> ('w, cycle_result) io" where
  "execute_value_target_plan k ports drift_notes x plan0 =
     bindIO (liftE (substitute_small_safe_haven_targets_with_cash plan0 (x_safe_haven_threshold_usd x))) (\<lambda>plan1.
     bindIO (liftE (dict_or (pget plan1 ''portfolio''))) (\<lambda>portfolio.
     bindIO (liftE (dict_or (pget plan1 ''allocation''))) (\<lambda>allocation.
     bindIO (liftE (small_account_drift_reference_targets allocation portfolio)) (\<lambda>reference.
     bindIO (if x_notional_buy_execution x then returnIO plan1
             else apply_small_account_whole_share_compatibility k (get_quote ports) (x_limit_buy_premium x)
                    (x_limit_buy_premium_by_symbol x) plan1) (\<lambda>plan.
     bindIO (liftE (read_book plan (x_max_order_notional_usd x))) (\<lambda>b.
     execute_book ports drift_notes x reference b))))))"

end
