(* ===== verification/BrokerAdapters.thy ===== *)
theory BrokerAdapters
  imports BrokerClient ExecCycle
begin

text \<open>
  \<open>application/runtime_broker_adapters.py\<close>: the ports of a run. Broker payloads become order
  ids and status codes, quotes and price series are cached, balances and positions become
  a portfolio snapshot, and an order intent becomes a request and a report. The client's
  calls, the clock (an instant in milliseconds) and the New York calendar date of an
  instant are parameters.
\<close>

section \<open>Reading broker responses\<close>

definition extract_broker_order_id :: "pyval \<Rightarrow> string option" where
  "extract_broker_order_id payload =
     first_some (\<lambda>(k, v). let n = alnum_lower k in
         if contains n ''order'' \<and> list_ex (contains n) [''id'', ''number'', ''orderno''] \<and> py_strip (str_or v) \<noteq> []
         then Some (py_strip (str_or v)) else None)
       (flatten_values payload [])"

definition leaf_key :: "string \<Rightarrow> string" where
  "leaf_key k = alnum_lower (after_last (CHR ''.'') k)"

fun status_code_in :: "pyval dict \<Rightarrow> int option exc" where
  "status_code_in [] = Inr None"
| "status_code_in ((k, v) # d) =
     (if leaf_key k \<noteq> ''statuscode'' then status_code_in d
      else case py_int v of Inr n \<Rightarrow> Inr (Some n)
           | Inl e \<Rightarrow> if is_type_or_value_error e then Inr None else Inl e)"

definition extract_broker_status_code :: "pyval \<Rightarrow> int option exc" where
  "extract_broker_status_code payload = status_code_in (flatten_values payload [])"

definition total_equity_keyword_groups :: "string list list" where
  "total_equity_keyword_groups =
     [[''total'', ''value''], [''total'', ''equity''], [''account'', ''value''], [''account'', ''equity''],
      [''net'', ''liquid''], [''liquidation''], [''equity'']]"

definition buying_power_keyword_groups :: "string list list" where
  "buying_power_keyword_groups = [[''buying'', ''power''], [''buying''], [''bp'']]"

definition cash_balance_keyword_groups :: "string list list" where
  "cash_balance_keyword_groups = [[''cash'', ''balance''], [''available'', ''cash''], [''cash'', ''available''], [''cash'']]"

definition first_numeric_by_keyword_groups :: "pyval \<Rightarrow> string list list \<Rightarrow> pyfloat option" where
  "first_numeric_by_keyword_groups payload groups = first_some (first_numeric_by_keywords payload) groups"

definition positive_or_none :: "pyfloat option \<Rightarrow> pyfloat option" where
  "positive_or_none v = (case v of None \<Rightarrow> None | Some x \<Rightarrow> if 0 < x then Some x else None)"

section \<open>Buying power and equity\<close>

definition resolve_buying_power :: "pyfloat option \<Rightarrow> pyfloat option \<Rightarrow> bool \<Rightarrow> pyfloat option" where
  "resolve_buying_power cash reported cash_only =
     (if \<not> cash_only then (case reported of Some r \<Rightarrow> Some r | None \<Rightarrow> cash)
      else case cash of None \<Rightarrow> None
           | Some c \<Rightarrow> (case reported of None \<Rightarrow> Some c | Some r \<Rightarrow> Some (pmax 0 (pmin c r))))"

datatype equity_source = CashPlusPositions | BuyingPowerPlusPositions | BalanceTotal | FromPositions | Unresolved

definition fallback_equity :: "pyval \<Rightarrow> pyfloat \<Rightarrow> pyfloat \<times> equity_source" where
  "fallback_equity balances position_value =
     (case first_numeric_by_keyword_groups balances total_equity_keyword_groups of
        Some t \<Rightarrow> (t, BalanceTotal)
      | None \<Rightarrow> (case positive_or_none (Some position_value) of
                   Some p \<Rightarrow> (p, FromPositions) | None \<Rightarrow> (0, Unresolved)))"

definition resolve_total_equity ::
  "pyval \<Rightarrow> pyfloat option \<Rightarrow> pyfloat option \<Rightarrow> pyfloat \<Rightarrow> bool \<Rightarrow> bool \<Rightarrow> pyfloat \<times> equity_source" where
  "resolve_total_equity balances cash buying_power position_value prefer cash_only =
     (if cash_only
      then (case cash of None \<Rightarrow> fallback_equity balances position_value
            | Some c \<Rightarrow> (let v = c + pmax 0 position_value in
                if prefer \<or> 0 < v then (v, CashPlusPositions) else fallback_equity balances position_value))
      else (case buying_power of None \<Rightarrow> fallback_equity balances position_value
            | Some b \<Rightarrow> (let v = b + pmax 0 position_value in
                if prefer \<or> 0 < v then (v, BuyingPowerPlusPositions) else fallback_equity balances position_value)))"

section \<open>The adapters\<close>

record adapters =
  a_account :: string
  a_strategy_symbols :: "string list"
  a_account_hash :: "string option"
  a_live_orders :: bool
  a_live_order_ack :: bool
  a_max_order_notional_usd :: "pyfloat option"
  a_cash_only_execution :: bool

definition normalize_symbol :: "pyval \<Rightarrow> string exc" where
  "normalize_symbol v =
     (let s = symbol_of v in if s = [] then Inl (ValueError ''Symbol must be non-empty.'') else Inr s)"

section \<open>Market data\<close>

type_synonym instant = int

record quote =
  q_symbol :: string
  q_as_of :: instant
  q_last :: pyfloat
  q_bid :: "pyfloat option"
  q_ask :: "pyfloat option"

record price_point =
  pp_as_of :: instant
  pp_close :: pyfloat
  pp_volume :: "pyfloat option"

record price_series =
  ps_symbol :: string
  ps_points :: "price_point list"

record market_cache =
  quote_cache :: "quote dict"
  series_cache :: "price_series dict"

record 'w market_client =
  mc_get_quote :: "string \<Rightarrow> ('w, pyval dict) io"
  mc_get_ohlc :: "string \<Rightarrow> string \<Rightarrow> ('w, pyval list list) io"
  mc_clock :: "'w \<Rightarrow> instant"
  mc_market_date :: "instant \<Rightarrow> int"

definition quote_of :: "string \<Rightarrow> instant \<Rightarrow> pyval dict \<Rightarrow> quote exc" where
  "quote_of symbol now payload =
     (case float_or_none (pget payload ''last'') of
        None \<Rightarrow> Inl (ValueError (''Firstrade quote did not include a numeric last price for '' @ symbol @ ''.''))
      | Some p \<Rightarrow> Inr \<lparr> q_symbol = symbol, q_as_of = now, q_last = p,
                       q_bid = float_or_none (pget payload ''bid''), q_ask = float_or_none (pget payload ''ask'') \<rparr>)"

definition load_quote :: "'w market_client \<Rightarrow> pyval \<Rightarrow> ('w \<times> market_cache, quote) io" where
  "load_quote mc symbol =
     bindIO (liftE (normalize_symbol symbol)) (\<lambda>s st.
     case dget (quote_cache (snd st)) s of
       Some q \<Rightarrow> (Inr q, st)
     | None \<Rightarrow>
         bindIO (lift_fst (mc_get_quote mc s)) (\<lambda>payload st'.
           (case quote_of s (mc_clock mc (fst st')) payload of
              Inl e \<Rightarrow> (Inl e, st')
            | Inr q \<Rightarrow> (Inr q, (fst st', snd st' \<lparr> quote_cache := dset (quote_cache (snd st')) s q \<rparr>)))) st)"

fun candle_points :: "pyval list list \<Rightarrow> price_point list exc" where
  "candle_points [] = Inr []"
| "candle_points (c # cs) =
     (if length c < 5 then candle_points cs
      else bindE (py_int (c ! 0)) (\<lambda>ms.
           bindE (py_float (c ! 4)) (\<lambda>close.
           bindE (candle_points cs) (\<lambda>ps.
           Inr (\<lparr> pp_as_of = ms, pp_close = close,
                  pp_volume = (if 5 < length c then float_or_none (c ! 5) else None) \<rparr> # ps)))))"

definition overlay_quote :: "(instant \<Rightarrow> int) \<Rightarrow> quote \<Rightarrow> price_point list \<Rightarrow> price_point list" where
  "overlay_quote market_date q points =
     (let qp = \<lparr> pp_as_of = q_as_of q, pp_close = q_last q, pp_volume = None \<rparr>;
          last_date = market_date (pp_as_of (last points)); quote_date = market_date (pp_as_of qp)
      in if last_date < quote_date then points @ [qp]
         else if quote_date = last_date then butlast points @ [qp]
         else points)"

definition load_price_series :: "'w market_client \<Rightarrow> pyval \<Rightarrow> ('w \<times> market_cache, price_series) io" where
  "load_price_series mc symbol =
     bindIO (liftE (normalize_symbol symbol)) (\<lambda>s st.
     case dget (series_cache (snd st)) s of
       Some p \<Rightarrow> (Inr p, st)
     | None \<Rightarrow>
         bindIO (lift_fst (mc_get_ohlc mc s ''1y'')) (\<lambda>candles.
         bindIO (liftE (candle_points candles)) (\<lambda>points.
         if points = []
         then raiseIO (ValueError (''Firstrade OHLC did not return price history for '' @ s @ ''.''))
         else bindIO (\<lambda>st'. case load_quote mc (PStr s) st' of
                              (Inr q, st2) \<Rightarrow> (Inr (Some q), st2) | (Inl _, st2) \<Rightarrow> (Inr None, st2)) (\<lambda>q st'.
              let ps = \<lparr> ps_symbol = s,
                         ps_points = (case q of Some y \<Rightarrow> if 0 < q_last y then overlay_quote (mc_market_date mc) y points else points
                                      | None \<Rightarrow> points) \<rparr>
              in (Inr ps, (fst st', snd st' \<lparr> series_cache := dset (series_cache (snd st')) s ps \<rparr>))))) st)"

text \<open>\<open>build_price_history\<close>: rows of equal close, high and low.\<close>

definition build_price_history :: "'w market_client \<Rightarrow> pyval \<Rightarrow> ('w \<times> market_cache, pyval list) io" where
  "build_price_history mc symbol =
     bindIO (load_price_series mc symbol) (\<lambda>s.
     returnIO (map (\<lambda>p. PDict [(''close'', PFloat (pp_close p)), (''high'', PFloat (pp_close p)),
                              (''low'', PFloat (pp_close p))]) (ps_points s)))"

section \<open>Portfolio\<close>

record position =
  pos_symbol :: string
  pos_quantity :: pyfloat
  pos_market_value :: pyfloat
  pos_average_cost :: "pyfloat option"
  pos_account_id :: string

record portfolio_snapshot =
  sn_as_of :: instant
  sn_total_equity :: pyfloat
  sn_buying_power :: pyfloat
  sn_cash_balance :: "pyfloat option"
  sn_positions :: "position list"
  sn_account_hash :: string
  sn_equity_source :: "equity_source option"
  sn_broker_account_equity :: "pyfloat option"
  sn_cash_only_execution :: bool
  sn_available_funds :: "pyfloat option"

definition row_number :: "pyval dict \<Rightarrow> string list \<Rightarrow> pyfloat option" where
  "row_number row keys = float_or_none (get_first row keys)"

definition symbol_keys :: "string list" where
  "symbol_keys = [''symbol'', ''ticker'', ''security_symbol'']"

definition quantity_keys :: "string list" where
  "quantity_keys = [''quantity'', ''shares'', ''qty'']"

definition value_keys :: "string list" where
  "value_keys = [''market_value'', ''marketValue'', ''value'', ''current_value'']"

definition cost_keys :: "string list" where
  "cost_keys = [''average_cost'', ''avg_cost'', ''cost_basis'', ''averagePrice'']"

definition position_of :: "adapters \<Rightarrow> pyval dict \<Rightarrow> position option exc" where
  "position_of a row =
     (let raw = get_first row symbol_keys in
      if \<not> truthy raw then Inr None
      else bindE (normalize_symbol raw) (\<lambda>s.
           if a_strategy_symbols a \<noteq> [] \<and> s \<notin> set (a_strategy_symbols a) then Inr None
           else case row_number row quantity_keys of None \<Rightarrow> Inr None
                | Some q \<Rightarrow> Inr (Some \<lparr> pos_symbol = s, pos_quantity = q,
                     pos_market_value = float_opt_or0 (row_number row value_keys),
                     pos_average_cost = row_number row cost_keys,
                     pos_account_id = mask_account_id (a_account a) \<rparr>)))"

definition somes :: "'a option list \<Rightarrow> 'a list" where
  "somes xs = concat (map (\<lambda>x. case x of None \<Rightarrow> [] | Some y \<Rightarrow> [y]) xs)"

definition hash_of :: "adapters \<Rightarrow> string" where
  "hash_of a = (case a_account_hash a of Some h \<Rightarrow> if h \<noteq> [] then h else mask_account_id (a_account a)
                | None \<Rightarrow> mask_account_id (a_account a))"

definition snapshot_of :: "adapters \<Rightarrow> instant \<Rightarrow> pyval dict \<Rightarrow> position list \<Rightarrow> portfolio_snapshot" where
  "snapshot_of a now balances positions =
     (let bal = PDict balances;
          cash = first_numeric_by_keyword_groups bal cash_balance_keyword_groups;
          reported = first_numeric_by_keyword_groups bal buying_power_keyword_groups;
          bp = resolve_buying_power cash reported (a_cash_only_execution a);
          value = py_sum (map pos_market_value positions);
          te = resolve_total_equity bal cash bp value (a_strategy_symbols a \<noteq> []) (a_cash_only_execution a)
      in \<lparr> sn_as_of = now, sn_total_equity = fst te, sn_buying_power = float_opt_or0 bp, sn_cash_balance = cash,
           sn_positions = positions, sn_account_hash = hash_of a, sn_equity_source = Some (snd te),
           sn_broker_account_equity = first_numeric_by_keyword_groups bal total_equity_keyword_groups,
           sn_cash_only_execution = a_cash_only_execution a, sn_available_funds = reported \<rparr>)"

record 'w portfolio_client =
  pc_get_balances :: "string \<Rightarrow> ('w, pyval dict) io"
  pc_get_positions :: "string \<Rightarrow> ('w, pyval dict) io"
  pc_clock :: "'w \<Rightarrow> instant"

definition build_portfolio_snapshot :: "'w portfolio_client \<Rightarrow> adapters \<Rightarrow> ('w, portfolio_snapshot) io" where
  "build_portfolio_snapshot pc a =
     bindIO (pc_get_balances pc (a_account a)) (\<lambda>balances.
     bindIO (pc_get_positions pc (a_account a)) (\<lambda>payload.
     bindIO (liftE (mapE (position_of a) (iter_position_rows (PDict payload)))) (\<lambda>ps w.
     (Inr (snapshot_of a (pc_clock pc w) balances (somes ps)), w))))"

definition paper_position_of :: "adapters \<Rightarrow> pyval dict \<Rightarrow> position option exc" where
  "paper_position_of a row =
     (let raw = get_first row symbol_keys in
      if \<not> truthy raw then Inl (ValueError ''Firstrade reconciliation received a position without a symbol.'')
      else bindE (normalize_symbol raw) (\<lambda>s.
           case (row_number row quantity_keys, row_number row value_keys) of
             (Some q, Some v) \<Rightarrow>
               (if feq q 0 then Inr None
                else Inr (Some \<lparr> pos_symbol = s, pos_quantity = q, pos_market_value = v,
                     pos_average_cost = row_number row cost_keys, pos_account_id = mask_account_id (a_account a) \<rparr>))
           | _ \<Rightarrow> Inl (ValueError (''Firstrade reconciliation requires quantity and current market value for '' @ s @ ''.''))))"

definition build_reconciled_paper_portfolio_snapshot ::
  "'w portfolio_client \<Rightarrow> adapters \<Rightarrow> ('w, portfolio_snapshot) io" where
  "build_reconciled_paper_portfolio_snapshot pc a =
     bindIO (pc_get_balances pc (a_account a)) (\<lambda>balances.
     bindIO (pc_get_positions pc (a_account a)) (\<lambda>payload.
     bindIO (liftE (mapE (paper_position_of a) (iter_position_rows (PDict payload)))) (\<lambda>ps.
     bindIO (liftE (case first_numeric_by_keyword_groups (PDict balances) cash_balance_keyword_groups of
                      None \<Rightarrow> Inl (ValueError ''Firstrade reconciliation requires a current cash balance.'')
                    | Some c \<Rightarrow> Inr c)) (\<lambda>cash w.
     (Inr \<lparr> sn_as_of = pc_clock pc w, sn_total_equity = cash + py_sum (map pos_market_value (somes ps)),
            sn_buying_power = cash, sn_cash_balance = Some cash, sn_positions = somes ps, sn_account_hash = hash_of a,
            sn_equity_source = None, sn_broker_account_equity = None, sn_cash_only_execution = True,
            sn_available_funds = None \<rparr>, w)))))"

section \<open>Submission\<close>

definition request_of :: "adapters \<Rightarrow> order_intent \<Rightarrow> stock_order_request exc" where
  "request_of a i =
     (let cap = (case i_max_notional_usd i of Some c \<Rightarrow> Some c | None \<Rightarrow> a_max_order_notional_usd a);
          dur = py_lower (if i_time_in_force i = [] then ''day'' else i_time_in_force i)
      in case i_notional_usd i of
           Some n \<Rightarrow> Inr \<lparr> r_account = a_account a, r_symbol = i_symbol i, r_side = i_side i, r_quantity = None,
               r_notional_usd = Some n, r_price_type = ''market'', r_duration = dur, r_limit_price = None,
               r_stop_price = None, r_max_notional_usd = cap \<rparr>
         | None \<Rightarrow> bindE (ptrunc (i_quantity i)) (\<lambda>q.
             Inr \<lparr> r_account = a_account a, r_symbol = i_symbol i, r_side = i_side i, r_quantity = Some q,
               r_notional_usd = None,
               r_price_type = py_lower (if i_order_type i = [] then ''market'' else i_order_type i),
               r_duration = dur, r_limit_price = i_limit_price i, r_stop_price = None, r_max_notional_usd = cap \<rparr>))"

definition live_order_accepted :: "string option \<Rightarrow> int option \<Rightarrow> bool" where
  "live_order_accepted oid code \<longleftrightarrow> oid \<noteq> None \<and> (case code of None \<Rightarrow> True | Some c \<Rightarrow> 200 \<le> c \<and> c < 300)"

definition live_order_rejected :: "string option \<Rightarrow> int option \<Rightarrow> pyval \<Rightarrow> bool" where
  "live_order_rejected oid code raw \<longleftrightarrow>
     oid = None \<and> code = Some 400
     \<and> list_ex (\<lambda>(k, v). leaf_key k = ''refcode'' \<and> py_strip (py_str v) = ''1219'') (flatten_values raw [])"

definition report_status :: "bool \<Rightarrow> string option \<Rightarrow> int option \<Rightarrow> pyval \<Rightarrow> string" where
  "report_status live oid code raw =
     (if \<not> live then ''previewed''
      else if live_order_accepted oid code then ''submitted''
      else if live_order_rejected oid code raw then ''rejected'' else ''unknown'')"

definition submit_intent ::
  "(stock_order_request \<Rightarrow> bool \<Rightarrow> bool \<Rightarrow> ('w, pyval dict) io) \<Rightarrow> adapters \<Rightarrow> order_intent \<Rightarrow> ('w, order_report) io" where
  "submit_intent place a i =
     bindIO (liftE (request_of a i)) (\<lambda>r.
     bindIO (place r (\<not> a_live_orders a) (a_live_order_ack a)) (\<lambda>raw.
     let oid = extract_broker_order_id (PDict raw) in
     bindIO (liftE (extract_broker_status_code (PDict raw))) (\<lambda>code.
     bindIO (liftE (float_of_int (case r_quantity r of None \<Rightarrow> 0 | Some q \<Rightarrow> q))) (\<lambda>q.
     returnIO \<lparr> p_symbol = r_symbol r, p_side = r_side r, p_quantity = q,
                p_status = report_status (a_live_orders a) oid code (PDict raw),
                p_broker_order_id = oid, p_raw_payload = PDict raw \<rparr>))))"

section \<open>Facts\<close>

lemma load_quote_cached:
  "normalize_symbol s = Inr n \<Longrightarrow> dget (quote_cache (snd st)) n = Some q \<Longrightarrow> load_quote mc s st = (Inr q, st)"
  by (simp add: load_quote_def)

lemma somes_set [simp]: "set (somes xs) = {x. Some x \<in> set xs}"
  by (force simp: somes_def split: option.splits)

lemma mapE_all: "mapE f xs = Inr ys \<Longrightarrow> x \<in> set xs \<Longrightarrow> \<exists>y\<in>set ys. f x = Inr y"
  by (induction xs arbitrary: ys) (auto simp: bindE_Inr_iff)

lemma normalize_symbol_idem: "normalize_symbol v = Inr s \<Longrightarrow> normalize_symbol (PStr s) = Inr s"
  by (auto simp: normalize_symbol_def Let_def symbol_of_idem split: if_splits)

lemma order_ticket_account: "order_ticket_of r dry = Inr t \<Longrightarrow> t_account t = r_account r"
  by (auto simp: order_ticket_of_def bindE_Inr_iff)

section \<open>Properties\<close>

text \<open>
  Property C33. One price per symbol and run: once \<open>load_quote\<close> has answered for a symbol,
  asking again gives the same quote, makes no broker call and changes nothing.
\<close>

theorem quote_is_stable_within_a_run:
  assumes "load_quote mc symbol st = (Inr q, st1)"
  shows "load_quote mc symbol st1 = (Inr q, st1)"
proof -
  obtain s where s: "normalize_symbol symbol = Inr s" using assms by (cases "normalize_symbol symbol") (auto simp: load_quote_def)
  show ?thesis
  proof (cases "dget (quote_cache (snd st)) s")
    case (Some q')
    then show ?thesis using assms by (simp add: load_quote_def s)
  next
    case None
    obtain r w' where r: "lift_fst (mc_get_quote mc s) st = (r, w')" by (cases "lift_fst (mc_get_quote mc s) st") blast
    have "dget (quote_cache (snd st1)) s = Some q"
      using assms None r
      by (cases r) (auto simp: load_quote_def s bindIO_def dget_dset split: sum.splits)
    then show ?thesis by (simp add: load_quote_cached [OF s])
  qed
qed

definition sample_market_client :: "nat market_client" where
  "sample_market_client = \<lparr> mc_get_quote = (\<lambda>s w. (Inr [(''last'', PStr ''10.50'')], Suc w)),
     mc_get_ohlc = (\<lambda>s r w. (Inr [], w)), mc_clock = int, mc_market_date = (\<lambda>t. t) \<rparr>"

lemma sample_quote:
  "case load_quote sample_market_client (PStr '' a '') (0, \<lparr> quote_cache = [], series_cache = [] \<rparr>) of
     (Inr q, st) \<Rightarrow> q_symbol q = ''A'' \<and> fst st = 1 | _ \<Rightarrow> False"
  by code_simp

theorem quote_is_stable_within_a_run_witness:
  "\<exists>q st1. load_quote sample_market_client (PStr '' a '') (0, \<lparr> quote_cache = [], series_cache = [] \<rparr>) = (Inr q, st1)
     \<and> fst st1 = 1 \<and> load_quote sample_market_client (PStr '' a '') st1 = (Inr q, st1)"
proof -
  define p where "p = load_quote sample_market_client (PStr '' a '') (0, \<lparr> quote_cache = [], series_cache = [] \<rparr>)"
  obtain r st where p: "p = (r, st)" by (cases p)
  obtain q where r: "r = Inr q" and f: "fst st = 1"
    using sample_quote unfolding p_def [symmetric] p by (cases r) auto
  show ?thesis
    using p r f quote_is_stable_within_a_run [of sample_market_client "PStr '' a ''" _ q st] unfolding p_def by blast
qed

text \<open>
  Cash-only buying power is cash: it is never above the cash balance, and
  never negative when the balance is not, whatever buying power the broker reports.
\<close>

theorem cash_only_buying_power_is_cash:
  assumes "resolve_buying_power (Some (Fin c)) reported True = Some p" "0 \<le> c"
  shows "p \<le> Fin c \<and> 0 \<le> p"
proof (cases reported)
  case None
  then have "p = Fin c" using assms(1) by (simp add: resolve_buying_power_def)
  then show ?thesis using assms(2) by simp
next
  case (Some r)
  have "p = pmax 0 (pmin (Fin c) r)" using assms Some by (simp add: resolve_buying_power_def)
  then show ?thesis using assms(2) by (cases r) (auto simp: pmin_def pmax_def zero_Fin)
qed

theorem cash_only_buying_power_is_cash_witness:
  "resolve_buying_power (Some (Fin 100)) (Some (Fin 400)) True = Some (Fin 100) \<and> Fin 100 \<le> Fin (100 :: rat)"
proof -
  have "resolve_buying_power (Some (Fin 100)) (Some (Fin 400)) True = Some (Fin 100)" by code_simp
  then show ?thesis using cash_only_buying_power_is_cash [of 100 "Some (Fin 400)" "Fin 100"] by simp
qed

text \<open>
  The evidence of a delayed paper command omits nothing: if the reconciled
  snapshot is built, then every position row the broker returned has a symbol, a quantity
  and a market value, and every row whose quantity is not zero is one of its positions.
\<close>

theorem paper_snapshot_is_complete:
  assumes "pc_get_balances pc (a_account a) w = (Inr balances, w1)"
    and "pc_get_positions pc (a_account a) w1 = (Inr payload, w2)"
    and "build_reconciled_paper_portfolio_snapshot pc a w = (Inr sn, w')"
    and "row \<in> set (iter_position_rows (PDict payload))"
  shows "\<exists>s q v. normalize_symbol (get_first row symbol_keys) = Inr s
     \<and> row_number row quantity_keys = Some q \<and> row_number row value_keys = Some v
     \<and> (feq q 0 \<or> (\<exists>p\<in>set (sn_positions sn). pos_symbol p = s \<and> pos_quantity p = q \<and> pos_market_value p = v))"
proof -
  obtain ps where m: "mapE (paper_position_of a) (iter_position_rows (PDict payload)) = Inr ps"
    and sn: "sn_positions sn = somes ps"
    using assms(1-3) by (auto simp: build_reconciled_paper_portfolio_snapshot_def bindIO_Inr liftE_def)
  obtain y where y: "y \<in> set ps" "paper_position_of a row = Inr y" using mapE_all [OF m assms(4)] by blast
  obtain s where s: "normalize_symbol (get_first row symbol_keys) = Inr s"
    using y(2) by (auto simp: paper_position_of_def Let_def bindE_Inr_iff split: if_splits)
  obtain q v where q: "row_number row quantity_keys = Some q" "row_number row value_keys = Some v"
    using y(2) s
    by (cases "row_number row quantity_keys"; cases "row_number row value_keys")
       (auto simp: paper_position_of_def Let_def split: if_splits)
  have "\<exists>p\<in>set (sn_positions sn). pos_symbol p = s \<and> pos_quantity p = q \<and> pos_market_value p = v" if "\<not> feq q 0"
    using y s q that by (auto simp: paper_position_of_def Let_def sn split: if_splits)
  with s q show ?thesis by blast
qed

definition sample_adapters :: adapters where
  "sample_adapters = \<lparr> a_account = ''12345678'', a_strategy_symbols = [], a_account_hash = None, a_live_orders = False,
     a_live_order_ack = False, a_max_order_notional_usd = Some (Fin 100), a_cash_only_execution = True \<rparr>"

definition sample_row :: "pyval dict" where
  "sample_row = [(''symbol'', PStr ''spy''), (''quantity'', PStr ''2''), (''value'', PStr ''$900'')]"

definition sample_portfolio_client :: "unit portfolio_client" where
  "sample_portfolio_client = \<lparr> pc_get_balances = (\<lambda>a. returnIO [(''cash'', PInt 5)]),
     pc_get_positions = (\<lambda>a. returnIO [(''items'', PList [PDict sample_row])]), pc_clock = (\<lambda>w. 0) \<rparr>"

lemma sample_snapshot:
  "case build_reconciled_paper_portfolio_snapshot sample_portfolio_client sample_adapters () of
     (Inr sn, w) \<Rightarrow> map pos_symbol (sn_positions sn) = [''SPY''] | _ \<Rightarrow> False"
  by code_simp

theorem paper_snapshot_is_complete_witness:
  "\<exists>sn w' s. build_reconciled_paper_portfolio_snapshot sample_portfolio_client sample_adapters () = (Inr sn, w')
     \<and> normalize_symbol (get_first sample_row symbol_keys) = Inr s"
proof -
  obtain r w' where p: "build_reconciled_paper_portfolio_snapshot sample_portfolio_client sample_adapters () = (r, w')"
    by (cases "build_reconciled_paper_portfolio_snapshot sample_portfolio_client sample_adapters ()") blast
  obtain sn where r: "r = Inr sn" using sample_snapshot by (cases r) (auto simp: p)
  have "\<exists>s q v. normalize_symbol (get_first sample_row symbol_keys) = Inr s
     \<and> row_number sample_row quantity_keys = Some q \<and> row_number sample_row value_keys = Some v
     \<and> (feq q 0 \<or> (\<exists>p\<in>set (sn_positions sn). pos_symbol p = s \<and> pos_quantity p = q \<and> pos_market_value p = v))"
    by (rule paper_snapshot_is_complete [OF _ _ p [unfolded r],
          of "[(''cash'', PInt 5)]" "()" "[(''items'', PList [PDict sample_row])]" "()"])
       (simp_all add: sample_portfolio_client_def dict_rows_def)
  with p r show ?thesis by blast
qed

lemma submit_intent_effect:
  "snd (submit_intent (\<lambda>r dry ack. place_stock_order sdk is_connected enabled r dry ack) a i w) = w
   \<or> (\<exists>t. t_account t = a_account a \<and> t_dry_run t = (\<not> a_live_orders a)
        \<and> ticket_ok (\<not> a_live_orders a) enabled (a_live_order_ack a)
            (case i_max_notional_usd i of Some c \<Rightarrow> Some c | None \<Rightarrow> a_max_order_notional_usd a) t
        \<and> snd (submit_intent (\<lambda>r dry ack. place_stock_order sdk is_connected enabled r dry ack) a i w)
          = snd (sdk t w))"
proof (cases "request_of a i")
  case (Inl e)
  then show ?thesis by (simp add: submit_intent_def)
next
  case (Inr r)
  define cap where "cap = (case i_max_notional_usd i of Some c \<Rightarrow> Some c | None \<Rightarrow> a_max_order_notional_usd a)"
  have r: "r_account r = a_account a" "r_max_notional_usd r = cap"
    using Inr by (cases "i_notional_usd i"; auto simp: request_of_def cap_def Let_def bindE_Inr_iff)+
  define res where "res = place_stock_order sdk is_connected enabled r (\<not> a_live_orders a) (a_live_order_ack a) w"
  have snd: "snd (submit_intent (\<lambda>r dry ack. place_stock_order sdk is_connected enabled r dry ack) a i w) = snd res"
    unfolding submit_intent_def Inr liftE_simps bindIO_return res_def [symmetric]
    by (simp add: bindIO_def res_def [symmetric] liftE_def returnIO_def Let_def split: sum.split prod.split)
  consider e where "res = (Inl e, w)"
    | t where "order_ticket_of r (\<not> a_live_orders a) = Inr t"
        "ticket_ok (\<not> a_live_orders a) enabled (a_live_order_ack a) cap t" "snd res = snd (sdk t w)"
  proof (cases "bindE (validate_stock_order r (\<not> a_live_orders a) enabled (a_live_order_ack a)) (\<lambda>_.
           bindE (guardE is_connected (PlatformError ''Firstrade client is not connected.'')) (\<lambda>_.
           order_ticket_of r (\<not> a_live_orders a)))")
    case (Inl e)
    then show ?thesis using that(1) by (simp add: res_def place_stock_order_def)
  next
    case (Inr t)
    then have v: "validate_stock_order r (\<not> a_live_orders a) enabled (a_live_order_ack a) = Inr ()"
      and t: "order_ticket_of r (\<not> a_live_orders a) = Inr t"
      by (auto simp: bindE_Inr_iff)
    show ?thesis
      using that(2) [OF t] order_ticket_of_ok [OF v t] Inr r
      by (simp add: res_def place_stock_order_def split: prod.split)
  qed
  then show ?thesis
  proof cases
    case 1 then show ?thesis using snd by simp
  next
    case (2 t)
    then show ?thesis
      using snd r order_ticket_account [OF 2(1)] unfolding cap_def [symmetric] by (auto simp: ticket_ok_def)
  qed
qed

text \<open>
  Property C32. From intent to ticket: submitting an intent through the adapter either
  leaves the broker alone or sends exactly one ticket, for the adapter's account, that is
  a preview exactly when the adapter is not live, and that satisfies \<open>ticket_ok\<close> under the
  cap of the intent or else of the run.
\<close>

theorem intent_becomes_one_safe_ticket:
  "snd (submit_intent (\<lambda>r dry ack. place_stock_order sdk is_connected enabled r dry ack) a i w) = w
   \<or> (\<exists>t. t_account t = a_account a \<and> t_dry_run t = (\<not> a_live_orders a)
        \<and> ticket_ok (\<not> a_live_orders a) enabled (a_live_order_ack a)
            (case i_max_notional_usd i of Some c \<Rightarrow> Some c | None \<Rightarrow> a_max_order_notional_usd a) t
        \<and> snd (submit_intent (\<lambda>r dry ack. place_stock_order sdk is_connected enabled r dry ack) a i w)
          = snd (sdk t w))"
  by (rule submit_intent_effect)

text \<open>
  Property C23. The broker order id is searched by substrings of the key, and \<open>side\<close>
  contains \<open>id\<close>: a live response that carries only \<open>order_side\<close> is taken for an accepted
  order whose id is \<open>buy\<close>, where the code means an order without an id to be unknown.
\<close>

theorem order_side_is_taken_for_an_order_id:
  "extract_broker_order_id (PDict [(''order_side'', PStr ''buy'')]) = Some ''buy''
   \<and> report_status True (Some ''buy'') None (PDict [(''order_side'', PStr ''buy'')]) = ''submitted''
   \<and> report_status True None None (PDict []) = ''unknown''"
  by code_simp

end
