(* ===== verification/StateStore.thy ===== *)
theory StateStore
  imports PyValue
begin

text \<open>
  \<open>application/state_persistence.py\<close>: the JSON state store over a cloud object store. The
  object store (\<open>quant_platform_kit.cloud\<close>, \<open>google.cloud.storage\<close>) and the JSON text
  codec are parameters; what the code relies on is the predicate \<open>object_store_laws\<close>.
\<close>

section \<open>The parameters\<close>

text \<open>
  \<open>os_create\<close> uploads with \<open>if_generation_match=0\<close>: it creates the object, or reports a
  conflict, or fails. An error of \<open>os_read\<close> is its message.
\<close>

datatype create_outcome = Created | Conflict | CreateFailed

record 'w object_store =
  os_read :: "string \<Rightarrow> 'w \<Rightarrow> (string + string option) \<times> 'w"
  os_write :: "string \<Rightarrow> string \<Rightarrow> 'w \<Rightarrow> bool \<times> 'w"
  os_create :: "string \<Rightarrow> string \<Rightarrow> string \<Rightarrow> 'w \<Rightarrow> create_outcome \<times> 'w"
  json_dumps :: "pyval \<Rightarrow> string"
  json_loads :: "string \<Rightarrow> pyval option"

section \<open>The store\<close>

definition legacy_account_state_id :: "string \<Rightarrow> string" where
  "legacy_account_state_id v =
     (if length v \<le> 4 then replicate (length v) (CHR ''*'')
      else replicate (length v - 4) (CHR ''*'') @ drop (length v - 4) v)"

definition normalize_prefix :: "string \<Rightarrow> string" where
  "normalize_prefix p = strip_chars ''/'' p"

record gcs_state_store =
  bucket :: string
  prefix :: string

definition make_store :: "string \<Rightarrow> string \<Rightarrow> gcs_state_store exc" where
  "make_store b p =
     (if py_strip b = [] then Inl (ValueError ''GCS state bucket must be non-empty.'')
      else Inr \<lparr> bucket = b, prefix = p \<rparr>)"

definition object_uri :: "gcs_state_store \<Rightarrow> string \<Rightarrow> string exc" where
  "object_uri s key =
     (let clean_key = strip_chars ''/'' key; pre = normalize_prefix (prefix s) in
      if clean_key = [] then Inl (ValueError ''State key must be non-empty.'')
      else Inr (''gs://'' @ bucket s @ ''/'' @ (if pre \<noteq> [] then pre @ ''/'' @ clean_key else clean_key)))"

text \<open>How \<open>read_json\<close> tells a missing object from another failure: by the message.\<close>

definition says_missing :: "string \<Rightarrow> bool" where
  "says_missing msg \<longleftrightarrow> contains msg ''404'' \<or> contains (py_upper msg) ''NOT_FOUND''"

definition read_json :: "'w object_store \<Rightarrow> gcs_state_store \<Rightarrow> string \<Rightarrow> ('w, pyval dict option) io" where
  "read_json os s key =
     bindIO (liftE (object_uri s key)) (\<lambda>uri w.
       (case os_read os uri w of
          (Inl msg, w') \<Rightarrow>
            (if says_missing msg then (Inr None, w')
             else (Inl (StatePersistenceError ''GCS state read failed''), w'))
        | (Inr None, w') \<Rightarrow> (Inr None, w')
        | (Inr (Some text), w') \<Rightarrow>
            (case json_loads os text of
               None \<Rightarrow> (Inl (StatePersistenceError ''GCS state payload is not valid JSON''), w')
             | Some (PDict d) \<Rightarrow> (Inr (Some d), w')
             | Some _ \<Rightarrow> (Inl (StatePersistenceError ''GCS state payload is not a JSON object.''), w'))))"

definition write_json :: "'w object_store \<Rightarrow> gcs_state_store \<Rightarrow> string \<Rightarrow> pyval dict \<Rightarrow> ('w, bool) io" where
  "write_json os s key payload =
     bindIO (liftE (object_uri s key)) (\<lambda>uri w.
       (case os_write os uri (json_dumps os (PDict payload)) w of
          (ok, w') \<Rightarrow> (if ok then Inr True else Inl (StatePersistenceError ''GCS state write failed''), w')))"

definition create_json :: "'w object_store \<Rightarrow> gcs_state_store \<Rightarrow> string \<Rightarrow> pyval dict \<Rightarrow> ('w, bool) io" where
  "create_json os s key payload =
     bindIO (liftE (object_uri s key)) (\<lambda>uri w.
       (case partition_at (CHR ''/'') (drop 5 uri) of (bucket_name, sep, object_name) \<Rightarrow>
          if \<not> sep \<or> bucket_name = [] \<or> object_name = []
          then (Inl (StatePersistenceError ''Invalid GCS state URI''), w)
          else (case os_create os bucket_name object_name (json_dumps os (PDict payload)) w of
                  (Created, w') \<Rightarrow> (Inr True, w')
                | (Conflict, w') \<Rightarrow> (Inr False, w')
                | (CreateFailed, w') \<Rightarrow> (Inl (StatePersistenceError ''GCS state atomic create failed''), w'))))"

definition build_store_from_env :: "(string \<Rightarrow> string option) \<Rightarrow> gcs_state_store option" where
  "build_store_from_env env =
     (let b = py_strip (case env ''FIRSTRADE_GCS_STATE_BUCKET'' of None \<Rightarrow> [] | Some v \<Rightarrow> v);
          p = (case env ''FIRSTRADE_STATE_PREFIX'' of None \<Rightarrow> ''firstrade-platform'' | Some v \<Rightarrow>
                 if v = [] then ''firstrade-platform'' else v)
      in if b = [] then None else Some \<lparr> bucket = b, prefix = p \<rparr>)"

section \<open>What the object store is relied on for\<close>

text \<open>
  \<open>held w uri\<close> is the text of the live object at a URI. A read does not change it and
  reports it or an error, whose message says that the object is missing only where it is;
  a successful write replaces it and a failed one may or may not
  have; a create succeeds only where no object is, reports a conflict only where one is,
  and a failed one may or may not have created the object.
\<close>

definition object_at :: "string \<Rightarrow> string \<Rightarrow> string" where
  "object_at b n = ''gs://'' @ b @ ''/'' @ n"

fun create_law :: "(string \<Rightarrow> string option) \<Rightarrow> string \<Rightarrow> string \<Rightarrow> create_outcome \<Rightarrow> (string \<Rightarrow> string option) \<Rightarrow> bool" where
  "create_law h u d Created h' = (h u = None \<and> h' = h(u \<mapsto> d))"
| "create_law h u d Conflict h' = (h u \<noteq> None \<and> h' = h)"
| "create_law h u d CreateFailed h' = (h' = h \<or> (h u = None \<and> h' = h(u \<mapsto> d)))"

definition object_store_laws :: "'w object_store \<Rightarrow> ('w \<Rightarrow> string \<Rightarrow> string option) \<Rightarrow> bool" where
  "object_store_laws os held \<longleftrightarrow>
     (\<forall>u w. held (snd (os_read os u w)) = held w
            \<and> (case fst (os_read os u w) of Inr t \<Rightarrow> t = held w u
               | Inl msg \<Rightarrow> says_missing msg \<longrightarrow> held w u = None))
     \<and> (\<forall>u d w. held (snd (os_write os u d w)) = (held w)(u \<mapsto> d)
               \<or> (\<not> fst (os_write os u d w) \<and> held (snd (os_write os u d w)) = held w))
     \<and> (\<forall>b n d w. create_law (held w) (object_at b n) d (fst (os_create os b n d w))
                     (held (snd (os_create os b n d w))))"

text \<open>The codec reads back what it wrote.\<close>

definition codec_reads_back :: "'w object_store \<Rightarrow> pyval dict \<Rightarrow> bool" where
  "codec_reads_back os d \<longleftrightarrow> json_loads os (json_dumps os (PDict d)) = Some (PDict d)"

section \<open>Facts\<close>

lemma partition_at_append:
  "c \<notin> set a \<Longrightarrow> partition_at c (a @ c # b) = (a, True, b)"
proof (induction a)
  case (Cons x a)
  then show ?case by (auto simp: partition_at_def Let_def split: list.splits)
qed (simp add: partition_at_def)

lemma object_uri_Inr: "object_uri s key = Inr u \<Longrightarrow> \<exists>n. u = object_at (bucket s) n \<and> n \<noteq> []"
  by (auto simp: object_uri_def object_at_def Let_def split: if_splits)

text \<open>The bucket of a store that \<open>create_json\<close> can address: not empty and without a slash.\<close>

definition plain_bucket :: "gcs_state_store \<Rightarrow> bool" where
  "plain_bucket s \<longleftrightarrow> bucket s \<noteq> [] \<and> CHR ''/'' \<notin> set (bucket s)"

lemma create_json_eq:
  assumes "plain_bucket s" "object_uri s key = Inr u"
  obtains n where "u = object_at (bucket s) n"
    "create_json os s key d w =
       (case os_create os (bucket s) n (json_dumps os (PDict d)) w of
          (Created, w') \<Rightarrow> (Inr True, w')
        | (Conflict, w') \<Rightarrow> (Inr False, w')
        | (CreateFailed, w') \<Rightarrow> (Inl (StatePersistenceError ''GCS state atomic create failed''), w'))"
proof -
  obtain n where n: "u = object_at (bucket s) n" "n \<noteq> []" using object_uri_Inr [OF assms(2)] by auto
  have "partition_at (CHR ''/'') (drop 5 u) = (bucket s, True, n)"
    using assms(1) by (simp add: n object_at_def plain_bucket_def partition_at_append)
  with assms n show ?thesis
    by (intro that [of n]) (simp_all add: create_json_def plain_bucket_def)
qed

lemma laws_create:
  assumes "object_store_laws os held" "plain_bucket s" "object_uri s key = Inr u"
    "create_json os s key d w = (r, w')"
  shows "held w' = held w \<or> (held w u = None \<and> held w' = (held w)(u \<mapsto> json_dumps os (PDict d)))"
    and "r = Inr True \<Longrightarrow> held w u = None \<and> held w' = (held w)(u \<mapsto> json_dumps os (PDict d))"
    and "r = Inr False \<Longrightarrow> held w u \<noteq> None \<and> held w' = held w"
proof -
  obtain n where n: "u = object_at (bucket s) n"
    and c: "create_json os s key d w =
       (case os_create os (bucket s) n (json_dumps os (PDict d)) w of
          (Created, w') \<Rightarrow> (Inr True, w')
        | (Conflict, w') \<Rightarrow> (Inr False, w')
        | (CreateFailed, w') \<Rightarrow> (Inl (StatePersistenceError ''GCS state atomic create failed''), w'))"
    using assms(2,3) by (rule create_json_eq)
  obtain o1 w1 where o1: "os_create os (bucket s) n (json_dumps os (PDict d)) w = (o1, w1)" by fastforce
  have "create_law (held w) u (json_dumps os (PDict d)) o1 (held w1)"
    using assms(1) o1 unfolding object_store_laws_def n by (metis fst_conv snd_conv)
  then show "held w' = held w \<or> (held w u = None \<and> held w' = (held w)(u \<mapsto> json_dumps os (PDict d)))"
    and "r = Inr True \<Longrightarrow> held w u = None \<and> held w' = (held w)(u \<mapsto> json_dumps os (PDict d))"
    and "r = Inr False \<Longrightarrow> held w u \<noteq> None \<and> held w' = held w"
    using assms(4) unfolding c o1 by (cases o1; auto)+
qed

lemma laws_read:
  assumes "object_store_laws os held" "object_uri s key = Inr u" "read_json os s key w = (r, w')"
  shows "held w' = held w"
    and "r = Inr (Some d) \<Longrightarrow> \<exists>t. held w u = Some t \<and> json_loads os t = Some (PDict d)"
    and "r = Inr None \<Longrightarrow> held w u = None"
proof -
  obtain x w1 where x: "os_read os u w = (x, w1)" by fastforce
  have h: "held w1 = held w"
    and l: "case x of Inr t \<Rightarrow> t = held w u | Inl msg \<Rightarrow> says_missing msg \<longrightarrow> held w u = None"
    using assms(1) x unfolding object_store_laws_def by (metis fst_conv snd_conv)+
  show "held w' = held w"
    and "r = Inr (Some d) \<Longrightarrow> \<exists>t. held w u = Some t \<and> json_loads os t = Some (PDict d)"
    and "r = Inr None \<Longrightarrow> held w u = None"
    using assms(2,3) x h l
    by (auto simp: read_json_def bindIO_def liftE_def
        split: sum.splits option.splits pyval.splits if_splits)
qed

lemma laws_write:
  assumes "object_store_laws os held" "object_uri s key = Inr u" "write_json os s key d w = (r, w')"
  shows "held w' = (held w)(u \<mapsto> json_dumps os (PDict d)) \<or> (r \<noteq> Inr True \<and> held w' = held w)"
proof -
  obtain x w1 where x: "os_write os u (json_dumps os (PDict d)) w = (x, w1)" by fastforce
  have "held w1 = (held w)(u \<mapsto> json_dumps os (PDict d)) \<or> (\<not> x \<and> held w1 = held w)"
    using assms(1) x unfolding object_store_laws_def by (metis fst_conv snd_conv)
  then show ?thesis
    using assms(2,3) x by (auto simp: write_json_def bindIO_def liftE_def split: if_splits)
qed

text \<open>No call on the store removes an object.\<close>

definition keeps_objects :: "('w \<Rightarrow> string \<Rightarrow> string option) \<Rightarrow> 'w \<Rightarrow> 'w \<Rightarrow> bool" where
  "keeps_objects held w w' \<longleftrightarrow> dom (held w) \<subseteq> dom (held w')"

lemma keeps_objects_refl [simp]: "keeps_objects held w w"
  by (simp add: keeps_objects_def)

lemma keeps_objects_trans: "keeps_objects held w w' \<Longrightarrow> keeps_objects held w' w'' \<Longrightarrow> keeps_objects held w w''"
  by (auto simp: keeps_objects_def)

lemma keeps_objects_pre: "reflp (keeps_objects held)" "transp (keeps_objects held)"
  by (auto intro!: reflpI transpI intro: keeps_objects_trans)

lemma read_json_error_keeps: "object_uri s key = Inl e \<Longrightarrow> read_json os s key w = (Inl e, w)"
  by (simp add: read_json_def)

lemma read_json_keeps: "object_store_laws os held \<Longrightarrow> steps_along (keeps_objects held) (read_json os s key)"
  unfolding steps_along_def
proof
  fix w assume l: "object_store_laws os held"
  show "keeps_objects held w (snd (read_json os s key w))"
  proof (cases "object_uri s key")
    case (Inr u)
    then show ?thesis using laws_read(1) [OF l Inr, of w "fst (read_json os s key w)" "snd (read_json os s key w)"]
      by (simp add: keeps_objects_def)
  qed (simp add: read_json_def)
qed

lemma write_json_keeps: "object_store_laws os held \<Longrightarrow> steps_along (keeps_objects held) (write_json os s key d)"
  unfolding steps_along_def
proof
  fix w assume l: "object_store_laws os held"
  show "keeps_objects held w (snd (write_json os s key d w))"
  proof (cases "object_uri s key")
    case (Inr u)
    then show ?thesis
      using laws_write [OF l Inr, of d w "fst (write_json os s key d w)" "snd (write_json os s key d w)"]
      by (auto simp: keeps_objects_def)
  qed (simp add: write_json_def)
qed

lemma create_json_keeps:
  "object_store_laws os held \<Longrightarrow> plain_bucket s \<Longrightarrow> steps_along (keeps_objects held) (create_json os s key d)"
  unfolding steps_along_def
proof
  fix w assume l: "object_store_laws os held" "plain_bucket s"
  show "keeps_objects held w (snd (create_json os s key d w))"
  proof (cases "object_uri s key")
    case (Inr u)
    then show ?thesis
      using laws_create(1) [OF l Inr, of d w "fst (create_json os s key d w)" "snd (create_json os s key d w)"]
      by (auto simp: keeps_objects_def)
  qed (simp add: create_json_def)
qed

text \<open>A store as a map, to show the laws can hold: no call fails.\<close>

definition map_store :: "(string \<Rightarrow> string option) object_store" where
  "map_store =
     \<lparr> os_read = (\<lambda>u w. (Inr (w u), w)), os_write = (\<lambda>u d w. (True, w(u \<mapsto> d))),
       os_create = (\<lambda>b n d w. if w (object_at b n) = None then (Created, w(object_at b n \<mapsto> d)) else (Conflict, w)),
       json_dumps = py_str, json_loads = (\<lambda>t. Some (PDict [(''text'', PStr t)])) \<rparr>"

lemma map_store_laws: "object_store_laws map_store (\<lambda>w. w)"
  by (simp add: object_store_laws_def map_store_def)

section \<open>Properties\<close>


definition sample_store :: gcs_state_store where
  "sample_store = \<lparr> bucket = ''b'', prefix = ''p/'' \<rparr>"

definition echo_store :: "(string \<Rightarrow> string option) object_store" where
  "echo_store = map_store \<lparr> json_dumps := (\<lambda>v. case v of PDict [(k, PStr t)] \<Rightarrow> t | _ \<Rightarrow> []) \<rparr>"

lemma echo_store_laws: "object_store_laws echo_store (\<lambda>w. w)"
  by (simp add: object_store_laws_def map_store_def echo_store_def)

lemma sample_uri: "object_uri sample_store ''/k/'' = Inr ''gs://b/p/k''"
  by code_simp


definition unavailable_store :: "(string \<Rightarrow> string option) object_store" where
  "unavailable_store = map_store \<lparr> os_read := (\<lambda>u w. (Inl ''503 backend error, project 1404'', w)) \<rparr>"

text \<open>
  Property C25. \<open>read_json\<close> takes any error whose message contains \<open>404\<close> for a missing
  object: a failure that names, say, project 1404 is reported as \<open>None\<close>, "no state", and
  not as \<open>StatePersistenceError\<close>, although the object is there.
\<close>

theorem error_text_with_404_reads_as_missing:
  "fst (read_json unavailable_store sample_store ''k'' (Map.empty(''gs://b/p/k'' \<mapsto> ''{}''))) = Inr None
   \<and> fst (read_json map_store sample_store ''k'' (Map.empty(''gs://b/p/k'' \<mapsto> ''{}''))) = Inr (Some [(''text'', PStr ''{}'')])"
proof -
  have u: "object_uri sample_store ''k'' = Inr ''gs://b/p/k''" by code_simp
  have m: "says_missing ''503 backend error, project 1404''" by code_simp
  show ?thesis by (simp add: read_json_def u m unavailable_store_def map_store_def bindIO_def)
qed

end
