(* ===== verification/RunPersistence.thy ===== *)
theory RunPersistence
  imports StateStore OrderGuard
begin

text \<open>
  \<open>application/strategy_run_persistence.py\<close>: the keys of run states and submission claims,
  the state document, and the calls that read and write them. The stage vocabulary of
  \<open>quant_platform_kit\<close> and the ISO parser are parameters.
\<close>

section \<open>Times\<close>

record datetime =
  dt_year :: int
  dt_month :: int
  dt_day :: int
  dt_hour :: int
  dt_minute :: int
  dt_second :: int
  dt_micro :: int

definition pad_left :: "nat \<Rightarrow> int \<Rightarrow> string" where
  "pad_left n k = (let d = int_str k in replicate (n - length d) (CHR ''0'') @ d)"

text \<open>\<open>isoformat()\<close> of an aware UTC time.\<close>

definition isoformat :: "datetime \<Rightarrow> string" where
  "isoformat t = pad_left 4 (dt_year t) @ ''-'' @ pad_left 2 (dt_month t) @ ''-'' @ pad_left 2 (dt_day t)
     @ ''T'' @ pad_left 2 (dt_hour t) @ '':'' @ pad_left 2 (dt_minute t) @ '':'' @ pad_left 2 (dt_second t)
     @ (if dt_micro t = 0 then [] else ''.'' @ pad_left 6 (dt_micro t)) @ ''+00:00''"

definition stamp :: "datetime \<Rightarrow> string" where
  "stamp t = pad_left 4 (dt_year t) @ pad_left 2 (dt_month t) @ pad_left 2 (dt_day t) @ ''T''
     @ pad_left 2 (dt_hour t) @ pad_left 2 (dt_minute t) @ pad_left 2 (dt_second t) @ ''Z''"

definition date_path :: "datetime \<Rightarrow> string" where
  "date_path t = pad_left 4 (dt_year t) @ ''/'' @ pad_left 2 (dt_month t) @ ''/'' @ pad_left 2 (dt_day t)"

definition year_month :: "int \<Rightarrow> int \<Rightarrow> string" where
  "year_month y m = pad_left 4 y @ ''-'' @ pad_left 2 m"

section \<open>Parameters of the stage vocabulary\<close>

record stage_vocabulary =
  default_terminal_stages :: "string list"
  stage_no_action :: string
  is_terminal_stage :: "pyval \<Rightarrow> string list \<Rightarrow> bool"

definition live_terminal_stages :: "stage_vocabulary \<Rightarrow> string list" where
  "live_terminal_stages v = default_terminal_stages v @ [stage_no_action v]"

definition live_submission_claim_boundary :: string where
  "live_submission_claim_boundary = ''pre_broker_request_v2''"

section \<open>Keys\<close>

definition safe_key :: "string \<Rightarrow> string" where
  "safe_key v = (let t = map (\<lambda>c. if is_alnum c then c else CHR ''_'') v
                 in if t = [] then ''unknown'' else t)"

definition run_prefix :: "bool \<Rightarrow> string" where
  "run_prefix dry = (if dry then ''strategy-runs/dry-run'' else ''strategy-runs'')"

definition strategy_run_state_key :: "string \<Rightarrow> string \<Rightarrow> string \<Rightarrow> bool \<Rightarrow> string" where
  "strategy_run_state_key account profile period dry =
     run_prefix dry @ ''/'' @ safe_key account @ ''/'' @ safe_key profile @ ''/'' @ safe_key period @ ''/latest.json''"

definition strategy_run_history_key :: "string \<Rightarrow> string \<Rightarrow> string \<Rightarrow> string \<Rightarrow> datetime \<Rightarrow> bool \<Rightarrow> string" where
  "strategy_run_history_key account profile period stage now dry =
     run_prefix dry @ ''/'' @ safe_key account @ ''/'' @ safe_key profile @ ''/'' @ safe_key period
     @ ''/history/'' @ date_path now @ ''/'' @ stamp now @ ''-'' @ safe_key stage @ ''.json''"

definition strategy_run_claim_key :: "string \<Rightarrow> string \<Rightarrow> string \<Rightarrow> string" where
  "strategy_run_claim_key account profile period =
     ''strategy-runs/claims/'' @ safe_key account @ ''/'' @ safe_key profile @ ''/'' @ safe_key period @ ''.json''"

section \<open>JSON values\<close>

fun jsonable :: "pyval \<Rightarrow> pyval" where
  "jsonable (PFloat x) = (if is_fin x then PFloat x else PNone)"
| "jsonable (PList xs) = PList (map jsonable xs)"
| "jsonable (PDict d) = PDict (map (\<lambda>(k, v). (k, jsonable v)) d)"
| "jsonable v = v"

fun finite_json :: "pyval \<Rightarrow> bool" where
  "finite_json (PFloat x) = is_fin x"
| "finite_json (PList xs) = list_all finite_json xs"
| "finite_json (PDict d) = list_all (\<lambda>(k, v). finite_json v) d"
| "finite_json v = True"

section \<open>The period of a run\<close>

text \<open>
  \<open>from_iso\<close> is \<open>datetime.fromisoformat\<close> reduced to year and month; \<open>None\<close> is its
  \<open>ValueError\<close>.
\<close>

definition z_to_offset :: "string \<Rightarrow> string" where
  "z_to_offset s = concat (map (\<lambda>c. if c = CHR ''Z'' then ''+00:00'' else [c]) s)"

definition coerce_month_period :: "(string \<Rightarrow> (int \<times> int) option) \<Rightarrow> pyval \<Rightarrow> string option" where
  "coerce_month_period from_iso v =
     (if v = PNone then None
      else case from_iso (z_to_offset (py_str v)) of
             Some (y, m) \<Rightarrow> Some (year_month y m)
           | None \<Rightarrow> (let t = py_strip (py_str v) in
               if 7 \<le> length t \<and> t ! 4 = CHR ''-'' then Some (take 7 t) else None))"

definition resolve_strategy_run_period ::
  "(string \<Rightarrow> (int \<times> int) option) \<Rightarrow> datetime \<Rightarrow> pyval dict \<Rightarrow> pyval dict \<Rightarrow> string exc" where
  "resolve_strategy_run_period from_iso now plan metadata =
     bindE (dict_or (pget plan ''execution'')) (\<lambda>execution.
       Inr (case first_some (coerce_month_period from_iso)
                   [pget metadata ''snapshot_as_of'', pget execution ''signal_date'', pget execution ''effective_date''] of
              Some p \<Rightarrow> p
            | None \<Rightarrow> year_month (dt_year now) (dt_month now)))"

section \<open>Claims\<close>

definition claim_payload :: "string \<Rightarrow> string \<Rightarrow> string \<Rightarrow> datetime \<Rightarrow> pyval dict" where
  "claim_payload account profile period now =
     [(''stage'', PStr ''PENDING_SUBMISSION''),
      (''submission_claim_boundary'', PStr live_submission_claim_boundary),
      (''account'', PStr (mask_account_id account)),
      (''strategy_profile'', PStr profile),
      (''run_period'', PStr period),
      (''as_of'', PStr (isoformat now)),
      (''no_order_submitted'', PBool True)]"

definition claim_live_strategy_run ::
  "'w object_store \<Rightarrow> gcs_state_store \<Rightarrow> string \<Rightarrow> string \<Rightarrow> string \<Rightarrow> datetime \<Rightarrow> ('w, bool) io" where
  "claim_live_strategy_run os s account profile period now =
     create_json os s (strategy_run_claim_key account profile period) (claim_payload account profile period now)"

definition read_live_strategy_run_claim ::
  "'w object_store \<Rightarrow> gcs_state_store \<Rightarrow> string \<Rightarrow> string \<Rightarrow> string \<Rightarrow> ('w, pyval dict option) io" where
  "read_live_strategy_run_claim os s account profile period =
     read_json os s (strategy_run_claim_key account profile period)"

definition or_empty :: "pyval dict option \<Rightarrow> pyval dict" where
  "or_empty d = (case d of None \<Rightarrow> [] | Some x \<Rightarrow> x)"

definition has_effective_live_submission_claim :: "pyval dict option \<Rightarrow> bool" where
  "has_effective_live_submission_claim claim \<longleftrightarrow>
     py_strip (str_or (pget (or_empty claim) ''submission_claim_boundary'')) = live_submission_claim_boundary"

section \<open>Run states\<close>

definition read_latest_strategy_run_state ::
  "'w object_store \<Rightarrow> gcs_state_store \<Rightarrow> string \<Rightarrow> string \<Rightarrow> string \<Rightarrow> ('w, pyval dict option) io" where
  "read_latest_strategy_run_state os s account profile period =
     read_json os s (strategy_run_state_key account profile period False)"

definition is_duplicate_live_run :: "stage_vocabulary \<Rightarrow> pyval dict option \<Rightarrow> bool" where
  "is_duplicate_live_run v existing \<longleftrightarrow>
     or_empty existing \<noteq> []
     \<and> \<not> truthy (pget (or_empty existing) ''dry_run_only'')
     \<and> is_terminal_stage v (pget (or_empty existing) ''stage'') (live_terminal_stages v)"

record run_state_input =
  rs_stage :: string
  rs_account :: string
  rs_profile :: string
  rs_display_name :: string
  rs_period :: string
  rs_dry_run_only :: bool
  rs_live_trading_enabled :: bool
  rs_session_reused :: bool
  rs_portfolio :: "pyval dict"
  rs_metadata :: "pyval dict"
  rs_plan :: "pyval dict"
  rs_submitted :: "pyval list"
  rs_skipped :: "pyval list"
  rs_notes :: "pyval list"
  rs_action_done :: bool
  rs_broker_submission_done :: bool
  rs_execution_status :: string
  rs_orders_pending_count :: int
  rs_error :: string

definition build_strategy_run_state :: "run_state_input \<Rightarrow> datetime \<Rightarrow> pyval" where
  "build_strategy_run_state r now = jsonable (PDict (
     [(''stage'', PStr (rs_stage r)),
      (''as_of'', PStr (isoformat now)),
      (''account'', PStr (mask_account_id (rs_account r))),
      (''strategy_profile'', PStr (rs_profile r)),
      (''strategy_display_name'', PStr (rs_display_name r)),
      (''run_period'', PStr (rs_period r)),
      (''dry_run_only'', PBool (rs_dry_run_only r)),
      (''live_trading_enabled'', PBool (rs_live_trading_enabled r)),
      (''session_reused'', PBool (rs_session_reused r)),
      (''portfolio_snapshot'', PDict (rs_portfolio r)),
      (''evaluation_metadata'', PDict (rs_metadata r)),
      (''plan'', PDict (rs_plan r)),
      (''submitted_orders'', PList (rs_submitted r)),
      (''skipped_orders'', PList (rs_skipped r)),
      (''execution_notes'', PList (rs_notes r)),
      (''action_done'', PBool (rs_action_done r)),
      (''broker_submission_done'', PBool (rs_broker_submission_done r)),
      (''execution_status'', PStr (rs_execution_status r)),
      (''orders_pending_count'', PInt (max 0 (rs_orders_pending_count r)))]
     @ (if rs_error r = [] then [] else [(''error'', PStr (rs_error r))])))"

text \<open>\<open>storage_account\<close> overrides the masked account of the document.\<close>

definition str_or_else :: "pyval \<Rightarrow> string \<Rightarrow> string" where
  "str_or_else v z = py_str (py_or v (PStr z))"

definition persist_strategy_run_state ::
  "'w object_store \<Rightarrow> gcs_state_store \<Rightarrow> pyval dict \<Rightarrow> string option \<Rightarrow> datetime \<Rightarrow> ('w, bool) io" where
  "persist_strategy_run_state os s state storage_account now =
     (let account = (case storage_account of Some a \<Rightarrow> a | None \<Rightarrow> str_or_else (pget state ''account'') ''unknown'');
          profile = str_or_else (pget state ''strategy_profile'') ''unknown'';
          period = str_or_else (pget state ''run_period'') (year_month (dt_year now) (dt_month now));
          stage = str_or_else (pget state ''stage'') ''UNKNOWN'';
          dry = truthy (pget state ''dry_run_only'')
      in bindIO (write_json os s (strategy_run_state_key account profile period dry) state) (\<lambda>_.
         bindIO (write_json os s (strategy_run_history_key account profile period stage now dry) state) (\<lambda>_.
         returnIO True)))"

section \<open>Keys are kept apart\<close>

lemma safe_key_chars: "\<forall>c\<in>set (safe_key v). is_alnum c \<or> c = CHR ''_''"
proof -
  have "\<forall>c\<in>set ''unknown''. is_alnum c" by code_simp
  then show ?thesis by (auto simp: safe_key_def Let_def)
qed

lemma safe_key_no: "\<not> is_alnum c \<Longrightarrow> c \<noteq> CHR ''_'' \<Longrightarrow> c \<notin> set (safe_key v)"
  using safe_key_chars by blast

lemma slash_dash_not_alnum: "\<not> is_alnum (CHR ''/'')" "\<not> is_alnum (CHR ''-'')"
  by code_simp+

lemma safe_key_no_slash [simp]: "CHR ''/'' \<notin> set (safe_key v)"
  by (rule safe_key_no) (simp_all add: slash_dash_not_alnum)

lemma safe_key_no_dash [simp]: "CHR ''-'' \<notin> set (safe_key v)"
  by (rule safe_key_no) (simp_all add: slash_dash_not_alnum)

lemma safe_key_nonempty [simp]: "safe_key v \<noteq> []"
  by (simp add: safe_key_def Let_def)

text \<open>The segment before the first slash is unique.\<close>

lemma segment_eq:
  "c \<notin> set a \<Longrightarrow> c \<notin> set b \<Longrightarrow> a @ c # x = b @ c # y \<longleftrightarrow> a = b \<and> x = y"
proof (induction a arbitrary: b)
  case Nil then show ?case by (cases b) auto
next
  case (Cons d a) then show ?case by (cases b) auto
qed

lemma segment_last: "c \<notin> set a \<Longrightarrow> c \<notin> set b \<Longrightarrow> a @ c # x = b \<longleftrightarrow> False"
  by auto

lemma live_run_key_form:
  "strategy_run_state_key a p r False = ''strategy-runs/'' @ safe_key a @ CHR ''/'' # safe_key p @ CHR ''/'' # safe_key r @ ''/latest.json''"
  by (simp add: strategy_run_state_key_def run_prefix_def)

lemma state_key_inj:
  "strategy_run_state_key a p r d = strategy_run_state_key a' p' r' d \<longleftrightarrow>
   safe_key a = safe_key a' \<and> safe_key p = safe_key p' \<and> safe_key r = safe_key r'"
  by (auto simp: strategy_run_state_key_def segment_eq)

lemma claim_key_inj:
  "strategy_run_claim_key a p r = strategy_run_claim_key a' p' r' \<longleftrightarrow>
   safe_key a = safe_key a' \<and> safe_key p = safe_key p' \<and> safe_key r = safe_key r'"
  by (auto simp: strategy_run_claim_key_def segment_eq)

lemma jsonable_finite [simp]: "finite_json (jsonable v)"
  by (induction v rule: jsonable.induct) (auto simp: list_all_iff)

lemma jsonable_id: "finite_json v \<Longrightarrow> jsonable v = v"
  by (induction v rule: jsonable.induct) (auto simp: list_all_iff intro!: map_idI)

lemma claim_exclusive:
  assumes l: "object_store_laws os held" and b: "plain_bucket s"
    and c: "claim_live_strategy_run os s a p r now w = (Inr True, w1)"
    and k: "keeps_objects held w1 w2"
    and same: "strategy_run_claim_key a' p' r' = strategy_run_claim_key a p r"
  shows "fst (claim_live_strategy_run os s a' p' r' now' w2) \<noteq> Inr True"
proof -
  define key where "key = strategy_run_claim_key a p r"
  obtain u where u: "object_uri s key = Inr u"
    using c by (cases "object_uri s key") (auto simp: claim_live_strategy_run_def create_json_def key_def)
  have "held w1 u \<noteq> None"
    using laws_create(2) [OF l b u] c by (simp add: claim_live_strategy_run_def key_def)
  then have "held w2 u \<noteq> None" using k by (auto simp: keeps_objects_def)
  moreover obtain r2 w3 where r2: "create_json os s key (claim_payload a' p' r' now') w2 = (r2, w3)" by fastforce
  ultimately have "r2 \<noteq> Inr True" using laws_create(2) [OF l b u r2] by auto
  then show ?thesis using r2 by (simp add: claim_live_strategy_run_def same key_def [symmetric])
qed

section \<open>Properties\<close>

text \<open>
  A claim is granted once: after a run has obtained the claim of an account,
  profile and period, no later attempt under the same key is granted, whatever happens to
  the store in between short of deleting objects, and whichever process asks.
\<close>

theorem claim_granted_at_most_once:
  assumes "object_store_laws os held" "plain_bucket s"
    and "claim_live_strategy_run os s a p r now w = (Inr True, w1)"
    and "keeps_objects held w1 w2"
    and "strategy_run_claim_key a' p' r' = strategy_run_claim_key a p r"
  shows "fst (claim_live_strategy_run os s a' p' r' now' w2) \<noteq> Inr True"
  using assms by (rule claim_exclusive)

definition sample_time :: datetime where
  "sample_time = \<lparr> dt_year = 2026, dt_month = 3, dt_day = 2, dt_hour = 14, dt_minute = 5, dt_second = 9, dt_micro = 0 \<rparr>"

lemma sample_claim_uri:
  "object_uri sample_store (strategy_run_claim_key ''****5678'' ''soxl'' ''2026-03'')
   = Inr (object_at ''b'' ''p/strategy-runs/claims/____5678/soxl/2026_03.json'')"
  by code_simp

lemma sample_plain: "plain_bucket sample_store"
  by (simp add: plain_bucket_def sample_store_def)

theorem claim_granted_at_most_once_witness:
  "fst (claim_live_strategy_run map_store sample_store ''****5678'' ''soxl'' ''2026-03'' sample_time Map.empty) = Inr True
   \<and> fst (claim_live_strategy_run map_store sample_store ''****5678'' ''soxl'' ''2026-03'' sample_time
        (snd (claim_live_strategy_run map_store sample_store ''****5678'' ''soxl'' ''2026-03'' sample_time Map.empty)))
      \<noteq> Inr True"
proof -
  define c where "c = claim_live_strategy_run map_store sample_store ''****5678'' ''soxl'' ''2026-03'' sample_time"
  have "drop 5 (object_at ''b'' ''p/strategy-runs/claims/____5678/soxl/2026_03.json'') = ''b/p/strategy-runs/claims/____5678/soxl/2026_03.json''"
    by (simp add: object_at_def)
  moreover have "partition_at (CHR ''/'') ''b/p/strategy-runs/claims/____5678/soxl/2026_03.json''
      = (''b'', True, ''p/strategy-runs/claims/____5678/soxl/2026_03.json'')"
    by code_simp
  ultimately have "fst (c Map.empty) = Inr True"
    by (simp add: c_def claim_live_strategy_run_def create_json_def sample_claim_uri bindIO_def map_store_def)
  then obtain w1 where w1: "c Map.empty = (Inr True, w1)" by (cases "c Map.empty") auto
  have "fst (c w1) \<noteq> Inr True"
    unfolding c_def
    by (rule claim_granted_at_most_once [OF map_store_laws sample_plain w1 [unfolded c_def] keeps_objects_refl refl])
  with w1 show ?thesis by (simp add: c_def)
qed

text \<open>
  The claim key is built from the account masked to its last four
  characters, so two accounts of one profile that share them share the claim: the second
  account's run is refused for the whole period.
\<close>

theorem accounts_sharing_four_digits_share_claim:
  "strategy_run_claim_key (legacy_account_state_id ''11115678'') p r
   = strategy_run_claim_key (legacy_account_state_id ''22225678'') p r"
proof -
  have "legacy_account_state_id ''11115678'' = ''****5678''" "legacy_account_state_id ''22225678'' = ''****5678''"
    by code_simp+
  then show ?thesis by simp
qed

lemma dry_segment: "safe_key a @ CHR ''/'' # x \<noteq> ''dry-run/'' @ y"
proof
  assume "safe_key a @ CHR ''/'' # x = ''dry-run/'' @ y"
  then have "safe_key a = ''dry-run''" using segment_eq [of "CHR ''/''" "safe_key a" "''dry-run''" x y] by simp
  then show False using safe_key_no_dash [of a] by simp
qed

text \<open>
  Dry runs live apart: no state or history key of a dry run is a state,
  history or claim key of a live run, whatever the account, profile, period, stage and
  time.
\<close>

theorem dry_run_keys_are_apart:
  "{strategy_run_state_key a p r True, strategy_run_history_key a p r st t True}
   \<inter> {strategy_run_state_key a' p' r' False, strategy_run_history_key a' p' r' st' t' False,
      strategy_run_claim_key a' p' r'} = {}"
proof -
  have neq: "''dry-run/'' @ y \<noteq> safe_key b @ CHR ''/'' # x" for b x y using dry_segment [of b x y] by metis
  show ?thesis
    using neq by (auto simp: strategy_run_state_key_def strategy_run_history_key_def strategy_run_claim_key_def run_prefix_def)
qed

text \<open>
  Property C25. A stored state document is finite JSON whatever the strategy put in it:
  \<open>build_strategy_run_state\<close> replaces every infinite or not-a-number float, at any depth,
  and leaves finite documents alone; the pending count is never negative.
\<close>

theorem run_state_is_finite_json:
  "finite_json (build_strategy_run_state r now)
   \<and> (\<exists>d n. build_strategy_run_state r now = PDict d \<and> pget d ''stage'' = PStr (rs_stage r)
        \<and> pget d ''orders_pending_count'' = PInt n \<and> 0 \<le> n)"
proof
  show "finite_json (build_strategy_run_state r now)"
    unfolding build_strategy_run_state_def by (rule jsonable_finite)
  show "\<exists>d n. build_strategy_run_state r now = PDict d \<and> pget d ''stage'' = PStr (rs_stage r)
        \<and> pget d ''orders_pending_count'' = PInt n \<and> 0 \<le> n"
    by (simp add: build_strategy_run_state_def)
qed

end
