(* ===== verification/ExecTrace.thy ===== *)
theory ExecTrace
  imports ExecCycle
begin

text \<open>
  What a rebalancing cycle sends, and when. The ports of any environment are wrapped so
  that every call is written to a log; the locale \<open>order_gate\<close> states what a port must keep
  for the whole cycle to keep it, and is interpreted on the wrapped ports.
\<close>

section \<open>Specifications of computations\<close>

text \<open>From a world in \<open>P\<close>, a value ends in \<open>Q\<close> and an exception in \<open>E\<close>.\<close>

definition spec :: "('w \<Rightarrow> bool) \<Rightarrow> ('w, 'a) io \<Rightarrow> ('a \<Rightarrow> 'w \<Rightarrow> bool) \<Rightarrow> ('w \<Rightarrow> bool) \<Rightarrow> bool" where
  "spec P m Q E \<longleftrightarrow> (\<forall>w. P w \<longrightarrow> (case m w of (Inl e, w') \<Rightarrow> E w' | (Inr x, w') \<Rightarrow> Q x w'))"

lemma specI:
  "(\<And>w r w'. P w \<Longrightarrow> m w = (r, w') \<Longrightarrow> (case r of Inl e \<Rightarrow> E w' | Inr x \<Rightarrow> Q x w')) \<Longrightarrow> spec P m Q E"
  by (simp add: spec_def split: prod.split)

lemma specD:
  "spec P m Q E \<Longrightarrow> P w \<Longrightarrow> m w = (r, w') \<Longrightarrow> (case r of Inl e \<Rightarrow> E w' | Inr x \<Rightarrow> Q x w')"
  by (drule spec_def [THEN iffD1]) (drule spec, drule (1) mp, simp)

lemma spec_return: "(\<And>w. P w \<Longrightarrow> Q x w) \<Longrightarrow> spec P (returnIO x) Q E"
  by (simp add: spec_def returnIO_def)

lemma spec_raise: "(\<And>w. P w \<Longrightarrow> E w) \<Longrightarrow> spec P (raiseIO e) Q E"
  by (simp add: spec_def raiseIO_def)

lemma spec_bind:
  assumes "spec P m R E" "\<And>x. spec (R x) (f x) Q E" shows "spec P (bindIO m f) Q E"
proof (rule specI)
  fix w r w' assume w: "P w" and b: "bindIO m f w = (r, w')"
  obtain a w1 where m: "m w = (a, w1)" by fastforce
  show "case r of Inl e \<Rightarrow> E w' | Inr x \<Rightarrow> Q x w'"
  proof (cases a)
    case (Inl e) then show ?thesis using specD [OF assms(1) w m] b by (auto simp: bindIO_def m)
  next
    case (Inr x)
    then have "R x w1" "f x w1 = (r, w')" using specD [OF assms(1) w m] b by (auto simp: bindIO_def m)
    then show ?thesis using specD [OF assms(2)] by blast
  qed
qed

lemma spec_liftE_bind:
  "(\<And>w. P w \<Longrightarrow> E w) \<Longrightarrow> (\<And>x. r = Inr x \<Longrightarrow> spec P (f x) Q E) \<Longrightarrow> spec P (bindIO (liftE r) f) Q E"
  by (cases r) (auto intro: spec_raise)

lemma spec_liftE:
  "(\<And>w. P w \<Longrightarrow> E w) \<Longrightarrow> (\<And>x w. r = Inr x \<Longrightarrow> P w \<Longrightarrow> Q x w) \<Longrightarrow> spec P (liftE r) Q E"
  by (cases r) (auto intro: spec_raise spec_return)

lemma spec_pre: "spec P m Q E \<Longrightarrow> (\<And>w. P' w \<Longrightarrow> P w) \<Longrightarrow> spec P' m Q E"
  by (simp add: spec_def)

lemma spec_snd: "spec P m (\<lambda>_. Q) Q \<Longrightarrow> P w \<Longrightarrow> Q (snd (m w))"
  using specD [of P m "\<lambda>_. Q" Q w "fst (m w)" "snd (m w)"] by (auto split: sum.splits)

section \<open>The interface of an order gate\<close>

text \<open>
  \<open>Inv\<close> holds throughout a cycle; \<open>Clear\<close> says that sending is not yet forbidden, \<open>Go\<close>
  that the claim is held. Quotes, claims and the release check keep \<open>Inv\<close> and \<open>Clear\<close>; a
  granted claim gives \<open>Go\<close>; a submission keeps \<open>Inv\<close> when sent in \<open>Clear\<close> and \<open>Go\<close>, and
  leaves the gate clear when its outcome is known.
\<close>

locale order_gate =
  fixes ports :: "'w exec_ports" and dry :: bool
    and Inv :: "'w \<Rightarrow> bool" and Clear :: "'w \<Rightarrow> bool" and Go :: "'w \<Rightarrow> bool"
  assumes quote_keeps: "Inv w \<Longrightarrow> get_quote ports s w = (r, w') \<Longrightarrow> Inv w' \<and> (Clear w \<longrightarrow> Clear w')"
    and release_keeps: "Inv w \<Longrightarrow> confirmed_sell_release ports os w = (r', w') \<Longrightarrow> Inv w' \<and> (Clear w \<longrightarrow> Clear w')"
    and claim_keeps: "\<not> dry \<Longrightarrow> before_live_submission ports = Some m \<Longrightarrow> Inv w \<Longrightarrow> m w = (rb, w') \<Longrightarrow>
       Inv w' \<and> (Clear w \<longrightarrow> Clear w') \<and> (rb = Inr True \<longrightarrow> Go w')"
    and dry_go: "dry \<Longrightarrow> Inv w \<Longrightarrow> Go w"
    and submit_keeps: "Inv w \<Longrightarrow> Clear w \<Longrightarrow> Go w \<Longrightarrow> submit_port ports i w = (rr, w') \<Longrightarrow>
       Inv w' \<and> (\<forall>p. rr = Inr p \<longrightarrow> alnum_lower (py_strip (p_status p)) \<in> insert ''rejected'' (set accepted_order_statuses)
                     \<longrightarrow> Clear w')"
begin

abbreviation Ready :: "'w \<Rightarrow> bool" where
  "Ready w \<equiv> Inv w \<and> Clear w"

definition Settled :: "cycle_result outcome \<Rightarrow> 'w \<Rightarrow> bool" where
  "Settled r w \<longleftrightarrow> Inv w \<and> (\<forall>c. r = Continue c \<longrightarrow> Clear w)"

lemma may_submit: "spec Ready (may_submit_live_order ports dry) (\<lambda>ok w. Ready w \<and> (ok \<longrightarrow> Go w)) Inv"
proof (cases dry)
  case True
  then show ?thesis by (auto simp: may_submit_live_order_def intro!: spec_return dry_go)
next
  case False
  show ?thesis
  proof (cases "before_live_submission ports")
    case None
    then show ?thesis using False by (auto simp: may_submit_live_order_def intro!: spec_raise)
  next
    case (Some m)
    then show ?thesis
      using False claim_keeps [OF False Some]
      by (auto simp: may_submit_live_order_def intro!: specI split: sum.splits)
  qed
qed

lemma submit_spec:
  "spec (\<lambda>w. Ready w \<and> Go w) (submit_port ports i)
     (\<lambda>p w. Inv w \<and> (alnum_lower (py_strip (p_status p)) \<in> insert ''rejected'' (set accepted_order_statuses) \<longrightarrow> Clear w)) Inv"
proof (rule specI)
  fix w r w' assume "Ready w \<and> Go w" "submit_port ports i w = (r, w')"
  then show "case r of Inl e \<Rightarrow> Inv w' | Inr p \<Rightarrow> Inv w'
      \<and> (alnum_lower (py_strip (p_status p)) \<in> insert ''rejected'' (set accepted_order_statuses) \<longrightarrow> Clear w')"
    using submit_keeps [of w i r w'] by (cases r) auto
qed

definition Known :: "order_row \<Rightarrow> 'w \<Rightarrow> bool" where
  "Known o1 w \<longleftrightarrow> Inv w \<and> (\<not> order_submission_unknown o1 \<longrightarrow> Clear w)"

lemma submit_order_spec:
  "spec (\<lambda>w. Ready w \<and> Go w) (submit_order ports s side q lp m) Known Inv"
  unfolding submit_order_def
  by (rule spec_liftE_bind, simp, rule spec_bind [OF submit_spec], rule spec_return)
     (auto simp: Known_def order_submission_unknown_def normal_status_def)

lemma submit_notional_spec:
  "spec (\<lambda>w. Ready w \<and> Go w) (submit_notional_buy_order ports s n m) Known Inv"
  unfolding submit_notional_buy_order_def
  by (rule spec_bind [OF submit_spec], rule spec_return)
     (auto simp: Known_def order_submission_unknown_def normal_status_def)

lemma settle_buy_spec: "spec (Known o1) (liftE (settle_buy b o1 v c)) Settled Inv"
  by (rule spec_liftE)
     (auto simp: settle_buy_def bindE_Inr_iff Settled_def Known_def Let_def split: prod.splits)

text \<open>The guarded part of a step: claim, send, settle.\<close>

lemma guarded_send:
  assumes "spec (\<lambda>w. Ready w \<and> Go w) send Known Inv"
    and "\<And>o1. spec (Known o1) (settle o1) Settled Inv"
  shows "spec Ready (bindIO (may_submit_live_order ports dry) (\<lambda>may.
           if \<not> may then returnIO (Stop res) else bindIO send settle)) Settled Inv"
proof (rule spec_bind [OF may_submit])
  fix may
  show "spec (\<lambda>w. Ready w \<and> (may \<longrightarrow> Go w)) (if \<not> may then returnIO (Stop res) else bindIO send settle) Settled Inv"
    using assms by (cases may) (auto intro!: spec_return spec_bind simp: Settled_def)
qed

lemma continue_spec: "spec Ready (returnIO (Continue c)) Settled Inv"
  by (auto intro!: spec_return simp: Settled_def)

lemma sell_step_spec:
  assumes "x_dry_run_only x = dry" shows "spec Ready (sell_step ports x b d c) Settled Inv"
proof -
  obtain s v p where d: "d = (s, v, p)" by (cases d) auto
  have settle: "spec (Known o1) (bindIO (liftE (record_order_result o1 c')) (\<lambda>(accepted, c1).
       let c2 = (if accepted then c1 \<lparr> c_sell_orders := c_sell_orders c1 @ [o1], c_sell_submitted := True \<rparr> else c1)
       in returnIO (if order_submission_unknown o1 then Stop (unknown_submission_result b c2) else Continue c2))) Settled Inv" for o1 c'
    by (rule spec_liftE_bind) (auto simp: Known_def Settled_def Let_def intro!: spec_return split: prod.splits)
  show ?thesis
    unfolding sell_step_def d prod.case assms
    by (rule spec_liftE_bind, simp)
       (auto intro!: continue_spec guarded_send submit_order_spec settle simp del: not_le)
qed

lemma notional_buy_step_spec:
  assumes "x_dry_run_only x = dry" shows "spec Ready (notional_buy_step ports x b d c) Settled Inv"
proof -
  obtain s v p where d: "d = (s, v, p)" by (cases d) auto
  show ?thesis
    unfolding notional_buy_step_def d prod.case assms
    by (rule spec_liftE_bind, simp)
       (auto intro!: continue_spec guarded_send submit_notional_spec settle_buy_spec)
qed

lemma share_buy_step_spec:
  assumes "x_dry_run_only x = dry" shows "spec Ready (share_buy_step ports x b d c) Settled Inv"
proof -
  obtain s v p where d: "d = (s, v, p)" by (cases d) auto
  have settle: "spec (Known o1) (bindIO (liftE (float_of_int q)) (\<lambda>f. liftE (settle_buy b o1 (f * lp) c))) Settled Inv" for o1 q lp
    by (rule spec_liftE_bind) (auto simp: Known_def intro!: settle_buy_spec)
  show ?thesis
    unfolding share_buy_step_def d prod.case assms
    by (rule spec_liftE_bind, simp, rule spec_liftE_bind, simp)
       (auto intro!: continue_spec guarded_send submit_order_spec settle)
qed

lemma buy_step_spec:
  "x_dry_run_only x = dry \<Longrightarrow> spec Ready (buy_step ports x b d c) Settled Inv"
  by (simp add: buy_step_def notional_buy_step_spec share_buy_step_spec)

lemma run_steps_spec:
  assumes "\<And>d c. spec Ready (step d c) Settled Inv"
  shows "spec Ready (run_steps step ds c) Settled Inv"
proof (induction ds arbitrary: c)
  case Nil
  show ?case unfolding run_steps.simps by (rule continue_spec)
next
  case (Cons d ds)
  have k: "spec (Settled r) (case r of Stop res \<Rightarrow> returnIO (Stop res) | Continue c' \<Rightarrow> run_steps step ds c') Settled Inv" for r
  proof (cases r)
    case (Continue c')
    show ?thesis unfolding Continue outcome.case by (rule spec_pre [OF Cons.IH]) (simp add: Settled_def)
  qed (auto intro!: spec_return simp: Settled_def)
  show ?case unfolding run_steps.simps by (rule spec_bind [OF assms k])
qed

lemma tradable_deltas_keeps:
  "Ready w \<Longrightarrow> tradable_deltas ports b ss d w = (d', w') \<Longrightarrow> Ready w'"
proof (induction ss arbitrary: d w)
  case (Cons s ss)
  show ?case
  proof (cases "fabs (delta_of b s) < b_threshold b")
    case True
    then show ?thesis using Cons by simp
  next
    case False
    obtain q w1 where q: "quote_price (get_quote ports) s w = (q, w1)" by fastforce
    then obtain r where "get_quote ports s w = (r, w1)" by (auto simp: quote_price_def split: prod.splits)
    then have "Ready w1" using Cons.prems(1) quote_keeps by blast
    then show ?thesis using False q Cons by (cases q) auto
  qed
qed simp

lemma quote_prices_keeps:
  "Ready w \<Longrightarrow> quote_prices (get_quote ports) ss w ps = (ps', w') \<Longrightarrow> Ready w'"
proof (induction ss arbitrary: ps w)
  case (Cons s ss)
  obtain q w1 where q: "quote_price (get_quote ports) (norm_symbol s) w = (q, w1)" by fastforce
  then obtain r where "get_quote ports (norm_symbol s) w = (r, w1)" by (auto simp: quote_price_def split: prod.splits)
  then have "Ready w1" using Cons.prems(1) quote_keeps by blast
  then show ?case using q Cons by auto
qed simp

lemma compatibility_spec:
  "spec Ready (apply_small_account_whole_share_compatibility k (get_quote ports) prem prem_by plan) (\<lambda>_. Ready) Inv"
proof -
  have q: "spec Ready (\<lambda>w. case quote_prices (get_quote ports) ss w [] of (p, w') \<Rightarrow> (Inr p, w')) (\<lambda>_. Ready) Inv" for ss
  proof (rule specI)
    fix w r w'
    assume w: "Ready w" and e: "(case quote_prices (get_quote ports) ss w [] of (p, w') \<Rightarrow> (Inr p, w')) = (r, w')"
    obtain p w1 where p: "quote_prices (get_quote ports) ss w [] = (p, w1)" by fastforce
    with e have "r = Inr p" "w' = w1" by auto
    then show "case r of Inl e \<Rightarrow> Inv w' | Inr x \<Rightarrow> Ready w'" using quote_prices_keeps [OF w p] by simp
  qed
  show ?thesis
    unfolding apply_small_account_whole_share_compatibility_def
    apply (rule spec_liftE_bind, erule conjunct1)+
    apply (rule spec_bind [OF q])
    apply (rule spec_liftE, erule conjunct1)
    apply assumption
    done
qed

lemma execute_book_spec:
  assumes "x_dry_run_only x = dry"
  shows "spec Ready (execute_book ports drift x ref b) (\<lambda>_. Inv) Inv"
proof -
  have buy: "spec Ready (buy_phase ports x b d c) Settled Inv" for d c
  proof -
    have rel: "spec Ready (confirmed_sell_release ports os) (\<lambda>_. Ready) Inv" for os
      using release_keeps by (auto intro!: specI split: sum.splits)
    show ?thesis
      unfolding buy_phase_def
      by (rule spec_bind [OF rel], rule spec_liftE_bind)
         (auto intro!: run_steps_spec buy_step_spec [OF assms] split: prod.splits)
  qed
  have stop: "spec (Settled r) (then_continue r f) (\<lambda>_. Inv) Inv"
    if "\<And>c. spec Ready (f c) (\<lambda>_. Inv) Inv" for r and f :: "cycle \<Rightarrow> ('w, cycle_result) io"
  proof (cases r)
    case (Continue c)
    show ?thesis
      unfolding Continue then_continue_def outcome.case by (rule spec_pre [OF that]) (simp add: Settled_def)
  qed (auto simp: then_continue_def Settled_def intro!: spec_return)
  have fin: "spec Ready (liftE r) (\<lambda>_. Inv) Inv" for r :: "cycle_result exc"
    by (rule spec_liftE) auto
  have rest: "spec Ready (bindIO (sell_phase ports x b d) (\<lambda>r. then_continue r (\<lambda>c.
          bindIO (buy_phase ports x b d c) (\<lambda>r2.
          then_continue r2 (\<lambda>c2. liftE (finish_cycle drift ref b (d_prices d) c2)))))) (\<lambda>_. Inv) Inv" for d
    unfolding sell_phase_def
    by (intro spec_bind [OF run_steps_spec] sell_step_spec [OF assms] stop spec_bind [OF buy] fin)
  show ?thesis
  proof (rule specI)
    fix w r w2 assume w: "Ready w" and e: "execute_book ports drift x ref b w = (r, w2)"
    obtain d w' where d: "tradable_deltas ports b (plan_symbols b) \<lparr> d_skipped = [], d_prices = [], d_deltas = [] \<rparr> w = (d, w')"
      by fastforce
    then have "Ready w'" using tradable_deltas_keeps [OF w] by blast
    then show "case r of Inl e \<Rightarrow> Inv w2 | Inr _ \<Rightarrow> Inv w2"
      using specD [OF rest [of d]] e unfolding execute_book_def d prod.case by blast
  qed
qed

lemma execute_spec:
  assumes "x_dry_run_only x = dry"
  shows "spec Ready (execute_value_target_plan k ports drift x plan) (\<lambda>_. Inv) Inv"
  unfolding execute_value_target_plan_def
  by (intro spec_liftE_bind; (intro spec_bind [where R = "\<lambda>_. Ready"] spec_liftE_bind execute_book_spec [OF assms])?)
     (auto intro!: compatibility_spec spec_return)

end

section \<open>Logged ports\<close>

text \<open>Any ports, with a log of what is asked of them. A submission that raises has no report.\<close>

datatype event =
    Quoted string
  | ClaimAnswered bool
  | OrderSent order_intent "order_report option"
  | ReleaseChecked

definition logged :: "('a exc \<Rightarrow> event) \<Rightarrow> ('w, 'a) io \<Rightarrow> ('w \<times> event list, 'a) io" where
  "logged ev m s = (case m (fst s) of (r, w') \<Rightarrow> (r, (w', snd s @ [ev r])))"

definition logged_ports :: "'w exec_ports \<Rightarrow> ('w \<times> event list) exec_ports" where
  "logged_ports base =
     \<lparr> get_quote = (\<lambda>s. logged (\<lambda>_. Quoted s) (get_quote base s)),
       submit_port = (\<lambda>i. logged (\<lambda>r. OrderSent i (case r of Inl _ \<Rightarrow> None | Inr p \<Rightarrow> Some p)) (submit_port base i)),
       before_live_submission = map_option (logged (\<lambda>r. ClaimAnswered (r = Inr True))) (before_live_submission base),
       confirmed_sell_release = (\<lambda>os. logged (\<lambda>_. ReleaseChecked) (confirmed_sell_release base os)) \<rparr>"

text \<open>An event after which sending may go on: not a submission without a known outcome.\<close>

fun known_outcome :: "event \<Rightarrow> bool" where
  "known_outcome (OrderSent i None) = False"
| "known_outcome (OrderSent i (Some p)) =
     (alnum_lower (py_strip (p_status p)) \<in> insert ''rejected'' (set accepted_order_statuses))"
| "known_outcome e = True"

fun is_claim :: "event \<Rightarrow> bool" where
  "is_claim (ClaimAnswered _) = True"
| "is_claim _ = False"

fun is_sent :: "event \<Rightarrow> bool" where
  "is_sent (OrderSent _ _) = True"
| "is_sent _ = False"

text \<open>
  An orderly log: each submission comes, in a live run, after a granted claim, and never
  after a submission that raised or whose outcome is unknown; a dry run asks for no claim.
\<close>

definition may_send :: "bool \<Rightarrow> event list \<Rightarrow> bool" where
  "may_send dry past \<longleftrightarrow> (dry \<or> ClaimAnswered True \<in> set past) \<and> list_all known_outcome past"

definition orderly :: "bool \<Rightarrow> event list \<Rightarrow> bool" where
  "orderly dry evs \<longleftrightarrow>
     list_all (\<lambda>n. is_sent (evs ! n) \<longrightarrow> may_send dry (take n evs)) [0..<length evs]
     \<and> (dry \<longrightarrow> \<not> list_ex is_claim evs)"

lemma orderly_Nil [simp]: "orderly dry []"
  by (simp add: orderly_def)

lemma orderly_snoc:
  "orderly dry (evs @ [e]) \<longleftrightarrow>
     orderly dry evs \<and> (is_sent e \<longrightarrow> may_send dry evs) \<and> \<not> (dry \<and> is_claim e)"
  by (auto simp: orderly_def list_all_iff nth_append)

lemma orderly_split:
  "orderly dry (a @ OrderSent i r # b) \<Longrightarrow> may_send dry a"
proof -
  assume o1: "orderly dry (a @ OrderSent i r # b)"
  have "length a \<in> set [0..<length (a @ OrderSent i r # b)]" by simp
  with o1 show ?thesis unfolding orderly_def list_all_iff by fastforce
qed

definition Orderly :: "bool \<Rightarrow> 'w \<times> event list \<Rightarrow> bool" where
  "Orderly dry s \<longleftrightarrow> orderly dry (snd s)"

definition AllKnown :: "'w \<times> event list \<Rightarrow> bool" where
  "AllKnown s \<longleftrightarrow> list_all known_outcome (snd s)"

definition Claimed :: "bool \<Rightarrow> 'w \<times> event list \<Rightarrow> bool" where
  "Claimed dry s \<longleftrightarrow> dry \<or> ClaimAnswered True \<in> set (snd s)"

interpretation logged: order_gate "logged_ports base" dry "Orderly dry" AllKnown "Claimed dry"
  for base :: "'w exec_ports" and dry
proof
  show "dry \<Longrightarrow> Orderly dry w \<Longrightarrow> Claimed dry w" for w :: "'w \<times> event list"
    by (simp add: Claimed_def)
qed (auto simp: logged_ports_def logged_def Orderly_def AllKnown_def Claimed_def orderly_snoc may_send_def
      split: prod.splits)

section \<open>Properties\<close>

text \<open>
  Property C2. Orders follow the claim. In every run of a rebalancing cycle, on any ports
  and plan, each order of a live run is sent only after the durable submission claim was
  granted; no order is sent after one that raised or whose outcome is unknown; and a dry
  run never asks for a claim.
\<close>

theorem orders_follow_the_claim:
  "orderly (x_dry_run_only x)
     (snd (snd (execute_value_target_plan k (logged_ports base) drift x plan (w, []))))"
proof -
  have "Orderly (x_dry_run_only x) (snd (execute_value_target_plan k (logged_ports base) drift x plan (w, [])))"
    by (rule spec_snd [OF logged.execute_spec [OF refl]]) (simp add: Orderly_def AllKnown_def)
  then show ?thesis by (simp add: Orderly_def)
qed

section \<open>The result tells the truth\<close>

text \<open>
  A result is sound when "done" means that orders were sent, every one of them is
  previewed or filled, and nothing is pending or blocked; and when an order without a
  known outcome makes the result pending.
\<close>

definition sound_result :: "cycle_result \<Rightarrow> bool" where
  "sound_result res \<longleftrightarrow>
     (action_done res \<longrightarrow> submitted_orders res \<noteq> [] \<and> \<not> pending_reconciliation res \<and> \<not> idempotency_blocked res
        \<and> list_all (\<lambda>o1. normal_status o1 \<in> set completed_statuses) (submitted_orders res))
     \<and> (idempotency_blocked res \<longrightarrow> \<not> pending_reconciliation res)"

definition sound_outcome :: "cycle_result outcome \<Rightarrow> 'w \<Rightarrow> bool" where
  "sound_outcome r w \<longleftrightarrow> (case r of Stop res \<Rightarrow> sound_result res | Continue _ \<Rightarrow> True)"

lemma sound_stops [simp]:
  "sound_result (unknown_submission_result b c)" "sound_result (submission_claim_unavailable b s c)"
  by (simp_all add: sound_result_def unknown_submission_result_def submission_claim_unavailable_def)

lemma sound_finish: "finish_cycle drift ref b ps c = Inr res \<Longrightarrow> sound_result res"
  by (auto simp: finish_cycle_def sound_result_def bindE_Inr_iff Let_def list_all_iff)

lemma spec_true: "spec P m (\<lambda>_ _. True) (\<lambda>_. True)"
  by (rule specI) (simp split: sum.splits)

lemma spec_bind_true: "(\<And>x. spec (\<lambda>_. True) (f x) Q (\<lambda>_. True)) \<Longrightarrow> spec (\<lambda>_. True) (bindIO m f) Q (\<lambda>_. True)"
  by (rule spec_bind [OF spec_true])

lemma sound_sell: "spec (\<lambda>_. True) (sell_step ports x b d c) sound_outcome (\<lambda>_. True)"
  by (cases d)
     (auto simp: sell_step_def sound_outcome_def Let_def intro!: spec_bind_true spec_return split: prod.splits)

lemma sound_settle: "spec (\<lambda>_. True) (liftE (settle_buy b o1 v c)) sound_outcome (\<lambda>_. True)"
  by (rule spec_liftE) (auto simp: settle_buy_def bindE_Inr_iff sound_outcome_def Let_def split: prod.splits)

lemma sound_buy: "spec (\<lambda>_. True) (buy_step ports x b d c) sound_outcome (\<lambda>_. True)"
  by (cases d)
     (auto simp: buy_step_def notional_buy_step_def share_buy_step_def sound_outcome_def
        intro!: spec_bind_true spec_return sound_settle)

lemma sound_run_steps:
  assumes "\<And>d c. spec (\<lambda>_. True) (step d c) sound_outcome (\<lambda>_. True)"
  shows "spec (\<lambda>_. True) (run_steps step ds c) sound_outcome (\<lambda>_. True)"
proof (induction ds arbitrary: c)
  case Nil
  show ?case unfolding run_steps.simps by (rule spec_return) (simp add: sound_outcome_def)
next
  case (Cons d ds)
  have "spec (sound_outcome r) (case r of Stop res \<Rightarrow> returnIO (Stop res) | Continue c' \<Rightarrow> run_steps step ds c')
          sound_outcome (\<lambda>_. True)" for r
  proof (cases r)
    case (Continue c')
    show ?thesis unfolding Continue outcome.case by (rule spec_pre [OF Cons.IH]) simp
  qed (auto simp: sound_outcome_def intro!: spec_return)
  then show ?case unfolding run_steps.simps by (rule spec_bind [OF assms])
qed

lemma sound_then_continue:
  "(\<And>c. spec (\<lambda>_. True) (f c) (\<lambda>res _. sound_result res) (\<lambda>_. True)) \<Longrightarrow>
   spec (sound_outcome r) (then_continue r f) (\<lambda>res _. sound_result res) (\<lambda>_. True)"
proof (cases r)
  case (Continue c)
  assume f: "\<And>c. spec (\<lambda>_. True) (f c) (\<lambda>res _. sound_result res) (\<lambda>_. True)"
  show ?thesis unfolding Continue then_continue_def outcome.case by (rule spec_pre [OF f]) simp
qed (auto simp: then_continue_def sound_outcome_def intro!: spec_return)

lemma sound_execute_book:
  "spec (\<lambda>_. True) (execute_book ports drift x ref b) (\<lambda>res _. sound_result res) (\<lambda>_. True)"
proof -
  have fin: "spec (\<lambda>_. True) (liftE (finish_cycle drift ref b ps c)) (\<lambda>res _. sound_result res) (\<lambda>_. True)" for ps c
    by (rule spec_liftE) (auto intro: sound_finish)
  have buy: "spec (\<lambda>_. True) (buy_phase ports x b d c) sound_outcome (\<lambda>_. True)" for d c
    unfolding buy_phase_def
    by (intro spec_bind_true) (auto intro!: sound_run_steps sound_buy split: prod.splits)
  have rest: "spec (\<lambda>_. True) (bindIO (sell_phase ports x b d) (\<lambda>r. then_continue r (\<lambda>c.
          bindIO (buy_phase ports x b d c) (\<lambda>r2.
          then_continue r2 (\<lambda>c2. liftE (finish_cycle drift ref b (d_prices d) c2))))))
        (\<lambda>res _. sound_result res) (\<lambda>_. True)" for d
    unfolding sell_phase_def
    by (intro spec_bind [OF sound_run_steps] sound_sell sound_then_continue spec_bind [OF buy] fin)
  show ?thesis
  proof (rule specI)
    fix w r w2 assume e: "execute_book ports drift x ref b w = (r, w2)"
    obtain d w' where d: "tradable_deltas ports b (plan_symbols b) \<lparr> d_skipped = [], d_prices = [], d_deltas = [] \<rparr> w = (d, w')"
      by fastforce
    show "case r of Inl e \<Rightarrow> True | Inr res \<Rightarrow> sound_result res"
      using specD [OF rest [of d] TrueI] e unfolding execute_book_def d prod.case by blast
  qed
qed

text \<open>
  Property C18. A cycle never claims too much: whichever way \<open>execute_value_target_plan\<close>
  returns, \<open>action_done\<close> holds only if orders were sent, all of them are previewed or
  filled, and the result is neither pending reconciliation nor blocked as a duplicate.
\<close>

theorem action_done_is_true:
  assumes "execute_value_target_plan k ports drift x plan w = (Inr res, w')" "action_done res"
  shows "submitted_orders res \<noteq> [] \<and> \<not> pending_reconciliation res \<and> \<not> idempotency_blocked res
    \<and> list_all (\<lambda>o1. normal_status o1 \<in> {''previewed'', ''filled''}) (submitted_orders res)"
proof -
  have "spec (\<lambda>_. True) (execute_value_target_plan k ports drift x plan) (\<lambda>res _. sound_result res) (\<lambda>_. True)"
    unfolding execute_value_target_plan_def by (intro spec_bind_true sound_execute_book)
  from specD [OF this TrueI assms(1)] have "sound_result res" by simp
  with assms(2) show ?thesis by (simp add: sound_result_def completed_statuses_def)
qed

end
