(* ===== verification/ExecBudget.thy ===== *)
theory ExecBudget
  imports ExecTrace
begin

text \<open>
  What a cycle may spend and sell: bounds on the quantities \<open>sell_step\<close> and
  \<open>share_buy_step\<close> send, in the rounded arithmetic the code computes with, and what its
  rounding does to full liquidations.
\<close>

section \<open>Bounds\<close>

definition at_most :: "pyfloat \<Rightarrow> rat \<Rightarrow> bool" where
  "at_most x c \<longleftrightarrow> x = NaN \<or> x \<le> Fin c"

lemma pmax_0_Fin [simp]: "pmax 0 (Fin q) = Fin (max 0 q)"
  by (simp add: pmax_def zero_Fin max_def)

lemma pmax_0_at_most: "at_most x c \<Longrightarrow> 0 \<le> c \<Longrightarrow> \<exists>q. pmax 0 x = Fin q \<and> 0 \<le> q \<and> q \<le> c"
  by (cases x) (auto simp: at_most_def pmax_def zero_Fin)

lemma at_most_pmin1: "at_most x c \<Longrightarrow> at_most (pmin x y) c"
  by (cases x; cases y) (auto simp: at_most_def pmin_def)

lemma at_most_pmin2: "at_most (pmin x (Fin c)) c"
  by (cases x) (auto simp: at_most_def pmin_def)

lemma floor_quantity_pos:
  assumes "pdiv (Fin b) (Fin p) = Inr x" "floor_quantity x = Inr n" "0 < n" "0 < p"
  shows "of_int n * p \<le> b * (1 + 1 / 2 ^ 53)"
proof -
  have "ptrunc x = Inr n" using assms(2,3) by (auto simp: floor_quantity_def bindE_Inr_iff max_def split: if_splits)
  then show ?thesis using trunc_quotient_cost [OF assms(4,1) _ assms(3)] by simp
qed

lemma planned_buy_cost:
  assumes n: "planned_buy_order_quantity t cur q bud pw (Fin lp) up = Inr n" "0 < n"
    and c: "0 \<le> c" "at_most bud c" "at_most pw c" and lp: "0 < lp"
  shows "of_int n * lp \<le> c * (1 + 1 / 2 ^ 53)"
proof -
  have p: "pmax 0 (Fin lp) = Fin lp" "\<not> Fin lp \<le> 0" using lp by simp_all
  obtain b1 where b1: "pmax 0 bud = Fin b1" "0 \<le> b1" "b1 \<le> c" using pmax_0_at_most [OF c(2,1)] by auto
  obtain w1 where w1: "pmax 0 pw = Fin w1" "w1 \<le> c" using pmax_0_at_most [OF c(3,1)] by auto
  obtain x m where x: "pdiv (Fin b1) (Fin lp) = Inr x" "floor_quantity x = Inr m"
    and r: "m = n \<or> (n = 1 \<and> \<not> Fin w1 < Fin lp)"
    using n by (auto simp: planned_buy_order_quantity_def Let_def p b1 w1 bindE_Inr_iff split: if_splits)
  have le: "b1 * (1 + 1 / 2 ^ 53) \<le> c * (1 + 1 / 2 ^ 53)" using b1 by (intro mult_right_mono) auto
  show ?thesis
  proof (cases "m = n")
    case True
    with floor_quantity_pos [OF x _ lp] n(2) le show ?thesis by simp
  next
    case False
    with r w1 have "n = 1" "lp \<le> c" by auto
    moreover have "c * 1 \<le> c * (1 + 1 / 2 ^ 53)" using c(1) by (intro mult_left_mono) auto
    ultimately show ?thesis by simp
  qed
qed

lemma buy_budget_at_most_cash: "at_most (buy_budget_of b v (Fin cash)) cash"
  by (auto simp: buy_budget_of_def Let_def intro: at_most_pmin1 at_most_pmin2 split: option.splits)

lemma buying_power_at_most_cash: "at_most (buying_power_of b (Fin cash)) cash"
  by (cases "b_cap b") (auto simp: buying_power_of_def at_most_def intro!: at_most_pmin1 [unfolded at_most_def])

lemma budget_at_most_cap:
  "b_cap b = Some (Fin cap) \<Longrightarrow> at_most (buy_budget_of b v cash) cap \<and> at_most (buying_power_of b cash) cap"
  by (simp add: buy_budget_of_def buying_power_of_def Let_def at_most_pmin2)

section \<open>Properties\<close>

text \<open>
  Property C21. A share buy costs at most the cash that is left, and at most the order cap
  when there is one, up to the single rounding of the quotient that computes its
  quantity; this covers the one-share top-up. The quantity is the one \<open>share_buy_step\<close>
  sends.
\<close>

theorem share_buy_within_cash_and_cap:
  assumes "planned_buy_order_quantity t cur q (buy_budget_of b v (Fin cash)) (buying_power_of b (Fin cash)) (Fin lp) up = Inr n"
    and "0 < n" "0 < lp" "0 \<le> cash"
  shows "of_int n * lp \<le> cash * (1 + 1 / 2 ^ 53)
    \<and> (\<forall>cap. b_cap b = Some (Fin cap) \<and> 0 \<le> cap \<longrightarrow> of_int n * lp \<le> cap * (1 + 1 / 2 ^ 53))"
  using planned_buy_cost [OF assms(1,2,4) buy_budget_at_most_cash buying_power_at_most_cash assms(3)]
    planned_buy_cost [OF assms(1,2) _ _ _ assms(3)] budget_at_most_cap [of b]
  by simp

definition sample_book :: book where
  "sample_book = \<lparr> b_targets = [(''A'', Fin 100)], b_market_values = [], b_sellable = [], b_quantities = [],
     b_threshold = Fin 0, b_base_cash = Fin 60, b_raw_cash = Fin 60, b_cap = Some (Fin 50), b_notes = [],
     b_total_value = PNone \<rparr>"

theorem share_buy_within_cash_and_cap_witness:
  "planned_buy_order_quantity (Fin 100) 0 0 (buy_budget_of sample_book (Fin 100) (Fin 60))
     (buying_power_of sample_book (Fin 60)) (Fin 10) False = Inr 5
   \<and> (5::rat) * 10 \<le> 60 * (1 + 1 / 2 ^ 53) \<and> (5::rat) * 10 \<le> 50 * (1 + 1 / 2 ^ 53)"
proof -
  have n: "planned_buy_order_quantity (Fin 100) 0 0 (buy_budget_of sample_book (Fin 100) (Fin 60))
     (buying_power_of sample_book (Fin 60)) (Fin 10) False = Inr 5"
    by code_simp
  have c: "b_cap sample_book = Some (Fin 50)" by (simp add: sample_book_def)
  show ?thesis
    using share_buy_within_cash_and_cap [OF n] n c by simp
qed

lemma sell_budget_at_most:
  assumes "0 < p" "0 \<le> s" "fl (s * p) = Fin n"
  shows "at_most (sell_budget v t (Fin s) (Fin p) cap) n"
proof -
  have f: "fl (max 0 s * max 0 p) = Fin n" using assms by (simp add: max_def)
  have n: "0 \<le> n" using fl_nonneg [of "s * p"] assms by (simp add: zero_Fin)
  have z: "at_most 0 n" using n by (simp add: at_most_def)
  show ?thesis
  proof (cases cap)
    case None
    then show ?thesis using z at_most_pmin2 by (simp add: sell_budget_def f Let_def)
  next
    case (Some c)
    then show ?thesis
      using z at_most_pmin1 [OF at_most_pmin2] by (simp add: sell_budget_def f Let_def)
  qed
qed

lemma trunc_below_half:
  assumes "0 \<le> s" "s < 2 ^ 50" "q \<le> of_int s + 1 / 2" "fl q = Fin r"
  shows "rtrunc r \<le> s"
proof -
  have "b64 q \<le> b64 (of_int (2 * s + 1) * 2 powi (- 1))"
    using assms(3) by (intro b64.rnd_mono) (simp add: power_int_minus field_simps)
  also have "\<dots> = of_int s + 1 / 2"
    using assms(1,2) by (subst b64_exact) (simp_all add: power_int_minus field_simps)
  finally have r: "r \<le> of_int s + 1 / 2" using fl_Fin [OF assms(4)] by simp
  show ?thesis
  proof (cases "0 \<le> r")
    case True
    have "\<lfloor>r\<rfloor> < s + 1" using r by (subst floor_less_iff) simp
    then show ?thesis using True by (simp add: rtrunc_def)
  next
    case False
    then have "0 \<le> \<lfloor>- r\<rfloor>" by simp
    moreover have "rtrunc r = - \<lfloor>- r\<rfloor>" using False by (simp only: rtrunc_def if_False)
    ultimately show ?thesis using assms(1) by linarith
  qed
qed

text \<open>
  Property C22. Selling closes at most the position: for a whole number of sellable shares
  below \<open>2 ^ 50\<close> and a price between a cent and \<open>2 ^ 50\<close>, the quantity \<open>sell_step\<close> computes is never
  more than the shares that may be sold, whatever the target, the delta and the cap.
\<close>

theorem sell_never_exceeds_position:
  assumes s: "0 \<le> s" "s < 2 ^ 50" and p: "1 / 100 \<le> p" "p \<le> 2 ^ 50"
    and q: "pdiv (sell_budget v t (Fin (of_int s)) (Fin p) cap) (Fin p) = Inr x" "floor_quantity x = Inr n"
  shows "n \<le> s"
proof (cases "0 < n")
  case False then show ?thesis using s by simp
next
  case n: True
  have p0: "0 < p" using p by simp
  have "of_int s * p \<le> 2 ^ 50 * 2 ^ 50" using s p p0 by (intro mult_mono) (simp_all add: of_int_le_iff [symmetric] del: of_int_le_iff)
  also have "(2::rat) ^ 50 * 2 ^ 50 = 2 powi 100" by simp
  finally have m: "fl (of_int s * p) = Fin (b64 (of_int s * p))"
    using s p0 by (intro fl_finite [of _ 100]) auto
  define m where "m = b64 (of_int s * p)"
  have bud: "at_most (sell_budget v t (Fin (of_int s)) (Fin p) cap) m"
    unfolding m_def by (rule sell_budget_at_most [OF p0 _ m]) (use s in simp)
  have tr: "ptrunc x = Inr n" using q(2) n by (auto simp: floor_quantity_def bindE_Inr_iff max_def split: if_splits)
  then obtain r where r: "x = Fin r" "n = rtrunc r" by (cases x) auto
  then obtain b where b: "sell_budget v t (Fin (of_int s)) (Fin p) cap = Fin b" "fl (b / p) = Fin r"
    using q(1) p0 by (cases "sell_budget v t (Fin (of_int s)) (Fin p) cap") (auto split: if_splits)
  have "b \<le> m" using bud b(1) by (simp add: at_most_def)
  have "m \<le> of_int s * p * (1 + 1 / 2 ^ 53)"
  proof (cases "s = 0")
    case False
    then have "1 / 100 \<le> of_int s * p" using s p mult_mono [of 1 "of_int s" "1 / 100" p] by simp
    then have "\<bar>m - of_int s * p\<bar> \<le> of_int s * p / 2 ^ 53"
      unfolding m_def using b64_error [of "of_int s * p"] by simp
    then have "m \<le> of_int s * p + of_int s * p / 2 ^ 53" by linarith
    then show ?thesis by (simp add: distrib_left mult_ac)
  qed (simp add: m_def)
  with \<open>b \<le> m\<close> have "b / p \<le> of_int s * (1 + 1 / 2 ^ 53)" using p0 by (simp add: divide_le_eq mult.commute mult.left_commute)
  also have "\<dots> \<le> of_int s + 1 / 2"
  proof -
    have "of_int s \<le> (2 ^ 50 :: rat)" using s by (metis less_imp_le of_int_le_iff of_int_numeral of_int_power)
    then show ?thesis by (simp add: distrib_left)
  qed
  finally show ?thesis using trunc_below_half [OF s _ b(2)] r by simp
qed

theorem sell_never_exceeds_position_witness:
  "bindE (pdiv (sell_budget (Fin (- 30)) 0 (Fin (of_int 3)) (Fin 10) None) (Fin 10)) floor_quantity = Inr 3 \<and> (3::int) \<le> 3"
proof -
  have "pdiv (sell_budget (Fin (- 30)) 0 (Fin (of_int 3)) (Fin 10) None) (Fin 10) = Inr (Fin 3)"
    "floor_quantity (Fin 3) = Inr 3"
    by code_simp+
  then show ?thesis using sell_never_exceeds_position [of 3 10 "Fin (- 30)" 0 None "Fin 3" 3] by simp
qed

text \<open>
  Property C17. Closing a position can leave a share behind. The quantity is
  \<open>int(shares * price / price)\<close> in floating point, and that quotient can round to just
  below the number of shares: of 3 shares at 10.70 dollars with target zero, 2 are sold.
\<close>

theorem full_exit_sells_one_share_less:
  "bindE (pdiv (sell_budget (- fl (321 / 10)) 0 (Fin 3) (fl (107 / 10)) None) (fl (107 / 10))) floor_quantity = Inr 2"
  by code_simp

text \<open>
  Property C18. An explicit investable cash of zero is not zero: \<open>read_book\<close> (and the code's
  \<open>or\<close>) takes the liquid cash of the portfolio instead, so a plan that reserved all its
  cash may spend all of it.
\<close>

theorem zero_investable_cash_spends_liquid_cash:
  "map_sum id b_base_cash
     (read_book [(''execution'', PDict [(''investable_cash'', PFloat 0), (''reserved_cash'', PFloat (Fin 500))]),
                 (''portfolio'', PDict [(''liquid_cash'', PFloat (Fin 500))])] None) = Inr (Fin 500)"
  by code_simp

section \<open>A cycle run to its end\<close>

text \<open>
  Fixed ports for evaluation: every quote is 10 dollars, every order is previewed, and the
  world counts the orders.
\<close>

definition preview_ports :: "nat exec_ports" where
  "preview_ports =
     \<lparr> get_quote = (\<lambda>s. returnIO (PFloat (Fin 10))),
       submit_port = (\<lambda>i w. (Inr \<lparr> p_symbol = i_symbol i, p_side = i_side i, p_quantity = i_quantity i,
          p_status = ''previewed'', p_broker_order_id = None, p_raw_payload = PDict [] \<rparr>, Suc w)),
       before_live_submission = None,
       confirmed_sell_release = (\<lambda>os. returnIO 0) \<rparr>"

definition preview_options :: exec_options where
  "preview_options =
     \<lparr> x_dry_run_only = True, x_limit_sell_discount = Fin 1, x_limit_buy_premium = PFloat (Fin 1),
       x_limit_buy_premium_by_symbol = PNone, x_max_order_notional_usd = None,
       x_safe_haven_threshold_usd = 0, x_cash_only_execution = True, x_notional_buy_execution = True \<rparr>"

definition empty_qpk :: qpk where
  "empty_qpk = \<lparr> retention_symbols = [], retention_ratio_default = [], bootstrap_ratio_default = [],
     cash_substitute_limit_usd = 0,
     cash_compatibility = (\<lambda>t p c h q l. Inr \<lparr> cr_targets = [], cr_substituted = [], cr_safe_haven_substituted = [], cr_notes = [] \<rparr>) \<rparr>"

definition preview_plan :: "pyval dict" where
  "preview_plan =
     [(''allocation'', PDict [(''targets'', PDict [(''A'', PFloat (Fin 100))])]),
      (''portfolio'', PDict [(''liquid_cash'', PFloat (Fin 1000))])]"

definition preview_run :: "cycle_result exc \<times> nat" where
  "preview_run = execute_value_target_plan empty_qpk preview_ports (\<lambda>_. Inr []) preview_options preview_plan 0"

lemma preview_run_done:
  "case preview_run of (Inl e, n) \<Rightarrow> False | (Inr res, n) \<Rightarrow> action_done res \<and> n = 1"
  by code_simp

theorem action_done_is_true_witness:
  "\<exists>res. fst preview_run = Inr res \<and> action_done res \<and> submitted_orders res \<noteq> []
     \<and> list_all (\<lambda>o1. normal_status o1 \<in> {''previewed'', ''filled''}) (submitted_orders res)"
proof -
  obtain a n where p: "preview_run = (a, n)" by fastforce
  obtain res where a: "a = Inr res" "action_done res" using preview_run_done by (cases a) (auto simp: p)
  have r: "preview_run = (Inr res, n)" "action_done res" using p a by simp_all
  have "fst preview_run = Inr res" by (simp only: r(1) fst_conv)
  with action_done_is_true [OF r(1) [unfolded preview_run_def] r(2)] r(2) show ?thesis by blast
qed

end
