(* ===== verification/RunCycle.thy ===== *)
theory RunCycle
  imports BrokerAdapters RunPersistence ExecBudget
begin

text \<open>
  \<open>run_strategy_cycle\<close> of \<open>application/rebalance_service.py\<close>: account selection, the
  duplicate check, the submission claim, the execution of the plan, the stored states and
  the published result. Strategy evaluation, the stage and funding vocabulary of
  \<open>quant_platform_kit\<close>, the notification classification and delivery are parameters.
\<close>

section \<open>Text of an exception\<close>

fun exc_text :: "pyexc \<Rightarrow> string" where
  "exc_text (TypeError m) = ''TypeError: '' @ m"
| "exc_text (ValueError m) = ''ValueError: '' @ m"
| "exc_text ZeroDivisionError = ''ZeroDivisionError: float division by zero''"
| "exc_text OverflowError = ''OverflowError: cannot convert float infinity to integer''"
| "exc_text (KeyError k) = ''KeyError: '' @ str_repr k"
| "exc_text IndexError = ''IndexError: list index out of range''"
| "exc_text (RuntimeError m) = ''RuntimeError: '' @ m"
| "exc_text (PlatformError m) = ''FirstradePlatformError: '' @ m"
| "exc_text (CredentialsError m) = ''FirstradeCredentialsError: '' @ m"
| "exc_text MfaRequired = ''FirstradeMfaRequired: Firstrade requested MFA. Set FIRSTRADE_MFA_CODE and retry this one validation run.''"
| "exc_text (SafetyError m) = ''FirstradeSafetyError: '' @ m"
| "exc_text (CachedSessionError _ _ _) = ''FirstradeCachedSessionError: Firstrade cached session unavailable.''"
| "exc_text (StatePersistenceError m) = ''StatePersistenceError: '' @ m"
| "exc_text (FeeScheduleError m) = ''FeeScheduleError: '' @ m"
| "exc_text (ReconciliationUnavailable m) = ''FirstradeReconciliationUnavailable: '' @ m"
| "exc_text (AccountFactsUnavailable m) = ''AccountFactsUnavailable: '' @ m"
| "exc_text (AccountFactsPublishError m) = ''AccountFactsPublishError: '' @ m"
| "exc_text (OtherException n m) = n @ '': '' @ m"

section \<open>Account of a run\<close>

text \<open>The selectors of the runtime target: \<open>None\<close> is no target.\<close>

definition selector_error :: string where
  "selector_error = ''Runtime target must declare exactly one Firstrade account selector.''"

definition mismatch_error :: string where
  "mismatch_error = ''Configured Firstrade account selector did not match the connected account list.''"

definition runtime_target_account_selector :: "pyval option \<Rightarrow> string option exc" where
  "runtime_target_account_selector target =
     (case target of None \<Rightarrow> Inr None
      | Some (PList [PStr s]) \<Rightarrow> (if py_strip s = [] then Inl (PlatformError selector_error) else Inr (Some (py_strip s)))
      | Some _ \<Rightarrow> Inl (PlatformError selector_error))"

definition select_runtime_target_account :: "'w account_data option \<Rightarrow> string \<Rightarrow> string exc" where
  "select_runtime_target_account c expected =
     bindE (account_numbers c) (\<lambda>accounts.
     bindE (guardE (length (filter (\<lambda>a. a = expected) accounts) = 1) (PlatformError mismatch_error)) (\<lambda>_.
     bindE (select_account c (Some expected)) (\<lambda>selected.
     bindE (guardE (selected = expected) (PlatformError mismatch_error)) (\<lambda>_. Inr expected))))"

text \<open>\<open>configured_selector\<close> runs before the login, \<open>select_run_account\<close> on the connected client.\<close>

definition configured_selector :: "pyval option \<Rightarrow> env \<Rightarrow> string option exc" where
  "configured_selector target env =
     bindE (runtime_target_account_selector target) (\<lambda>expected.
     case expected of
       None \<Rightarrow> Inr None
     | Some e \<Rightarrow>
         (let configured = py_strip (env_or env ''FIRSTRADE_ACCOUNT'' []) in
          bindE (guardE (configured = [] \<or> configured = e)
                   (PlatformError ''FIRSTRADE_ACCOUNT conflicts with the runtime target account selector.'')) (\<lambda>_.
          Inr (Some e))))"

definition select_run_account :: "'w account_data option \<Rightarrow> string option \<Rightarrow> env \<Rightarrow> string exc" where
  "select_run_account c expected env =
     (case expected of
       None \<Rightarrow> select_account c (let v = env_or env ''FIRSTRADE_ACCOUNT'' [] in if v = [] then None else Some v)
     | Some e \<Rightarrow> select_runtime_target_account c e)"

definition resolve_run_account :: "'w account_data option \<Rightarrow> pyval option \<Rightarrow> env \<Rightarrow> string exc" where
  "resolve_run_account c target env =
     bindE (configured_selector target env) (\<lambda>expected. select_run_account c expected env)"

section \<open>Orders and skips as report rows\<close>

definition opt_float :: "pyfloat option \<Rightarrow> pyval" where
  "opt_float x = (case x of None \<Rightarrow> PNone | Some y \<Rightarrow> PFloat y)"

definition opt_str :: "string option \<Rightarrow> pyval" where
  "opt_str x = (case x of None \<Rightarrow> PNone | Some y \<Rightarrow> PStr y)"

definition order_dict :: "order_row \<Rightarrow> pyval dict" where
  "order_dict o1 =
     [(''symbol'', PStr (o_symbol o1)), (''side'', PStr (o_side o1)), (''quantity'', PFloat (o_quantity o1)),
      (''order_type'', PStr (o_order_type o1))]
     @ (case o_limit_price o1 of None \<Rightarrow> [] | Some p \<Rightarrow> [(''limit_price'', PFloat p)])
     @ (case o_notional_usd o1 of None \<Rightarrow> [] | Some n \<Rightarrow> [(''notional_usd'', PFloat n)])
     @ [(''status'', PStr (o_status o1)), (''broker_order_id'', opt_str (o_broker_order_id o1)),
        (''raw_payload'', o_raw_payload o1)]"

definition cap_field :: "pyfloat option \<Rightarrow> pyval dict" where
  "cap_field c = (case c of None \<Rightarrow> [] | Some x \<Rightarrow> [(''max_order_notional_usd'', PFloat x)])"

fun skip_fields :: "skip \<Rightarrow> pyval dict" where
  "skip_fields (BelowTradeThreshold s d) = [(''symbol'', PStr s), (''delta_value'', PFloat d)]"
| "skip_fields (QuoteUnavailable s) = [(''symbol'', PStr s)]"
| "skip_fields (SellQuantityZero s c) = (''symbol'', PStr s) # cap_field c"
| "skip_fields (DuplicateLiveRun s) = [(''symbol'', PStr s)]"
| "skip_fields (PendingSellRelease s ss) = [(''symbol'', PStr s), (''pending_sell_symbols'', PList (map PStr ss))]"
| "skip_fields (NegativeCash s c) = [(''symbol'', PStr s), (''liquid_cash'', PFloat c)]"
| "skip_fields (BuyNotionalBelowMinimum s n m) =
     [(''symbol'', PStr s), (''notional_usd'', PFloat n), (''min_notional_usd'', PFloat m)]"
| "skip_fields (InsufficientCashForWholeShare s p c r) =
     [(''symbol'', PStr s), (''price'', PFloat p), (''investable_cash'', PFloat c), (''required_cash_for_one_share'', PFloat r)]"
| "skip_fields (BuyQuantityZero s c) = (''symbol'', PStr s) # cap_field c"
| "skip_fields (BrokerRejection o1 r) = order_dict o1"

definition skip_row :: "skip \<Rightarrow> pyval" where
  "skip_row s = PDict (dset (skip_fields s) ''reason'' (PStr (skip_reason s)))"

section \<open>Settings, parameters and the planned run\<close>

record run_settings =
  s_dry_run_only :: bool
  s_live_trading_enabled :: bool
  s_persist_strategy_runs :: bool
  s_max_order_notional_usd :: "pyfloat option"
  s_safe_haven_threshold_usd :: pyfloat
  s_cash_only_execution :: bool
  s_notional_buy_execution :: bool
  s_strategy_metadata :: pyval
  s_limit_buy_premium_by_symbol :: pyval

record run_outcomes =
  default_blocking_skip_reasons :: "string list"
  filter_blocking_skips :: "pyval list \<Rightarrow> string list \<Rightarrow> pyval list"
  is_funding_block :: "pyval list \<Rightarrow> bool"
  resolve_stage :: "bool \<Rightarrow> bool \<Rightarrow> bool \<Rightarrow> bool \<Rightarrow> string"

text \<open>What is known once the strategy was evaluated and mapped to a plan.\<close>

record planned_run =
  k_account :: string
  k_profile :: string
  k_display_name :: string
  k_period :: string
  k_plan :: "pyval dict"
  k_metadata :: "pyval dict"
  k_diagnostics :: "pyval dict"
  k_session_reused :: bool
  k_heartbeat :: pyval
  k_signal_snapshot :: pyval
  k_plugin_report :: "pyval dict"
  k_now :: datetime

definition pdict_of :: "pyval \<Rightarrow> pyval dict" where
  "pdict_of v = (case v of PDict d \<Rightarrow> d | _ \<Rightarrow> [])"

definition or_dict :: "pyval \<Rightarrow> pyval" where
  "or_dict v = (if v = PNone then PDict [] else v)"

definition state_account :: "planned_run \<Rightarrow> string" where
  "state_account p = legacy_account_state_id (k_account p)"

definition run_state :: "run_settings \<Rightarrow> planned_run \<Rightarrow> string \<Rightarrow> run_state_input" where
  "run_state st p stage =
     \<lparr> rs_stage = stage, rs_account = mask_account_id (k_account p), rs_profile = k_profile p,
       rs_display_name = k_display_name p, rs_period = k_period p, rs_dry_run_only = s_dry_run_only st,
       rs_live_trading_enabled = s_live_trading_enabled st, rs_session_reused = k_session_reused p,
       rs_portfolio = pdict_of (pget (k_plan p) ''portfolio''), rs_metadata = k_metadata p, rs_plan = k_plan p,
       rs_submitted = [], rs_skipped = [], rs_notes = [], rs_action_done = False,
       rs_broker_submission_done = False, rs_execution_status = [], rs_orders_pending_count = 0, rs_error = [] \<rparr>"

text \<open>A persist whose failure is kept as text: \<open>(persisted, error)\<close>.\<close>

definition try_persist ::
  "'w object_store \<Rightarrow> gcs_state_store \<Rightarrow> pyval dict \<Rightarrow> planned_run \<Rightarrow> ('w, bool \<times> string) io" where
  "try_persist os s state p w =
     (case persist_strategy_run_state os s state (Some (state_account p)) (k_now p) w of
        (Inr b, w') \<Rightarrow> (Inr (b, []), w') | (Inl e, w') \<Rightarrow> (Inr (False, exc_text e), w'))"

section \<open>Result rows\<close>

definition empty_alert_fields :: "pyval dict" where
  "empty_alert_fields =
     [(''strategy_plugin_alert_attempted_count'', PInt 0), (''strategy_plugin_alert_sent_count'', PInt 0),
      (''strategy_plugin_alert_skipped_count'', PInt 0), (''strategy_plugin_alert_failed_count'', PInt 0),
      (''strategy_plugin_alert_email_attempted_count'', PInt 0), (''strategy_plugin_alert_email_sent_count'', PInt 0),
      (''strategy_plugin_alert_email_skipped_count'', PInt 0), (''strategy_plugin_alert_email_failed_count'', PInt 0),
      (''strategy_plugin_alert_email_deliveries'', PList []),
      (''strategy_plugin_alert_sms_attempted_count'', PInt 0), (''strategy_plugin_alert_sms_sent_count'', PInt 0),
      (''strategy_plugin_alert_sms_skipped_count'', PInt 0), (''strategy_plugin_alert_sms_failed_count'', PInt 0),
      (''strategy_plugin_alert_sms_deliveries'', PList [])]"

definition base_fields :: "run_settings \<Rightarrow> planned_run \<Rightarrow> pyval dict" where
  "base_fields st p =
     [(''api_kind'', PStr ''unofficial-reverse-engineered''), (''account'', PStr (k_account p)),
      (''strategy_profile'', PStr (k_profile p)), (''strategy_display_name'', PStr (k_display_name p)),
      (''dry_run_only'', PBool (s_dry_run_only st)), (''live_trading_enabled'', PBool (s_live_trading_enabled st)),
      (''session_reused'', PBool (k_session_reused p)), (''strategy_run_period'', PStr (k_period p))]"

definition stage_text :: "pyval dict \<Rightarrow> string \<Rightarrow> string" where
  "stage_text d z = py_str (py_or (pget d ''stage'') (PStr z))"

definition error_field :: "string \<Rightarrow> pyval dict \<Rightarrow> pyval dict" where
  "error_field e d = (if e = [] then d else dset d ''strategy_run_persistence_error'' (PStr e))"

definition skipped_result ::
  "run_settings \<Rightarrow> planned_run \<Rightarrow> string \<Rightarrow> bool \<Rightarrow> pyval dict \<Rightarrow> pyval dict \<Rightarrow> pyval list \<Rightarrow> string \<Rightarrow> pyval dict" where
  "skipped_result st p stage persisted extra existing skips err =
     dupdate (error_field err
       ((''ok'', PBool True) # base_fields st p
        @ [(''strategy_run_stage'', PStr stage), (''strategy_run_persisted'', PBool persisted),
           (''idempotency_skipped'', PBool True)]
        @ extra
        @ [(''existing_strategy_run_stage'', pget existing ''stage''), (''existing_strategy_run_as_of'', pget existing ''as_of''),
           (''submitted_orders'', PList []), (''skipped_orders'', PList skips), (''action_done'', PBool False)]
        @ empty_alert_fields)) (k_plugin_report p)"

section \<open>The duplicate check\<close>

definition duplicate_skip :: "planned_run \<Rightarrow> pyval" where
  "duplicate_skip p = PDict [(''reason'', PStr ''duplicate_live_strategy_run''), (''run_period'', PStr (k_period p))]"

definition duplicate_state :: "run_settings \<Rightarrow> planned_run \<Rightarrow> pyval dict \<Rightarrow> pyval dict" where
  "duplicate_state st p existing =
     dset (dset (dset
       (pdict_of (build_strategy_run_state
          ((run_state st p (stage_text existing ''PENDING_SUBMISSION'')) \<lparr> rs_skipped := [duplicate_skip p] \<rparr>) (k_now p)))
       ''idempotency_skipped'' (PBool True))
       ''existing_strategy_run_stage'' (pget existing ''stage''))
       ''existing_strategy_run_as_of'' (pget existing ''as_of'')"

definition duplicate_result ::
  "'w object_store \<Rightarrow> gcs_state_store \<Rightarrow> run_settings \<Rightarrow> planned_run \<Rightarrow> bool \<Rightarrow> pyval dict \<Rightarrow> ('w, pyval dict) io" where
  "duplicate_result os s st p claimed existing =
     bindIO (if claimed then returnIO (False, []) else try_persist os s (duplicate_state st p existing) p) (\<lambda>(persisted, err).
     returnIO (skipped_result st p (stage_text existing ''PENDING_SUBMISSION'') persisted
       [(''submission_claim_blocks_repeat'', PBool claimed)] existing [duplicate_skip p] err))"

text \<open>\<open>Inl\<close> is the result of a run that was already made, \<open>Inr\<close> the state found.\<close>

definition check_duplicate ::
  "'w object_store \<Rightarrow> stage_vocabulary \<Rightarrow> gcs_state_store option \<Rightarrow> run_settings \<Rightarrow> planned_run \<Rightarrow>
   ('w, pyval dict + pyval dict option) io" where
  "check_duplicate os voc store st p =
     (case store of
        Some s \<Rightarrow>
          if s_persist_strategy_runs st \<and> \<not> s_dry_run_only st
          then bindIO (read_latest_strategy_run_state os s (state_account p) (k_profile p) (k_period p)) (\<lambda>existing.
               bindIO (read_live_strategy_run_claim os s (state_account p) (k_profile p) (k_period p)) (\<lambda>claim.
               let claimed = has_effective_live_submission_claim claim in
               if claimed \<or> is_duplicate_live_run voc existing
               then bindIO (duplicate_result os s st p claimed (or_empty existing)) (\<lambda>r. returnIO (Inl r))
               else returnIO (Inr existing)))
          else returnIO (Inr None)
      | None \<Rightarrow> returnIO (Inr None))"

section \<open>The submission claim of a run\<close>

text \<open>
  \<open>acquire_submission_claim\<close> closes over \<open>submission_claim_acquired\<close>: the flag is part of the
  world of the execution.
\<close>

definition acquire_submission_claim ::
  "'w object_store \<Rightarrow> gcs_state_store option \<Rightarrow> run_settings \<Rightarrow> planned_run \<Rightarrow> ('w \<times> bool, bool) io" where
  "acquire_submission_claim os store st p state =
     (case store of
        Some s \<Rightarrow>
          if \<not> s_persist_strategy_runs st
          then (Inl (ValueError ''Live submission requires enabled strategy-run persistence and a durable state store.''), state)
          else if snd state then (Inr True, state)
          else (case claim_live_strategy_run os s (state_account p) (k_profile p) (k_period p) (k_now p) (fst state) of
                  (Inr b, w') \<Rightarrow> (Inr b, (w', b)) | (Inl e, w') \<Rightarrow> (Inl e, (w', snd state)))
      | None \<Rightarrow> (Inl (ValueError ''Live submission requires enabled strategy-run persistence and a durable state store.''), state))"

record 'w run_ports =
  rp_get_quote :: "string \<Rightarrow> ('w, pyval) io"
  rp_submit :: "order_intent \<Rightarrow> ('w, order_report) io"
  rp_release :: "order_row list \<Rightarrow> ('w, pyfloat) io"
  rp_dispatch_alerts :: "('w, pyval dict) io option"
  rp_publish :: "pyval dict \<Rightarrow> ('w, bool) io"
  rp_cover_routine :: "pyval dict \<Rightarrow> ('w, bool \<times> pyval dict) io"

definition cycle_ports ::
  "'w object_store \<Rightarrow> gcs_state_store option \<Rightarrow> run_settings \<Rightarrow> planned_run \<Rightarrow> 'w run_ports \<Rightarrow> ('w \<times> bool) exec_ports" where
  "cycle_ports os store st p rp =
     \<lparr> get_quote = (\<lambda>s. lift_fst (rp_get_quote rp s)),
       submit_port = (\<lambda>i. lift_fst (rp_submit rp i)),
       before_live_submission = (if s_dry_run_only st then None else Some (acquire_submission_claim os store st p)),
       confirmed_sell_release = (\<lambda>os. lift_fst (rp_release rp os)) \<rparr>"

definition limit_sell_discount :: pyfloat where
  "limit_sell_discount = fl (995 / 1000)"

definition limit_buy_premium :: pyfloat where
  "limit_buy_premium = fl (1005 / 1000)"

definition cycle_options :: "run_settings \<Rightarrow> exec_options" where
  "cycle_options st =
     \<lparr> x_dry_run_only = s_dry_run_only st, x_limit_sell_discount = limit_sell_discount,
       x_limit_buy_premium = PFloat limit_buy_premium,
       x_limit_buy_premium_by_symbol = s_limit_buy_premium_by_symbol st,
       x_max_order_notional_usd = s_max_order_notional_usd st,
       x_safe_haven_threshold_usd = s_safe_haven_threshold_usd st,
       x_cash_only_execution = s_cash_only_execution st, x_notional_buy_execution = s_notional_buy_execution st \<rparr>"

text \<open>The execution with the flag made visible at its end.\<close>

definition execute_plan ::
  "qpk \<Rightarrow> (drift_input \<Rightarrow> pyval list exc) \<Rightarrow> 'w object_store \<Rightarrow> gcs_state_store option \<Rightarrow> run_settings \<Rightarrow>
   planned_run \<Rightarrow> 'w run_ports \<Rightarrow> ('w, cycle_result \<times> bool) io" where
  "execute_plan k drift os store st p rp w =
     (case execute_value_target_plan k (cycle_ports os store st p rp) drift (cycle_options st) (k_plan p) (w, False) of
        (Inl e, s) \<Rightarrow> (Inl e, fst s) | (Inr r, s) \<Rightarrow> (Inr (r, snd s), fst s))"

section \<open>When a cycle notifies\<close>

text \<open>
  \<open>np_digest\<close> is \<open>daily_digest_enabled()\<close>; \<open>np_defer\<close> is \<open>defer_routine_cycle_to_digest\<close> on
  the evidence and the submitted orders.
\<close>

record notify_policy =
  np_digest :: bool
  np_defer :: "pyval dict \<Rightarrow> pyval list \<Rightarrow> bool"

definition any_of :: "pyval dict \<Rightarrow> string list \<Rightarrow> bool" where
  "any_of d ks \<longleftrightarrow> list_ex (\<lambda>k. truthy (pget d k)) ks"

definition is_true :: "pyval \<Rightarrow> bool" where
  "is_true v \<longleftrightarrow> v = PBool True"

definition digest_attention_keys :: "string list" where
  "digest_attention_keys =
     [''error'', ''errors'', ''strategy_run_persistence_error'', ''strategy_plugin_error'', ''strategy_plugin_alert_error'',
      ''pending_reconciliation'', ''orders_pending_count'', ''execution_blocked'', ''execution_blocking_skips'', ''auth_expired'']"

definition independent_attention_keys :: "string list" where
  "independent_attention_keys =
     [''pending_reconciliation'', ''strategy_run_persistence_error'', ''strategy_plugin_error'', ''strategy_plugin_alert_error'',
      ''notification_error'', ''orders_pending_count'', ''strategy_plugin_alert_failed_count'',
      ''strategy_plugin_alert_telegram_failed_count'', ''strategy_plugin_alert_email_failed_count'',
      ''strategy_plugin_alert_sms_failed_count'', ''strategy_plugin_alert_push_failed_count'',
      ''strategy_plugin_alert_webhook_failed_count'']"

definition quiet_statuses :: "string list" where
  "quiet_statuses = [[], ''no_op'', ''no_action'', ''completed'', ''executed'', ''dry_run'', ''dry_run_completed'']"

definition orders_in :: "pyval dict \<Rightarrow> pyval list" where
  "orders_in d = (case pget d ''submitted_orders'' of PList xs \<Rightarrow> xs | _ \<Rightarrow> [])"

definition independent_attention :: "pyval dict \<Rightarrow> bool" where
  "independent_attention r \<longleftrightarrow>
     any_of r independent_attention_keys
     \<or> py_lower (py_strip (str_or (pget r ''execution_status''))) \<notin> set quiet_statuses"

definition should_publish_cycle_notification :: "notify_policy \<Rightarrow> pyval dict \<Rightarrow> bool" where
  "should_publish_cycle_notification np r =
     (let suppressed = truthy (pget r ''notification_suppressed_by_policy'');
          repeat_funding = (pget r ''notification_suppressed_reason'' = PStr ''repeat_funding_blocked'');
          evidence = (if \<not> truthy (pget r ''execution_status'') \<and> is_true (pget r ''ok'')
                      then dset r ''execution_status'' (PStr ''completed'') else r)
      in if np_digest np \<and> (pget r ''ok'' = PBool False \<or> any_of r digest_attention_keys) then True
         else if suppressed \<and> \<not> repeat_funding then False
         else if \<not> is_true (pget r ''dry_run_only'') \<and> np_defer np evidence (orders_in r) then False
         else if orders_in r \<noteq> [] \<and> \<not> is_true (pget r ''dry_run_only'') then True
         else if suppressed then independent_attention r
         else if truthy (pget r ''error'') \<or> pget r ''ok'' = PBool False then True
         else if truthy (pget r ''execution_blocked'') \<or> truthy (pget r ''execution_blocking_skips'') then True
         else independent_attention r \<or> \<not> is_true (pget r ''ok''))"

section \<open>The result of an executed run\<close>

definition strategy_funding_shortfall :: "planned_run \<Rightarrow> cycle_result \<Rightarrow> bool" where
  "strategy_funding_shortfall p res \<longleftrightarrow>
     submitted_orders res = []
     \<and> py_lower (py_strip (str_or (py_or (pget (k_diagnostics p) ''dca_skip_reason'') (pget (k_diagnostics p) ''skip_reason''))))
       = ''insufficient_cash''"

definition skip_rows :: "planned_run \<Rightarrow> cycle_result \<Rightarrow> pyval list" where
  "skip_rows p res = map skip_row (skipped_orders res)
     @ (if strategy_funding_shortfall p res then [PDict [(''reason'', PStr ''insufficient_cash'')]] else [])"

definition blocking_reasons :: "run_outcomes \<Rightarrow> string list" where
  "blocking_reasons oc = default_blocking_skip_reasons oc @ [''broker_rejected'', ''fractional_trading_disclosure_required'']"

record run_verdict =
  v_blocking_skips :: "pyval list"
  v_blocked :: bool
  v_funding_blocked :: bool
  v_expected_funding_skip :: bool
  v_stage :: string

definition verdict :: "run_outcomes \<Rightarrow> run_settings \<Rightarrow> planned_run \<Rightarrow> cycle_result \<Rightarrow> run_verdict" where
  "verdict oc st p res =
     (let blocking = filter_blocking_skips oc (skip_rows p res) (blocking_reasons oc);
          blocked = (blocking \<noteq> []);
          funding = is_funding_block oc blocking;
          funding_block = (funding \<and> \<not> action_done res)
      in \<lparr> v_blocking_skips = blocking, v_blocked = blocked, v_funding_blocked = funding,
           v_expected_funding_skip = (funding_block \<and> \<not> broker_submission_done res
             \<and> submitted_orders res = [] \<and> \<not> pending_reconciliation res),
           v_stage = (if pending_reconciliation res then ''PENDING_RECONCILIATION''
             else resolve_stage oc (s_dry_run_only st) blocked funding_block (action_done res)) \<rparr>)"

definition pending_status :: "cycle_result \<Rightarrow> string" where
  "pending_status res = (if pending_reconciliation res then ''pending_reconciliation'' else [])"

definition pending_count :: "cycle_result \<Rightarrow> int" where
  "pending_count res = (if pending_reconciliation res then int (length (submitted_orders res)) else 0)"

definition repeat_funding :: "pyval dict option \<Rightarrow> bool" where
  "repeat_funding existing \<longleftrightarrow> py_upper (str_or (pget (or_empty existing) ''stage'')) = ''FUNDING_BLOCKED''"

definition executed_fields :: "run_settings \<Rightarrow> planned_run \<Rightarrow> run_verdict \<Rightarrow> cycle_result \<Rightarrow> bool \<Rightarrow> pyval dict" where
  "executed_fields st p v res persisted =
     (''ok'', PBool (\<not> v_blocked v \<or> v_expected_funding_skip v)) # base_fields st p
        @ [(''strategy_metadata'', s_strategy_metadata st), (''strategy_run_stage'', PStr (v_stage v)),
           (''strategy_run_persisted'', PBool persisted), (''portfolio'', or_dict (pget (k_plan p) ''portfolio'')),
           (''heartbeat_account_snapshot'', k_heartbeat p), (''allocation'', or_dict (pget (k_plan p) ''allocation'')),
           (''execution'', or_dict (pget (k_plan p) ''execution'')), (''signal_snapshot'', k_signal_snapshot p),
           (''submitted_orders'', PList (map (\<lambda>o1. PDict (order_dict o1)) (submitted_orders res))),
           (''skipped_orders'', PList (skip_rows p res)), (''execution_notes'', PList (execution_notes res)),
           (''action_done'', PBool (action_done res)), (''broker_submission_done'', PBool (broker_submission_done res)),
           (''execution_status'', PStr (pending_status res)), (''orders_pending_count'', PInt (pending_count res))]"

definition block_fields :: "run_verdict \<Rightarrow> bool \<Rightarrow> pyval dict \<Rightarrow> pyval dict" where
  "block_fields v acquired r =
     (if v_blocked v
      then dupdate r ([(''execution_blocked'', PBool True), (''execution_block_retryable'', PBool (\<not> acquired)),
                       (''execution_blocking_skips'', PList (v_blocking_skips v))]
             @ (if v_expected_funding_skip v then []
                else [(''error'', PStr ''Strategy execution blocked; see execution_blocking_skips.'')]))
      else r)"

definition funding_fields :: "run_verdict \<Rightarrow> pyval dict option \<Rightarrow> pyval dict \<Rightarrow> pyval dict" where
  "funding_fields v existing r =
     (if v_funding_blocked v
      then dupdate (dset r ''funding_blocked'' (PBool True))
             (if repeat_funding existing
              then [(''notification_suppressed_by_policy'', PBool True),
                    (''notification_suppressed_reason'', PStr ''repeat_funding_blocked'')] else [])
      else r)"

definition alert_result_fields :: "pyval dict \<Rightarrow> string \<Rightarrow> pyval dict \<Rightarrow> pyval dict" where
  "alert_result_fields alert_fields alert_err r =
     (let r' = dupdate r alert_fields
      in if alert_err = [] then r' else dset r' ''strategy_plugin_alert_error'' (PStr alert_err))"

definition counts_field :: "pyval option \<Rightarrow> pyval dict \<Rightarrow> pyval dict" where
  "counts_field counts r = (case counts of None \<Rightarrow> r | Some c \<Rightarrow> dset r ''routine_observation_counts'' c)"

definition executed_result ::
  "run_settings \<Rightarrow> planned_run \<Rightarrow> run_verdict \<Rightarrow> cycle_result \<Rightarrow> bool \<Rightarrow> pyval dict option \<Rightarrow> bool \<Rightarrow> string \<Rightarrow>
   pyval option \<Rightarrow> pyval dict \<Rightarrow> string \<Rightarrow> pyval dict" where
  "executed_result st p v res acquired existing persisted err routine_counts alert_fields alert_err =
     dupdate (alert_result_fields alert_fields alert_err (error_field err (funding_fields v existing
       (block_fields v acquired (counts_field routine_counts (executed_fields st p v res persisted))))))
       (k_plugin_report p)"

definition completed_state ::
  "run_settings \<Rightarrow> planned_run \<Rightarrow> run_verdict \<Rightarrow> cycle_result \<Rightarrow> pyval dict" where
  "completed_state st p v res =
     pdict_of (build_strategy_run_state
       ((run_state st p (v_stage v)) \<lparr> rs_submitted := map (\<lambda>o1. PDict (order_dict o1)) (submitted_orders res),
          rs_skipped := skip_rows p res, rs_notes := execution_notes res, rs_action_done := action_done res,
          rs_broker_submission_done := broker_submission_done res, rs_execution_status := pending_status res,
          rs_orders_pending_count := pending_count res \<rparr>) (k_now p))"

text \<open>The notification at the end of a run; a delivery that raises is kept as text.\<close>

definition suppressed_fields :: "pyval dict \<Rightarrow> pyval dict" where
  "suppressed_fields r = dset (dset r ''notification_sent'' (PBool False)) ''notification_suppressed'' (PBool True)"

definition notify ::
  "notify_policy \<Rightarrow> bool \<Rightarrow> 'w run_ports \<Rightarrow> pyval dict \<Rightarrow> ('w, pyval dict) io" where
  "notify np send rp result =
     bindIO (if send then rp_cover_routine rp result else returnIO (False, result)) (\<lambda>(routine, r) w.
     if routine
     then (Inr (let f = suppressed_fields r in
              if is_true (pget r ''dry_run_only'') then dset f ''notification_suppressed_reason'' (PStr ''dry_run_preview'')
              else dset (dset f ''notification_suppressed_reason'' (PStr ''daily_digest_coverage_unconfirmed''))
                        ''notification_error'' (PStr ''daily_digest_coverage_unconfirmed'')), w)
     else if send \<and> should_publish_cycle_notification np r
     then (case rp_publish rp r w of
             (Inr True, w') \<Rightarrow> (Inr (dset r ''notification_sent'' (PBool True)), w')
           | (Inr False, w') \<Rightarrow> (Inr (dset (dset r ''notification_sent'' (PBool False))
                                         ''notification_error'' (PStr ''delivery_not_acknowledged'')), w')
           | (Inl e, w') \<Rightarrow> (Inr (dset (dset r ''notification_sent'' (PBool False))
                                       ''notification_error'' (PStr (exc_text e))), w'))
     else if send
     then (Inr (let f = suppressed_fields r in
              if dget f ''notification_suppressed_reason'' = None
              then dset f ''notification_suppressed_reason'' (PStr ''policy_or_incomplete_cycle'') else f), w)
     else (Inr (suppressed_fields r), w))"

section \<open>The run after planning\<close>

definition dispatch_alerts :: "'w run_ports \<Rightarrow> ('w, pyval dict \<times> string) io" where
  "dispatch_alerts rp w =
     (case rp_dispatch_alerts rp of
        None \<Rightarrow> (Inr (empty_alert_fields, []), w)
      | Some m \<Rightarrow> (case m w of (Inr af, w') \<Rightarrow> (Inr (af, []), w')
                  | (Inl e, w') \<Rightarrow> (Inr (empty_alert_fields, exc_text e), w')))"

definition persists :: "gcs_state_store option \<Rightarrow> run_settings \<Rightarrow> bool" where
  "persists store st \<longleftrightarrow> s_persist_strategy_runs st \<and> store \<noteq> None"

definition persist_if ::
  "'w object_store \<Rightarrow> gcs_state_store option \<Rightarrow> run_settings \<Rightarrow> pyval dict \<Rightarrow> planned_run \<Rightarrow> ('w, bool \<times> string) io" where
  "persist_if os store st state p =
     (case store of
        Some s \<Rightarrow> (if s_persist_strategy_runs st then try_persist os s state p else returnIO (False, []))
      | None \<Rightarrow> returnIO (False, []))"

text \<open>
  What is read back when the claim could not be had. The branch is reached only through a
  refused claim, so the store is there; without one the code would raise an attribute error.
\<close>

definition blocked_result ::
  "'w object_store \<Rightarrow> gcs_state_store option \<Rightarrow> run_settings \<Rightarrow> planned_run \<Rightarrow> cycle_result \<Rightarrow> bool \<Rightarrow> string \<Rightarrow> ('w, pyval dict) io" where
  "blocked_result os store st p res persisted err =
     (case store of
        None \<Rightarrow> raiseIO (OtherException ''AttributeError'' ''read_json'')
      | Some s \<Rightarrow>
          bindIO (read_latest_strategy_run_state os s (state_account p) (k_profile p) (k_period p)) (\<lambda>found.
          let existing = (if or_empty found \<noteq> [] then or_empty found
                          else [(''stage'', PStr ''PENDING_SUBMISSION''), (''as_of'', PStr (isoformat (k_now p))),
                                (''claim_only'', PBool True)])
          in returnIO (skipped_result st p (stage_text existing ''PENDING_SUBMISSION'') persisted [] existing
                         (map skip_row (skipped_orders res)) err)))"

definition conclude ::
  "run_outcomes \<Rightarrow> notify_policy \<Rightarrow> bool \<Rightarrow> 'w object_store \<Rightarrow> gcs_state_store option \<Rightarrow> run_settings \<Rightarrow> planned_run \<Rightarrow>
   'w run_ports \<Rightarrow> pyval dict option \<Rightarrow> pyval option \<Rightarrow> bool \<times> string \<Rightarrow> pyval dict \<times> string \<Rightarrow> cycle_result \<times> bool \<Rightarrow> ('w, pyval dict) io" where
  "conclude oc np send os store st p rp existing routine_counts planned alerts outcome =
     (if idempotency_blocked (fst outcome)
      then blocked_result os store st p (fst outcome) (fst planned) (snd planned)
      else let res = fst outcome; v = verdict oc st p res;
               r = executed_result st p v res (snd outcome) existing (fst planned) (snd planned) routine_counts
                     (fst alerts) (snd alerts)
           in bindIO (if persists store st then persist_if os store st (completed_state st p v res) p
                      else returnIO (fst planned, [])) (\<lambda>(ok, err).
              notify np send rp
                (if persists store st then error_field err (dset r ''strategy_run_persisted'' (PBool ok)) else r)))"

definition run_after_plan ::
  "qpk \<Rightarrow> (drift_input \<Rightarrow> pyval list exc) \<Rightarrow> run_outcomes \<Rightarrow> stage_vocabulary \<Rightarrow> notify_policy \<Rightarrow> bool \<Rightarrow>
   'w object_store \<Rightarrow> gcs_state_store option \<Rightarrow> run_settings \<Rightarrow> planned_run \<Rightarrow> pyval option \<Rightarrow> 'w run_ports \<Rightarrow> ('w, pyval dict) io" where
  "run_after_plan k drift oc voc np send os store st p routine_counts rp =
     bindIO (check_duplicate os voc store st p) (\<lambda>chk.
     case chk of
       Inl dup \<Rightarrow> returnIO dup
     | Inr existing \<Rightarrow>
         bindIO (dispatch_alerts rp) (\<lambda>alerts.
         bindIO (persist_if os store st
                   (pdict_of (build_strategy_run_state (run_state st p ''ORDERS_PLANNED'') (k_now p))) p) (\<lambda>planned.
         bindIO (execute_plan k drift os store st p rp) (\<lambda>outcome.
         conclude oc np send os store st p rp existing routine_counts planned alerts outcome))))"

end
