(* ===== verification/RunSafety.thy ===== *)
theory RunSafety
  imports RunCycle
begin

text \<open>
  What runs promise each other. Along a run only the guarded submissions send orders; the
  claim object they need is created once and stays; so of all live runs with one claim
  key, in whatever processes, at most one sends orders.
\<close>

section \<open>What the environment is relied on for\<close>

text \<open>
  \<open>sent w\<close> is what the broker has received. Quotes, the release check, alerts and
  notifications send no order and delete no object of the store; a submission deletes none
  either; the store sends no order.
\<close>

definition silent :: "('w \<Rightarrow> string \<Rightarrow> string option) \<Rightarrow> ('w \<Rightarrow> 'o) \<Rightarrow> 'w \<Rightarrow> 'w \<Rightarrow> bool" where
  "silent held sent w w' \<longleftrightarrow> keeps_objects held w w' \<and> sent w' = sent w"

definition broker_effects :: "('w \<Rightarrow> string \<Rightarrow> string option) \<Rightarrow> ('w \<Rightarrow> 'o) \<Rightarrow> 'w run_ports \<Rightarrow> bool" where
  "broker_effects held sent rp \<longleftrightarrow>
     (\<forall>s. steps_along (silent held sent) (rp_get_quote rp s))
     \<and> (\<forall>os. steps_along (silent held sent) (rp_release rp os))
     \<and> (\<forall>m. rp_dispatch_alerts rp = Some m \<longrightarrow> steps_along (silent held sent) m)
     \<and> (\<forall>r. steps_along (silent held sent) (rp_publish rp r))
     \<and> (\<forall>r. steps_along (silent held sent) (rp_cover_routine rp r))
     \<and> (\<forall>i. steps_along (keeps_objects held) (rp_submit rp i))"

definition store_sends_nothing :: "'w object_store \<Rightarrow> ('w \<Rightarrow> 'o) \<Rightarrow> bool" where
  "store_sends_nothing os sent \<longleftrightarrow>
     (\<forall>u w. sent (snd (os_read os u w)) = sent w) \<and> (\<forall>u d w. sent (snd (os_write os u d w)) = sent w)
     \<and> (\<forall>b n d w. sent (snd (os_create os b n d w)) = sent w)"

section \<open>The claim object\<close>

lemma dropWhile_Nil_iff: "dropWhile P xs = [] \<longleftrightarrow> (\<forall>x\<in>set xs. P x)"
  by (induction xs) auto

lemma strip_chars_Nil: assumes "strip_chars cs s = []" shows "set s \<subseteq> set cs"
proof
  fix x assume x: "x \<in> set s"
  define t where "t = dropWhile (\<lambda>c. c \<in> set cs) s"
  have "dropWhile (\<lambda>c. c \<in> set cs) (rev t) = []" using assms by (simp only: strip_chars_def t_def rev_is_Nil_conv)
  then have t: "\<forall>y\<in>set t. y \<in> set cs" by (simp only: dropWhile_Nil_iff set_rev)
  have "s = takeWhile (\<lambda>c. c \<in> set cs) s @ t" by (simp add: t_def)
  then have "x \<in> set (takeWhile (\<lambda>c. c \<in> set cs) s) \<or> x \<in> set t" using x by (metis Un_iff set_append)
  then show "x \<in> set cs" using t by (auto dest: set_takeWhileD)
qed

lemma claim_uri_exists: "\<exists>u. object_uri s (strategy_run_claim_key a p r) = Inr u"
proof -
  have "strip_chars ''/'' (strategy_run_claim_key a p r) \<noteq> []"
    using strip_chars_Nil [of "''/''" "strategy_run_claim_key a p r"]
    by (auto simp: strategy_run_claim_key_def)
  then show ?thesis by (simp add: object_uri_def Let_def)
qed

definition claim_of :: "planned_run \<Rightarrow> string" where
  "claim_of p = strategy_run_claim_key (state_account p) (k_profile p) (k_period p)"

definition claim_uri :: "gcs_state_store \<Rightarrow> planned_run \<Rightarrow> string" where
  "claim_uri s p = projr (object_uri s (claim_of p))"

lemma claim_uri_eq: "object_uri s (strategy_run_claim_key (state_account p) (k_profile p) (k_period p)) = Inr (claim_uri s p)"
  using claim_uri_exists [of s "state_account p" "k_profile p" "k_period p"]
  by (auto simp: claim_uri_def claim_of_def)

section \<open>Progress along a run\<close>

text \<open>
  From \<open>w\<close> to \<open>w'\<close>: objects stay; orders were sent only if the claim object at \<open>u\<close> is there
  now, and none were sent if it was there before.
\<close>

definition advance :: "('w \<Rightarrow> string \<Rightarrow> string option) \<Rightarrow> ('w \<Rightarrow> 'o) \<Rightarrow> string \<Rightarrow> 'w \<Rightarrow> 'w \<Rightarrow> bool" where
  "advance held sent u w w' \<longleftrightarrow>
     keeps_objects held w w' \<and> (sent w' = sent w \<or> held w' u \<noteq> None) \<and> (held w u \<noteq> None \<longrightarrow> sent w' = sent w)"

lemma advance_refl: "reflp (advance held sent u)"
  by (simp add: reflp_def advance_def)

lemma advance_trans: "transp (advance held sent u)"
proof (rule transpI)
  fix a b c assume "advance held sent u a b" "advance held sent u b c"
  then show "advance held sent u a c"
    by (auto simp: advance_def keeps_objects_def dom_def dest: set_mp)
qed

lemma keeps_held: "keeps_objects held w w' \<Longrightarrow> held w u \<noteq> None \<Longrightarrow> held w' u \<noteq> None"
  by (auto simp: keeps_objects_def)

lemma silent_advance: "silent held sent w w' \<Longrightarrow> advance held sent u w w'"
  by (simp add: silent_def advance_def)

lemma steps_mono: "steps_along R m \<Longrightarrow> (\<And>w w'. R w w' \<Longrightarrow> S w w') \<Longrightarrow> steps_along S m"
  by (simp add: steps_along_def)


section \<open>Steps around the store\<close>

lemma notify_steps:
  assumes R: "reflp R" "transp R" and sil: "\<And>w w'. silent held sent w w' \<Longrightarrow> R w w'"
    and e: "broker_effects held sent rp"
  shows "steps_along R (notify np send rp r)"
proof -
  have cover: "steps_along R (rp_cover_routine rp r)" and publish: "steps_along R (rp_publish rp x)" for x
    using e by (auto simp: broker_effects_def intro: steps_mono [OF _ sil])
  from publish have "R w w'" if "rp_publish rp x w = (y, w')" for x y w w'
    using that unfolding steps_along_def by (metis snd_conv)
  with cover show ?thesis
    unfolding notify_def
    by (intro steps_along_bind [OF R(2)])
       (auto simp: steps_along_def reflpD [OF R(1)] steps_along_return [OF R(1), unfolded steps_along_def]
             split: prod.splits sum.splits bool.splits)
qed

lemma dispatch_steps:
  assumes R: "reflp R" and sil: "\<And>w w'. silent held sent w w' \<Longrightarrow> R w w'" and e: "broker_effects held sent rp"
  shows "steps_along R (dispatch_alerts rp)"
proof (cases "rp_dispatch_alerts rp")
  case None
  then show ?thesis by (simp add: steps_along_def dispatch_alerts_def reflpD [OF R])
next
  case (Some m)
  then have "steps_along R m" using e by (auto simp: broker_effects_def intro: steps_mono [OF _ sil])
  then show ?thesis
    using Some by (auto simp: steps_along_def dispatch_alerts_def split: prod.splits sum.splits) (metis snd_conv)+
qed

section \<open>The store only reads, writes and creates\<close>

lemma read_json_sent:
  "store_sends_nothing os sent \<Longrightarrow> sent (snd (read_json os s key w)) = sent w"
proof (cases "object_uri s key")
  case (Inr u)
  assume "store_sends_nothing os sent"
  then have "sent (snd (os_read os u w)) = sent w" by (simp add: store_sends_nothing_def)
  then show ?thesis
    by (auto simp: read_json_def Inr split: prod.splits sum.splits option.splits pyval.splits)
qed (simp add: read_json_def)

lemma write_json_sent:
  "store_sends_nothing os sent \<Longrightarrow> sent (snd (write_json os s key d w)) = sent w"
proof (cases "object_uri s key")
  case (Inr u)
  assume "store_sends_nothing os sent"
  then have "sent (snd (os_write os u (json_dumps os (PDict d)) w)) = sent w" by (simp add: store_sends_nothing_def)
  then show ?thesis by (auto simp: write_json_def Inr split: prod.splits)
qed (simp add: write_json_def)

lemma create_json_sent:
  assumes "store_sends_nothing os sent" shows "sent (snd (create_json os s key d w)) = sent w"
proof (cases "object_uri s key")
  case (Inr u)
  obtain b sep n where p: "partition_at (CHR ''/'') (drop 5 u) = (b, sep, n)" by (cases "partition_at (CHR ''/'') (drop 5 u)")
  have "sent (snd (os_create os b n (json_dumps os (PDict d)) w)) = sent w"
    using assms by (simp add: store_sends_nothing_def)
  then show ?thesis by (auto simp: create_json_def Inr p split: prod.splits create_outcome.splits)
qed (simp add: create_json_def)

text \<open>
  The interface between a run and its store: a preorder on worlds that every read and write
  of the store follows. A run whose quotes, submissions and notifications follow it too
  follows it as a whole.
\<close>

locale store_steps =
  fixes os :: "'w object_store" and store :: "gcs_state_store option" and R :: "'w \<Rightarrow> 'w \<Rightarrow> bool"
  assumes refl: "reflp R" and trans: "transp R"
    and read_steps: "store = Some s \<Longrightarrow> steps_along R (read_json os s key)"
    and write_steps: "store = Some s \<Longrightarrow> steps_along R (write_json os s key d)"
begin

lemmas bind_steps = steps_along_bind [OF trans]
lemmas return_steps = steps_along_return [OF refl]
lemmas raise_steps = steps_along_raise [OF refl]

lemma persist_steps: "store = Some s \<Longrightarrow> steps_along R (persist_strategy_run_state os s state acct now)"
  unfolding persist_strategy_run_state_def Let_def by (intro bind_steps write_steps return_steps)

lemma try_persist_steps: "store = Some s \<Longrightarrow> steps_along R (try_persist os s state p)"
  using persist_steps [of s state "Some (state_account p)" "k_now p"]
  by (auto simp: steps_along_def try_persist_def split: prod.splits sum.splits) (metis snd_conv)+

lemma check_duplicate_steps: "steps_along R (check_duplicate os voc store st p)"
proof (cases store)
  case None
  then show ?thesis by (simp add: check_duplicate_def return_steps)
next
  case (Some s)
  have dup: "steps_along R (duplicate_result os s st p c e)" for c e
    unfolding duplicate_result_def
    by (intro bind_steps) (auto intro: return_steps try_persist_steps [OF Some] split: prod.splits)
  show ?thesis
    unfolding check_duplicate_def read_latest_strategy_run_state_def read_live_strategy_run_claim_def Some
    by (auto simp: Let_def intro!: bind_steps read_steps [OF Some] dup return_steps)
qed

lemma persist_if_steps: "steps_along R (persist_if os store st state p)"
  by (auto simp: persist_if_def intro: try_persist_steps return_steps split: option.splits)

lemma blocked_result_steps: "steps_along R (blocked_result os store st p res b e)"
  by (auto simp: blocked_result_def read_latest_strategy_run_state_def Let_def
      intro!: bind_steps read_steps return_steps raise_steps split: option.splits)

lemma conclude_steps:
  assumes "\<And>r. steps_along R (notify np send rp r)"
  shows "steps_along R (conclude oc np send os store st p rp ex rc planned alerts outcome)"
  by (auto simp: conclude_def Let_def intro!: bind_steps blocked_result_steps assms persist_if_steps return_steps
      split: prod.splits)

lemma whole_run_steps:
  assumes "steps_along R (dispatch_alerts rp)" "\<And>r. steps_along R (notify np send rp r)"
    and "steps_along R (execute_plan k drift os store st p rp)"
  shows "steps_along R (run_after_plan k drift oc voc np send os store st p rc rp)"
  unfolding run_after_plan_def
  by (intro bind_steps check_duplicate_steps)
     (auto intro!: bind_steps return_steps persist_if_steps conclude_steps assms split: sum.splits)

end

locale store_run =
  fixes os :: "'w object_store" and held :: "'w \<Rightarrow> string \<Rightarrow> string option" and sent :: "'w \<Rightarrow> 'o"
    and s :: gcs_state_store
  assumes laws: "object_store_laws os held" and quiet: "store_sends_nothing os sent" and plain: "plain_bucket s"
begin

lemma read_silent: "steps_along (silent held sent) (read_json os s key)"
  using read_json_keeps [OF laws, of s key] read_json_sent [OF quiet, of s key]
  by (simp add: steps_along_def silent_def)

lemma write_silent: "steps_along (silent held sent) (write_json os s key d)"
  using write_json_keeps [OF laws, of s key d] write_json_sent [OF quiet, of s key d]
  by (simp add: steps_along_def silent_def)

lemma create_silent: "steps_along (silent held sent) (create_json os s key d)"
  using create_json_keeps [OF laws plain, of key d] create_json_sent [OF quiet, of s key d]
  by (simp add: steps_along_def silent_def)

lemma read_advance: "steps_along (advance held sent u) (read_json os s key)"
  by (rule steps_mono [OF read_silent silent_advance])

lemma write_advance: "steps_along (advance held sent u) (write_json os s key d)"
  by (rule steps_mono [OF write_silent silent_advance])

lemma advances: "store_steps os (Some s) (advance held sent u)"
  by unfold_locales (auto intro: advance_refl advance_trans read_advance write_advance)

lemma claim_step:
  assumes c: "claim_live_strategy_run os s (state_account p) (k_profile p) (k_period p) now w = (r, w')"
  shows "silent held sent w w'"
    and "r = Inr True \<Longrightarrow> held w (claim_uri s p) = None \<and> held w' (claim_uri s p) \<noteq> None"
proof -
  show "silent held sent w w'"
    using create_silent c unfolding claim_live_strategy_run_def steps_along_def by (metis snd_conv)
  show "r = Inr True \<Longrightarrow> held w (claim_uri s p) = None \<and> held w' (claim_uri s p) \<noteq> None"
    using laws_create(2) [OF laws plain claim_uri_eq c [unfolded claim_live_strategy_run_def]] by simp
qed

text \<open>The invariant of the execution that started in \<open>v0\<close>: the flag means that this run created the claim.\<close>

definition ClaimInv :: "planned_run \<Rightarrow> 'w \<Rightarrow> 'w \<times> bool \<Rightarrow> bool" where
  "ClaimInv p v0 c \<longleftrightarrow> advance held sent (claim_uri s p) v0 (fst c)
     \<and> (snd c \<longrightarrow> held (fst c) (claim_uri s p) \<noteq> None \<and> held v0 (claim_uri s p) = None)"

lemma ClaimInv_silent:
  assumes "ClaimInv p v0 c" "silent held sent (fst c) w'" shows "ClaimInv p v0 (w', snd c)"
proof -
  have a: "advance held sent (claim_uri s p) v0 (fst c)" using assms(1) by (simp add: ClaimInv_def)
  have b: "advance held sent (claim_uri s p) (fst c) w'" by (rule silent_advance [OF assms(2)])
  have "keeps_objects held (fst c) w'" using assms(2) by (simp add: silent_def)
  from keeps_held [OF this, of "claim_uri s p"] show ?thesis
    using assms(1) transpD [OF advance_trans a b] by (auto simp: ClaimInv_def)
qed

lemma ClaimInv_claim:
  assumes i: "ClaimInv p v0 c" and a: "acquire_submission_claim os (Some s) st p c = (r, c')"
  shows "ClaimInv p v0 c' \<and> (r = Inr True \<longrightarrow> snd c')"
proof (cases "s_persist_strategy_runs st \<and> \<not> snd c")
  case False
  then show ?thesis using i a by (auto simp: acquire_submission_claim_def split: if_splits)
next
  case True
  obtain rb w' where cl: "claim_live_strategy_run os s (state_account p) (k_profile p) (k_period p) (k_now p) (fst c) = (rb, w')"
    by (cases "claim_live_strategy_run os s (state_account p) (k_profile p) (k_period p) (k_now p) (fst c)")
  have inv: "ClaimInv p v0 (w', False)" using ClaimInv_silent [OF i claim_step(1) [OF cl]] True by simp
  show ?thesis
  proof (cases "rb = Inr True")
    case False
    then have "c' = (w', False)" "r \<noteq> Inr True" using a True cl by (cases rb; auto simp: acquire_submission_claim_def)+
    then show ?thesis using inv by simp
  next
    case granted: True
    then have c': "c' = (w', True)" using a True cl by (auto simp: acquire_submission_claim_def)
    have "held (fst c) (claim_uri s p) = None" "held w' (claim_uri s p) \<noteq> None" using claim_step(2) [OF cl granted] by auto
    moreover have "held v0 (claim_uri s p) = None"
      using calculation(1) i by (auto simp: ClaimInv_def advance_def keeps_objects_def)
    ultimately show ?thesis using inv c' by (simp add: ClaimInv_def)
  qed
qed

lemma ClaimInv_submit:
  assumes "ClaimInv p v0 c" "snd c" "keeps_objects held (fst c) w'"
  shows "ClaimInv p v0 (w', snd c)"
proof -
  have k: "keeps_objects held v0 (fst c)" and h: "held (fst c) (claim_uri s p) \<noteq> None" "held v0 (claim_uri s p) = None"
    using assms by (auto simp: ClaimInv_def advance_def)
  have "keeps_objects held v0 w'" "held w' (claim_uri s p) \<noteq> None"
    using keeps_objects_trans [OF k assms(3)] keeps_held [OF assms(3) h(1)] by auto
  then show ?thesis using h by (simp add: ClaimInv_def advance_def)
qed

lemma claim_gate:
  assumes e: "broker_effects held sent rp" and live: "\<not> s_dry_run_only st"
  shows "order_gate (cycle_ports os (Some s) st p rp) False (ClaimInv p v0) (\<lambda>_. True) snd"
proof
  fix w sy r w' assume "ClaimInv p v0 w" "get_quote (cycle_ports os (Some s) st p rp) sy w = (r, w')"
  moreover have "silent held sent (fst w) (snd (rp_get_quote rp sy (fst w)))"
    using e by (simp add: broker_effects_def steps_along_def)
  ultimately show "ClaimInv p v0 w' \<and> (True \<longrightarrow> True)"
    using ClaimInv_silent [of p v0 w] by (auto simp: cycle_ports_def lift_fst_def split: prod.splits)
next
  fix w ol r w' assume "ClaimInv p v0 w" "confirmed_sell_release (cycle_ports os (Some s) st p rp) ol w = (r, w')"
  moreover have "silent held sent (fst w) (snd (rp_release rp ol (fst w)))"
    using e by (simp add: broker_effects_def steps_along_def)
  ultimately show "ClaimInv p v0 w' \<and> (True \<longrightarrow> True)"
    using ClaimInv_silent [of p v0 w] by (auto simp: cycle_ports_def lift_fst_def split: prod.splits)
next
  fix m w r w' assume "before_live_submission (cycle_ports os (Some s) st p rp) = Some m" "ClaimInv p v0 w" "m w = (r, w')"
  then show "ClaimInv p v0 w' \<and> (True \<longrightarrow> True) \<and> (r = Inr True \<longrightarrow> snd w')"
    using ClaimInv_claim [of p v0 w st r w'] live by (auto simp: cycle_ports_def)
next
  fix w i r w' assume "ClaimInv p v0 w" "snd w" "submit_port (cycle_ports os (Some s) st p rp) i w = (r, w')"
  moreover have "keeps_objects held (fst w) (snd (rp_submit rp i (fst w)))"
    using e by (simp add: broker_effects_def steps_along_def)
  ultimately show "ClaimInv p v0 w' \<and> (\<forall>q. r = Inr q \<longrightarrow>
      alnum_lower (py_strip (p_status q)) \<in> insert ''rejected'' (set accepted_order_statuses) \<longrightarrow> True)"
    using ClaimInv_submit [of p v0 w] by (auto simp: cycle_ports_def lift_fst_def split: prod.splits)
qed simp

lemma execute_plan_advance:
  assumes e: "broker_effects held sent rp" and live: "\<not> s_dry_run_only st"
  shows "steps_along (advance held sent (claim_uri s p)) (execute_plan k drift os (Some s) st p rp)"
  unfolding steps_along_def
proof
  fix w
  define run where "run = execute_value_target_plan k (cycle_ports os (Some s) st p rp) drift (cycle_options st) (k_plan p)"
  have "advance held sent (claim_uri s p) w w" using advance_refl by (rule reflpD)
  then have i: "ClaimInv p w (w, False)" by (simp add: ClaimInv_def)
  have "spec (\<lambda>c. ClaimInv p w c \<and> True) run (\<lambda>_. ClaimInv p w) (ClaimInv p w)"
    unfolding run_def
    by (rule order_gate.execute_spec [OF claim_gate [OF e live]]) (simp add: cycle_options_def live)
  from spec_snd [OF this, of "(w, False)"] i have "ClaimInv p w (snd (run (w, False)))" by simp
  then show "advance held sent (claim_uri s p) w (snd (execute_plan k drift os (Some s) st p rp w))"
    by (auto simp: execute_plan_def run_def ClaimInv_def split: prod.splits sum.splits)
qed

lemma notify_advance:
  "broker_effects held sent rp \<Longrightarrow> steps_along (advance held sent u) (notify np send rp r)"
  by (rule notify_steps [OF advance_refl advance_trans silent_advance])

lemma dispatch_advance:
  "broker_effects held sent rp \<Longrightarrow> steps_along (advance held sent u) (dispatch_alerts rp)"
  by (rule dispatch_steps [OF advance_refl silent_advance])

lemma run_advance:
  assumes e: "broker_effects held sent rp" and live: "\<not> s_dry_run_only st"
  shows "steps_along (advance held sent (claim_uri s p))
           (run_after_plan k drift oc voc np send os (Some s) st p rc rp)"
  by (rule store_steps.whole_run_steps [OF advances dispatch_advance [OF e] notify_advance [OF e] execute_plan_advance [OF e live]])

end

sublocale store_run \<subseteq> advance: store_steps os "Some s" "advance held sent u" for u
  by (rule advances)

end
