(* ===== verification/RunProperties.thy ===== *)
theory RunProperties
  imports RunSafety
begin

text \<open>
  Properties of whole runs: who may send, what a refused claim means, and which account a
  run acts for. A small world, a map of objects with the list of received orders, shows
  that the hypotheses can hold.
\<close>

section \<open>A world to run in\<close>

type_synonym run_world = "(string \<Rightarrow> string option) \<times> order_intent list"

definition world_store :: "run_world object_store" where
  "world_store =
     \<lparr> os_read = (\<lambda>u w. (Inr (fst w u), w)), os_write = (\<lambda>u d w. (True, ((fst w)(u \<mapsto> d), snd w))),
       os_create = (\<lambda>b n d w. if fst w (object_at b n) = None then (Created, ((fst w)(object_at b n \<mapsto> d), snd w)) else (Conflict, w)),
       json_dumps = (\<lambda>_. ''{}''), json_loads = (\<lambda>t. Some (PDict [(''as_of'', PStr t)])) \<rparr>"

definition world_ports :: "run_world run_ports" where
  "world_ports =
     \<lparr> rp_get_quote = (\<lambda>s. returnIO (PFloat (Fin 10))),
       rp_submit = (\<lambda>i w. (Inr \<lparr> p_symbol = i_symbol i, p_side = i_side i, p_quantity = i_quantity i,
          p_status = ''filled'', p_broker_order_id = Some ''7'', p_raw_payload = PDict [] \<rparr>, (fst w, snd w @ [i]))),
       rp_release = (\<lambda>os. returnIO 0), rp_dispatch_alerts = None,
       rp_publish = (\<lambda>r. returnIO True), rp_cover_routine = (\<lambda>r. returnIO (False, r)) \<rparr>"

definition live_settings :: run_settings where
  "live_settings =
     \<lparr> s_dry_run_only = False, s_live_trading_enabled = True, s_persist_strategy_runs = True,
       s_max_order_notional_usd = None, s_safe_haven_threshold_usd = 0, s_cash_only_execution = True,
       s_notional_buy_execution = True, s_strategy_metadata = PDict [], s_limit_buy_premium_by_symbol = PNone \<rparr>"

definition sample_planned :: planned_run where
  "sample_planned =
     \<lparr> k_account = ''12345678'', k_profile = ''soxl'', k_display_name = ''Soxl'', k_period = ''2026-03'',
       k_plan = preview_plan, k_metadata = [], k_diagnostics = [], k_session_reused = False, k_heartbeat = PNone,
       k_signal_snapshot = PNone, k_plugin_report = [], k_now = sample_time \<rparr>"

definition sample_outcomes :: run_outcomes where
  "sample_outcomes = \<lparr> default_blocking_skip_reasons = [], filter_blocking_skips = (\<lambda>_ _. []),
     is_funding_block = (\<lambda>_. False), resolve_stage = (\<lambda>_ _ _ _. ''COMPLETED'') \<rparr>"

definition sample_vocabulary :: stage_vocabulary where
  "sample_vocabulary = \<lparr> default_terminal_stages = [''COMPLETED''], stage_no_action = ''NO_ACTION'',
     is_terminal_stage = (\<lambda>v ts. v \<in> set (map PStr ts)) \<rparr>"

definition quiet_policy :: notify_policy where
  "quiet_policy = \<lparr> np_digest = False, np_defer = (\<lambda>_ _. False) \<rparr>"

definition live_run :: "(run_world, pyval dict) io" where
  "live_run = run_after_plan empty_qpk (\<lambda>_. Inr []) sample_outcomes sample_vocabulary quiet_policy True world_store
     (Some sample_store) live_settings sample_planned None world_ports"

lemma world_store_laws: "object_store_laws world_store fst"
  by (auto simp: object_store_laws_def world_store_def)

lemma world_store_quiet: "store_sends_nothing world_store snd"
  by (simp add: store_sends_nothing_def world_store_def)

lemma world_ports_effects: "broker_effects fst snd world_ports"
  by (auto simp: broker_effects_def world_ports_def steps_along_def silent_def returnIO_def keeps_objects_def)

interpretation world: store_run world_store fst snd sample_store
  by unfold_locales (rule world_store_laws world_store_quiet sample_plain)+

section \<open>A run without a durable store\<close>

lemma unpersisted_gate:
  assumes e: "broker_effects (\<lambda>_. Map.empty) sent rp" and n: "\<not> persists store st" and live: "\<not> s_dry_run_only st"
  shows "order_gate (cycle_ports os store st p rp) False (\<lambda>c. sent (fst c) = x) (\<lambda>_. True) (\<lambda>_. False)"
proof
  fix w sy r w' assume "sent (fst w) = x" "get_quote (cycle_ports os store st p rp) sy w = (r, w')"
  moreover have "sent (snd (rp_get_quote rp sy (fst w))) = sent (fst w)"
    using e by (simp add: broker_effects_def steps_along_def silent_def)
  ultimately show "sent (fst w') = x \<and> (True \<longrightarrow> True)"
    by (auto simp: cycle_ports_def lift_fst_def split: prod.splits)
next
  fix w ol r w' assume "sent (fst w) = x" "confirmed_sell_release (cycle_ports os store st p rp) ol w = (r, w')"
  moreover have "sent (snd (rp_release rp ol (fst w))) = sent (fst w)"
    using e by (simp add: broker_effects_def steps_along_def silent_def)
  ultimately show "sent (fst w') = x \<and> (True \<longrightarrow> True)"
    by (auto simp: cycle_ports_def lift_fst_def split: prod.splits)
next
  fix m w r w' assume "before_live_submission (cycle_ports os store st p rp) = Some m" "sent (fst w) = x" "m w = (r, w')"
  then show "sent (fst w') = x \<and> (True \<longrightarrow> True) \<and> (r = Inr True \<longrightarrow> False)"
    using live n by (auto simp: cycle_ports_def acquire_submission_claim_def persists_def split: option.splits)
qed simp_all

lemma unpersisted_execution:
  assumes "broker_effects (\<lambda>_. Map.empty) sent rp" "\<not> persists store st" "\<not> s_dry_run_only st"
  shows "sent (snd (execute_plan k drift os store st p rp w)) = sent w"
proof -
  define run where "run = execute_value_target_plan k (cycle_ports os store st p rp) drift (cycle_options st) (k_plan p)"
  have "spec (\<lambda>c. sent (fst c) = sent w \<and> True) run (\<lambda>_ c. sent (fst c) = sent w) (\<lambda>c. sent (fst c) = sent w)"
    unfolding run_def
    by (rule order_gate.execute_spec [OF unpersisted_gate [OF assms]]) (simp add: cycle_options_def assms(3))
  from spec_snd [OF this, of "(w, False)"] have "sent (fst (snd (run (w, False)))) = sent w" by simp
  then show ?thesis by (auto simp: execute_plan_def run_def split: prod.splits sum.splits)
qed

abbreviation same_sent :: "('w \<Rightarrow> 'o) \<Rightarrow> 'w \<Rightarrow> 'w \<Rightarrow> bool" where
  "same_sent sent \<equiv> \<lambda>w w'. sent w' = sent w"

lemma same_sent_pre: "reflp (same_sent sent)" "transp (same_sent sent)"
  by (auto intro: reflpI transpI)

lemma same_sent_steps:
  assumes "store_sends_nothing os sent"
  shows "store_steps os store (same_sent sent)"
  by unfold_locales
     (auto simp: steps_along_def read_json_sent [OF assms] write_json_sent [OF assms] intro: reflpI transpI)

lemma unpersisted_run:
  assumes e: "broker_effects (\<lambda>_. Map.empty) sent rp" and n: "\<not> persists store st" and live: "\<not> s_dry_run_only st"
    and q: "store_sends_nothing os sent"
  shows "steps_along (same_sent sent) (run_after_plan k drift oc voc np send os store st p rc rp)"
proof (rule store_steps.whole_run_steps [OF same_sent_steps [OF q]])
  show "steps_along (same_sent sent) (dispatch_alerts rp)" "steps_along (same_sent sent) (notify np send rp r)" for r
    by (rule dispatch_steps [OF same_sent_pre(1) _ e], simp add: silent_def)
       (rule notify_steps [OF same_sent_pre _ e], simp add: silent_def)
  show "steps_along (same_sent sent) (execute_plan k drift os store st p rp)"
    by (simp add: steps_along_def unpersisted_execution [OF e n live])
qed

interpretation world_quiet: store_steps world_store "Some sample_store" "same_sent snd"
  by (rule same_sent_steps [OF world_store_quiet])

section \<open>The live run of the small world\<close>

lemma live_run_sends_one: "length (snd (snd (live_run (Map.empty, [])))) = 1"
  by code_simp

definition old_claim_world :: run_world where
  "old_claim_world = (Map.empty(''gs://b/p/strategy-runs/claims/____5678/soxl/2026_03.json'' \<mapsto> ''old''), [])"

section \<open>The runtime target\<close>

lemma target_selector:
  "runtime_target_account_selector (Some target) = Inr (Some e) \<Longrightarrow> \<exists>t. target = PList [PStr t] \<and> e = py_strip t \<and> e \<noteq> []"
  by (auto simp: runtime_target_account_selector_def split: pyval.splits list.splits if_splits)

lemma target_never_default: "runtime_target_account_selector (Some target) \<noteq> Inr None"
  by (auto simp: runtime_target_account_selector_def split: pyval.splits list.splits if_splits)

lemma count_list_length_filter: "length (filter (\<lambda>x. x = a) xs) = count_list xs a"
  by (induction xs) auto

section \<open>Properties\<close>



text \<open>
  A live run whose strategy-run persistence is off, or that has no state store,
  sends no order at all, whatever its plan: the claim that each submission needs cannot
  be had.
\<close>

theorem live_run_needs_a_durable_store:
  assumes "broker_effects (\<lambda>_. Map.empty) sent rp" "store_sends_nothing os sent"
    and "\<not> s_dry_run_only st" "\<not> (s_persist_strategy_runs st \<and> store \<noteq> None)"
  shows "sent (snd (run_after_plan k drift oc voc np send os store st p rc rp w)) = sent w"
  using unpersisted_run [OF assms(1) _ assms(3,2), of store k drift oc voc np send p rc] assms(4)
  by (simp add: persists_def steps_along_def)

theorem live_run_needs_a_durable_store_witness:
  "snd (snd (run_after_plan empty_qpk (\<lambda>_. Inr []) sample_outcomes sample_vocabulary quiet_policy True world_store
     None live_settings sample_planned None world_ports (Map.empty, []))) = []"
proof -
  have e: "broker_effects (\<lambda>_. Map.empty) snd world_ports"
    by (auto simp: broker_effects_def world_ports_def steps_along_def silent_def returnIO_def keeps_objects_def)
  show ?thesis
    using live_run_needs_a_durable_store [OF e world_store_quiet, of live_settings None empty_qpk "\<lambda>_. Inr []" sample_outcomes
        sample_vocabulary quiet_policy True sample_planned None "(Map.empty, [])"]
    by (simp add: live_settings_def)
qed

text \<open>
  Property C22. A claim object without the current boundary is not an effective claim, and
  \<open>has_effective_live_submission_claim\<close> calls such claims non-blocking; yet the run that
  finds one is stopped all the same, because the claim is created only if absent: it
  reports a skipped run and sends nothing.
\<close>

theorem old_boundary_claim_blocks_the_run:
  "(case fst (read_live_strategy_run_claim world_store sample_store ''****5678'' ''soxl'' ''2026-03'' old_claim_world) of
      Inr c \<Rightarrow> c \<noteq> None \<and> \<not> has_effective_live_submission_claim c | Inl e \<Rightarrow> False)
   \<and> (case live_run old_claim_world of
        (Inr d, w) \<Rightarrow> snd w = [] \<and> pget d ''ok'' = PBool True \<and> pget d ''idempotency_skipped'' = PBool True
      | (Inl e, w) \<Rightarrow> False)"
  by (rule conjI; code_simp)

text \<open>
  Property C30. A run acts for exactly the account its runtime target names: the target
  declares one non-empty selector, the broker knows it exactly once, and
  \<open>FIRSTRADE_ACCOUNT\<close> is unset or says the same.
\<close>

theorem run_account_is_the_target:
  assumes "resolve_run_account c (Some target) env = Inr a"
  shows "\<exists>t as. target = PList [PStr t] \<and> a = py_strip t \<and> a \<noteq> [] \<and> account_numbers c = Inr as
     \<and> count_list as a = 1 \<and> py_strip (env_or env ''FIRSTRADE_ACCOUNT'' []) \<in> {[], a}"
proof -
  obtain x where x: "runtime_target_account_selector (Some target) = Inr x"
    using assms by (auto simp: resolve_run_account_def configured_selector_def bindE_Inr_iff)
  then obtain e where e: "runtime_target_account_selector (Some target) = Inr (Some e)"
    using target_never_default [of target] by (cases x) auto
  then have r: "py_strip (env_or env ''FIRSTRADE_ACCOUNT'' []) \<in> {[], e}" "select_runtime_target_account c e = Inr a"
    using assms by (auto simp: resolve_run_account_def configured_selector_def select_run_account_def guardE_def Let_def bindE_Inr_iff split: if_splits)
  obtain as where "account_numbers c = Inr as" "length (filter (\<lambda>x. x = e) as) = 1" "a = e"
    using r(2) by (auto simp: select_runtime_target_account_def bindE_Inr_iff guardE_def split: if_splits)
  with target_selector [OF e] r(1) show ?thesis by (auto simp: count_list_length_filter)
qed

theorem run_account_is_the_target_witness:
  "resolve_run_account (Some sample_account_data) (Some (PList [PStr '' 12345678 ''])) (\<lambda>_. None) = Inr ''12345678''
   \<and> account_numbers (Some sample_account_data) = Inr [''12345678'']"
proof -
  have "resolve_run_account (Some sample_account_data) (Some (PList [PStr '' 12345678 ''])) (\<lambda>_. None) = Inr ''12345678''"
    "account_numbers (Some sample_account_data) = Inr [''12345678'']"
    by code_simp+
  with run_account_is_the_target [OF this(1)] show ?thesis by blast
qed

end
