(* ===== verification/PaperCommands.thy ===== *)
theory PaperCommands
  imports BrokerAdapters
begin

text \<open>
  Paper execution: the admission of a dry run (\<open>application/paper_execution_admission.py\<close>)
  and the reconciliation of a due command with the account
  (\<open>application/paper_execution_command_consumer.py\<close>). Commands, releases and their
  verification belong to \<open>quant_platform_kit\<close> and are parameters.
\<close>

section \<open>Admission\<close>

record command =
  cmd_platform :: string
  cmd_command_id :: string

record admission_decision =
  ad_disposition :: string
  ad_findings :: "string list"
  ad_command_id :: "string option"
  ad_receipt_sha256 :: "string option"

text \<open>
  \<open>parse_command\<close> is \<open>json.loads\<close>, the test for an object and \<open>ExecutionCommand.from_dict\<close>;
  \<open>evaluate\<close> is \<open>evaluate_paper_execution_admission\<close> with the release of the target.
\<close>

record admission_ports =
  parse_command :: "string \<Rightarrow> command exc"
  evaluate :: "command \<Rightarrow> pyval \<Rightarrow> admission_decision exc"

record paper_target =
  tgt_dry_run_only :: pyval
  tgt_strategy_release :: pyval

record audit =
  au_status :: string
  au_command_id :: "string option"
  au_disposition :: string
  au_findings :: "string list"
  au_receipt_sha256 :: "string option"

definition true_values :: "string list" where
  "true_values = [''1'', ''true'', ''yes'', ''on'']"

definition false_values :: "string list" where
  "false_values = [[], ''0'', ''false'', ''no'', ''off'']"

definition paper_admission_enabled_env :: string where
  "paper_admission_enabled_env = ''QSL_PAPER_ADMISSION_ENABLED''"

definition paper_dry_run_admission_requested :: "env \<Rightarrow> bool" where
  "paper_dry_run_admission_requested e =
     (case e paper_admission_enabled_env of None \<Rightarrow> False | Some v \<Rightarrow> py_lower (py_strip v) \<notin> set false_values)"

definition admission_enabled :: "env \<Rightarrow> bool" where
  "admission_enabled e \<longleftrightarrow>
     py_lower (py_strip (case e paper_admission_enabled_env of None \<Rightarrow> [] | Some v \<Rightarrow> v)) \<in> set true_values"

definition make_audit :: "string \<Rightarrow> string list \<Rightarrow> string option \<Rightarrow> string option \<Rightarrow> audit" where
  "make_audit disposition findings cid sha =
     \<lparr> au_status = (if disposition = ''allow_new_risk'' \<and> findings = [] then ''admitted'' else ''blocked''),
       au_command_id = cid, au_disposition = disposition, au_findings = findings, au_receipt_sha256 = sha \<rparr>"

definition halted :: "string \<Rightarrow> string option \<Rightarrow> audit" where
  "halted finding cid = make_audit ''halted'' [finding] cid None"

definition audit_from_decision :: "admission_decision \<Rightarrow> audit" where
  "audit_from_decision d = make_audit (ad_disposition d) (ad_findings d) (ad_command_id d) (ad_receipt_sha256 d)"

definition evaluate_paper_dry_run_admission ::
  "admission_ports \<Rightarrow> paper_target option \<Rightarrow> env \<Rightarrow> audit option exc" where
  "evaluate_paper_dry_run_admission k target e =
     (if \<not> paper_dry_run_admission_requested e then Inr None
      else if \<not> admission_enabled e then Inr (Some (halted ''paper_execution_admission_configuration_invalid'' None))
      else case e ''QSL_PAPER_EXECUTION_COMMAND_JSON'' of
        None \<Rightarrow> Inr (Some (halted ''paper_execution_command_missing'' None))
      | Some raw \<Rightarrow>
          if raw = [] then Inr (Some (halted ''paper_execution_command_missing'' None))
          else case parse_command k raw of
            Inl err \<Rightarrow> (if is_type_or_value_error err then Inr (Some (halted ''paper_execution_command_invalid'' None)) else Inl err)
          | Inr c \<Rightarrow>
              if cmd_platform c \<noteq> ''firstrade'' then Inr (Some (halted ''paper_execution_platform_mismatch'' (Some (cmd_command_id c))))
              else if (case target of None \<Rightarrow> True | Some t \<Rightarrow> tgt_dry_run_only t \<noteq> PBool True)
              then Inr (Some (halted ''paper_runtime_mode_invalid'' (Some (cmd_command_id c))))
              else case evaluate k c (case target of None \<Rightarrow> PNone | Some t \<Rightarrow> tgt_strategy_release t) of
                Inl err \<Rightarrow> (if is_type_or_value_error err
                            then Inr (Some (halted ''paper_execution_admission_evaluation_failed'' (Some (cmd_command_id c))))
                            else Inl err)
              | Inr d \<Rightarrow> Inr (Some (audit_from_decision d)))"

section \<open>The consumer switch\<close>

definition resolve_paper_execution_command_consumer_enabled :: "env \<Rightarrow> bool \<Rightarrow> bool exc" where
  "resolve_paper_execution_command_consumer_enabled e dry_run_only =
     (let enabled = py_lower (py_strip (env_or e ''FIRSTRADE_PAPER_EXECUTION_COMMAND_CONSUMER_ENABLED'' []))
            \<in> {''1'', ''true'', ''t'', ''yes'', ''y'', ''on''}
      in if enabled \<and> \<not> dry_run_only
         then Inl (RuntimeError ''Firstrade paper command consumer requires FIRSTRADE_DRY_RUN_ONLY=true'') else Inr enabled)"

section \<open>Reconciliation of a command\<close>

definition intent_schema_version :: string where
  "intent_schema_version = ''firstrade.paper-execution-intent.v1''"

definition notional_tolerance :: pyfloat where
  "notional_tolerance = fl (1 / 100)"

definition symbols_of :: "pyval \<Rightarrow> string list" where
  "symbols_of v = (case v of PList xs \<Rightarrow> dedup (filter (\<lambda>s. s \<noteq> []) (map symbol_of xs)) | _ \<Rightarrow> [])"

definition finite_number :: "pyval \<Rightarrow> string \<Rightarrow> pyfloat exc" where
  "finite_number v field =
     (case py_float v of
        Inl e \<Rightarrow> Inl (if is_type_or_value_error e then ValueError (field @ '' must be numeric'') else e)
      | Inr x \<Rightarrow> (if is_fin x then Inr x else Inl (ValueError (field @ '' must be finite''))))"

fun pround8 :: "pyfloat \<Rightarrow> pyfloat" where
  "pround8 (Fin q) = fl (of_int (rhe (q * 10 ^ 8)) / 10 ^ 8)"
| "pround8 x = x"

record paper_position =
  pp_symbol :: pyval
  pp_quantity :: pyval
  pp_market_value :: pyval

record paper_portfolio =
  pp_positions :: "paper_position list"
  pp_metadata :: pyval
  pp_total_equity :: pyval

datatype exposure_effect = Reduces | Increases | Neutral

record proposal =
  pr_symbol :: string
  pr_effect :: exposure_effect
  pr_side :: string
  pr_quantity :: pyfloat
  pr_reference_price :: pyfloat
  pr_current_value :: pyfloat
  pr_target_value :: pyfloat
  pr_delta :: pyfloat
  pr_current_quantity :: pyfloat

record reconciliation =
  rc_proposals :: "proposal list"
  rc_findings :: "string list"

definition mismatch :: string where
  "mismatch = ''position_reconciliation_mismatch''"

definition rejected_intent :: reconciliation where
  "rejected_intent = \<lparr> rc_proposals = [], rc_findings = [''data_artifact_invalid''] \<rparr>"

definition cash_balance_of :: "paper_portfolio \<Rightarrow> pyfloat exc" where
  "cash_balance_of p =
     (case pp_metadata p of
        PDict m \<Rightarrow> finite_number (pget m ''market_currency_cash'') ''portfolio.market_currency_cash''
      | _ \<Rightarrow> Inl (ValueError ''portfolio metadata is unavailable''))"

text \<open>The targets of an intent: \<open>None\<close> is an intent to reject; an overflowing integer escapes.\<close>

definition intent_targets :: "pyval dict \<Rightarrow> pyfloat dict option exc" where
  "intent_targets intent =
     (if str_or (pget intent ''schema_version'') \<noteq> intent_schema_version \<or> str_or (pget intent ''target_mode'') \<noteq> ''value''
      then Inr None
      else case pget intent ''targets'' of
        PDict raw \<Rightarrow>
          (case mapE (\<lambda>(k, v). bindE (finite_number v ''targets'') (\<lambda>x. Inr (symbol_of (PStr k), x)))
                  (filter (\<lambda>(k, v). symbol_of (PStr k) \<noteq> []) raw) of
             Inl e \<Rightarrow> (if is_value_error e then Inr None else Inl e)
           | Inr ts \<Rightarrow> Inr (Some (dict_of ts)))
      | _ \<Rightarrow> Inr None)"

definition valid_targets :: "string list \<Rightarrow> string list \<Rightarrow> pyfloat dict \<Rightarrow> bool" where
  "valid_targets symbols managed targets \<longleftrightarrow>
     symbols \<noteq> [] \<and> set symbols = set managed \<and> set (dkeys targets) = set symbols
     \<and> \<not> list_ex (\<lambda>(k, v). v < 0) targets"

definition price_of :: "(string \<Rightarrow> ('w, pyval) io) \<Rightarrow> string \<Rightarrow> ('w, pyfloat) io" where
  "price_of quote symbol =
     bindIO (quote symbol) (\<lambda>v. liftE (bindE (finite_number v ''quote'') (\<lambda>p.
       if p \<le> 0 then Inl (ValueError ''quote price must be positive'') else Inr p)))"

record holdings =
  h_findings :: "string list"
  h_quantities :: "pyfloat dict"
  h_values :: "pyfloat dict"

definition found :: "holdings \<Rightarrow> holdings" where
  "found h = h \<lparr> h_findings := h_findings h @ [mismatch] \<rparr>"

definition add_to :: "pyfloat dict \<Rightarrow> string \<Rightarrow> pyfloat \<Rightarrow> pyfloat dict" where
  "add_to d k x = dset d k (dget_or d k 0 + x)"

definition position_numbers ::
  "(string \<Rightarrow> ('w, pyval) io) \<Rightarrow> string \<Rightarrow> paper_position \<Rightarrow> ('w, pyfloat \<times> pyfloat \<times> pyfloat) io" where
  "position_numbers quote symbol p =
     bindIO (liftE (finite_number (pp_quantity p) ''quantity'')) (\<lambda>quantity.
     bindIO (liftE (finite_number (pp_market_value p) ''market_value'')) (\<lambda>recorded.
     bindIO (price_of quote symbol) (\<lambda>price. returnIO (quantity, recorded, price))))"

definition position_step ::
  "(string \<Rightarrow> ('w, pyval) io) \<Rightarrow> string list \<Rightarrow> paper_position \<Rightarrow> holdings \<Rightarrow> 'w \<Rightarrow> holdings \<times> 'w" where
  "position_step quote symbols p h w =
     (let symbol = symbol_of (pp_symbol p) in
      if symbol \<notin> set symbols then (found h, w)
      else case position_numbers quote symbol p w of
        (Inl e, w') \<Rightarrow> (found h, w')
      | (Inr (quantity, recorded, price), w') \<Rightarrow>
          let quoted = quantity * price;
              h1 = (if quantity < - notional_tolerance \<or> recorded < - notional_tolerance then found h else h);
              h2 = (if pmax (fl 1) (fabs quoted * fl (5 / 1000)) < fabs (recorded - quoted) then found h1 else h1)
          in (h2 \<lparr> h_quantities := add_to (h_quantities h2) symbol quantity, h_values := add_to (h_values h2) symbol quoted \<rparr>, w'))"

fun position_loop ::
  "(string \<Rightarrow> ('w, pyval) io) \<Rightarrow> string list \<Rightarrow> paper_position list \<Rightarrow> holdings \<Rightarrow> 'w \<Rightarrow> holdings \<times> 'w" where
  "position_loop quote symbols [] h w = (h, w)"
| "position_loop quote symbols (p # ps) h w =
     (case position_step quote symbols p h w of (h', w') \<Rightarrow> position_loop quote symbols ps h' w')"

text \<open>Cash and positions against the total equity; only value errors count as a mismatch.\<close>

definition check_equity :: "paper_portfolio \<Rightarrow> holdings \<Rightarrow> holdings exc" where
  "check_equity p h =
     (case bindE (cash_balance_of p) (\<lambda>cash. bindE (finite_number (pp_total_equity p) ''portfolio.total_equity'') (\<lambda>total.
             Inr (pmax (fl 1) (fabs total * fl (5 / 1000)) < fabs (cash + py_sum (map snd (h_values h)) - total)))) of
        Inl e \<Rightarrow> (if is_value_error e then Inr (found h) else Inl e)
      | Inr off \<Rightarrow> Inr (if off then found h else h))"

definition effect_of :: "pyfloat \<Rightarrow> pyfloat \<Rightarrow> exposure_effect" where
  "effect_of target current =
     (if fabs target < fabs current - notional_tolerance then Reduces
      else if fabs current + notional_tolerance < fabs target then Increases else Neutral)"

definition proposal_of :: "holdings \<Rightarrow> string \<Rightarrow> pyfloat \<Rightarrow> pyfloat \<Rightarrow> proposal exc" where
  "proposal_of h symbol target price =
     (let current = dget_or (h_values h) symbol 0; delta = target - current in
      bindE (pdiv (fabs delta) price) (\<lambda>quantity.
      Inr \<lparr> pr_symbol = symbol, pr_effect = effect_of target current, pr_side = (if 0 < delta then ''buy'' else ''sell''),
            pr_quantity = pround8 quantity, pr_reference_price = pround8 price, pr_current_value = pround8 current,
            pr_target_value = pround8 target, pr_delta = pround8 delta,
            pr_current_quantity = pround8 (dget_or (h_quantities h) symbol 0) \<rparr>))"

definition proposal_step ::
  "(string \<Rightarrow> ('w, pyval) io) \<Rightarrow> pyfloat dict \<Rightarrow> string \<Rightarrow> proposal list \<times> holdings \<Rightarrow> ('w, proposal list \<times> holdings) io" where
  "proposal_step quote targets symbol = (\<lambda>(ps, h) w.
     (let target = dget_or targets symbol 0; current = dget_or (h_values h) symbol 0 in
      if fabs (target - current) \<le> notional_tolerance then (Inr (ps, h), w)
      else case price_of quote symbol w of
        (Inl e, w') \<Rightarrow> (Inr (ps, found h), w')
      | (Inr price, w') \<Rightarrow> (bindE (proposal_of h symbol target price) (\<lambda>p. Inr (ps @ [p], h)), w')))"

fun proposal_loop ::
  "(string \<Rightarrow> ('w, pyval) io) \<Rightarrow> pyfloat dict \<Rightarrow> string list \<Rightarrow> proposal list \<times> holdings \<Rightarrow> ('w, proposal list \<times> holdings) io" where
  "proposal_loop quote targets [] st = returnIO st"
| "proposal_loop quote targets (s # ss) st =
     bindIO (proposal_step quote targets s st) (proposal_loop quote targets ss)"

definition reconcile_targets ::
  "(string \<Rightarrow> ('w, pyval) io) \<Rightarrow> pyfloat dict \<Rightarrow> paper_portfolio \<Rightarrow> string list \<Rightarrow> ('w, reconciliation) io" where
  "reconcile_targets quote targets portfolio symbols w =
     (case position_loop quote symbols (pp_positions portfolio) \<lparr> h_findings = [], h_quantities = [], h_values = [] \<rparr> w of
        (h, w') \<Rightarrow>
          bindIO (liftE (check_equity portfolio h)) (\<lambda>h1.
          bindIO (proposal_loop quote targets (sort symbols) ([], h1)) (\<lambda>(ps, h2).
          returnIO \<lparr> rc_proposals = ps, rc_findings = dedup (h_findings h2) \<rparr>)) w')"

definition managed_set :: "string list \<Rightarrow> string list" where
  "managed_set managed = dedup (filter (\<lambda>s. s \<noteq> []) (map (\<lambda>s. symbol_of (PStr s)) managed))"

definition reconcile_command ::
  "(string \<Rightarrow> ('w, pyval) io) \<Rightarrow> pyval dict \<Rightarrow> paper_portfolio \<Rightarrow> string list \<Rightarrow> ('w, reconciliation) io" where
  "reconcile_command quote intent portfolio managed_symbols =
     bindIO (liftE (intent_targets intent)) (\<lambda>ts.
     case ts of
       None \<Rightarrow> returnIO rejected_intent
     | Some targets \<Rightarrow>
         (let symbols = symbols_of (pget intent ''strategy_symbols'')
          in if valid_targets symbols (managed_set managed_symbols) targets
             then reconcile_targets quote targets portfolio symbols
             else returnIO rejected_intent))"

section \<open>Facts\<close>

lemma position_step_findings:
  assumes "position_step quote symbols p h w = (h', w')" "h_findings h' = []"
  shows "h_findings h = [] \<and> symbol_of (pp_symbol p) \<in> set symbols"
  using assms by (auto simp: position_step_def found_def Let_def split: if_splits prod.splits sum.splits)

lemma position_loop_findings:
  "position_loop quote symbols ps h w = (h', w') \<Longrightarrow> h_findings h' = [] \<Longrightarrow>
   h_findings h = [] \<and> list_all (\<lambda>p. symbol_of (pp_symbol p) \<in> set symbols) ps"
proof (induction ps arbitrary: h w)
  case (Cons p ps)
  obtain h1 w1 where s: "position_step quote symbols p h w = (h1, w1)" by fastforce
  then have "h_findings h1 = [] \<and> list_all (\<lambda>p. symbol_of (pp_symbol p) \<in> set symbols) ps"
    using Cons.IH [of h1 w1] Cons.prems by simp
  with position_step_findings [OF s] show ?case by simp
qed simp

lemma check_equity_findings: "check_equity p h = Inr h' \<Longrightarrow> h_findings h' = [] \<Longrightarrow> h_findings h = []"
  by (auto simp: check_equity_def found_def split: sum.splits if_splits)

lemma proposal_step_cases:
  assumes "proposal_step quote targets s (ps, h) w = (Inr (ps', h'), w')"
  shows "(ps' = ps \<or> (\<exists>p. ps' = ps @ [p] \<and> pr_symbol p = s)) \<and> (h_findings h' = [] \<longrightarrow> h_findings h = [])"
  using assms
  by (auto simp: proposal_step_def Let_def found_def bindE_Inr_iff proposal_of_def split: if_splits prod.splits sum.splits)

lemma proposal_loop_sorted:
  "proposal_loop quote targets ss (ps, h) w = (Inr (ps', h'), w') \<Longrightarrow> sorted_wrt (<) (map pr_symbol ps @ ss) \<Longrightarrow>
   sorted_wrt (<) (map pr_symbol ps') \<and> set (map pr_symbol ps') \<subseteq> set (map pr_symbol ps @ ss)
   \<and> (h_findings h' = [] \<longrightarrow> h_findings h = [])"
proof (induction ss arbitrary: ps h w)
  case (Cons s ss)
  then obtain ps1 h1 w1 where s: "proposal_step quote targets s (ps, h) w = (Inr (ps1, h1), w1)"
    and l: "proposal_loop quote targets ss (ps1, h1) w1 = (Inr (ps', h'), w')"
    by (auto simp: bindIO_Inr)
  from proposal_step_cases [OF s] Cons.prems(2)
  have "sorted_wrt (<) (map pr_symbol ps1 @ ss)" "set (map pr_symbol ps1 @ ss) \<subseteq> set (map pr_symbol ps @ s # ss)"
    and "h_findings h1 = [] \<longrightarrow> h_findings h = []"
    by (auto simp: sorted_wrt_append)
  with Cons.IH [OF l] show ?case by blast
qed simp

lemma symbols_of_distinct: "distinct (symbols_of v)"
  by (simp add: symbols_of_def split: pyval.splits)

section \<open>Properties\<close>



definition sample_admission :: admission_ports where
  "sample_admission = \<lparr> parse_command = (\<lambda>_. Inr \<lparr> cmd_platform = ''firstrade'', cmd_command_id = ''c1'' \<rparr>),
     evaluate = (\<lambda>c _. Inr \<lparr> ad_disposition = ''allow_new_risk'', ad_findings = [], ad_command_id = Some (cmd_command_id c),
                             ad_receipt_sha256 = None \<rparr>) \<rparr>"

definition sample_env :: env where
  "sample_env = [''QSL_PAPER_ADMISSION_ENABLED'' \<mapsto> '' TRUE '', ''QSL_PAPER_EXECUTION_COMMAND_JSON'' \<mapsto> ''{}'']"


definition sample_intent :: "pyval dict" where
  "sample_intent = [(''schema_version'', PStr ''firstrade.paper-execution-intent.v1''), (''target_mode'', PStr ''value''),
     (''targets'', PDict [(''spy'', PInt 100)]), (''strategy_symbols'', PList [PStr ''SPY''])]"

definition sample_paper_portfolio :: paper_portfolio where
  "sample_paper_portfolio =
     \<lparr> pp_positions = [\<lparr> pp_symbol = PStr ''SPY'', pp_quantity = PInt 5, pp_market_value = PInt 50 \<rparr>],
       pp_metadata = PDict [(''market_currency_cash'', PInt 50)], pp_total_equity = PInt 100 \<rparr>"

definition held_spy :: holdings where
  "held_spy = \<lparr> h_findings = [], h_quantities = [(''SPY'', Fin 5)], h_values = [(''SPY'', Fin 50)] \<rparr>"

lemma sample_intent_read:
  "intent_targets sample_intent = Inr (Some [(''SPY'', Fin 100)])"
  "symbols_of (pget sample_intent ''strategy_symbols'') = [''SPY'']"
  "valid_targets [''SPY''] (managed_set [''spy'']) [(''SPY'', Fin 100)]"
  by code_simp+

lemma spy_numbers:
  "position_numbers (\<lambda>_. returnIO (PInt 10)) ''SPY'' \<lparr> pp_symbol = PStr ''SPY'', pp_quantity = PInt 5, pp_market_value = PInt 50 \<rparr> ()
   = (Inr (Fin 5, Fin 50, Fin 10), ())"
  "symbol_of (PStr ''SPY'') = ''SPY''" "Fin 5 * Fin 10 = Fin 50" "\<not> Fin 5 < - notional_tolerance" "\<not> Fin 50 < - notional_tolerance"
  "\<not> pmax (fl 1) (fabs (Fin 50) * fl (5 / 1000)) < fabs (Fin 50 - Fin 50)"
  "add_to [] ''SPY'' (Fin 5) = [(''SPY'', Fin 5)]" "add_to [] ''SPY'' (Fin 50) = [(''SPY'', Fin 50)]"
  by code_simp+

lemma sample_holdings:
  "position_loop (\<lambda>_. returnIO (PInt 10)) [''SPY''] (pp_positions sample_paper_portfolio)
     \<lparr> h_findings = [], h_quantities = [], h_values = [] \<rparr> () = (held_spy, ())"
proof -
  have "''SPY'' \<in> set [''SPY'']" by simp
  then have "position_step (\<lambda>_. returnIO (PInt 10)) [''SPY''] \<lparr> pp_symbol = PStr ''SPY'', pp_quantity = PInt 5, pp_market_value = PInt 50 \<rparr>
      \<lparr> h_findings = [], h_quantities = [], h_values = [] \<rparr> () = (held_spy, ())"
    unfolding position_step_def held_spy_def
    by (simp only: paper_position.simps spy_numbers Let_def if_False not_True_eq_False prod.case sum.case simp_thms holdings.simps)
  then show ?thesis by (simp add: sample_paper_portfolio_def)
qed

lemma sample_equity:
  "check_equity sample_paper_portfolio held_spy = Inr held_spy"
  by code_simp

lemma sample_difference:
  "dget_or [(''SPY'', Fin 100)] ''SPY'' 0 = Fin 100" "dget_or (h_values held_spy) ''SPY'' 0 = Fin 50"
  "\<not> fabs (Fin 100 - Fin 50) \<le> notional_tolerance" "pdiv (fabs (Fin 100 - Fin 50)) (Fin 10) = Inr (Fin 5)"
  "price_of (\<lambda>_. returnIO (PInt 10)) ''SPY'' () = (Inr (Fin 10), ())"
  "h_findings held_spy = []"
  by code_simp+

lemma sample_reconciled:
  "\<exists>p. reconcile_command (\<lambda>_. returnIO (PInt 10)) sample_intent sample_paper_portfolio [''spy''] ()
     = (Inr \<lparr> rc_proposals = [p], rc_findings = [] \<rparr>, ()) \<and> pr_symbol p = ''SPY''"
  by (simp add: reconcile_command_def sample_intent_read reconcile_targets_def sample_holdings sample_equity sample_difference
      proposal_step_def proposal_of_def bindIO_case returnIO_eq liftE_def Let_def)


end
