(* ===== verification/SessionCache.thy ===== *)
theory SessionCache
  imports StateStore OrderGuard
begin

text \<open>
  The cached login session of \<open>FirstradeBrokerClient\<close> (\<open>application/firstrade_client.py\<close>):
  where it is kept, when it is still valid, how it is loaded and saved. The file system, the
  clock, the hash and what the SDK's session object holds are parameters.
\<close>

section \<open>Parameters\<close>

text \<open>
  \<open>cp_local\<close> reads and parses a file: \<open>None\<close> is a missing file or no JSON. \<open>cp_write_local\<close>
  and \<open>cp_delete_local\<close> change nothing where the operating system refuses. \<open>sv_cookies\<close> is
  \<open>None\<close> where the session has no cookies or raises.
\<close>

record 'w cache_ports =
  cp_clock :: "'w \<Rightarrow> pyfloat"
  cp_local :: "string \<Rightarrow> ('w, pyval option) io"
  cp_write_local :: "string \<Rightarrow> pyval dict \<Rightarrow> 'w \<Rightarrow> 'w"
  cp_delete_local :: "string \<Rightarrow> 'w \<Rightarrow> 'w"
  cp_digest :: "string \<Rightarrow> string"
  cp_store :: "'w object_store"

record session_tokens =
  sv_access_token :: pyval
  sv_ftat :: pyval
  sv_sid :: pyval
  sv_cookies :: "pyval dict option"

section \<open>Where the cache is\<close>

definition session_cache_identity :: "(string \<Rightarrow> string) \<Rightarrow> credentials \<Rightarrow> string" where
  "session_cache_identity digest c =
     (let u = py_lower (py_strip (c_username c)) in if u = [] then ''unknown'' else take 16 (digest u))"

definition session_state_key :: "(string \<Rightarrow> string) \<Rightarrow> credentials \<Rightarrow> string" where
  "session_state_key digest c = ''sessions/'' @ session_cache_identity digest c @ ''/latest.json''"

definition session_cache_path :: "(string \<Rightarrow> string) \<Rightarrow> credentials \<Rightarrow> string" where
  "session_cache_path digest c = c_cookie_dir c @ ''/ft_session_'' @ session_cache_identity digest c @ ''.json''"

definition session_state_store :: "gcs_state_store option \<Rightarrow> credentials \<Rightarrow> gcs_state_store option exc" where
  "session_state_store explicit c =
     (case explicit of Some s \<Rightarrow> Inr (Some s)
      | None \<Rightarrow>
          if \<not> c_persist_session_cache c \<or> c_gcs_state_bucket c = [] then Inr None
          else bindE (make_store (c_gcs_state_bucket c) (c_gcs_state_prefix c)) (\<lambda>s. Inr (Some s)))"

section \<open>When it is valid\<close>

definition cache_ttl :: "credentials \<Rightarrow> int" where
  "cache_ttl c = (let t = c_session_cache_ttl_seconds c in max 1 (if t = 0 then 1 else t))"

definition filled_text :: "pyval \<Rightarrow> bool" where
  "filled_text v = (case v of PStr s \<Rightarrow> py_strip s \<noteq> [] | _ \<Rightarrow> False)"

definition age_within :: "pyfloat \<Rightarrow> int \<Rightarrow> pyfloat \<Rightarrow> bool" where
  "age_within now ttl saved \<longleftrightarrow> 0 \<le> now - saved \<and> now - saved \<le> Fin (of_int ttl)"

definition is_valid_session_cache_payload :: "pyfloat \<Rightarrow> int \<Rightarrow> pyval \<Rightarrow> bool exc" where
  "is_valid_session_cache_payload now ttl payload =
     (case payload of
        PDict d \<Rightarrow>
          (case float_or0 (pget d ''saved_at'') of
             Inl e \<Rightarrow> (if is_type_or_value_error e then Inr False else Inl e)
           | Inr saved \<Rightarrow> Inr (is_fin saved \<and> 0 < saved \<and> age_within now ttl saved
                              \<and> filled_text (pget d ''ftat'') \<and> filled_text (pget d ''sid'')))
      | _ \<Rightarrow> Inr False)"

definition valid_now :: "'w cache_ports \<Rightarrow> credentials \<Rightarrow> pyval \<Rightarrow> ('w, bool) io" where
  "valid_now ch c payload w = (is_valid_session_cache_payload (cp_clock ch w) (cache_ttl c) payload, w)"

section \<open>Loading\<close>

definition opt_dict :: "pyval dict option \<Rightarrow> pyval" where
  "opt_dict d = (case d of None \<Rightarrow> PNone | Some x \<Rightarrow> PDict x)"

definition load_session_cache ::
  "'w cache_ports \<Rightarrow> gcs_state_store option \<Rightarrow> credentials \<Rightarrow> ('w, pyval option) io" where
  "load_session_cache ch explicit c =
     bindIO (cp_local ch (session_cache_path (cp_digest ch) c)) (\<lambda>local.
     let payload = (case local of None \<Rightarrow> PNone | Some v \<Rightarrow> v) in
     bindIO (valid_now ch c payload) (\<lambda>ok.
     if ok then returnIO (Some payload)
     else bindIO (liftE (session_state_store explicit c)) (\<lambda>store.
          case store of
            None \<Rightarrow> returnIO None
          | Some s \<Rightarrow>
              bindIO (catchIO (bindIO (read_json (cp_store ch) s (session_state_key (cp_digest ch) c)) (\<lambda>d. returnIO (opt_dict d)))
                        (\<lambda>_. returnIO PNone)) (\<lambda>persisted.
              bindIO (valid_now ch c persisted) (\<lambda>ok2.
              returnIO (if ok2 then Some persisted else None))))))"

definition cached_error :: "string \<Rightarrow> pyexc" where
  "cached_error reason = CachedSessionError reason ''cache'' None"

definition stale_or_invalid :: "pyfloat \<Rightarrow> int \<Rightarrow> pyval dict \<Rightarrow> pyexc" where
  "stale_or_invalid now ttl d =
     (let saved = (case float_or0 (pget d ''saved_at'') of Inl _ \<Rightarrow> 0 | Inr x \<Rightarrow> x)
      in if is_fin saved \<and> 0 < saved \<and> \<not> age_within now ttl saved then cached_error ''cache_stale''
         else cached_error ''cache_invalid'')"

definition load_read_only_session_cache ::
  "'w cache_ports \<Rightarrow> gcs_state_store option \<Rightarrow> credentials \<Rightarrow> ('w, pyval option) io" where
  "load_read_only_session_cache ch explicit c =
     (if \<not> c_persist_session_cache c \<and> explicit = None then load_session_cache ch explicit c
      else case session_state_store explicit c of
        Inl _ \<Rightarrow> raiseIO (cached_error ''cache_config_error'')
      | Inr None \<Rightarrow> raiseIO (cached_error ''cache_config_error'')
      | Inr (Some s) \<Rightarrow>
          bindIO (catchIO (read_json (cp_store ch) s (session_state_key (cp_digest ch) c))
                    (\<lambda>_. raiseIO (cached_error ''cache_read_failed''))) (\<lambda>found.
          case found of
            None \<Rightarrow> raiseIO (cached_error ''cache_missing'')
          | Some d \<Rightarrow>
              bindIO (valid_now ch c (PDict d)) (\<lambda>ok w.
              if ok then (Inr (Some (PDict d)), w)
              else (Inl (stale_or_invalid (cp_clock ch w) (cache_ttl c) d), w))))"

section \<open>Saving\<close>

definition cache_payload :: "session_tokens \<Rightarrow> pyfloat \<Rightarrow> pyval dict" where
  "cache_payload t now =
     [(''access-token'', sv_access_token t), (''ftat'', sv_ftat t), (''sid'', sv_sid t),
      (''cookies'', PDict (case sv_cookies t of None \<Rightarrow> [] | Some d \<Rightarrow> d)), (''saved_at'', PFloat now)]"

definition save_session_cache ::
  "'w cache_ports \<Rightarrow> gcs_state_store option \<Rightarrow> credentials \<Rightarrow> ('w \<Rightarrow> session_tokens) \<Rightarrow> ('w, unit) io" where
  "save_session_cache ch explicit c tokens w =
     (let payload = cache_payload (tokens w) (cp_clock ch w) in
      if \<not> c_reuse_session c \<or> \<not> truthy (sv_ftat (tokens w)) \<or> \<not> truthy (sv_sid (tokens w)) then (Inr (), w)
      else bindIO (\<lambda>w. (Inr (), cp_write_local ch (session_cache_path (cp_digest ch) c) payload w)) (\<lambda>_.
           bindIO (liftE (session_state_store explicit c)) (\<lambda>store.
           case store of
             None \<Rightarrow> returnIO ()
           | Some s \<Rightarrow> catchIO (bindIO (write_json (cp_store ch) s (session_state_key (cp_digest ch) c) payload) (\<lambda>_. returnIO ()))
                        (\<lambda>_. returnIO ()))) w)"

definition cache_unavailable :: pyexc where
  "cache_unavailable = SafetyError ''Validated session cache is unavailable.''"

definition save_verified_session_cache ::
  "'w cache_ports \<Rightarrow> gcs_state_store option \<Rightarrow> credentials \<Rightarrow> ('w \<Rightarrow> session_tokens) option \<Rightarrow> ('w, unit) io" where
  "save_verified_session_cache ch explicit c session w =
     (case session of
        None \<Rightarrow> (Inl cache_unavailable, w)
      | Some tokens \<Rightarrow>
          (let payload = cache_payload (tokens w) (cp_clock ch w) in
           if \<not> c_reuse_session c \<or> \<not> c_persist_session_cache c
              \<or> \<not> (filled_text (sv_access_token (tokens w)) \<and> filled_text (sv_ftat (tokens w)) \<and> filled_text (sv_sid (tokens w)))
           then (Inl cache_unavailable, w)
           else bindIO (catchIO (bindIO (liftE (session_state_store explicit c)) (\<lambda>store.
                  case store of
                    None \<Rightarrow> raiseIO cache_unavailable
                  | Some s \<Rightarrow> bindIO (write_json (cp_store ch) s (session_state_key (cp_digest ch) c) payload) (\<lambda>ok.
                               if ok then returnIO () else raiseIO cache_unavailable)))
                  (\<lambda>_. raiseIO cache_unavailable)) (\<lambda>_ w.
                (Inr (), cp_write_local ch (session_cache_path (cp_digest ch) c) payload w)) w))"

section \<open>Facts\<close>

text \<open>A payload that may be used: fresh and with both tokens.\<close>

definition usable_payload :: "pyfloat \<Rightarrow> int \<Rightarrow> pyval \<Rightarrow> bool" where
  "usable_payload now ttl payload \<longleftrightarrow>
     (\<exists>d saved. payload = PDict d \<and> float_or0 (pget d ''saved_at'') = Inr saved \<and> is_fin saved \<and> 0 < saved
        \<and> age_within now ttl saved \<and> filled_text (pget d ''ftat'') \<and> filled_text (pget d ''sid''))"

lemma valid_usable: "is_valid_session_cache_payload now ttl p = Inr True \<Longrightarrow> usable_payload now ttl p"
  by (auto simp: is_valid_session_cache_payload_def usable_payload_def split: pyval.splits sum.splits if_splits)

lemma valid_now_Inr: "valid_now ch c p w = (Inr True, w') \<Longrightarrow> w' = w \<and> usable_payload (cp_clock ch w) (cache_ttl c) p"
  by (auto simp: valid_now_def valid_usable)

lemma load_session_cache_usable:
  assumes "load_session_cache ch explicit c w = (Inr (Some p), w')"
  shows "usable_payload (cp_clock ch w') (cache_ttl c) p"
  using assms
  by (auto simp: load_session_cache_def bindIO_Inr Let_def dest: valid_now_Inr split: if_splits option.splits)

lemma load_read_only_usable:
  assumes "load_read_only_session_cache ch explicit c w = (Inr (Some p), w')"
  shows "usable_payload (cp_clock ch w') (cache_ttl c) p"
  using assms
  by (auto simp: load_read_only_session_cache_def bindIO_Inr dest: load_session_cache_usable valid_now_Inr
      split: if_splits option.splits sum.splits)

end
