(* ===== verification/PyDate.thy ===== *)
theory PyDate
  imports PyText
begin

text \<open>
  Calendar dates of Python's \<open>datetime\<close> as day numbers (\<open>date.toordinal\<close>), with the text
  forms the source reads and writes: \<open>date.fromisoformat\<close>, \<open>date.isoformat\<close> and
  \<open>datetime.strptime\<close> for \<open>%Y-%m-%d\<close> and \<open>%m/%d/%Y\<close>.
\<close>

type_synonym day = int

definition leap_year :: "int \<Rightarrow> bool" where
  "leap_year y \<longleftrightarrow> y mod 4 = 0 \<and> (y mod 100 \<noteq> 0 \<or> y mod 400 = 0)"

definition month_lengths :: "int \<Rightarrow> int list" where
  "month_lengths y = [31, if leap_year y then 29 else 28, 31, 30, 31, 30, 31, 31, 30, 31, 30, 31]"

definition days_before_year :: "int \<Rightarrow> int" where
  "days_before_year y = (y - 1) * 365 + (y - 1) div 4 - (y - 1) div 100 + (y - 1) div 400"

definition day_number :: "int \<Rightarrow> int \<Rightarrow> int \<Rightarrow> day" where
  "day_number y m d = days_before_year y + sum_list (take (nat (m - 1)) (month_lengths y)) + d"

text \<open>\<open>date(y, m, d)\<close>, or nothing where it raises \<open>ValueError\<close>.\<close>

definition make_day :: "int \<Rightarrow> int \<Rightarrow> int \<Rightarrow> day option" where
  "make_day y m d =
     (if 1 \<le> y \<and> y \<le> 9999 \<and> 1 \<le> m \<and> m \<le> 12 \<and> 1 \<le> d \<and> d \<le> month_lengths y ! nat (m - 1)
      then Some (day_number y m d) else None)"

text \<open>Year, month and day of a day number.\<close>

fun month_day :: "int \<Rightarrow> int \<Rightarrow> int list \<Rightarrow> int \<times> int" where
  "month_day m n [] = (m, n)"
| "month_day m n (l # ls) = (if n < l then (m, n + 1) else month_day (m + 1) (n - l) ls)"

definition ymd_of :: "day \<Rightarrow> int \<times> int \<times> int" where
  "ymd_of d =
     (let n0 = d - 1; n400 = n0 div 146097; r400 = n0 mod 146097; n100 = r400 div 36524; r100 = r400 mod 36524;
          n4 = r100 div 1461; r4 = r100 mod 1461; n1 = r4 div 365; r1 = r4 mod 365;
          y = n400 * 400 + n100 * 100 + n4 * 4 + n1 + 1
      in if n1 = 4 \<or> n100 = 4 then (y - 1, 12, 31) else (y, month_day 1 r1 (month_lengths y)))"

definition zero_padded :: "nat \<Rightarrow> int \<Rightarrow> string" where
  "zero_padded w n = (let t = int_digits n in replicate (w - length t) (CHR ''0'') @ t)"

definition date_isoformat :: "day \<Rightarrow> string" where
  "date_isoformat d = (case ymd_of d of (y, m, k) \<Rightarrow> zero_padded 4 y @ ''-'' @ zero_padded 2 m @ ''-'' @ zero_padded 2 k)"

text \<open>A number of exactly \<open>n\<close> digits at the front of a text, and what follows.\<close>

definition take_digits :: "nat \<Rightarrow> string \<Rightarrow> (int \<times> string) option" where
  "take_digits n t =
     (if length (take n t) = n \<and> list_all is_digit (take n t) then Some (digits_val (take n t), drop n t) else None)"

text \<open>
  \<open>date.fromisoformat\<close>: the calendar and the week forms, each with and without separators,
  of the lengths 7, 8 and 10. \<open>week_day\<close> is the day of an ISO week.
\<close>

definition week_one :: "int \<Rightarrow> day" where
  "week_one y =
     (let first = day_number y 1 1; weekday = (first + 6) mod 7; monday = first - weekday
      in if 3 < weekday then monday + 7 else monday)"

definition week_day :: "int \<Rightarrow> int \<Rightarrow> int \<Rightarrow> day option" where
  "week_day y w k =
     (let weekday = (day_number y 1 1 + 6) mod 7; long = (weekday = 3 \<or> (weekday = 2 \<and> leap_year y)) in
      if 1 \<le> y \<and> y \<le> 9999 \<and> 1 \<le> w \<and> (w \<le> 52 \<or> (w = 53 \<and> long)) \<and> 1 \<le> k \<and> k \<le> 7
      then Some (week_one y + (w - 1) * 7 + k - 1) else None)"

definition drop_dash :: "bool \<Rightarrow> string \<Rightarrow> string option" where
  "drop_dash sep t = (if sep then (case t of x # r \<Rightarrow> if x = CHR ''-'' then Some r else None | [] \<Rightarrow> None) else Some t)"

definition parse_week :: "int \<Rightarrow> bool \<Rightarrow> string \<Rightarrow> day option" where
  "parse_week y sep t =
     (case take_digits 2 t of
        None \<Rightarrow> None
      | Some (w, []) \<Rightarrow> week_day y w 1
      | Some (w, r) \<Rightarrow>
          (case drop_dash sep r of
             None \<Rightarrow> None
           | Some r2 \<Rightarrow> (case take_digits 1 r2 of Some (k, []) \<Rightarrow> week_day y w k | _ \<Rightarrow> None)))"

definition parse_month_day :: "int \<Rightarrow> bool \<Rightarrow> string \<Rightarrow> day option" where
  "parse_month_day y sep t =
     (case take_digits 2 t of
        None \<Rightarrow> None
      | Some (m, r) \<Rightarrow>
          (case drop_dash sep r of
             None \<Rightarrow> None
           | Some r2 \<Rightarrow> (case take_digits 2 r2 of Some (d, []) \<Rightarrow> make_day y m d | _ \<Rightarrow> None)))"

definition fromisoformat :: "string \<Rightarrow> day option" where
  "fromisoformat t =
     (if length t \<notin> {7, 8, 10} then None
      else case take_digits 4 t of
        None \<Rightarrow> None
      | Some (y, r) \<Rightarrow>
          (let sep = (take 1 r = ''-''); r2 = (if sep then drop 1 r else r) in
           if take 1 r2 = ''W'' then parse_week y sep (drop 1 r2) else parse_month_day y sep r2))"

text \<open>The month and day fields of \<open>strptime\<close>: one or two digits; a day may be padded with a blank.\<close>

definition strptime_number :: "int \<Rightarrow> string \<Rightarrow> int option" where
  "strptime_number limit t =
     (if t \<noteq> [] \<and> length t \<le> 2 \<and> list_all is_digit t \<and> 1 \<le> digits_val t \<and> digits_val t \<le> limit
      then Some (digits_val t) else None)"

definition strptime_day :: "string \<Rightarrow> int option" where
  "strptime_day t =
     (case t of
        [b, d] \<Rightarrow> if b = CHR '' '' then strptime_number 9 [d] else strptime_number 31 t
      | _ \<Rightarrow> strptime_number 31 t)"

definition strptime_year :: "string \<Rightarrow> int option" where
  "strptime_year t = (case take_digits 4 t of Some (y, []) \<Rightarrow> Some y | _ \<Rightarrow> None)"

definition day_of_fields :: "string \<Rightarrow> string \<Rightarrow> string \<Rightarrow> day option" where
  "day_of_fields y m d =
     (case (strptime_year y, strptime_number 12 m, strptime_day d) of
        (Some y', Some m', Some d') \<Rightarrow> make_day y' m' d' | _ \<Rightarrow> None)"

definition strptime_iso :: "string \<Rightarrow> day option" where
  "strptime_iso t =
     (case partition_at (CHR ''-'') t of (y, s1, r) \<Rightarrow>
      case partition_at (CHR ''-'') r of (m, s2, d) \<Rightarrow> if s1 \<and> s2 then day_of_fields y m d else None)"

definition strptime_us :: "string \<Rightarrow> day option" where
  "strptime_us t =
     (case partition_at (CHR ''/'') t of (m, s1, r) \<Rightarrow>
      case partition_at (CHR ''/'') r of (d, s2, y) \<Rightarrow> if s1 \<and> s2 then day_of_fields y m d else None)"

end
