(* ===== verification/ClientSession.thy ===== *)
theory ClientSession
  imports SessionCache BrokerClient PyDate
begin

text \<open>
  The life of a \<open>FirstradeBrokerClient\<close>: login, cached login, the read-only connection
  whose transport lets only account reads through, the single history read, and closing.
  The SDK is a parameter; what it does with the transport is any program of requests.
\<close>

section \<open>Client and SDK\<close>

record ('s, 'a) client =
  cl_live_trading_enabled :: bool
  cl_session :: "'s option"
  cl_account_data :: "'a option"
  cl_session_reused :: bool
  cl_read_only :: bool
  cl_history_url :: "string option"
  cl_history_used :: bool
  cl_history_bytes :: "string option"
  cl_request_attempts :: int

definition new_client :: "bool \<Rightarrow> ('s, 'a) client" where
  "new_client live =
     \<lparr> cl_live_trading_enabled = live, cl_session = None, cl_account_data = None, cl_session_reused = False,
       cl_read_only = False, cl_history_url = None, cl_history_used = False, cl_history_bytes = None,
       cl_request_attempts = 0 \<rparr>"

text \<open>
  A request and its answer. \<open>rsp_json\<close> is \<open>None\<close> where the content is no JSON. A transport
  fails with a timeout, with another error of \<open>requests\<close>, or with any other exception.
\<close>

record request =
  rq_method :: string
  rq_url :: string
  rq_kwargs :: "pyval dict"

record response =
  rsp_status :: int
  rsp_content :: string
  rsp_json :: "pyval option"

datatype transport_error = TimedOut | RequestFailed | TransportRaised pyexc

type_synonym 'w transport = "request \<Rightarrow> 'w \<Rightarrow> (transport_error + response) \<times> 'w"

text \<open>What the SDK does over a transport: any finite program of requests, which may react to errors.\<close>

datatype 'a reader = Return 'a | Fail pyexc | Ask request "response exc \<Rightarrow> 'a reader"

record ('w, 's, 'a) sdk =
  sdk_session :: "credentials \<Rightarrow> bool \<Rightarrow> ('w, 's) io"
  sdk_login :: "'s \<Rightarrow> ('w, bool) io"
  sdk_login_two :: "'s \<Rightarrow> string \<Rightarrow> ('w, unit) io"
  sdk_restore :: "'s \<Rightarrow> pyval \<Rightarrow> ('w, unit) io"
  sdk_account_data :: "'s \<Rightarrow> ('w, 'a) io"
  sdk_tokens :: "'s \<Rightarrow> 'w \<Rightarrow> session_tokens"
  sdk_close :: "'s \<Rightarrow> 'w \<Rightarrow> 'w"
  sdk_read_only_session :: "('w, 's) io"
  sdk_read_only_account :: "'s \<Rightarrow> pyval \<Rightarrow> 'a reader"
  sdk_history :: "'a \<Rightarrow> string \<Rightarrow> string \<Rightarrow> string \<Rightarrow> pyval dict reader"
  sdk_history_url :: "string \<Rightarrow> string \<Rightarrow> string \<Rightarrow> string"
  sdk_transport :: "'w transport"

section \<open>Login\<close>

definition login :: "('w, 's, 'a) sdk \<Rightarrow> credentials \<Rightarrow> 's \<Rightarrow> ('w, unit) io" where
  "login k c s =
     bindIO (sdk_login k s) (\<lambda>needs_mfa.
     if \<not> needs_mfa then returnIO ()
     else if c_mfa_code c = [] then raiseIO MfaRequired
     else sdk_login_two k s (c_mfa_code c))"

definition attach :: "'s \<Rightarrow> 'a \<Rightarrow> bool \<Rightarrow> ('s, 'a) client \<Rightarrow> ('s, 'a) client" where
  "attach s a reused cl = cl \<lparr> cl_session := Some s, cl_account_data := Some a, cl_session_reused := reused \<rparr>"

text \<open>
  A cached session is used, or its file removed; the value says whether it was used. The
  client is attached before the cache is saved again, so it is attached when that raises.
\<close>

definition try_cached_session ::
  "('w, 's, 'a) sdk \<Rightarrow> 'w cache_ports \<Rightarrow> gcs_state_store option \<Rightarrow> credentials \<Rightarrow> 's \<Rightarrow> ('s, 'a) client \<Rightarrow> 'w \<Rightarrow>
   (bool exc \<times> ('s, 'a) client) \<times> 'w" where
  "try_cached_session k ch explicit c s cl w =
     (case load_session_cache ch explicit c w of
        (Inl e, w1) \<Rightarrow> ((Inl e, cl), w1)
      | (Inr None, w1) \<Rightarrow> ((Inr False, cl), w1)
      | (Inr (Some payload), w1) \<Rightarrow>
          (case bindIO (sdk_restore k s payload) (\<lambda>_. sdk_account_data k s) w1 of
             (Inl e, w2) \<Rightarrow> ((Inr False, cl), cp_delete_local ch (session_cache_path (cp_digest ch) c) w2)
           | (Inr a, w2) \<Rightarrow>
               (case save_session_cache ch explicit c (sdk_tokens k s) w2 of
                  (Inl e, w3) \<Rightarrow> ((Inl e, attach s a True cl), w3)
                | (Inr _, w3) \<Rightarrow> ((Inr True, attach s a True cl), w3))))"

text \<open>
  \<open>connect\<close>. A failure leaves the client as far as it came: the result is the client
  reached, and \<open>None\<close> or the exception. \<open>self.session\<close> is set before the account data are
  read, so a failure there leaves the session set.
\<close>

definition connect ::
  "('w, 's, 'a) sdk \<Rightarrow> 'w cache_ports \<Rightarrow> gcs_state_store option \<Rightarrow> credentials \<Rightarrow> bool \<Rightarrow> bool \<Rightarrow> ('s, 'a) client \<Rightarrow> 'w \<Rightarrow>
   (pyexc option \<times> ('s, 'a) client) \<times> 'w" where
  "connect k ch explicit c force_login defer_save cl0 w =
     (if defer_save \<and> \<not> force_login then ((Some (SafetyError ''Deferred cache saving requires a forced login.''), cl0), w)
      else let cl = cl0 \<lparr> cl_read_only := False \<rparr> in
        case require_login_fields c of
          Inl e \<Rightarrow> ((Some e, cl), w)
        | Inr _ \<Rightarrow>
            (case sdk_session k c (if force_login then False else c_debug c) w of
               (Inl e, w1) \<Rightarrow> ((Some e, cl), w1)
             | (Inr s, w1) \<Rightarrow>
                 (case (if \<not> force_login \<and> c_reuse_session c then try_cached_session k ch explicit c s cl w1
                        else ((Inr False, cl), w1)) of
                    ((Inl e, cl'), w2) \<Rightarrow> ((Some e, cl'), w2)
                  | ((Inr True, cl'), w2) \<Rightarrow> ((None, cl'), w2)
                  | ((Inr False, _), w2) \<Rightarrow>
                      (case login k c s w2 of
                         (Inl e, w3) \<Rightarrow> ((Some e, cl), w3)
                       | (Inr _, w3) \<Rightarrow>
                           (case sdk_account_data k s w3 of
                              (Inl e, w4) \<Rightarrow> ((Some e, cl \<lparr> cl_session := Some s \<rparr>), w4)
                            | (Inr a, w4) \<Rightarrow>
                                (if defer_save then ((None, attach s a False cl), w4)
                                 else case save_session_cache ch explicit c (sdk_tokens k s) w4 of
                                   (Inl e, w5) \<Rightarrow> ((Some e, attach s a False cl), w5)
                                 | (Inr _, w5) \<Rightarrow> ((None, attach s a False cl), w5)))))))"

section \<open>URLs\<close>

definition scheme_char :: "char \<Rightarrow> bool" where
  "scheme_char x \<longleftrightarrow> is_alnum x \<or> x \<in> set ''+-.''"

text \<open>\<open>urlsplit\<close> of an ASCII URL: scheme, network location and path.\<close>

definition split_url :: "string \<Rightarrow> string \<times> string \<times> string" where
  "split_url url =
     (let u = filter (\<lambda>x. x \<notin> {CHR 0x09, CHR 0x0A, CHR 0x0D}) (dropWhile (\<lambda>x. cp x \<le> 32) url);
          (a, colon, b) = partition_at (CHR '':'') u;
          has_scheme = (colon \<and> a \<noteq> [] \<and> (is_lower (hd a) \<or> is_upper (hd a)) \<and> list_all scheme_char a);
          rest = (if has_scheme then b else u);
          (netloc, rest2) = (if take 2 rest = ''//''
             then (takeWhile (\<lambda>x. x \<notin> set ''/?#'') (drop 2 rest), dropWhile (\<lambda>x. x \<notin> set ''/?#'') (drop 2 rest))
             else ([], rest))
      in (if has_scheme then py_lower a else [], netloc, takeWhile (\<lambda>x. x \<notin> set ''?#'') rest2))"

definition url_path :: "string \<Rightarrow> string" where
  "url_path u = snd (snd (split_url u))"

definition read_only_paths :: "string list" where
  "read_only_paths = [''/private/userinfo'', ''/private/acct_list'', ''/private/balances'', ''/private/positions'',
     ''/private/order_status'']"

section \<open>The read-only transport\<close>

definition request_allowed :: "string option \<Rightarrow> request \<Rightarrow> bool" where
  "request_allowed history r \<longleftrightarrow>
     (case split_url (rq_url r) of (scheme, netloc, path) \<Rightarrow>
        py_lower (rq_method r) = ''get'' \<and> scheme = ''https'' \<and> netloc = ''api3x.firstrade.com''
        \<and> (history = Some (rq_url r) \<or> path \<in> set read_only_paths))"

definition read_stage_of :: "string \<Rightarrow> string" where
  "read_stage_of url =
     (if url_path url = ''/private/userinfo'' then ''userinfo''
      else if url_path url = ''/private/acct_list'' then ''account_list'' else ''account_read'')"

definition read_only_kwargs :: "pyval dict \<Rightarrow> pyval dict" where
  "read_only_kwargs kw = dset (dset kw ''timeout'' (PList [PInt 5, PInt 15])) ''allow_redirects'' (PBool False)"

definition max_history_bytes :: int where
  "max_history_bytes = 2 * 1024 * 1024"

definition check_response :: "bool \<Rightarrow> string \<Rightarrow> response \<Rightarrow> unit exc" where
  "check_response history_read stage r =
     bindE (guardE (200 \<le> rsp_status r \<and> rsp_status r < 300)
       (CachedSessionError ''read_http_error'' stage (if 100 \<le> rsp_status r \<and> rsp_status r \<le> 599 then Some (rsp_status r) else None))) (\<lambda>_.
     bindE (guardE (\<not> (history_read \<and> max_history_bytes < int (length (rsp_content r)))) (CachedSessionError ''read_invalid_payload'' stage None)) (\<lambda>_.
     case rsp_json r of
       Some (PDict d) \<Rightarrow> guardE (\<not> truthy (pget d ''error'')) (CachedSessionError ''read_provider_error'' stage None)
     | Some (PList _) \<Rightarrow> Inr ()
     | _ \<Rightarrow> Inl (CachedSessionError ''read_invalid_payload'' stage None)))"

fun transport_failure :: "string \<Rightarrow> transport_error \<Rightarrow> pyexc" where
  "transport_failure stage TimedOut = CachedSessionError ''read_timeout'' stage None"
| "transport_failure stage RequestFailed = CachedSessionError ''read_network_error'' stage None"
| "transport_failure stage (TransportRaised e) = e"

text \<open>The request function that replaces the transport's; it acts on the client and its stage.\<close>

type_synonym ('s, 'a, 'w) read_state = "(('s, 'a) client \<times> string) \<times> 'w"

definition read_only_request ::
  "'w transport \<Rightarrow> request \<Rightarrow> ('s, 'a, 'w) read_state \<Rightarrow> response exc \<times> ('s, 'a, 'w) read_state" where
  "read_only_request transport r st =
     (let cl = fst (fst st); stage0 = snd (fst st); w = snd st;
          history_read = (cl_history_url cl = Some (rq_url r)) in
      if \<not> request_allowed (cl_history_url cl) r
      then (Inl (SafetyError ''Firstrade read-only request denied.''), st)
      else if history_read \<and> rq_kwargs r \<noteq> []
      then (Inl (SafetyError ''Firstrade history request parameters denied.''), ((cl \<lparr> cl_history_url := None \<rparr>, stage0), w))
      else let stage = read_stage_of (rq_url r);
               cl1 = (if history_read then cl \<lparr> cl_history_url := None \<rparr> else cl) \<lparr> cl_request_attempts := cl_request_attempts cl + 1 \<rparr> in
           case transport (r \<lparr> rq_kwargs := read_only_kwargs (rq_kwargs r) \<rparr>) w of
             (Inl e, w') \<Rightarrow> (Inl (transport_failure stage e), ((cl1, stage), w'))
           | (Inr resp, w') \<Rightarrow>
               (case check_response history_read stage resp of
                  Inl e \<Rightarrow> (Inl e, ((cl1, stage), w'))
                | Inr _ \<Rightarrow> (Inr resp, ((if history_read then cl1 \<lparr> cl_history_bytes := Some (rsp_content resp) \<rparr> else cl1, stage), w'))))"

primrec run_reader ::
  "'b reader \<Rightarrow> 'w transport \<Rightarrow> ('s, 'a, 'w) read_state \<Rightarrow> 'b exc \<times> ('s, 'a, 'w) read_state" where
  "run_reader (Return x) transport st = (Inr x, st)"
| "run_reader (Fail e) transport st = (Inl e, st)"
| "run_reader (Ask r f) transport st =
     (case read_only_request transport r st of (res, st') \<Rightarrow> run_reader (f res) transport st')"

fun is_cached_session_error :: "pyexc \<Rightarrow> bool" where
  "is_cached_session_error (CachedSessionError _ _ _) = True"
| "is_cached_session_error _ = False"

section \<open>The read-only connection\<close>

definition connect_read_only ::
  "('w, 's, 'a) sdk \<Rightarrow> 'w cache_ports \<Rightarrow> gcs_state_store option \<Rightarrow> credentials \<Rightarrow> ('s, 'a) client \<Rightarrow> 'w \<Rightarrow>
   (pyexc option \<times> ('s, 'a) client) \<times> 'w" where
  "connect_read_only k ch explicit c cl w =
     (if cl_live_trading_enabled cl \<or> cl_session cl \<noteq> None \<or> cl_account_data cl \<noteq> None \<or> py_strip (c_username c) = []
         \<or> \<not> c_reuse_session c
      then ((Some (SafetyError ''Firstrade cached-only connection requires a fresh non-trading client.''), cl), w)
      else case load_read_only_session_cache ch explicit c w of
        (Inl e, w1) \<Rightarrow> ((Some e, cl), w1)
      | (Inr None, w1) \<Rightarrow> ((Some (cached_error ''cache_missing_or_stale''), cl), w1)
      | (Inr (Some payload), w1) \<Rightarrow>
          (if (case payload of PDict d \<Rightarrow> (case pget d ''access-token'' of PStr t \<Rightarrow> t = [] | _ \<Rightarrow> True) | _ \<Rightarrow> True)
           then ((Some (cached_error ''cache_tokens_incomplete''), cl), w1)
           else case sdk_read_only_session k w1 of
             (Inl e, w2) \<Rightarrow> ((Some e, cl), w2)
           | (Inr s, w2) \<Rightarrow>
               (case run_reader (sdk_read_only_account k s payload) (sdk_transport k) ((cl, ''cache''), w2) of
                  (Inl e, ((cl', stage), w3)) \<Rightarrow>
                    ((Some (if is_cached_session_error e then e else CachedSessionError ''account_data_invalid'' stage None), cl'),
                     sdk_close k s w3)
                | (Inr a, ((cl', stage), w3)) \<Rightarrow> ((None, (attach s a True cl') \<lparr> cl_read_only := True \<rparr>), w3))))"

text \<open>
  The dates of a history read: written as \<open>isoformat\<close> writes them, at most 31 days, closed,
  and at most a year ago. \<open>today\<close> is the UTC date.
\<close>

definition valid_history_dates :: "day \<Rightarrow> string \<Rightarrow> string \<Rightarrow> bool" where
  "valid_history_dates today start stop =
     (case (fromisoformat start, fromisoformat stop) of
        (Some d1, Some d2) \<Rightarrow>
          date_isoformat d1 = start \<and> date_isoformat d2 = stop
          \<and> 0 \<le> d2 - d1 \<and> d2 - d1 \<le> 30 \<and> 0 < today - d2 \<and> today - d2 \<le> today - d1 \<and> today - d1 \<le> 365
      | _ \<Rightarrow> False)"

text \<open>The scope test of a history read.\<close>

definition account_id_char :: "char \<Rightarrow> bool" where
  "account_id_char x \<longleftrightarrow> is_alnum x \<or> x \<in> set ''._:-''"

definition valid_account_id :: "string \<Rightarrow> bool" where
  "valid_account_id a \<longleftrightarrow> 1 \<le> length a \<and> length a \<le> 128 \<and> list_all account_id_char a"

definition history_scope :: "day \<Rightarrow> string \<Rightarrow> string \<Rightarrow> string \<Rightarrow> string list \<Rightarrow> ('s, 'a) client \<Rightarrow> bool" where
  "history_scope today start stop account accounts cl \<longleftrightarrow>
     valid_history_dates today start stop \<and> valid_account_id account \<and> \<not> cl_live_trading_enabled cl \<and> cl_session_reused cl \<and> cl_read_only cl
     \<and> cl_session cl \<noteq> None \<and> cl_account_data cl \<noteq> None \<and> \<not> cl_history_used cl \<and> count_list accounts account = 1"

definition get_account_history_read_only ::
  "('w, 's, 'a) sdk \<Rightarrow> ('a \<Rightarrow> string list) \<Rightarrow> day \<Rightarrow> string \<Rightarrow> string \<Rightarrow> string \<Rightarrow> ('s, 'a) client \<Rightarrow> 'w \<Rightarrow>
   (pyval dict exc \<times> ('s, 'a) client) \<times> 'w" where
  "get_account_history_read_only k accounts_of today account start stop cl w =
     (case cl_account_data cl of
        None \<Rightarrow> ((Inl (SafetyError ''Firstrade history read scope unavailable.''), cl), w)
      | Some a \<Rightarrow>
          if \<not> history_scope today start stop account (accounts_of a) cl
          then ((Inl (SafetyError ''Firstrade history read scope unavailable.''), cl), w)
          else let cl1 = cl \<lparr> cl_history_used := True, cl_history_url := Some (sdk_history_url k account start stop) \<rparr> in
            (case run_reader (sdk_history k a account start stop) (sdk_transport k) ((cl1, ''cache''), w) of
               (Inl e, ((cl2, stage), w1)) \<Rightarrow>
                 ((Inl (if is_cached_session_error e then e else CachedSessionError ''read_invalid_payload'' ''account_read'' None),
                   cl2 \<lparr> cl_history_url := None \<rparr>), w1)
             | (Inr d, ((cl2, stage), w1)) \<Rightarrow> ((Inr d, cl2 \<lparr> cl_history_url := None \<rparr>), w1)))"

definition close_client :: "('w, 's, 'a) sdk \<Rightarrow> ('s, 'a) client \<Rightarrow> 'w \<Rightarrow> ('s, 'a) client \<times> 'w" where
  "close_client k cl w =
     (cl \<lparr> cl_history_url := None, cl_history_bytes := None, cl_session := None, cl_account_data := None,
           cl_session_reused := False, cl_read_only := False \<rparr>,
      case cl_session cl of None \<Rightarrow> w | Some s \<Rightarrow> sdk_close k s w)"

end
