(* ===== verification/SessionSafety.thy ===== *)
theory SessionSafety
  imports ClientSession
begin

text \<open>
  What the session client promises: the read-only transport sends account reads only, the
  history is read once per client, a cached login is fresh, and the client's fields agree
  with each other in every state its operations reach.
\<close>

section \<open>What the guarded transport sends\<close>

text \<open>
  A request that only reads: an allowed GET, with the two fixed settings. \<open>history_requests\<close>
  are those outside the five fixed paths.
\<close>

definition safe_request :: "string option \<Rightarrow> request \<Rightarrow> bool" where
  "safe_request h r \<longleftrightarrow>
     request_allowed h r \<and> pget (rq_kwargs r) ''timeout'' = PList [PInt 5, PInt 15]
     \<and> pget (rq_kwargs r) ''allow_redirects'' = PBool False"

definition history_requests :: "request list \<Rightarrow> request list" where
  "history_requests = filter (\<lambda>r. url_path (rq_url r) \<notin> set read_only_paths)"

definition open_history :: "('s, 'a, 'w) read_state \<Rightarrow> string option" where
  "open_history st = cl_history_url (fst (fst st))"

text \<open>
  From one state to a later one only safe requests were sent, each counted, and every
  request outside the fixed paths used up the open history URL.
\<close>

definition sends_reads :: "('w \<Rightarrow> request list) \<Rightarrow> ('s, 'a, 'w) read_state \<Rightarrow> ('s, 'a, 'w) read_state \<Rightarrow> bool" where
  "sends_reads log_of st st' \<longleftrightarrow>
     (\<exists>sent. log_of (snd st') = log_of (snd st) @ sent \<and> list_all (safe_request (open_history st)) sent
        \<and> (open_history st' = open_history st \<or> open_history st' = None)
        \<and> length (history_requests sent) + (if open_history st' = None then 0 else 1)
            \<le> (if open_history st = None then 0 else 1::nat)
        \<and> cl_request_attempts (fst (fst st')) = cl_request_attempts (fst (fst st)) + int (length sent))"

lemma history_requests_simps [simp]:
  "history_requests [] = []"
  "history_requests (a @ b) = history_requests a @ history_requests b"
  by (simp_all add: history_requests_def)

lemma safe_request_mono: "safe_request h' r \<Longrightarrow> h' = h \<or> h' = None \<Longrightarrow> safe_request h r"
  by (auto simp: safe_request_def request_allowed_def)

lemma sends_reads_refl: "sends_reads log_of st st"
  unfolding sends_reads_def by (intro exI [of _ "[]"]) auto

lemma sends_reads_trans:
  assumes "sends_reads log_of a b" "sends_reads log_of b c"
  shows "sends_reads log_of a c"
proof -
  obtain s where s: "log_of (snd b) = log_of (snd a) @ s" "list_all (safe_request (open_history a)) s"
    "open_history b = open_history a \<or> open_history b = None"
    "length (history_requests s) + (if open_history b = None then 0 else 1) \<le> (if open_history a = None then 0 else 1::nat)"
    "cl_request_attempts (fst (fst b)) = cl_request_attempts (fst (fst a)) + int (length s)"
    using assms(1) unfolding sends_reads_def by auto
  obtain t where t: "log_of (snd c) = log_of (snd b) @ t" "list_all (safe_request (open_history b)) t"
    "open_history c = open_history b \<or> open_history c = None"
    "length (history_requests t) + (if open_history c = None then 0 else 1) \<le> (if open_history b = None then 0 else 1::nat)"
    "cl_request_attempts (fst (fst c)) = cl_request_attempts (fst (fst b)) + int (length t)"
    using assms(2) unfolding sends_reads_def by auto
  have "list_all (safe_request (open_history a)) t"
    using t(2) s(3) by (auto simp: list_all_iff intro: safe_request_mono)
  with s t show ?thesis
    unfolding sends_reads_def by (intro exI [of _ "s @ t"]) (auto split: if_splits)
qed

lemma read_only_kwargs_fixed:
  "pget (read_only_kwargs kw) ''timeout'' = PList [PInt 5, PInt 15]"
  "pget (read_only_kwargs kw) ''allow_redirects'' = PBool False"
  by (simp_all add: read_only_kwargs_def pget_dset)

lemma allowed_outside_fixed: "request_allowed h r \<Longrightarrow> url_path (rq_url r) \<notin> set read_only_paths \<Longrightarrow> h = Some (rq_url r)"
  by (auto simp: request_allowed_def url_path_def split: prod.splits)

lemma request_denied:
  assumes "\<not> request_allowed (cl_history_url cl) r \<or> (cl_history_url cl = Some (rq_url r) \<and> rq_kwargs r \<noteq> [])"
  obtains h where "h = cl_history_url cl \<or> h = None"
    "snd (read_only_request transport r ((cl, stage), w)) = ((cl \<lparr> cl_history_url := h \<rparr>, stage), w)"
proof (cases "request_allowed (cl_history_url cl) r")
  case True
  with assms show ?thesis by (intro that [of None]) (auto simp: read_only_request_def Let_def)
next
  case False
  then show ?thesis by (intro that [of "cl_history_url cl"]) (auto simp: read_only_request_def Let_def)
qed

lemma request_made:
  assumes "request_allowed (cl_history_url cl) r" "\<not> (cl_history_url cl = Some (rq_url r) \<and> rq_kwargs r \<noteq> [])"
    "transport (r \<lparr> rq_kwargs := read_only_kwargs (rq_kwargs r) \<rparr>) w = (x, w')"
  obtains b stage' where "b = cl_history_bytes cl \<or> cl_history_url cl = Some (rq_url r)"
    "snd (read_only_request transport r ((cl, stage), w)) =
       ((cl \<lparr> cl_history_url := if cl_history_url cl = Some (rq_url r) then None else cl_history_url cl,
             cl_history_bytes := b, cl_request_attempts := cl_request_attempts cl + 1 \<rparr>, stage'), w')"
proof (cases x)
  case (Inl e)
  with assms show ?thesis
    by (intro that [of "cl_history_bytes cl" "read_stage_of (rq_url r)"]) (auto simp: read_only_request_def Let_def)
next
  case (Inr resp)
  show ?thesis
  proof (cases "\<exists>u. check_response (cl_history_url cl = Some (rq_url r)) (read_stage_of (rq_url r)) resp = Inr u")
    case True
    with assms Inr show ?thesis
      by (intro that [of "if cl_history_url cl = Some (rq_url r) then Some (rsp_content resp) else cl_history_bytes cl"
            "read_stage_of (rq_url r)"]) (auto simp: read_only_request_def Let_def)
  next
    case False
    then obtain e where "check_response (cl_history_url cl = Some (rq_url r)) (read_stage_of (rq_url r)) resp = Inl e"
      by (metis sum.exhaust)
    with assms Inr show ?thesis
      by (intro that [of "cl_history_bytes cl" "read_stage_of (rq_url r)"]) (auto simp: read_only_request_def Let_def)
  qed
qed

locale logged_transport =
  fixes transport :: "'w transport" and log_of :: "'w \<Rightarrow> request list"
  assumes logs: "log_of (snd (transport r w)) = log_of w @ [r]"
begin

lemma request_sends_reads:
  "sends_reads log_of st (snd (read_only_request transport r st))"
proof -
  obtain cl stage w where st: "st = ((cl, stage), w)" by (metis prod.exhaust)
  define q where "q = r \<lparr> rq_kwargs := read_only_kwargs (rq_kwargs r) \<rparr>"
  obtain x w' where x: "transport q w = (x, w')" by (rule prod.exhaust)
  have l: "log_of w' = log_of w @ [q]" using logs [of q w] by (simp add: x)
  show ?thesis
  proof (cases "request_allowed (cl_history_url cl) r \<and> \<not> (cl_history_url cl = Some (rq_url r) \<and> rq_kwargs r \<noteq> [])")
    case False
    then obtain h where "h = cl_history_url cl \<or> h = None"
      "snd (read_only_request transport r ((cl, stage), w)) = ((cl \<lparr> cl_history_url := h \<rparr>, stage), w)"
      using request_denied [of cl r transport stage w] by blast
    then show ?thesis unfolding st sends_reads_def
      by (intro exI [of _ "[]"]) (cases "cl_history_url cl"; auto simp: open_history_def)
  next
    case True
    then obtain b stage' where after: "snd (read_only_request transport r ((cl, stage), w)) =
       ((cl \<lparr> cl_history_url := if cl_history_url cl = Some (rq_url r) then None else cl_history_url cl,
             cl_history_bytes := b, cl_request_attempts := cl_request_attempts cl + 1 \<rparr>, stage'), w')"
      using request_made [of cl r transport w x w' stage] x unfolding q_def by blast
    have safe: "safe_request (cl_history_url cl) q"
      using True by (simp add: safe_request_def q_def read_only_kwargs_fixed request_allowed_def)
    have one: "length (history_requests [q]) \<le> (if cl_history_url cl = Some (rq_url r) then 1 else 0)"
      using True allowed_outside_fixed by (auto simp: history_requests_def q_def)
    show ?thesis
      unfolding st sends_reads_def after
      by (intro exI [of _ "[q]"]) (use l safe one in \<open>auto simp: open_history_def\<close>)
  qed
qed

lemma reader_sends_reads:
  "sends_reads log_of st (snd (run_reader p transport st))"
proof (induction p arbitrary: st)
  case (Ask r f)
  obtain res st' where r: "read_only_request transport r st = (res, st')" by (rule prod.exhaust)
  have "sends_reads log_of st st'" using request_sends_reads [of st r] by (simp add: r)
  moreover have "sends_reads log_of st' (snd (run_reader (f res) transport st'))" by (rule Ask.IH) simp
  ultimately show ?case by (simp add: r sends_reads_trans)
qed (simp_all add: sends_reads_refl)

end

text \<open>Any transport with a log of what it was asked beside its world.\<close>

definition with_log :: "'w transport \<Rightarrow> ('w \<times> request list) transport" where
  "with_log t r w = (case t r (fst w) of (x, w') \<Rightarrow> (x, (w', snd w @ [r])))"

interpretation wire: logged_transport "with_log t" snd for t
  by unfold_locales (simp add: with_log_def split: prod.splits)

lemma history_read_form:
  obtains "get_account_history_read_only k accounts_of v a start stop cl w
             = ((Inl (SafetyError ''Firstrade history read scope unavailable.''), cl), w)"
  | d res cl2 stage w1 where
      "cl_account_data cl = Some d" "history_scope v start stop a (accounts_of d) cl"
      "run_reader (sdk_history k d a start stop) (sdk_transport k)
         ((cl \<lparr> cl_history_used := True, cl_history_url := Some (sdk_history_url k a start stop) \<rparr>, ''cache''), w)
       = (res, ((cl2, stage), w1))"
      "snd (fst (get_account_history_read_only k accounts_of v a start stop cl w)) = cl2 \<lparr> cl_history_url := None \<rparr>"
      "snd (get_account_history_read_only k accounts_of v a start stop cl w) = w1"
proof (cases "\<exists>d. cl_account_data cl = Some d \<and> history_scope v start stop a (accounts_of d) cl")
  case True
  then obtain d where d: "cl_account_data cl = Some d" "history_scope v start stop a (accounts_of d) cl" by auto
  obtain res cl2 stage w1 where r: "run_reader (sdk_history k d a start stop) (sdk_transport k)
         ((cl \<lparr> cl_history_used := True, cl_history_url := Some (sdk_history_url k a start stop) \<rparr>, ''cache''), w)
       = (res, ((cl2, stage), w1))" by (metis prod.exhaust)
  show ?thesis
    using d r by (intro that(2) [OF d r]) (cases res; simp add: get_account_history_read_only_def Let_def)+
next
  case False
  then show ?thesis
    by (intro that(1)) (auto simp: get_account_history_read_only_def split: option.splits)
qed


section \<open>The states of a client\<close>

text \<open>What the requests of a reader may change of the client.\<close>

definition client_reads :: "('s, 'a) client \<Rightarrow> ('s, 'a) client \<Rightarrow> bool" where
  "client_reads cl cl' \<longleftrightarrow>
     (\<exists>h b n. cl' = cl \<lparr> cl_history_url := h, cl_history_bytes := b, cl_request_attempts := n \<rparr>
        \<and> (h = cl_history_url cl \<or> h = None) \<and> (b = cl_history_bytes cl \<or> cl_history_url cl \<noteq> None))"

lemma client_readsI:
  "cl' = cl \<lparr> cl_history_url := h, cl_history_bytes := b, cl_request_attempts := n \<rparr> \<Longrightarrow> h = cl_history_url cl \<or> h = None
    \<Longrightarrow> b = cl_history_bytes cl \<or> cl_history_url cl \<noteq> None \<Longrightarrow> client_reads cl cl'"
  unfolding client_reads_def by blast

lemma client_reads_refl: "client_reads cl cl"
  by (rule client_readsI [where h = "cl_history_url cl" and b = "cl_history_bytes cl" and n = "cl_request_attempts cl"]) simp_all

lemma client_reads_trans:
  assumes "client_reads a b" "client_reads b c"
  shows "client_reads a c"
proof -
  from assms(1) obtain h x n where
    "b = a \<lparr> cl_history_url := h, cl_history_bytes := x, cl_request_attempts := n \<rparr>"
    "h = cl_history_url a \<or> h = None" "x = cl_history_bytes a \<or> cl_history_url a \<noteq> None"
    unfolding client_reads_def by blast
  moreover from assms(2) obtain h' x' n' where
    "c = b \<lparr> cl_history_url := h', cl_history_bytes := x', cl_request_attempts := n' \<rparr>"
    "h' = cl_history_url b \<or> h' = None" "x' = cl_history_bytes b \<or> cl_history_url b \<noteq> None"
    unfolding client_reads_def by blast
  ultimately show ?thesis by (intro client_readsI [where h = h' and b = x' and n = n']) auto
qed

lemma request_client_reads:
  "client_reads (fst (fst st)) (fst (fst (snd (read_only_request transport r st))))"
proof -
  obtain cl stage w where st: "st = ((cl, stage), w)" by (metis prod.exhaust)
  obtain x w' where x: "transport (r \<lparr> rq_kwargs := read_only_kwargs (rq_kwargs r) \<rparr>) w = (x, w')" by (rule prod.exhaust)
  show ?thesis
  proof (cases "request_allowed (cl_history_url cl) r \<and> \<not> (cl_history_url cl = Some (rq_url r) \<and> rq_kwargs r \<noteq> [])")
    case False
    then obtain h where "h = cl_history_url cl \<or> h = None"
      "snd (read_only_request transport r ((cl, stage), w)) = ((cl \<lparr> cl_history_url := h \<rparr>, stage), w)"
      using request_denied [of cl r transport stage w] by blast
    then show ?thesis
      by (intro client_readsI [where h = h and b = "cl_history_bytes cl" and n = "cl_request_attempts cl"]) (auto simp: st)
  next
    case True
    then obtain b stage' where "b = cl_history_bytes cl \<or> cl_history_url cl = Some (rq_url r)"
      "snd (read_only_request transport r ((cl, stage), w)) =
       ((cl \<lparr> cl_history_url := if cl_history_url cl = Some (rq_url r) then None else cl_history_url cl,
             cl_history_bytes := b, cl_request_attempts := cl_request_attempts cl + 1 \<rparr>, stage'), w')"
      using request_made [of cl r transport w x w' stage] x by blast
    then show ?thesis
      by (intro client_readsI [where b = b and n = "cl_request_attempts cl + 1"
            and h = "if cl_history_url cl = Some (rq_url r) then None else cl_history_url cl"]) (auto simp: st)
  qed
qed

lemma reader_client_reads:
  "client_reads (fst (fst st)) (fst (fst (snd (run_reader p transport st))))"
proof (induction p arbitrary: st)
  case (Ask r f)
  obtain res st' where r: "read_only_request transport r st = (res, st')" by (rule prod.exhaust)
  have "client_reads (fst (fst st)) (fst (fst st'))" using request_client_reads [of st transport r] by (simp add: r)
  moreover have "client_reads (fst (fst st')) (fst (fst (snd (run_reader (f res) transport st'))))" by (rule Ask.IH) simp
  ultimately show ?case by (simp add: r client_reads_trans)
qed (simp_all add: client_reads_refl)

text \<open>
  One operation on a client and the world: a connection of either kind, an account read over
  the guarded transport of a read-only client, the history read, and closing.
\<close>

inductive client_step ::
  "('w, 's, 'a) sdk \<Rightarrow> 'w cache_ports \<Rightarrow> gcs_state_store option \<Rightarrow> credentials \<Rightarrow> ('a \<Rightarrow> string list) \<Rightarrow>
   ('s, 'a) client \<times> 'w \<Rightarrow> ('s, 'a) client \<times> 'w \<Rightarrow> bool"
  for k ch explicit c accounts_of where
  logs_in: "connect k ch explicit c force_login defer_save cl w = ((e, cl'), w') \<Longrightarrow>
     client_step k ch explicit c accounts_of (cl, w) (cl', w')"
| joins_cached: "connect_read_only k ch explicit c cl w = ((e, cl'), w') \<Longrightarrow>
     client_step k ch explicit c accounts_of (cl, w) (cl', w')"
| reads: "cl_read_only cl \<Longrightarrow> run_reader (p :: unit reader) (sdk_transport k) ((cl, stage), w) = (r, ((cl', stage'), w')) \<Longrightarrow>
     client_step k ch explicit c accounts_of (cl, w) (cl', w')"
| reads_history: "get_account_history_read_only k accounts_of today a start stop cl w = ((res, cl'), w') \<Longrightarrow>
     client_step k ch explicit c accounts_of (cl, w) (cl', w')"
| closes: "close_client k cl w = (cl', w') \<Longrightarrow> client_step k ch explicit c accounts_of (cl, w) (cl', w')"

text \<open>How the fields of a client agree, and what an operation may never undo.\<close>

definition client_ok :: "('s, 'a) client \<Rightarrow> bool" where
  "client_ok cl \<longleftrightarrow>
     cl_history_url cl = None
     \<and> (cl_session_reused cl \<longrightarrow> cl_session cl \<noteq> None \<and> cl_account_data cl \<noteq> None)
     \<and> (cl_read_only cl \<longrightarrow> cl_session_reused cl \<and> \<not> cl_live_trading_enabled cl)
     \<and> (cl_history_bytes cl \<noteq> None \<longrightarrow> cl_history_used cl)"

definition client_later :: "('s, 'a) client \<Rightarrow> ('s, 'a) client \<Rightarrow> bool" where
  "client_later cl cl' \<longleftrightarrow>
     (client_ok cl \<longrightarrow> client_ok cl') \<and> cl_live_trading_enabled cl' = cl_live_trading_enabled cl
     \<and> (cl_history_used cl \<longrightarrow> cl_history_used cl')"

lemma client_later_refl: "client_later cl cl"
  by (simp add: client_later_def)

lemma client_later_trans: "client_later a b \<Longrightarrow> client_later b c \<Longrightarrow> client_later a c"
  by (auto simp: client_later_def)

lemma reads_later: "client_reads cl cl' \<Longrightarrow> client_later cl cl'"
  by (auto simp: client_reads_def client_later_def client_ok_def)

lemma try_cached_cases:
  assumes "try_cached_session k ch explicit c s cl w = ((r, cl'), w')"
  obtains "cl' = cl" "r \<noteq> Inr True" | a where "cl' = attach s a True cl"
  using assms by (auto simp: try_cached_session_def split: sum.splits prod.splits option.splits)

lemma detached_later: "client_later cl (cl \<lparr> cl_read_only := False \<rparr>)"
  by (auto simp: client_later_def client_ok_def)

lemma session_only_later: "client_later cl (cl \<lparr> cl_read_only := False, cl_session := Some s \<rparr>)"
  by (auto simp: client_later_def client_ok_def)

lemma attach_later: "client_later cl (attach s a x (cl \<lparr> cl_read_only := False \<rparr>))"
  by (auto simp: client_later_def client_ok_def attach_def)

lemma connect_later:
  assumes "connect k ch explicit c force defer_save cl w = ((e, cl'), w')"
  shows "client_later cl cl'"
  using assms unfolding connect_def Let_def
  by (auto split: if_splits sum.splits prod.splits bool.splits elim!: try_cached_cases
      intro: client_later_refl detached_later session_only_later attach_later)

text \<open>A read-only connection refuses, or runs the reader, and attaches the session if that returns.\<close>

lemma connect_read_only_cases:
  obtains e w1 where "connect_read_only k ch explicit c cl w = ((Some e, cl), w1)"
  | p payload s w1 w2 r cl1 stage w3 where
      "\<not> cl_live_trading_enabled cl" "load_read_only_session_cache ch explicit c w = (Inr (Some payload), w1)"
      "sdk_read_only_session k w1 = (Inr s, w2)" "p = sdk_read_only_account k s payload"
      "run_reader p (sdk_transport k) ((cl, ''cache''), w2) = (r, ((cl1, stage), w3))"
      "connect_read_only k ch explicit c cl w =
         (case r of Inl e \<Rightarrow> ((Some (if is_cached_session_error e then e else CachedSessionError ''account_data_invalid'' stage None), cl1),
                             sdk_close k s w3)
          | Inr a \<Rightarrow> ((None, (attach s a True cl1) \<lparr> cl_read_only := True \<rparr>), w3))"
proof -
  consider "\<exists>e w1. connect_read_only k ch explicit c cl w = ((Some e, cl), w1)"
    | payload s w1 w2 where "\<not> cl_live_trading_enabled cl"
      "load_read_only_session_cache ch explicit c w = (Inr (Some payload), w1)" "sdk_read_only_session k w1 = (Inr s, w2)"
      "connect_read_only k ch explicit c cl w =
         (case run_reader (sdk_read_only_account k s payload) (sdk_transport k) ((cl, ''cache''), w2) of
                  (Inl e, ((cl', stage), w3)) \<Rightarrow>
                    ((Some (if is_cached_session_error e then e else CachedSessionError ''account_data_invalid'' stage None), cl'),
                     sdk_close k s w3)
                | (Inr a, ((cl', stage), w3)) \<Rightarrow> ((None, (attach s a True cl') \<lparr> cl_read_only := True \<rparr>), w3))"
    by (fastforce simp: connect_read_only_def split: if_splits sum.splits option.splits prod.splits)
  then show ?thesis
  proof cases
    case 1
    then show ?thesis using that(1) by auto
  next
    case (2 payload s w1 w2)
    obtain r cl1 stage w3 where r: "run_reader (sdk_read_only_account k s payload) (sdk_transport k) ((cl, ''cache''), w2)
        = (r, ((cl1, stage), w3))" by (metis prod.exhaust)
    show ?thesis
      by (rule that(2) [OF 2(1-3) refl r]) (simp add: 2(4) r split: sum.splits)
  qed
qed

lemma attach_read_only_later:
  "\<not> cl_live_trading_enabled cl \<Longrightarrow> client_later cl ((attach s a True cl) \<lparr> cl_read_only := True \<rparr>)"
  by (auto simp: client_later_def client_ok_def attach_def)

lemma connect_read_only_later:
  assumes "connect_read_only k ch explicit c cl w = ((e, cl'), w')"
  shows "client_later cl cl'"
proof (cases rule: connect_read_only_cases [of k ch explicit c cl w])
  case 1
  then show ?thesis using assms by (simp add: client_later_refl)
next
  case (2 p payload s w1 w2 r cl1 stage w3)
  have l: "client_later cl cl1"
    using reader_client_reads [of "((cl, ''cache''), w2)" p "sdk_transport k"] 2(5) by (simp add: reads_later)
  then have "\<not> cl_live_trading_enabled cl1" using 2(1) by (simp add: client_later_def)
  then show ?thesis
    using l 2(6) assms attach_read_only_later client_later_trans by (fastforce split: sum.splits)
qed

lemma history_later:
  assumes "get_account_history_read_only k accounts_of v a start stop cl w = ((res, cl'), w')"
  shows "client_later cl cl'" and "\<forall>d. res \<noteq> Inr d \<or> cl_history_used cl'"
proof -
  have "client_later cl cl' \<and> (\<forall>d. res \<noteq> Inr d \<or> cl_history_used cl')"
  proof (cases rule: history_read_form [of k accounts_of v a start stop cl w])
    case 1
    then show ?thesis using assms by (simp add: client_later_refl)
  next
    case (2 d r cl2 stage w1)
    have "client_reads (cl \<lparr> cl_history_used := True, cl_history_url := Some (sdk_history_url k a start stop) \<rparr>) cl2"
      using reader_client_reads [of "((cl \<lparr> cl_history_used := True, cl_history_url := Some (sdk_history_url k a start stop) \<rparr>, ''cache''), w)"
          "sdk_history k d a start stop" "sdk_transport k"] 2(3) by simp
    then show ?thesis
      using 2(4) assms by (auto simp: client_reads_def client_later_def client_ok_def)
  qed
  then show "client_later cl cl'" and "\<forall>d. res \<noteq> Inr d \<or> cl_history_used cl'" by auto
qed

lemma close_later: "close_client k cl w = (cl', w') \<Longrightarrow> client_later cl cl'"
  by (auto simp: close_client_def client_later_def client_ok_def)

lemma step_later:
  "client_step k ch explicit c accounts_of x y \<Longrightarrow> client_later (fst x) (fst y)"
proof (induction rule: client_step.induct)
  case (reads cl p stage w r cl' stage' w')
  then show ?case using reader_client_reads [of "((cl, stage), w)" p "sdk_transport k"] by (simp add: reads_later)
qed (auto intro: connect_later connect_read_only_later history_later(1) close_later)

lemma steps_later:
  "(client_step k ch explicit c accounts_of)\<^sup>*\<^sup>* x y \<Longrightarrow> client_later (fst x) (fst y)"
  by (induction rule: rtranclp_induct) (auto intro: client_later_refl client_later_trans step_later)

lemma new_client_ok: "client_ok (new_client live)" "cl_live_trading_enabled (new_client live) = live"
  by (simp_all add: client_ok_def new_client_def)

text \<open>
  Property C17. In every state that the operations of a client reach from a new one, its
  fields agree: no history URL is left open, a reused session comes with its account data,
  a read-only client reuses a session and is not one for live trading, and response bytes
  are kept only of the one history read.
\<close>

theorem reachable_client_is_consistent:
  assumes "(client_step k ch explicit c accounts_of)\<^sup>*\<^sup>* (new_client live, w0) (cl, w)"
  shows "client_ok cl \<and> cl_live_trading_enabled cl = live"
  using steps_later [OF assms] by (simp add: client_later_def new_client_ok)

text \<open>
  A client reads the history at most once: after one read that returned,
  nothing the client does, closing and connecting again included, makes it read again;
  the next attempt is refused before any request.
\<close>

theorem history_is_read_once:
  assumes "get_account_history_read_only k accounts_of v a start stop cl w = ((Inr d, cl1), w1)"
    and "(client_step k ch explicit c accounts_of)\<^sup>*\<^sup>* (cl1, w1) (cl2, w2)"
  shows "get_account_history_read_only k accounts_of v' a' start' stop' cl2 w2
    = ((Inl (SafetyError ''Firstrade history read scope unavailable.''), cl2), w2)"
proof -
  have "cl_history_used cl2"
    using steps_later [OF assms(2)] history_later(2) [OF assms(1)] by (simp add: client_later_def)
  then show ?thesis
    by (simp add: get_account_history_read_only_def history_scope_def split: option.splits)
qed

section \<open>A cached login\<close>

text \<open>
  A read-only connection is made only with a cached login that is fresh when
  it is read: saved within the configured time before the clock, with all three tokens.
\<close>

theorem read_only_connection_is_fresh:
  assumes "connect_read_only k ch explicit c cl w = ((None, cl'), w')"
  shows "\<exists>p w1. load_read_only_session_cache ch explicit c w = (Inr (Some (PDict p)), w1)
           \<and> usable_payload (cp_clock ch w1) (cache_ttl c) (PDict p) \<and> (\<exists>t. pget p ''access-token'' = PStr t \<and> t \<noteq> [])
           \<and> cl_read_only cl' \<and> \<not> cl_live_trading_enabled cl'"
proof -
  obtain v w1 where v: "load_read_only_session_cache ch explicit c w = (Inr (Some v), w1)"
    "\<not> (case v of PDict d \<Rightarrow> (case pget d ''access-token'' of PStr t \<Rightarrow> t = [] | _ \<Rightarrow> True) | _ \<Rightarrow> True)"
    using assms by (fastforce simp: connect_read_only_def split: if_splits sum.splits option.splits prod.splits)
  have ro: "cl_read_only cl'"
    using assms by (auto simp: connect_read_only_def split: if_splits sum.splits option.splits prod.splits)
  have live: "\<not> cl_live_trading_enabled cl'"
    using connect_read_only_later [OF assms] assms
    by (auto simp: client_later_def connect_read_only_def split: if_splits)
  obtain p t where "v = PDict p" "pget p ''access-token'' = PStr t" "t \<noteq> []"
    using v(2) by (auto split: pyval.splits)
  with v(1) ro live load_read_only_usable [OF v(1)] show ?thesis by auto
qed

lemma read_json_cong:
  assumes "os_read os' = os_read os" "json_loads os' = json_loads os"
  shows "read_json os' = read_json os"
  unfolding read_json_def [abs_def] assms ..

text \<open>
  Property C30. A read-only connection never logs in and never changes the cache: what the
  SDK's login does, and what writes to the local file and to the store would do, makes no
  difference to its outcome.
\<close>

theorem read_only_connection_never_logs_in:
  "connect_read_only
     (k \<lparr> sdk_session := s, sdk_login := l, sdk_login_two := l2, sdk_restore := r, sdk_account_data := a, sdk_tokens := tk \<rparr>)
     (ch \<lparr> cp_write_local := wl, cp_delete_local := dl, cp_store := (cp_store ch) \<lparr> os_write := ow, os_create := oc \<rparr> \<rparr>)
     explicit c cl w
   = connect_read_only k ch explicit c cl w"
proof -
  define ch' where "ch' = ch \<lparr> cp_write_local := wl, cp_delete_local := dl,
    cp_store := (cp_store ch) \<lparr> os_write := ow, os_create := oc \<rparr> \<rparr>"
  have read: "read_json (cp_store ch') = read_json (cp_store ch)"
    by (rule read_json_cong) (simp_all add: ch'_def)
  have valid: "valid_now ch' = valid_now ch"
    by (simp add: fun_eq_iff valid_now_def ch'_def)
  have same: "cp_local ch' = cp_local ch" "cp_digest ch' = cp_digest ch" "cp_clock ch' = cp_clock ch"
    by (simp_all add: ch'_def)
  have load: "load_session_cache ch' explicit c = load_session_cache ch explicit c"
    unfolding load_session_cache_def read valid same ..
  have "load_read_only_session_cache ch' explicit c = load_read_only_session_cache ch explicit c"
    unfolding load_read_only_session_cache_def load read valid same ..
  moreover define k' where "k' = k \<lparr> sdk_session := s, sdk_login := l, sdk_login_two := l2, sdk_restore := r,
    sdk_account_data := a, sdk_tokens := tk \<rparr>"
  have "sdk_read_only_session k' = sdk_read_only_session k" "sdk_read_only_account k' = sdk_read_only_account k"
    "sdk_transport k' = sdk_transport k" "sdk_close k' = sdk_close k"
    by (simp_all add: k'_def)
  ultimately show ?thesis
    unfolding k'_def [symmetric] ch'_def [symmetric] connect_read_only_def by (simp only:)
qed

lemma saved_session_is_loaded:
  assumes "object_store_laws (cp_store ch) held" "\<And>p d w. held (cp_write_local ch p d w) = held w"
    and "codec_reads_back (cp_store ch) (cache_payload (tokens w) (Fin t))" "cp_clock ch w = Fin t" "0 < t"
    and "save_verified_session_cache ch explicit c (Some tokens) w = (Inr (), w1)"
    and "load_read_only_session_cache ch explicit c w1 = (r, w2)" "age_within (cp_clock ch w2) (cache_ttl c) (Fin t)"
  shows "r = Inr (Some (PDict (cache_payload (tokens w) (Fin t)))) \<or> r = Inl (cached_error ''cache_read_failed'')"
proof -
  define d where "d = cache_payload (tokens w) (Fin t)"
  have saved: "c_reuse_session c" "c_persist_session_cache c"
    "filled_text (sv_ftat (tokens w))" "filled_text (sv_sid (tokens w))"
    using assms(6) by (auto simp: save_verified_session_cache_def Let_def split: if_splits)
  obtain s w3 where s: "session_state_store explicit c = Inr (Some s)"
    "write_json (cp_store ch) s (session_state_key (cp_digest ch) c) d w = (Inr True, w3)"
    "w1 = cp_write_local ch (session_cache_path (cp_digest ch) c) d w3"
    using assms(4,6) unfolding d_def
    by (auto simp: save_verified_session_cache_def Let_def bindIO_def catchIO_def liftE_def raiseIO_def returnIO_def
        split: if_splits sum.splits option.splits prod.splits)
  obtain u where u: "object_uri s (session_state_key (cp_digest ch) c) = Inr u"
    using s(2) by (cases "object_uri s (session_state_key (cp_digest ch) c)") (auto simp: write_json_def)
  have h: "held w1 u = Some (json_dumps (cp_store ch) (PDict d))"
    using laws_write [OF assms(1) u s(2)] assms(2) by (auto simp: s(3))
  obtain x w4 where x: "read_json (cp_store ch) s (session_state_key (cp_digest ch) c) w1 = (x, w4)" by (rule prod.exhaust)
  have "is_valid_session_cache_payload (cp_clock ch w2) (cache_ttl c) (PDict d) = Inr True"
    using assms(5,8) saved
    by (simp add: is_valid_session_cache_payload_def d_def cache_payload_def)
  moreover have "x = Inr (Some d) \<or> (\<exists>e. x = Inl e)"
    using laws_read(2,3) [OF assms(1) u x] h assms(3)
    by (cases x; cases "projr x") (auto simp: codec_reads_back_def d_def)
  ultimately show ?thesis
    using assms(7) saved(2) s(1) x
    by (auto simp: load_read_only_session_cache_def bindIO_def catchIO_def raiseIO_def valid_now_def d_def split: if_splits sum.splits)
qed

text \<open>
  Property C20. A verified save is what the next reader gets: after
  \<open>save_verified_session_cache\<close> returned, a read-only load that finds the clock within the
  configured time of the save returns the saved login, or reports that the read failed.
\<close>

theorem verified_save_is_loaded:
  assumes "object_store_laws (cp_store ch) held" "\<And>p d w. held (cp_write_local ch p d w) = held w"
    and "codec_reads_back (cp_store ch) (cache_payload (tokens w) (Fin t))" "cp_clock ch w = Fin t" "0 < t"
    and "save_verified_session_cache ch explicit c (Some tokens) w = (Inr (), w1)"
    and "load_read_only_session_cache ch explicit c w1 = (r, w2)" "age_within (cp_clock ch w2) (cache_ttl c) (Fin t)"
  shows "r = Inr (Some (PDict (cache_payload (tokens w) (Fin t)))) \<or> r = Inl (cached_error ''cache_read_failed'')"
  using assms by (rule saved_session_is_loaded)

text \<open>A client, an SDK and a cache to show that the hypotheses can hold.\<close>

definition sample_get :: "string \<Rightarrow> request" where
  "sample_get path = \<lparr> rq_method = ''get'', rq_url = ''https://api3x.firstrade.com'' @ path, rq_kwargs = [] \<rparr>"

definition sample_reader :: "string \<Rightarrow> 'b \<Rightarrow> 'b reader" where
  "sample_reader path x = Ask (sample_get path) (\<lambda>r. case r of Inl e \<Rightarrow> Fail e | Inr _ \<Rightarrow> Return x)"

definition sample_reading_sdk :: "(unit, nat, string list) sdk" where
  "sample_reading_sdk =
     \<lparr> sdk_session = (\<lambda>_ _. returnIO 0), sdk_login = (\<lambda>_. returnIO False), sdk_login_two = (\<lambda>_ _. returnIO ()),
       sdk_restore = (\<lambda>_ _. returnIO ()), sdk_account_data = (\<lambda>_. returnIO [''A1'']),
       sdk_tokens = (\<lambda>_ _. \<lparr> sv_access_token = PStr ''a'', sv_ftat = PStr ''f'', sv_sid = PStr ''s'', sv_cookies = None \<rparr>),
       sdk_close = (\<lambda>_ w. w), sdk_read_only_session = returnIO 1,
       sdk_read_only_account = (\<lambda>_ _. sample_reader ''/private/acct_list'' [''A1'']),
       sdk_history = (\<lambda>_ a _ _. sample_reader (''/private/account_history?account='' @ a) [(''items'', PList [])]),
       sdk_history_url = (\<lambda>a _ _. ''https://api3x.firstrade.com/private/account_history?account='' @ a),
       sdk_transport = (\<lambda>_ w. (Inr \<lparr> rsp_status = 200, rsp_content = ''{}'', rsp_json = Some (PDict []) \<rparr>, w)) \<rparr>"

definition sample_cache :: "unit cache_ports" where
  "sample_cache =
     \<lparr> cp_clock = (\<lambda>_. Fin 1000),
       cp_local = (\<lambda>_. returnIO (Some (PDict [(''access-token'', PStr ''a''), (''ftat'', PStr ''f''), (''sid'', PStr ''s''),
                                             (''saved_at'', PInt 900)]))),
       cp_write_local = (\<lambda>_ _ w. w), cp_delete_local = (\<lambda>_ w. w), cp_digest = (\<lambda>t. t),
       cp_store = \<lparr> os_read = (\<lambda>_ w. (Inr None, w)), os_write = (\<lambda>_ _ w. (True, w)),
                    os_create = (\<lambda>_ _ _ w. (Created, w)), json_dumps = (\<lambda>_. []), json_loads = (\<lambda>_. None) \<rparr> \<rparr>"

definition sample_reading_credentials :: credentials where
  "sample_reading_credentials =
     \<lparr> c_username = ''u'', c_password = ''p'', c_pin = [], c_email = [], c_phone = [], c_mfa_secret = [], c_mfa_code = [],
       c_cookie_dir = ''d'', c_reuse_session = True, c_session_cache_ttl_seconds = 3600, c_persist_session_cache = False,
       c_gcs_state_bucket = [], c_gcs_state_prefix = [], c_debug = False \<rparr>"

definition sample_reading_client :: "(nat, string list) client" where
  "sample_reading_client =
     \<lparr> cl_live_trading_enabled = False, cl_session = Some 1, cl_account_data = Some [''A1''], cl_session_reused = True,
       cl_read_only = True, cl_history_url = None, cl_history_used = False, cl_history_bytes = None,
       cl_request_attempts = 1 \<rparr>"

lemma sample_connects:
  "connect_read_only sample_reading_sdk sample_cache None sample_reading_credentials (new_client False) ()
   = ((None, sample_reading_client), ())"
  by code_simp

lemma sample_reads_history:
  "get_account_history_read_only sample_reading_sdk (\<lambda>a. a) 739000 ''A1'' ''2024-04-01'' ''2024-04-20'' sample_reading_client ()
   = ((Inr [(''items'', PList [])],
       sample_reading_client \<lparr> cl_history_used := True, cl_history_bytes := Some ''{}'', cl_request_attempts := 2 \<rparr>), ())"
  by code_simp

lemma sample_reachable:
  "(client_step sample_reading_sdk sample_cache None sample_reading_credentials (\<lambda>a. a))\<^sup>*\<^sup>*
     (new_client False, ()) (sample_reading_client, ())"
  by (rule r_into_rtranclp) (rule joins_cached [OF sample_connects])

theorem reachable_client_is_consistent_witness:
  "client_ok sample_reading_client \<and> cl_live_trading_enabled sample_reading_client = False"
  by (rule reachable_client_is_consistent [OF sample_reachable])

theorem read_only_connection_is_fresh_witness:
  "\<exists>p w1. load_read_only_session_cache sample_cache None sample_reading_credentials () = (Inr (Some (PDict p)), w1)
     \<and> usable_payload (Fin 1000) 3600 (PDict p)"
proof -
  have "cp_clock sample_cache w = Fin 1000" "cache_ttl sample_reading_credentials = 3600" for w
    by (simp_all add: sample_cache_def cache_ttl_def sample_reading_credentials_def)
  then show ?thesis using read_only_connection_is_fresh [OF sample_connects] by auto
qed

theorem history_is_read_once_witness:
  "\<exists>cl. (client_step sample_reading_sdk sample_cache None sample_reading_credentials (\<lambda>a. a))\<^sup>*\<^sup>*
           (sample_reading_client \<lparr> cl_history_used := True, cl_history_bytes := Some ''{}'', cl_request_attempts := 2 \<rparr>, ()) (cl, ())
     \<and> get_account_history_read_only sample_reading_sdk (\<lambda>a. a) 739000 ''A1'' ''2024-04-01'' ''2024-04-20'' cl ()
       = ((Inl (SafetyError ''Firstrade history read scope unavailable.''), cl), ())"
proof -
  define cl1 where "cl1 = sample_reading_client \<lparr> cl_history_used := True, cl_history_bytes := Some ''{}'', cl_request_attempts := 2 \<rparr>"
  obtain cl2 w2 where c: "close_client sample_reading_sdk cl1 () = (cl2, w2)" by (rule prod.exhaust)
  have "(client_step sample_reading_sdk sample_cache None sample_reading_credentials (\<lambda>a. a))\<^sup>*\<^sup>* (cl1, ()) (cl2, w2)"
    by (rule r_into_rtranclp) (rule closes [OF c])
  with history_is_read_once [OF sample_reads_history [folded cl1_def] this] show ?thesis
    unfolding cl1_def by (intro exI [of _ cl2]) simp
qed

text \<open>A cache over a store that keeps one document, which its codec reads back.\<close>

definition sample_tokens :: session_tokens where
  "sample_tokens = \<lparr> sv_access_token = PStr ''a'', sv_ftat = PStr ''f'', sv_sid = PStr ''s'', sv_cookies = None \<rparr>"

definition document_cache :: "(string \<Rightarrow> string option) cache_ports" where
  "document_cache =
     \<lparr> cp_clock = (\<lambda>_. Fin 1000), cp_local = (\<lambda>_. returnIO None), cp_write_local = (\<lambda>_ _ w. w),
       cp_delete_local = (\<lambda>_ w. w), cp_digest = (\<lambda>t. t),
       cp_store = map_store \<lparr> json_dumps := (\<lambda>_. ''doc''),
                    json_loads := (\<lambda>_. Some (PDict (cache_payload sample_tokens (Fin 1000)))) \<rparr> \<rparr>"

definition sample_shared_credentials :: credentials where
  "sample_shared_credentials =
     sample_reading_credentials \<lparr> c_persist_session_cache := True, c_gcs_state_bucket := ''b'', c_gcs_state_prefix := ''p'' \<rparr>"

theorem verified_save_is_loaded_witness:
  "\<exists>w1 r w2. save_verified_session_cache document_cache None sample_shared_credentials (Some (\<lambda>_. sample_tokens)) Map.empty = (Inr (), w1)
     \<and> load_read_only_session_cache document_cache None sample_shared_credentials w1 = (r, w2)
     \<and> (r = Inr (Some (PDict (cache_payload sample_tokens (Fin 1000)))) \<or> r = Inl (cached_error ''cache_read_failed''))"
proof -
  define w0 where "w0 = (Map.empty :: string \<Rightarrow> string option)"
  have ok: "case fst (save_verified_session_cache document_cache None sample_shared_credentials (Some (\<lambda>_. sample_tokens)) w0) of
      Inr () \<Rightarrow> True | Inl _ \<Rightarrow> False"
    unfolding w0_def by code_simp
  obtain x w1 where x: "save_verified_session_cache document_cache None sample_shared_credentials (Some (\<lambda>_. sample_tokens)) w0 = (x, w1)"
    by (rule prod.exhaust)
  then have save: "save_verified_session_cache document_cache None sample_shared_credentials (Some (\<lambda>_. sample_tokens)) w0 = (Inr (), w1)"
    using ok by (auto split: sum.splits)
  obtain r w2 where load: "load_read_only_session_cache document_cache None sample_shared_credentials w1 = (r, w2)"
    by (rule prod.exhaust)
  have "object_store_laws (cp_store document_cache) (\<lambda>w. w)"
    by (simp add: document_cache_def object_store_laws_def map_store_def)
  moreover have "codec_reads_back (cp_store document_cache) (cache_payload sample_tokens (Fin 1000))"
    by (simp add: codec_reads_back_def document_cache_def)
  moreover have "age_within (cp_clock document_cache w2) (cache_ttl sample_shared_credentials) (Fin 1000)"
    by (simp add: document_cache_def) code_simp
  moreover have "cp_write_local document_cache p d w = w" "cp_clock document_cache w = Fin 1000" for p d w
    by (simp_all add: document_cache_def)
  ultimately have "r = Inr (Some (PDict (cache_payload sample_tokens (Fin 1000)))) \<or> r = Inl (cached_error ''cache_read_failed'')"
    using verified_save_is_loaded [where tokens = "\<lambda>_. sample_tokens", OF _ _ _ _ _ save load, where t = 1000] by simp
  with save load show ?thesis unfolding w0_def by blast
qed

end
