(* ===== verification/PyDecimal.thy ===== *)
theory PyDecimal
  imports PyFloat
begin

text \<open>
  Python's \<open>Decimal\<close> numbers, as their exact rational values: construction from text is
  exact, arithmetic rounds to 28 significant digits, and \<open>quantize\<close> to the cent fails where
  the result needs more. The exponent of a decimal (trailing zeros) and the sign of zero are
  not kept. Numbers stay below the largest exponent of the context.
\<close>

definition dec_add :: "rat \<Rightarrow> rat \<Rightarrow> rat" where
  "dec_add x y = dec28 (x + y)"

definition dec_sub :: "rat \<Rightarrow> rat \<Rightarrow> rat" where
  "dec_sub x y = dec28 (x - y)"

definition dec_mul :: "rat \<Rightarrow> rat \<Rightarrow> rat" where
  "dec_mul x y = dec28 (x * y)"

definition dec_div :: "rat \<Rightarrow> rat \<Rightarrow> rat" where
  "dec_div x y = dec28 (x / y)"

definition dec_abs :: "rat \<Rightarrow> rat" where
  "dec_abs x = dec28 \<bar>x\<bar>"

text \<open>Rounding to a whole number: up, half away from zero, half to even.\<close>

definition half_up :: "rat \<Rightarrow> int" where
  "half_up q = (if 0 \<le> q then \<lfloor>q + 1/2\<rfloor> else - \<lfloor>1/2 - q\<rfloor>)"

definition invalid_operation :: pyexc where
  "invalid_operation = OtherException ''InvalidOperation'' ''quantize result has too many digits for current context''"

definition to_cent :: "(rat \<Rightarrow> int) \<Rightarrow> rat \<Rightarrow> rat exc" where
  "to_cent rnd x = (if \<bar>rnd (x * 100)\<bar> < 10 ^ 28 then Inr (of_int (rnd (x * 100)) / 100) else Inl invalid_operation)"

text \<open>
  \<open>Decimal(text)\<close> of a finite number; \<open>None\<close> where it raises or is infinite or not a number.
  Underscores are ignored.
\<close>

definition parse_decimal_unsigned :: "string \<Rightarrow> rat option" where
  "parse_decimal_unsigned s =
     (let (m, e, x) = partition_at (CHR ''e'') (py_lower s)
      in case parse_mantissa m of None \<Rightarrow> None
         | Some q \<Rightarrow> if e then (case parse_exponent x of None \<Rightarrow> None | Some k \<Rightarrow> Some (q * 10 powi k)) else Some q)"

definition parse_decimal :: "string \<Rightarrow> rat option" where
  "parse_decimal s =
     (case filter (\<lambda>x. x \<noteq> CHR ''_'') (py_strip s) of [] \<Rightarrow> None
      | x # r \<Rightarrow> if x = CHR ''-'' then map_option uminus (parse_decimal_unsigned r)
                else if x = CHR ''+'' then parse_decimal_unsigned r
                else parse_decimal_unsigned (x # r))"

section \<open>Facts\<close>

lemma dec28_nonneg: "0 \<le> q \<Longrightarrow> 0 \<le> dec28 q"
  by (rule dec28.rnd_nonneg)

lemma ceiling_cent: "x \<le> of_int \<lceil>x * 100\<rceil> / 100" "of_int \<lceil>x * 100\<rceil> / 100 < x + (1/100 :: rat)"
  by linarith+

lemma half_up_dist: "\<bar>of_int (half_up q) - q\<bar> \<le> 1/2"
proof (cases "0 \<le> q")
  case True
  have "\<bar>of_int \<lfloor>q + 1/2\<rfloor> - q\<bar> \<le> 1/2" by (simp only: abs_le_iff) linarith
  with True show ?thesis by (simp only: half_up_def if_True)
next
  case False
  have "\<bar>- of_int \<lfloor>1/2 - q\<rfloor> - q\<bar> \<le> 1/2" by (simp only: abs_le_iff) linarith
  with False show ?thesis by (simp only: half_up_def if_False of_int_minus)
qed

lemma to_cent_dist:
  assumes "\<And>q. \<bar>of_int (rnd q) - q\<bar> \<le> 1/2" "to_cent rnd x = Inr y"
  shows "\<bar>y - x\<bar> \<le> 1/200"
proof -
  have "y = of_int (rnd (x * 100)) / 100" using assms(2) by (auto simp: to_cent_def split: if_splits)
  moreover have "\<bar>of_int (rnd (x * 100)) - x * 100\<bar> \<le> 1/2" by (rule assms(1))
  ultimately show ?thesis by (simp only: abs_le_iff) linarith
qed

text \<open>Whole cents below ten to the 26 are exact in the context.\<close>

lemma dec28_cents: "\<bar>n\<bar> < 10 ^ 28 \<Longrightarrow> dec28 (of_int n / 100) = of_int n / 100"
  using round_sig_exact [of 10 n 28 "- 999999" "- 2"] by (simp add: dec28_def power_int_minus field_simps)

end
