(* ===== verification/FeeSchedule.thy ===== *)
theory FeeSchedule
  imports PyDecimal PyDate PyValue
begin

text \<open>
  \<open>application/firstrade_fee_schedule.py\<close>: the fee tables, their validation, and the lookup of
  the segment that applies on a trade date. A look at the configuration raises
  \<open>FeeScheduleError\<close>, and so does every date that no verified segment covers.
\<close>

section \<open>The schedule\<close>

record fee_schedule =
  fs_broker_assisted_markers :: "string list"
  fs_broker_assisted_fee :: "(day \<times> rat) list"
  fs_sec_rate_per_million :: "(day \<times> rat) list"
  fs_taf_per_share :: "(day \<times> rat \<times> rat) list"
  fs_minimum_regulatory_fee :: rat
  fs_explained_residual_tolerance :: rat
  fs_verified_through :: day

text \<open>The loop of \<open>_lookup\<close>: the last row, in the order of the table, on or before the date.\<close>

definition select_row :: "(day \<times> 'a) list \<Rightarrow> day \<Rightarrow> (day \<times> 'a) option" where
  "select_row table d = foldl (\<lambda>selected row. if fst row \<le> d then Some row else selected) None table"

definition lookup_row :: "fee_schedule \<Rightarrow> (day \<times> 'a) list \<Rightarrow> day \<Rightarrow> string \<Rightarrow> (day \<times> 'a) exc" where
  "lookup_row s table d name =
     (if fs_verified_through s < d
      then Inl (FeeScheduleError (name @ ''_not_verified_after_'' @ date_isoformat (fs_verified_through s)))
      else case select_row table d of
        None \<Rightarrow> Inl (FeeScheduleError (name @ ''_not_defined_for_'' @ date_isoformat d))
      | Some row \<Rightarrow> Inr row)"

definition broker_assisted_fee_on :: "fee_schedule \<Rightarrow> day \<Rightarrow> rat exc" where
  "broker_assisted_fee_on s d =
     bindE (lookup_row s (fs_broker_assisted_fee s) d ''broker_assisted_fee'') (\<lambda>row. Inr (snd row))"

definition sec_rate_on :: "fee_schedule \<Rightarrow> day \<Rightarrow> rat exc" where
  "sec_rate_on s d = bindE (lookup_row s (fs_sec_rate_per_million s) d ''sec_rate'') (\<lambda>row. Inr (snd row))"

definition taf_on :: "fee_schedule \<Rightarrow> day \<Rightarrow> (rat \<times> rat) exc" where
  "taf_on s d = bindE (lookup_row s (fs_taf_per_share s) d ''taf_rate'') (\<lambda>row. Inr (snd row))"

definition is_broker_assisted :: "fee_schedule \<Rightarrow> pyval \<Rightarrow> bool" where
  "is_broker_assisted s description \<longleftrightarrow>
     list_ex (\<lambda>marker. contains (py_upper (str_or description)) (py_upper marker)) (fs_broker_assisted_markers s)"

section \<open>Reading the configuration\<close>

definition fee_error :: "string \<Rightarrow> string \<Rightarrow> pyexc" where
  "fee_error field what = FeeScheduleError (field @ what)"

definition config_decimal :: "pyval \<Rightarrow> string \<Rightarrow> rat exc" where
  "config_decimal v field =
     (case (case v of PStr t \<Rightarrow> parse_decimal t | PInt n \<Rightarrow> Some (of_int n) | _ \<Rightarrow> None) of
        None \<Rightarrow> Inl (fee_error field ''_invalid'')
      | Some q \<Rightarrow> if q < 0 then Inl (fee_error field ''_invalid'') else Inr q)"

definition config_date :: "pyval \<Rightarrow> string \<Rightarrow> day exc" where
  "config_date v field =
     (case fromisoformat (py_str v) of None \<Rightarrow> Inl (fee_error field ''_invalid'') | Some d \<Rightarrow> Inr d)"

definition segment_row :: "string \<Rightarrow> string list \<Rightarrow> pyval \<Rightarrow> (day \<times> rat list) exc" where
  "segment_row field keys item =
     (case item of
        PDict d \<Rightarrow>
          bindE (config_date (pget d ''effective_from'') field) (\<lambda>start.
          bindE (mapE (\<lambda>k. config_decimal (pget d k) (field @ ''.'' @ k)) keys) (\<lambda>vs. Inr (start, vs)))
      | _ \<Rightarrow> Inl (fee_error field ''_invalid''))"

text \<open>\<open>dates != sorted(dates) or len(set(dates)) != len(dates)\<close>.\<close>

definition strictly_ordered :: "day list \<Rightarrow> bool" where
  "strictly_ordered ds \<longleftrightarrow> ds = sort ds \<and> card (set ds) = length ds"

definition segments :: "pyval \<Rightarrow> string \<Rightarrow> string list \<Rightarrow> (day \<times> rat list) list exc" where
  "segments raw field keys =
     (case raw of
        PList (x # xs) \<Rightarrow>
          bindE (mapE (segment_row field keys) (x # xs)) (\<lambda>rows.
          bindE (guardE (strictly_ordered (map fst rows)) (fee_error field ''_not_strictly_ordered'')) (\<lambda>_.
          Inr rows))
      | _ \<Rightarrow> Inl (fee_error field ''_missing''))"

text \<open>A row with one value, and the TAF row with its rate and its maximum.\<close>

definition one_value :: "day \<times> rat list \<Rightarrow> day \<times> rat" where
  "one_value row = (fst row, snd row ! 0)"

definition two_values :: "day \<times> rat list \<Rightarrow> day \<times> rat \<times> rat" where
  "two_values row = (fst row, snd row ! 0, snd row ! 1)"

definition marker_of :: "pyval \<Rightarrow> string exc" where
  "marker_of v = (case v of PStr m \<Rightarrow> if py_strip m = [] then Inl (FeeScheduleError ''broker_assisted_markers_invalid'') else Inr m
                  | _ \<Rightarrow> Inl (FeeScheduleError ''broker_assisted_markers_invalid''))"

definition load_fee_schedule :: "pyval dict \<Rightarrow> fee_schedule exc" where
  "load_fee_schedule data =
     bindE (guardE (pget data ''schema_version'' = PStr ''firstrade_fee_schedule.v1'') (FeeScheduleError ''schema_version_unsupported'')) (\<lambda>_.
     bindE (case pget data ''broker_assisted_markers'' of
              PList (m # ms) \<Rightarrow> mapE marker_of (m # ms)
            | _ \<Rightarrow> Inl (FeeScheduleError ''broker_assisted_markers_invalid'')) (\<lambda>markers.
     bindE (guardE (pget data ''verified_through'' \<notin> {PNone, PStr []}) (FeeScheduleError ''verified_through_missing'')) (\<lambda>_.
     bindE (segments (pget data ''broker_assisted_fee'') ''broker_assisted_fee'' [''amount'']) (\<lambda>broker.
     bindE (segments (pget data ''sec_rate_per_million'') ''sec_rate'' [''rate'']) (\<lambda>sec.
     bindE (segments (pget data ''taf_per_share'') ''taf_rate'' [''rate'', ''max_per_trade'']) (\<lambda>taf.
     bindE (config_decimal (pget data ''minimum_regulatory_fee'') ''minimum_regulatory_fee'') (\<lambda>least.
     bindE (config_decimal (pget data ''explained_residual_tolerance'') ''explained_residual_tolerance'') (\<lambda>tol.
     bindE (config_date (pget data ''verified_through'') ''verified_through'') (\<lambda>last_day.
     Inr \<lparr> fs_broker_assisted_markers = markers, fs_broker_assisted_fee = map one_value broker,
           fs_sec_rate_per_million = map one_value sec, fs_taf_per_share = map two_values taf,
           fs_minimum_regulatory_fee = least, fs_explained_residual_tolerance = tol,
           fs_verified_through = last_day \<rparr>)))))))))"

section \<open>The packaged schedule\<close>

definition segment :: "string \<Rightarrow> (string \<times> string) list \<Rightarrow> pyval" where
  "segment start values = PDict ((''effective_from'', PStr start) # map (\<lambda>(k, v). (k, PStr v)) values)"

definition taf_segment :: "string \<Rightarrow> string \<Rightarrow> string \<Rightarrow> pyval" where
  "taf_segment start rate most = segment start [(''rate'', rate), (''max_per_trade'', most)]"

definition default_fee_schedule_config :: "pyval dict" where
  "default_fee_schedule_config =
     [(''schema_version'', PStr ''firstrade_fee_schedule.v1''),
      (''verified_through'', PStr ''2026-12-01''),
      (''broker_assisted_markers'', PList [PStr ''BROKER/DEALER ORDER'']),
      (''broker_assisted_fee'', PList [segment ''2000-01-01'' [(''amount'', ''19.95'')]]),
      (''sec_rate_per_million'', PList
         [segment ''2024-05-22'' [(''rate'', ''27.80'')], segment ''2025-05-14'' [(''rate'', ''0.00'')],
          segment ''2026-04-04'' [(''rate'', ''20.60'')]]),
      (''taf_per_share'', PList
         [taf_segment ''2024-01-01'' ''0.000166'' ''8.30'', taf_segment ''2026-01-01'' ''0.000195'' ''9.79'',
          taf_segment ''2026-10-01'' ''0'' ''0'', taf_segment ''2027-01-01'' ''0.000195'' ''9.79'',
          taf_segment ''2029-01-01'' ''0.000232'' ''11.61'', taf_segment ''2030-01-01'' ''0.000240'' ''12.05'',
          taf_segment ''2031-01-01'' ''0.000249'' ''12.50'']),
      (''minimum_regulatory_fee'', PStr ''0.01''),
      (''explained_residual_tolerance'', PStr ''0.01'')]"

section \<open>What a loaded schedule is\<close>

definition increasing :: "(day \<times> 'a) list \<Rightarrow> bool" where
  "increasing table \<longleftrightarrow> table \<noteq> [] \<and> sorted_wrt (<) (map fst table)"

definition well_formed_schedule :: "fee_schedule \<Rightarrow> bool" where
  "well_formed_schedule s \<longleftrightarrow>
     increasing (fs_broker_assisted_fee s) \<and> list_all (\<lambda>r. 0 \<le> snd r) (fs_broker_assisted_fee s)
     \<and> increasing (fs_sec_rate_per_million s) \<and> list_all (\<lambda>r. 0 \<le> snd r) (fs_sec_rate_per_million s)
     \<and> increasing (fs_taf_per_share s) \<and> list_all (\<lambda>r. 0 \<le> fst (snd r) \<and> 0 \<le> snd (snd r)) (fs_taf_per_share s)
     \<and> 0 \<le> fs_minimum_regulatory_fee s \<and> 0 \<le> fs_explained_residual_tolerance s
     \<and> fs_broker_assisted_markers s \<noteq> [] \<and> list_all (\<lambda>m. py_strip m \<noteq> []) (fs_broker_assisted_markers s)"

lemma strictly_ordered_sorted: "strictly_ordered ds \<Longrightarrow> sorted_wrt (<) ds"
  unfolding strictly_ordered_def by (metis card_distinct sorted_sort strict_sorted_iff)

lemma config_decimal_nonneg: "config_decimal v field = Inr q \<Longrightarrow> 0 \<le> q"
  by (auto simp: config_decimal_def split: option.splits if_splits)

lemma segment_row_values:
  "segment_row field keys item = Inr (d, vs) \<Longrightarrow> length vs = length keys \<and> list_all (\<lambda>q. 0 \<le> q) vs"
  by (auto simp: segment_row_def bindE_Inr_iff list_all_iff split: pyval.splits
      dest: mapE_Inr_length mapE_Inr_set config_decimal_nonneg)

lemma segments_rows:
  assumes "segments raw field keys = Inr rows"
  shows "rows \<noteq> []" "sorted_wrt (<) (map fst rows)"
    "\<And>r. r \<in> set rows \<Longrightarrow> length (snd r) = length keys \<and> list_all (\<lambda>q. 0 \<le> q) (snd r)"
proof -
  obtain x xs where raw: "raw = PList (x # xs)" "mapE (segment_row field keys) (x # xs) = Inr rows"
    "strictly_ordered (map fst rows)"
    using assms by (auto simp: segments_def bindE_Inr_iff split: pyval.splits list.splits)
  show "rows \<noteq> []" using mapE_Inr_length [OF raw(2)] by auto
  show "sorted_wrt (<) (map fst rows)" using raw(3) by (rule strictly_ordered_sorted)
  show "length (snd r) = length keys \<and> list_all (\<lambda>q. 0 \<le> q) (snd r)" if "r \<in> set rows" for r
    using mapE_Inr_set [OF raw(2) that] segment_row_values by (metis prod.collapse)
qed

lemma one_value_table:
  assumes "segments raw field [k] = Inr rows"
  shows "increasing (map one_value rows) \<and> list_all (\<lambda>r. 0 \<le> snd r) (map one_value rows)"
proof -
  have "fst \<circ> one_value = fst" by (simp add: fun_eq_iff one_value_def)
  with segments_rows [OF assms] show ?thesis
    by (fastforce simp: increasing_def list_all_iff one_value_def in_set_conv_nth)
qed

lemma two_value_table:
  assumes "segments raw field [k, l] = Inr rows"
  shows "increasing (map two_values rows) \<and> list_all (\<lambda>r. 0 \<le> fst (snd r) \<and> 0 \<le> snd (snd r)) (map two_values rows)"
proof -
  have "fst \<circ> two_values = fst" by (simp add: fun_eq_iff two_values_def)
  moreover have "0 \<le> snd r ! 0 \<and> 0 \<le> snd r ! 1" if "r \<in> set rows" for r
    using segments_rows(3) [OF assms that] by (auto simp: list_all_length)
  ultimately show ?thesis
    using segments_rows(1,2) [OF assms] by (auto simp: increasing_def list_all_iff two_values_def)
qed

lemma marker_of_filled: "marker_of v = Inr m \<Longrightarrow> py_strip m \<noteq> []"
  by (auto simp: marker_of_def split: pyval.splits if_splits)

lemma markers_filled: "mapE marker_of xs = Inr ms \<Longrightarrow> list_all (\<lambda>m. py_strip m \<noteq> []) ms"
  by (auto simp: list_all_iff dest: mapE_Inr_set marker_of_filled)

lemma loaded_well_formed:
  assumes "load_fee_schedule data = Inr s"
  shows "well_formed_schedule s"
  using assms
  by (auto simp: load_fee_schedule_def bindE_Inr_iff well_formed_schedule_def one_value_table two_value_table
      split: pyval.splits list.splits dest: config_decimal_nonneg markers_filled marker_of_filled)

text \<open>
  Property C20. A schedule that loads is well formed, whatever the configuration: each fee
  table has a row and its start dates strictly increase, no amount, rate or maximum is
  negative, and there is a marker and none is blank.
\<close>

theorem loaded_schedule_is_well_formed:
  assumes "load_fee_schedule data = Inr s"
  shows "well_formed_schedule s"
  using assms by (rule loaded_well_formed)

section \<open>The lookup\<close>

text \<open>The row that starts last among those that have started by the date.\<close>

definition latest_row :: "(day \<times> 'a) list \<Rightarrow> day \<Rightarrow> (day \<times> 'a) option" where
  "latest_row table d =
     (let starts = filter (\<lambda>x. x \<le> d) (map fst table) in
      if starts = [] then None else find (\<lambda>row. fst row = Max (set starts)) table)"

lemma select_row_snoc:
  "select_row [] d = None" "select_row (table @ [r]) d = (if fst r \<le> d then Some r else select_row table d)"
  by (simp_all add: select_row_def)

lemma find_append: "find P (xs @ ys) = (case find P xs of None \<Rightarrow> find P ys | Some x \<Rightarrow> Some x)"
  by (induction xs) auto

lemma latest_row_later:
  assumes "\<And>x. x \<in> set table \<Longrightarrow> fst x < fst r"
  shows "latest_row (table @ [r]) d = (if fst r \<le> d then Some r else latest_row table d)"
proof (cases "fst r \<le> d")
  case True
  have "Max (set (filter (\<lambda>x. x \<le> d) (map fst (table @ [r])))) = fst r"
    using True by (intro Max_eqI) (auto dest: assms)
  moreover have "find (\<lambda>row. fst row = fst r) table = None" using assms by (fastforce simp: find_None_iff)
  ultimately show ?thesis using True by (simp add: latest_row_def find_append)
next
  case False
  have "find (\<lambda>row. fst row = m) (table @ [r]) = find (\<lambda>row. fst row = m) table" if "m \<le> d" for m
    using False that by (auto simp: find_append split: option.splits)
  moreover have "Max (set (filter (\<lambda>x. x \<le> d) (map fst table))) \<le> d" if "filter (\<lambda>x. x \<le> d) (map fst table) \<noteq> []"
  proof -
    have "Max (set (filter (\<lambda>x. x \<le> d) (map fst table))) \<in> set (filter (\<lambda>x. x \<le> d) (map fst table))"
      using that by (intro Max_in) (simp_all del: set_filter)
    moreover have "\<forall>x\<in>set (filter (\<lambda>x. x \<le> d) (map fst table)). x \<le> d" by auto
    ultimately show ?thesis by (rule bspec [rotated])
  qed
  ultimately show ?thesis using False by (simp add: latest_row_def Let_def)
qed

lemma select_row_latest: "sorted_wrt (<) (map fst table) \<Longrightarrow> select_row table d = latest_row table d"
proof (induction table rule: rev_induct)
  case (snoc r table)
  then show ?case by (simp add: select_row_snoc latest_row_later sorted_wrt_append)
qed (simp add: select_row_snoc latest_row_def)

lemma select_row_in: "select_row table d = Some r \<Longrightarrow> r \<in> set table"
  by (induction table rule: rev_induct) (auto simp: select_row_snoc split: if_splits)

lemma lookup_row_in: "lookup_row s table d name = Inr r \<Longrightarrow> r \<in> set table"
  by (auto simp: lookup_row_def select_row_in split: if_splits option.splits)

text \<open>The rate a date asks for: the latest row of its table, if the date is verified.\<close>

definition verified_row :: "fee_schedule \<Rightarrow> (day \<times> 'a) list \<Rightarrow> day \<Rightarrow> 'a option" where
  "verified_row s table d = (if d \<le> fs_verified_through s then map_option snd (latest_row table d) else None)"

lemma lookup_row_verified:
  assumes "increasing table"
  shows "case verified_row s table d of
      Some v \<Rightarrow> bindE (lookup_row s table d name) (\<lambda>row. Inr (snd row)) = Inr v
    | None \<Rightarrow> \<exists>why. bindE (lookup_row s table d name) (\<lambda>row. Inr (snd row)) = Inl (FeeScheduleError why)"
  using select_row_latest [of table d] assms
  by (auto simp: verified_row_def lookup_row_def increasing_def split: option.splits)

text \<open>
  Property C19. On a schedule that loaded, the three lookups give the rate of the segment
  that started last by the trade date, and raise \<open>FeeScheduleError\<close> exactly where no
  segment has started or the date is past the last verified day.
\<close>

theorem lookup_is_the_latest_verified_segment:
  assumes "load_fee_schedule data = Inr s"
  shows "(case verified_row s (fs_broker_assisted_fee s) d of
            Some v \<Rightarrow> broker_assisted_fee_on s d = Inr v | None \<Rightarrow> \<exists>why. broker_assisted_fee_on s d = Inl (FeeScheduleError why))
       \<and> (case verified_row s (fs_sec_rate_per_million s) d of
            Some v \<Rightarrow> sec_rate_on s d = Inr v | None \<Rightarrow> \<exists>why. sec_rate_on s d = Inl (FeeScheduleError why))
       \<and> (case verified_row s (fs_taf_per_share s) d of
            Some v \<Rightarrow> taf_on s d = Inr v | None \<Rightarrow> \<exists>why. taf_on s d = Inl (FeeScheduleError why))"
proof -
  have "increasing (fs_broker_assisted_fee s)" "increasing (fs_sec_rate_per_million s)" "increasing (fs_taf_per_share s)"
    using loaded_well_formed [OF assms] by (simp_all add: well_formed_schedule_def)
  then show ?thesis
    unfolding broker_assisted_fee_on_def sec_rate_on_def taf_on_def by (intro conjI lookup_row_verified)
qed

text \<open>The packaged schedule loads; its rates on a day of 2026.\<close>

lemma default_schedule_loads: "\<exists>s. load_fee_schedule default_fee_schedule_config = Inr s"
proof -
  have "case load_fee_schedule default_fee_schedule_config of Inl _ \<Rightarrow> False | Inr _ \<Rightarrow> True" by code_simp
  then show ?thesis by (auto split: sum.splits)
qed

definition default_schedule :: fee_schedule where
  "default_schedule = (case load_fee_schedule default_fee_schedule_config of Inr s \<Rightarrow> s
     | Inl _ \<Rightarrow> \<lparr> fs_broker_assisted_markers = [], fs_broker_assisted_fee = [], fs_sec_rate_per_million = [],
                fs_taf_per_share = [], fs_minimum_regulatory_fee = 0, fs_explained_residual_tolerance = 0,
                fs_verified_through = 0 \<rparr>)"

lemma default_schedule_loaded: "load_fee_schedule default_fee_schedule_config = Inr default_schedule"
  using default_schedule_loads by (auto simp: default_schedule_def)

theorem loaded_schedule_is_well_formed_witness: "well_formed_schedule default_schedule"
  by (rule loaded_schedule_is_well_formed [OF default_schedule_loaded])

theorem lookup_is_the_latest_verified_segment_witness:
  "sec_rate_on default_schedule (day_number 2026 8 28) = Inr (103/5)
   \<and> (\<exists>why. sec_rate_on default_schedule (day_number 2027 1 4) = Inl (FeeScheduleError why))"
proof -
  have "verified_row default_schedule (fs_sec_rate_per_million default_schedule) (day_number 2026 8 28) = Some (103/5)"
    "verified_row default_schedule (fs_sec_rate_per_million default_schedule) (day_number 2027 1 4) = None"
    by code_simp+
  then show ?thesis
    using lookup_is_the_latest_verified_segment [OF default_schedule_loaded, of "day_number 2026 8 28"]
      lookup_is_the_latest_verified_segment [OF default_schedule_loaded, of "day_number 2027 1 4"]
    by simp
qed

end
