(* ===== verification/StatementReconciliation.thy ===== *)
theory StatementReconciliation
  imports FeeSchedule
begin

text \<open>
  \<open>application/statement_reconciliation.py\<close>: why a desk sale nets less than quantity times
  price, and whether two endpoints' stock values differ by their quotes only. Rows hold the
  values of a CSV or JSON document. Reports hold numbers and dates; writing them as text
  (\<open>format\<close>, \<open>isoformat\<close>) is not modelled, the rounding before it is.
\<close>

section \<open>Reading a row\<close>

definition amount_invalid :: pyexc where
  "amount_invalid = ValueError ''amount_invalid''"

definition to_decimal :: "pyval \<Rightarrow> rat exc" where
  "to_decimal v =
     (case v of
        PNone \<Rightarrow> Inl amount_invalid
      | PBool _ \<Rightarrow> Inl amount_invalid
      | _ \<Rightarrow> (case parse_decimal (py_strip (filter (\<lambda>x. x \<noteq> CHR '','') (py_str v))) of
                None \<Rightarrow> Inl amount_invalid | Some q \<Rightarrow> Inr q))"

definition trade_date_of :: "pyval \<Rightarrow> day exc" where
  "trade_date_of v =
     (let t = py_strip (str_or v) in
      case strptime_iso t of Some d \<Rightarrow> Inr d
      | None \<Rightarrow> (case strptime_us t of Some d \<Rightarrow> Inr d | None \<Rightarrow> Inl (ValueError ''trade_date_invalid'')))"

text \<open>
  \<open>re.search\<close> of a marker, in any case, blanks, and a group: at the first place where the
  group matches. The groups are a full date and a settlement date.
\<close>

fun search_marked :: "string \<Rightarrow> (string \<Rightarrow> string option) \<Rightarrow> string \<Rightarrow> string option" where
  "search_marked marker group_at [] = None"
| "search_marked marker group_at (x # s) =
     (case (if starts_with (py_upper (x # s)) marker
            then group_at (dropWhile is_space (drop (length marker) (x # s))) else None) of
        Some g \<Rightarrow> Some g
      | None \<Rightarrow> search_marked marker group_at s)"

definition iso_group :: "string \<Rightarrow> string option" where
  "iso_group t =
     (let g = take 10 t in
      if length g = 10 \<and> list_all is_digit (take 4 g) \<and> g ! 4 = CHR ''-'' \<and> list_all is_digit (take 2 (drop 5 g))
         \<and> g ! 7 = CHR ''-'' \<and> list_all is_digit (drop 8 g)
      then Some g else None)"

definition us_group :: "string \<Rightarrow> string option" where
  "us_group t =
     (let m = takeWhile is_digit t; r1 = drop (length m) t; d = takeWhile is_digit (drop 1 r1); r2 = drop (length d) (drop 1 r1);
          y = take 4 (drop 1 r2) in
      if length m \<in> {1, 2} \<and> take 1 r1 = ''/'' \<and> length d \<in> {1, 2} \<and> take 1 r2 = ''/'' \<and> length y = 4 \<and> list_all is_digit y
      then Some (m @ ''/'' @ d @ ''/'' @ y) else None)"

definition exec_time_re :: "string \<Rightarrow> string option" where
  "exec_time_re = search_marked ''EXEC TIME:'' iso_group"

definition settlement_re :: "string \<Rightarrow> string option" where
  "settlement_re = search_marked ''S/D:'' us_group"

definition not_trade_date :: pyexc where
  "not_trade_date = ValueError ''date_column_not_trade_date''"

definition resolve_dates :: "pyval \<Rightarrow> pyval \<Rightarrow> (day \<times> day option) exc" where
  "resolve_dates csv_date description =
     bindE (trade_date_of csv_date) (\<lambda>trade.
     bindE (case exec_time_re (str_or description) of
              None \<Rightarrow> Inr ()
            | Some g \<Rightarrow> bindE (trade_date_of (PStr g)) (\<lambda>d. guardE (d = trade) not_trade_date)) (\<lambda>_.
     bindE (case settlement_re (str_or description) of
              None \<Rightarrow> Inr None
            | Some g \<Rightarrow> bindE (trade_date_of (PStr g)) (\<lambda>d. Inr (Some d))) (\<lambda>settled.
     bindE (guardE (case settled of None \<Rightarrow> True | Some d \<Rightarrow> trade < d) not_trade_date) (\<lambda>_.
     Inr (trade, settled)))))"

definition row_value :: "pyval dict \<Rightarrow> string list \<Rightarrow> pyval" where
  "row_value row keys =
     (let lowered = dict_of (map (\<lambda>(k, v). (py_lower k, v)) row) in
      case find (\<lambda>k. dget lowered (py_lower k) \<noteq> None) keys of
        None \<Rightarrow> PNone
      | Some k \<Rightarrow> pget lowered (py_lower k))"

section \<open>The fees of a sale\<close>

record fee_parts =
  fp_sec_raw :: rat
  fp_taf_raw :: rat
  fp_fee :: rat

definition regulatory_fee :: "rat \<Rightarrow> rat \<Rightarrow> day \<Rightarrow> fee_schedule \<Rightarrow> fee_parts exc" where
  "regulatory_fee proceeds quantity trade s =
     bindE (sec_rate_on s trade) (\<lambda>sec_rate.
     bindE (taf_on s trade) (\<lambda>(taf_rate, taf_max).
     let sec_raw = dec_div (dec_mul proceeds sec_rate) 1000000;
         taf_raw = (if 0 < taf_rate then min (dec_mul (dec_abs quantity) taf_rate) taf_max else 0);
         total_raw = dec_add sec_raw taf_raw
     in bindE (if total_raw \<le> 0 then Inr 0
               else bindE (to_cent ceiling total_raw) (\<lambda>up. Inr (max up (fs_minimum_regulatory_fee s)))) (\<lambda>fee.
        Inr \<lparr> fp_sec_raw = sec_raw, fp_taf_raw = taf_raw, fp_fee = fee \<rparr>)))"

text \<open>\<open>_money\<close> and \<open>_exact\<close>: the number that is printed.\<close>

definition money :: "rat \<Rightarrow> rat exc" where
  "money q = to_cent half_up q"

definition exact :: "rat \<Rightarrow> rat" where
  "exact q = dec28 q"

record sell_report =
  sr_explained :: bool
  sr_trade_date :: day
  sr_settlement_date :: "day option"
  sr_gross_proceeds :: rat
  sr_gross_minus_reported_net :: rat
  sr_broker_assisted_fee :: rat
  sr_regulatory_fee :: rat
  sr_sec_fee_unrounded :: rat
  sr_taf_unrounded :: rat
  sr_expected_net :: rat
  sr_reported_net :: rat
  sr_residual :: rat
  sr_residual_tolerance :: rat

datatype sell_outcome = NotApplicable string | Unsupported string | Decomposed sell_report

fun error_text :: "pyexc \<Rightarrow> string" where
  "error_text (ValueError t) = t"
| "error_text (FeeScheduleError t) = t"
| "error_text _ = []"

fun is_fee_error :: "pyexc \<Rightarrow> bool" where
  "is_fee_error (FeeScheduleError _) = True"
| "is_fee_error _ = False"

definition sell_numbers :: "pyval dict \<Rightarrow> (day \<times> day option \<times> rat \<times> rat \<times> rat) exc" where
  "sell_numbers row =
     bindE (resolve_dates (row_value row [''date'', ''trade_date'']) (row_value row [''description''])) (\<lambda>(trade, settled).
     bindE (to_decimal (row_value row [''quantity''])) (\<lambda>q.
     bindE (to_decimal (row_value row [''price''])) (\<lambda>price.
     bindE (to_decimal (row_value row [''amount'', ''net_amount''])) (\<lambda>net.
     bindE (guardE (0 < dec_abs q) (ValueError ''quantity_not_positive'')) (\<lambda>_.
     bindE (guardE (0 < price) (ValueError ''price_not_positive'')) (\<lambda>_.
     Inr (trade, settled, dec_abs q, price, net)))))))"

definition sell_fees :: "fee_schedule \<Rightarrow> day \<Rightarrow> rat \<Rightarrow> rat \<Rightarrow> (rat \<times> fee_parts) exc" where
  "sell_fees s trade gross quantity =
     bindE (broker_assisted_fee_on s trade) (\<lambda>broker_fee.
     bindE (regulatory_fee gross quantity trade s) (\<lambda>reg. Inr (broker_fee, reg)))"

definition sell_report_of ::
  "fee_schedule \<Rightarrow> day \<Rightarrow> day option \<Rightarrow> rat \<Rightarrow> rat \<Rightarrow> rat \<Rightarrow> fee_parts \<Rightarrow> sell_report exc" where
  "sell_report_of s trade settled gross net broker_fee reg =
     bindE (to_cent half_up (dec_sub (dec_sub gross broker_fee) (fp_fee reg))) (\<lambda>expected.
     bindE (to_cent rhe (dec_sub net expected)) (\<lambda>residual.
     bindE (money broker_fee) (\<lambda>m1.
     bindE (money (fp_fee reg)) (\<lambda>m2.
     bindE (money expected) (\<lambda>m3.
     bindE (money net) (\<lambda>m4.
     bindE (money residual) (\<lambda>m5.
     bindE (money (fs_explained_residual_tolerance s)) (\<lambda>m6.
     Inr \<lparr> sr_explained = (dec_abs residual \<le> fs_explained_residual_tolerance s), sr_trade_date = trade,
           sr_settlement_date = settled, sr_gross_proceeds = exact gross,
           sr_gross_minus_reported_net = exact (dec_sub gross net), sr_broker_assisted_fee = m1, sr_regulatory_fee = m2,
           sr_sec_fee_unrounded = exact (fp_sec_raw reg), sr_taf_unrounded = exact (fp_taf_raw reg), sr_expected_net = m3,
           sr_reported_net = m4, sr_residual = m5, sr_residual_tolerance = m6 \<rparr>))))))))"

definition decompose_sell_fees :: "fee_schedule \<Rightarrow> pyval dict \<Rightarrow> sell_outcome exc" where
  "decompose_sell_fees s row =
     (if py_lower (py_strip (str_or (row_value row [''transaction'']))) \<notin> {''sold'', ''sell''} then Inr (NotApplicable ''not_a_sell'')
      else if \<not> is_broker_assisted s (row_value row [''description'']) then Inr (NotApplicable ''not_broker_assisted_order'')
      else case sell_numbers row of
        Inl e \<Rightarrow> Inr (Unsupported (error_text e))
      | Inr (trade, settled, quantity, price, net) \<Rightarrow>
          (let gross = dec_mul quantity price in
           case sell_fees s trade gross quantity of
             Inl e \<Rightarrow> if is_fee_error e then Inr (Unsupported (error_text e)) else Inl e
           | Inr (broker_fee, reg) \<Rightarrow> bindE (sell_report_of s trade settled gross net broker_fee reg) (\<lambda>r. Inr (Decomposed r))))"

section \<open>Two stock values\<close>

definition valuation_tolerance_floor :: rat where
  "valuation_tolerance_floor = 1/10"

definition valuation_tolerance_rate :: rat where
  "valuation_tolerance_rate = 1/1000"

definition valuation_tolerance_cap :: rat where
  "valuation_tolerance_cap = 25"

text \<open>The loop over the quantities, with the result so far.\<close>

fun quantity_loop :: "rat dict \<Rightarrow> pyval dict \<Rightarrow> rat dict exc" where
  "quantity_loop acc [] = Inr acc"
| "quantity_loop acc ((symbol, quantity) # raw) =
     (let key = py_upper (py_strip symbol) in
      bindE (guardE (key \<noteq> [] \<and> dget acc key = None) (ValueError ''quantity_invalid'')) (\<lambda>_.
      bindE (to_decimal quantity) (\<lambda>value.
      bindE (guardE (0 < value) (ValueError ''quantity_invalid'')) (\<lambda>_.
      quantity_loop (dset acc key value) raw))))"

definition quantity_map :: "pyval dict option \<Rightarrow> rat dict option exc" where
  "quantity_map raw = (case raw of None \<Rightarrow> Inr None | Some d \<Rightarrow> bindE (quantity_loop [] d) (\<lambda>q. Inr (Some q)))"

definition same_quantities :: "rat dict \<Rightarrow> rat dict \<Rightarrow> bool" where
  "same_quantities a b \<longleftrightarrow> length a = length b \<and> list_all (\<lambda>(k, q). dget b k = Some q) a"

datatype quantity_check = NotPerformed | Matched | Mismatch

datatype valuation_status = Match | ValuationBasisDifference | Unexplained string

record valuation =
  va_status :: valuation_status
  va_balance :: rat
  va_positions :: rat
  va_difference :: rat
  va_tolerance :: rat
  va_quantity_check :: quantity_check

datatype valuation_report = Unavailable string | Valued valuation

definition quantity_check_of :: "rat dict option \<Rightarrow> rat dict option \<Rightarrow> quantity_check" where
  "quantity_check_of actual expected =
     (case (actual, expected) of
        (Some a, Some e) \<Rightarrow> if same_quantities a e then Matched else Mismatch
      | _ \<Rightarrow> NotPerformed)"

definition valuation_tolerance :: "rat \<Rightarrow> rat \<Rightarrow> rat \<Rightarrow> rat" where
  "valuation_tolerance balance positions cap =
     min (max valuation_tolerance_floor (dec_mul (max (dec_abs balance) (dec_abs positions)) valuation_tolerance_rate)) cap"

definition valuation_of :: "rat \<Rightarrow> rat list \<Rightarrow> quantity_check \<Rightarrow> rat \<Rightarrow> valuation" where
  "valuation_of balance values check cap =
     (let positions = foldl dec_add 0 values; diff = dec_sub positions balance;
          tol = valuation_tolerance balance positions cap
      in \<lparr> va_status =
             (if values = [] \<and> balance \<noteq> 0 then Unexplained ''positions_empty_balance_nonzero''
              else if check = Mismatch then Unexplained ''quantity_mismatch''
              else if diff = 0 then Match
              else if dec_abs diff \<le> tol then ValuationBasisDifference
              else Unexplained ''difference_exceeds_tolerance''),
           va_balance = exact balance, va_positions = exact positions, va_difference = exact diff,
           va_tolerance = exact tol, va_quantity_check = check \<rparr>)"

definition valuation_inputs ::
  "pyval \<Rightarrow> pyval list \<Rightarrow> pyval dict option \<Rightarrow> pyval dict option \<Rightarrow> (rat \<times> rat list \<times> quantity_check) exc" where
  "valuation_inputs balance values actual expected =
     bindE (to_decimal balance) (\<lambda>b.
     bindE (mapE to_decimal values) (\<lambda>vs.
     bindE (quantity_map actual) (\<lambda>a.
     bindE (quantity_map expected) (\<lambda>e. Inr (b, vs, quantity_check_of a e)))))"

definition valuation_basis_difference ::
  "pyval \<Rightarrow> pyval list \<Rightarrow> pyval dict option \<Rightarrow> pyval dict option \<Rightarrow> rat \<Rightarrow> valuation_report" where
  "valuation_basis_difference balance values actual expected cap =
     (case valuation_inputs balance values actual expected of
        Inl _ \<Rightarrow> Unavailable ''valuation_input_missing''
      | Inr (b, vs, check) \<Rightarrow>
          if b < 0 \<or> list_ex (\<lambda>v. v < 0) vs then Unavailable ''valuation_input_negative''
          else Valued (valuation_of b vs check cap))"

text \<open>The report of an observation; rows that are no mapping are left out.\<close>

definition mapping_rows :: "pyval list \<Rightarrow> pyval dict list" where
  "mapping_rows xs = concat (map (\<lambda>v. case v of PDict d \<Rightarrow> [d] | _ \<Rightarrow> []) xs)"

fun position_quantities :: "pyval dict \<Rightarrow> pyval dict list \<Rightarrow> pyval dict option" where
  "position_quantities acc [] = Some acc"
| "position_quantities acc (row # rows) =
     (let symbol = symbol_of (pget row ''symbol'') in
      if symbol = [] \<or> dget acc symbol \<noteq> None \<or> pget row ''quantity'' = PNone then None
      else position_quantities (dset acc symbol (pget row ''quantity'')) rows)"

definition valuation_basis_report :: "pyval dict \<Rightarrow> pyval dict option \<Rightarrow> valuation_report" where
  "valuation_basis_report observation expected =
     (case (pget observation ''balances'', pget observation ''positions'') of
        (PDict balances, PList positions) \<Rightarrow>
          (if pget balances ''long_stock_value'' = PNone then Unavailable ''balance_long_stock_value_missing''
           else let rows = mapping_rows positions; values = map (\<lambda>row. pget row ''market_value'') rows in
             if PNone \<in> set values then Unavailable ''position_market_value_missing''
             else case expected of
               None \<Rightarrow> valuation_basis_difference (pget balances ''long_stock_value'') values None None valuation_tolerance_cap
             | Some e \<Rightarrow>
                 (case position_quantities [] rows of
                    None \<Rightarrow> Unavailable ''position_quantity_missing''
                  | Some q \<Rightarrow> valuation_basis_difference (pget balances ''long_stock_value'') values (Some q) (Some e)
                               valuation_tolerance_cap))
      | _ \<Rightarrow> Unavailable ''observation_incomplete'')"

section \<open>What the fees are\<close>

lemma rates_nonneg:
  assumes "well_formed_schedule s"
  shows "broker_assisted_fee_on s d = Inr b \<Longrightarrow> 0 \<le> b" "sec_rate_on s d = Inr r \<Longrightarrow> 0 \<le> r"
    "taf_on s d = Inr (t, m) \<Longrightarrow> 0 \<le> t \<and> 0 \<le> m"
proof -
  show "broker_assisted_fee_on s d = Inr b \<Longrightarrow> 0 \<le> b" "sec_rate_on s d = Inr r \<Longrightarrow> 0 \<le> r"
    using assms by (auto simp: broker_assisted_fee_on_def sec_rate_on_def bindE_Inr_iff well_formed_schedule_def list_all_iff
        dest!: lookup_row_in)
  show "taf_on s d = Inr (t, m) \<Longrightarrow> 0 \<le> t \<and> 0 \<le> m"
    using assms by (auto simp: taf_on_def bindE_Inr_iff well_formed_schedule_def list_all_iff dest!: lookup_row_in)
qed

lemma to_cent_ceiling: "to_cent ceiling x = Inr y \<Longrightarrow> x \<le> y \<and> y < x + 1/100"
  using ceiling_cent [of x] unfolding to_cent_def by (metis sum.inject(2) sum.simps(4))

text \<open>
  The regulatory fee of a sale under a loaded schedule: nothing where the
  unrounded SEC and TAF amounts add up to nothing, otherwise a fee that covers them, is at
  least the configured minimum, and exceeds them by less than a cent unless it is that
  minimum. The TAF part never exceeds its maximum.
\<close>

theorem regulatory_fee_covers_its_parts:
  assumes "load_fee_schedule data = Inr s" "regulatory_fee proceeds quantity d s = Inr f" "0 \<le> proceeds"
    and "taf_on s d = Inr (rate, most)"
  shows "0 \<le> fp_sec_raw f \<and> 0 \<le> fp_taf_raw f \<and> fp_taf_raw f \<le> most
    \<and> (let raw = dec_add (fp_sec_raw f) (fp_taf_raw f) in
         if raw = 0 then fp_fee f = 0
         else raw \<le> fp_fee f \<and> fs_minimum_regulatory_fee s \<le> fp_fee f
              \<and> (fp_fee f < raw + 1/100 \<or> fp_fee f = fs_minimum_regulatory_fee s))"
proof -
  have wf: "well_formed_schedule s" using assms(1) by (rule loaded_well_formed)
  obtain sec where sec: "sec_rate_on s d = Inr sec" "fp_sec_raw f = dec_div (dec_mul proceeds sec) 1000000"
    and taf: "fp_taf_raw f = (if 0 < rate then min (dec_mul (dec_abs quantity) rate) most else 0)"
    and fee: "(if dec_add (fp_sec_raw f) (fp_taf_raw f) \<le> 0 then Inr 0
       else bindE (to_cent ceiling (dec_add (fp_sec_raw f) (fp_taf_raw f))) (\<lambda>up. Inr (max up (fs_minimum_regulatory_fee s))))
       = Inr (fp_fee f)"
    using assms(2,4) by (auto simp: regulatory_fee_def bindE_Inr_iff Let_def cong: if_cong)
  have "0 \<le> sec" using rates_nonneg(2) [OF wf sec(1)] .
  then have s0: "0 \<le> fp_sec_raw f"
    using assms(3) by (simp add: sec(2) dec_div_def dec_mul_def dec28_nonneg)
  have t0: "0 \<le> fp_taf_raw f" "fp_taf_raw f \<le> most"
    using rates_nonneg(3) [OF wf assms(4)] by (auto simp: taf dec_mul_def dec_abs_def dec28_nonneg)
  have raw: "0 \<le> dec_add (fp_sec_raw f) (fp_taf_raw f)"
    using s0 t0 by (simp add: dec_add_def dec28_nonneg)
  show ?thesis
  proof (cases "dec_add (fp_sec_raw f) (fp_taf_raw f) = 0")
    case True
    with fee s0 t0 show ?thesis by simp
  next
    case False
    then obtain up where up: "to_cent ceiling (dec_add (fp_sec_raw f) (fp_taf_raw f)) = Inr up"
      "fp_fee f = max up (fs_minimum_regulatory_fee s)"
      using raw fee by (auto simp: bindE_Inr_iff split: if_splits)
    have "dec_add (fp_sec_raw f) (fp_taf_raw f) \<le> up" "up < dec_add (fp_sec_raw f) (fp_taf_raw f) + 1/100"
      using up(1) by (auto simp: to_cent_ceiling)
    with False s0 t0 up(2) show ?thesis by (auto simp: Let_def max_def)
  qed
qed

lemma exact_cents: "to_cent rnd x = Inr y \<Longrightarrow> dec28 y = y"
proof -
  assume "to_cent rnd x = Inr y"
  then have "y = of_int (rnd (x * 100)) / 100" "\<bar>rnd (x * 100)\<bar> < 10 ^ 28"
    by (auto simp: to_cent_def split: if_splits)
  then show ?thesis by (simp only: dec28_cents)
qed

lemma dec_abs_cents: "to_cent rnd x = Inr y \<Longrightarrow> dec_abs y = \<bar>y\<bar>"
  by (simp add: dec_abs_def dec28.rnd_abs exact_cents)

lemma sell_report_numbers:
  assumes "sell_report_of s trade settled gross net broker reg = Inr r" "sr_explained r"
  shows "\<exists>expected. \<bar>expected - dec_sub (dec_sub gross broker) (fp_fee reg)\<bar> \<le> 1/200
           \<and> \<bar>dec_sub net expected\<bar> \<le> fs_explained_residual_tolerance s + 1/200"
proof -
  obtain expected residual where e: "to_cent half_up (dec_sub (dec_sub gross broker) (fp_fee reg)) = Inr expected"
    "to_cent rhe (dec_sub net expected) = Inr residual" "dec_abs residual \<le> fs_explained_residual_tolerance s"
    using assms by (auto simp: sell_report_of_def bindE_Inr_iff)
  have "\<bar>residual - dec_sub net expected\<bar> \<le> 1/200" using rhe_dist e(2) by (rule to_cent_dist)
  moreover have "\<bar>residual\<bar> \<le> fs_explained_residual_tolerance s" using e(3) by (simp add: dec_abs_cents [OF e(2)])
  moreover have "\<bar>expected - dec_sub (dec_sub gross broker) (fp_fee reg)\<bar> \<le> 1/200"
    using half_up_dist e(1) by (rule to_cent_dist)
  ultimately show ?thesis by (intro exI [of _ expected]) linarith
qed

text \<open>
  A sale reported as explained is explained to the cent: the broker-assisted
  fee, the regulatory fee and the reported net add up to the proceeds within the schedule's
  tolerance and one cent of rounding.
\<close>

theorem explained_sale_adds_up:
  assumes "decompose_sell_fees s row = Inr (Decomposed r)" "sr_explained r"
  shows "\<exists>trade settled quantity price net broker reg expected.
     sell_numbers row = Inr (trade, settled, quantity, price, net)
     \<and> sell_fees s trade (dec_mul quantity price) quantity = Inr (broker, reg)
     \<and> \<bar>expected - dec_sub (dec_sub (dec_mul quantity price) broker) (fp_fee reg)\<bar> \<le> 1/200
     \<and> \<bar>dec_sub net expected\<bar> \<le> fs_explained_residual_tolerance s + 1/200"
proof -
  obtain trade settled quantity price net broker reg where r:
    "sell_numbers row = Inr (trade, settled, quantity, price, net)"
    "sell_fees s trade (dec_mul quantity price) quantity = Inr (broker, reg)"
    "sell_report_of s trade settled (dec_mul quantity price) net broker reg = Inr r"
    using assms(1)
    by (auto simp: decompose_sell_fees_def bindE_Inr_iff Let_def split: if_splits sum.splits prod.splits)
  from sell_report_numbers [OF r(3) assms(2)] obtain expected where
    "\<bar>expected - dec_sub (dec_sub (dec_mul quantity price) broker) (fp_fee reg)\<bar> \<le> 1/200"
    "\<bar>dec_sub net expected\<bar> \<le> fs_explained_residual_tolerance s + 1/200" by auto
  with r(1,2) show ?thesis by (intro exI conjI)
qed


section \<open>Examples\<close>

definition margin_sellout :: "pyval dict" where
  "margin_sellout =
     [(''Date'', PStr ''8/28/2026''), (''Transaction'', PStr ''Sold''), (''Quantity'', PStr ''-2''),
      (''Description'', PStr ''BROKER/DEALER ORDER EXEC TIME: 2026-08-28 14:50:14 S/D: 08/31/2026''),
      (''Symbol'', PStr ''IBIT''), (''Price'', PStr ''43.7724''), (''Amount'', PStr ''67.58'')]"

lemma margin_sellout_numbers:
  "sell_numbers margin_sellout
   = Inr (day_number 2026 8 28, Some (day_number 2026 8 31), 2, 109431/2500, 3379/50)"
  by code_simp

lemma rates_in_august:
  "broker_assisted_fee_on default_schedule (day_number 2026 8 28) = Inr (399/20)"
  "sec_rate_on default_schedule (day_number 2026 8 28) = Inr (103/5)"
  "taf_on default_schedule (day_number 2026 8 28) = Inr (39/200000, 979/100)"
  "fs_minimum_regulatory_fee default_schedule = 1/100"
  by code_simp+

lemma margin_sellout_arithmetic:
  "dec_div (dec_mul (109431/1250) (103/5)) 1000000 = 11271393/6250000000"
  "dec_mul (dec_abs 2) (39/200000) = 39/100000"
  "dec_add (11271393/6250000000) (39/100000) = 13708893/6250000000"
  "to_cent ceiling (13708893/6250000000) = Inr (1/100)"
  by code_simp+

lemma margin_sellout_fee:
  "regulatory_fee (109431/1250) 2 (day_number 2026 8 28) default_schedule
   = Inr \<lparr> fp_sec_raw = 11271393/6250000000, fp_taf_raw = 39/100000, fp_fee = 1/100 \<rparr>"
  by (simp add: regulatory_fee_def rates_in_august margin_sellout_arithmetic Let_def)

lemma margin_sellout_fees:
  "sell_fees default_schedule (day_number 2026 8 28) (109431/1250) 2
   = Inr (399/20, \<lparr> fp_sec_raw = 11271393/6250000000, fp_taf_raw = 39/100000, fp_fee = 1/100 \<rparr>)"
  by (simp add: sell_fees_def rates_in_august margin_sellout_fee)

theorem regulatory_fee_covers_its_parts_witness:
  "\<exists>f. regulatory_fee (109431/1250) 2 (day_number 2026 8 28) default_schedule = Inr f
     \<and> 0 \<le> fp_sec_raw f \<and> fp_taf_raw f \<le> 979/100"
  using regulatory_fee_covers_its_parts [OF default_schedule_loaded margin_sellout_fee _ rates_in_august(3)] margin_sellout_fee
  by simp

lemma margin_sellout_explained:
  "\<exists>r. decompose_sell_fees default_schedule margin_sellout = Inr (Decomposed r) \<and> sr_explained r"
proof -
  have sold: "py_lower (py_strip (str_or (row_value margin_sellout [''transaction'']))) = ''sold''"
    "is_broker_assisted default_schedule (row_value margin_sellout [''description''])" by code_simp+
  have gross: "dec_mul 2 (109431/2500) = 109431/1250" by code_simp
  have "case sell_report_of default_schedule (day_number 2026 8 28) (Some (day_number 2026 8 31)) (109431/1250) (3379/50)
      (399/20) \<lparr> fp_sec_raw = 11271393/6250000000, fp_taf_raw = 39/100000, fp_fee = 1/100 \<rparr> of
      Inr r \<Rightarrow> sr_explained r | _ \<Rightarrow> False" by code_simp
  then show ?thesis
    by (auto simp: decompose_sell_fees_def margin_sellout_numbers margin_sellout_fees sold gross Let_def split: sum.splits)
qed

theorem explained_sale_adds_up_witness:
  "\<exists>trade settled quantity price net. sell_numbers margin_sellout = Inr (trade, settled, quantity, price, net)"
proof -
  obtain r where "decompose_sell_fees default_schedule margin_sellout = Inr (Decomposed r)" "sr_explained r"
    using margin_sellout_explained by auto
  from explained_sale_adds_up [OF this] show ?thesis by blast
qed


end
