(* ===== verification/ClaimRace.thy ===== *)
theory ClaimRace
  imports RunPersistence
begin

text \<open>
  Runs that race for the submission claims of their periods, from any number of processes:
  the interleavings of \<open>claim_live_strategy_run\<close> calls with whatever else happens to the
  store, against a register that gives each claim key to one run.
\<close>

section \<open>The object of a claim\<close>

lemma strip_chars_id: "s \<noteq> [] \<Longrightarrow> hd s \<notin> set cs \<Longrightarrow> last s \<notin> set cs \<Longrightarrow> strip_chars cs s = s"
proof -
  assume s: "s \<noteq> []" "hd s \<notin> set cs" "last s \<notin> set cs"
  have keep: "dropWhile (\<lambda>c. c \<in> set cs) t = t" if "t \<noteq> []" "hd t \<notin> set cs" for t
    using that by (cases t) auto
  show ?thesis using s keep [of s] keep [of "rev s"] by (simp add: strip_chars_def hd_rev)
qed

definition claim_object_uri :: "gcs_state_store \<Rightarrow> string \<Rightarrow> string" where
  "claim_object_uri s key =
     ''gs://'' @ bucket s @ ''/'' @ (if normalize_prefix (prefix s) \<noteq> [] then normalize_prefix (prefix s) @ ''/'' @ key else key)"

lemma claim_object_uri_of: "object_uri s (strategy_run_claim_key a p r) = Inr (claim_object_uri s (strategy_run_claim_key a p r))"
proof -
  have "strategy_run_claim_key a p r \<noteq> []" "hd (strategy_run_claim_key a p r) = CHR ''s''"
    "last (strategy_run_claim_key a p r) = CHR ''n''"
    by (simp_all add: strategy_run_claim_key_def)
  then have "strip_chars ''/'' (strategy_run_claim_key a p r) = strategy_run_claim_key a p r"
    "strategy_run_claim_key a p r \<noteq> []"
    by (simp_all add: strip_chars_id)
  then show ?thesis by (simp add: object_uri_def claim_object_uri_def)
qed

lemma claim_object_uri_inj: "claim_object_uri s k = claim_object_uri s k' \<longleftrightarrow> k = k'"
  by (simp add: claim_object_uri_def)

section \<open>The race\<close>

record attempt =
  at_account :: string
  at_profile :: string
  at_period :: string
  at_now :: datetime

definition claim_key_of :: "attempt \<Rightarrow> string" where
  "claim_key_of t = strategy_run_claim_key (at_account t) (at_profile t) (at_period t)"

datatype race_result = Waiting | Granted | Refused | Failed

fun outcome_of :: "bool exc \<Rightarrow> race_result" where
  "outcome_of (Inr True) = Granted"
| "outcome_of (Inr False) = Refused"
| "outcome_of (Inl _) = Failed"

text \<open>
  A step of the race: an attempt that waits asks for its claim, or the environment acts on
  the world.
\<close>

inductive race_step ::
  "'w object_store \<Rightarrow> gcs_state_store \<Rightarrow> ('i \<Rightarrow> attempt) \<Rightarrow> ('w \<Rightarrow> 'w \<Rightarrow> bool) \<Rightarrow>
   'w \<times> ('i \<Rightarrow> race_result) \<Rightarrow> 'w \<times> ('i \<Rightarrow> race_result) \<Rightarrow> bool"
  for os s att env where
  asks: "out i = Waiting \<Longrightarrow>
     claim_live_strategy_run os s (at_account (att i)) (at_profile (att i)) (at_period (att i)) (at_now (att i)) w = (r, w') \<Longrightarrow>
     race_step os s att env (w, out) (w', out(i := outcome_of r))"
| others: "env w w' \<Longrightarrow> race_step os s att env (w, out) (w', out)"

text \<open>The specification: a register of winners, written once per key.\<close>

inductive register_step ::
  "('i \<Rightarrow> attempt) \<Rightarrow> (string \<rightharpoonup> 'i) \<times> ('i \<Rightarrow> race_result) \<Rightarrow> (string \<rightharpoonup> 'i) \<times> ('i \<Rightarrow> race_result) \<Rightarrow> bool"
  for att where
  wins: "out i = Waiting \<Longrightarrow> reg (claim_key_of (att i)) = None \<Longrightarrow>
     register_step att (reg, out) (reg(claim_key_of (att i) \<mapsto> i), out(i := Granted))"
| loses: "out i = Waiting \<Longrightarrow> x \<in> {Refused, Failed} \<Longrightarrow> register_step att (reg, out) (reg, out(i := x))"
| stutters: "register_step att (reg, out) (reg, out)"

text \<open>The register's winners are the granted attempts, and the object of each is in the store.\<close>

definition simulates ::
  "gcs_state_store \<Rightarrow> ('w \<Rightarrow> string \<Rightarrow> string option) \<Rightarrow> ('i \<Rightarrow> attempt) \<Rightarrow>
   'w \<times> ('i \<Rightarrow> race_result) \<Rightarrow> (string \<rightharpoonup> 'i) \<times> ('i \<Rightarrow> race_result) \<Rightarrow> bool" where
  "simulates s held att c a \<longleftrightarrow>
     snd a = snd c
     \<and> (\<forall>i. snd c i = Granted \<longrightarrow> fst a (claim_key_of (att i)) = Some i \<and> held (fst c) (claim_object_uri s (claim_key_of (att i))) \<noteq> None)
     \<and> (\<forall>k i. fst a k = Some i \<longrightarrow> claim_key_of (att i) = k \<and> snd c i = Granted)"

lemma claim_result:
  assumes "object_store_laws os held" "plain_bucket s"
    "claim_live_strategy_run os s (at_account t) (at_profile t) (at_period t) now w = (r, w')"
  defines "u \<equiv> claim_object_uri s (claim_key_of t)"
  shows "(r = Inr True \<longrightarrow> held w u = None \<and> held w' u \<noteq> None)"
    and "r = Inr False \<longrightarrow> held w u \<noteq> None"
    and "\<And>v. held w v \<noteq> None \<longrightarrow> held w' v \<noteq> None"
    and "\<And>v. v \<noteq> u \<longrightarrow> held w' v = held w v"
proof -
  have uri: "object_uri s (strategy_run_claim_key (at_account t) (at_profile t) (at_period t)) = Inr u"
    by (simp add: claim_object_uri_of u_def claim_key_of_def)
  note laws = laws_create [OF assms(1,2) uri assms(3) [unfolded claim_live_strategy_run_def]]
  show "(r = Inr True \<longrightarrow> held w u = None \<and> held w' u \<noteq> None)" using laws(2) by auto
  show "r = Inr False \<longrightarrow> held w u \<noteq> None" using laws(3) by auto
  show "\<And>v. held w v \<noteq> None \<longrightarrow> held w' v \<noteq> None" "\<And>v. v \<noteq> u \<longrightarrow> held w' v = held w v"
    using laws(1) by auto
qed

lemma outcome_of_simps:
  "outcome_of r = Granted \<longleftrightarrow> r = Inr True" "outcome_of r = Refused \<longleftrightarrow> r = Inr False"
  "outcome_of r = Failed \<longleftrightarrow> (\<exists>e. r = Inl e)" "outcome_of r \<noteq> Waiting"
  by (cases r rule: outcome_of.cases; simp)+

lemma simulation_step:
  assumes "object_store_laws os held" "plain_bucket s" "\<And>w w'. env w w' \<Longrightarrow> keeps_objects held w w'"
    and "simulates s held att c a" "race_step os s att env c c'"
  shows "\<exists>a'. register_step att a a' \<and> simulates s held att c' a'"
  using assms(5)
proof cases
  case (asks out i w r w')
  obtain reg where a: "a = (reg, out)" using assms(4) asks by (cases a) (auto simp: simulates_def)
  note claim = claim_result [OF assms(1,2) asks(4)]
  have sim: "out j = Granted \<longrightarrow> reg (claim_key_of (att j)) = Some j \<and> held w (claim_object_uri s (claim_key_of (att j))) \<noteq> None"
    "reg k = Some j \<longrightarrow> claim_key_of (att j) = k \<and> out j = Granted" for j k
    using assms(4) by (auto simp: simulates_def a asks(1))
  show ?thesis
  proof (cases "r = Inr True")
    case True
    have free: "reg (claim_key_of (att i)) = None"
      using claim(1) True sim by (cases "reg (claim_key_of (att i))") (auto, metis option.distinct(1))
    have other: "out j \<noteq> Granted" if "claim_key_of (att j) = claim_key_of (att i)" for j
      using sim(1) [of j] free that by auto
    have "register_step att a (reg(claim_key_of (att i) \<mapsto> i), out(i := Granted))"
      unfolding a using asks(3) free by (rule wins)
    moreover have "simulates s held att c' (reg(claim_key_of (att i) \<mapsto> i), out(i := Granted))"
      using sim claim(1,3) True free asks(3) other by (auto simp: simulates_def asks(2))
    ultimately show ?thesis by blast
  next
    case False
    then have "outcome_of r \<in> {Refused, Failed}" by (cases r rule: outcome_of.cases) auto
    then have "register_step att a (reg, out(i := outcome_of r))"
      unfolding a using asks(3) by (intro loses)
    moreover have "simulates s held att c' (reg, out(i := outcome_of r))"
      using sim claim(3) asks(3) False by (auto simp: simulates_def asks(2) outcome_of_simps)
    ultimately show ?thesis by blast
  qed
next
  case (others w w' out)
  obtain reg where a: "a = (reg, out)" using assms(4) others by (cases a) (auto simp: simulates_def)
  have "held w' v \<noteq> None" if "held w v \<noteq> None" for v
    using assms(3) [OF others(3)] that by (auto simp: keeps_objects_def)
  then have "simulates s held att c' a"
    using assms(4) by (simp add: simulates_def others(1,2))
  then show ?thesis unfolding a by (blast intro: stutters)
qed

lemma simulation:
  assumes "object_store_laws os held" "plain_bucket s" "\<And>w w'. env w w' \<Longrightarrow> keeps_objects held w w'"
    and "(race_step os s att env)\<^sup>*\<^sup>* c c'" "simulates s held att c a"
  shows "\<exists>a'. (register_step att)\<^sup>*\<^sup>* a a' \<and> simulates s held att c' a'"
  using assms(4)
proof (induction rule: rtranclp_induct)
  case base
  then show ?case using assms(5) by blast
next
  case (step c1 c2)
  then obtain a1 where "(register_step att)\<^sup>*\<^sup>* a a1" "simulates s held att c1 a1" by auto
  moreover from simulation_step [OF assms(1,2) _ this(2) step(2)] assms(3)
  obtain a2 where "register_step att a1 a2" "simulates s held att c2 a2" by blast
  ultimately show ?case by (meson rtranclp.rtrancl_into_rtrancl)
qed

text \<open>
  Property C5. The claims refine a register of one winner per key: however the attempts of
  any number of processes and other writers of the store interleave, as long as no object is
  deleted, the outcomes are those of a register written once per key, whose winners are the
  granted attempts, each with its claim in the store.
\<close>

theorem claims_refine_a_register:
  assumes "object_store_laws os held" "plain_bucket s" "\<And>w w'. env w w' \<Longrightarrow> keeps_objects held w w'"
    and "(race_step os s att env)\<^sup>*\<^sup>* (w0, \<lambda>_. Waiting) (w, out)"
  shows "\<exists>reg. (register_step att)\<^sup>*\<^sup>* (Map.empty, \<lambda>_. Waiting) (reg, out)
           \<and> (\<forall>i. out i = Granted \<longleftrightarrow> reg (claim_key_of (att i)) = Some i)
           \<and> (\<forall>k. reg k \<noteq> None \<longrightarrow> held w (claim_object_uri s k) \<noteq> None)"
proof -
  have "simulates s held att (w0, \<lambda>_. Waiting) (Map.empty, \<lambda>_. Waiting)" by (simp add: simulates_def)
  from simulation [OF assms(1,2) _ assms(4) this] assms(3)
  obtain a where a: "(register_step att)\<^sup>*\<^sup>* (Map.empty, \<lambda>_. Waiting) a" "simulates s held att (w, out) a" by blast
  obtain reg where reg: "a = (reg, out)" using a(2) by (cases a) (simp add: simulates_def)
  show ?thesis
    using a unfolding reg simulates_def by (intro exI [of _ reg]) (auto, metis not_None_eq)
qed

section \<open>Progress\<close>

text \<open>
  While creates never fail, an object is at a claim's place exactly where an attempt has
  been granted it, and every attempt that has asked finds one there.
\<close>

definition decided :: "gcs_state_store \<Rightarrow> ('w \<Rightarrow> string \<Rightarrow> string option) \<Rightarrow> ('i \<Rightarrow> attempt) \<Rightarrow> 'w \<times> ('i \<Rightarrow> race_result) \<Rightarrow> bool" where
  "decided s held att c \<longleftrightarrow>
     (\<forall>i. let u = claim_object_uri s (claim_key_of (att i)) in
        (held (fst c) u \<noteq> None \<longrightarrow> (\<exists>j. claim_key_of (att j) = claim_key_of (att i) \<and> snd c j = Granted))
        \<and> (snd c i \<noteq> Waiting \<longrightarrow> held (fst c) u \<noteq> None))"

lemma create_never_fails:
  assumes "\<And>b n d w. fst (os_create os b n d w) \<noteq> CreateFailed" "plain_bucket s"
    "claim_live_strategy_run os s a p r now w = (x, w')"
  shows "\<exists>b. x = Inr b"
proof -
  obtain n where n: "create_json os s (strategy_run_claim_key a p r) (claim_payload a p r now) w =
       (case os_create os (bucket s) n (json_dumps os (PDict (claim_payload a p r now))) w of
          (Created, w') \<Rightarrow> (Inr True, w')
        | (Conflict, w') \<Rightarrow> (Inr False, w')
        | (CreateFailed, w') \<Rightarrow> (Inl (StatePersistenceError ''GCS state atomic create failed''), w'))"
    using assms(2) claim_object_uri_of by (rule create_json_eq)
  obtain y w1 where y: "os_create os (bucket s) n (json_dumps os (PDict (claim_payload a p r now))) w = (y, w1)"
    by (rule prod.exhaust)
  have "y \<noteq> CreateFailed" using assms(1) [of "bucket s" n] y by (metis fst_conv)
  with n y assms(3) show ?thesis by (cases y) (auto simp: claim_live_strategy_run_def)
qed

lemma decided_step:
  assumes "object_store_laws os held" "plain_bucket s" "\<And>b n d w. fst (os_create os b n d w) \<noteq> CreateFailed"
    and "\<And>w w' i. env w w' \<Longrightarrow> held w' (claim_object_uri s (claim_key_of (att i))) = held w (claim_object_uri s (claim_key_of (att i)))"
    and "race_step os s att env c c'" "decided s held att c"
  shows "decided s held att c'"
  using assms(5)
proof cases
  case (asks out i w r w')
  note claim = claim_result [OF assms(1,2) asks(4)]
  obtain b where b: "r = Inr b" using create_never_fails [OF assms(3,2) asks(4)] by auto
  define u where "u = (\<lambda>j. claim_object_uri s (claim_key_of (att j)))"
  have d: "held w (u j) \<noteq> None \<Longrightarrow> \<exists>k. claim_key_of (att k) = claim_key_of (att j) \<and> out k = Granted"
    "out j \<noteq> Waiting \<Longrightarrow> held w (u j) \<noteq> None" for j
    using assms(6) by (auto simp: decided_def Let_def u_def asks(1))
  have taken: "held w' (u i) \<noteq> None" using claim(1,2,3) b unfolding u_def by (cases b) auto
  have new: "\<exists>k. claim_key_of (att k) = claim_key_of (att j) \<and> (out(i := outcome_of r)) k = Granted"
    if h: "held w' (u j) \<noteq> None" for j
  proof (cases "held w (u j) \<noteq> None")
    case True
    then obtain k where "claim_key_of (att k) = claim_key_of (att j)" "out k = Granted" using d(1) by auto
    then show ?thesis using asks(3) by (intro exI [of _ k]) auto
  next
    case False
    then have "u j = u i" using claim(4) h unfolding u_def by metis
    then have "claim_key_of (att i) = claim_key_of (att j)" by (simp add: u_def claim_object_uri_inj)
    moreover have "b" using claim(2) b False \<open>u j = u i\<close> unfolding u_def by (cases b) auto
    ultimately show ?thesis using b by (intro exI [of _ i]) auto
  qed
  have "held w' (u j) \<noteq> None" if "(out(i := outcome_of r)) j \<noteq> Waiting" for j
    using that taken d(2) [of j] claim(3) by (cases "j = i") auto
  with new show ?thesis unfolding asks(2) decided_def Let_def u_def by auto
next
  case (others w w' out)
  then show ?thesis using assms(4,6) by (simp add: decided_def Let_def)
qed

lemma decided_steps:
  assumes "object_store_laws os held" "plain_bucket s" "\<And>b n d w. fst (os_create os b n d w) \<noteq> CreateFailed"
    and "\<And>w w' i. env w w' \<Longrightarrow> held w' (claim_object_uri s (claim_key_of (att i))) = held w (claim_object_uri s (claim_key_of (att i)))"
    and "(race_step os s att env)\<^sup>*\<^sup>* c c'" "decided s held att c"
  shows "decided s held att c'"
  using assms(5,6)
proof (induction rule: rtranclp_induct)
  case (step c1 c2)
  show ?case by (rule decided_step [OF assms(1,2,3,4) step(2) step(3) [OF step(4)]])
qed simp


section \<open>Examples\<close>

definition two_attempts :: "bool \<Rightarrow> attempt" where
  "two_attempts _ = \<lparr> at_account = ''****5678'', at_profile = ''soxl'', at_period = ''2026-03'', at_now = sample_time \<rparr>"

lemma map_store_creates: "fst (os_create map_store b n d w) \<noteq> CreateFailed"
  by (simp add: map_store_def)

lemma first_attempt_steps:
  "\<exists>w1. (race_step map_store sample_store two_attempts (\<lambda>_ _. False))\<^sup>*\<^sup>* (Map.empty, \<lambda>_. Waiting) (w1, (\<lambda>_. Waiting)(True := Granted))"
proof -
  obtain r w1 where r: "claim_live_strategy_run map_store sample_store ''****5678'' ''soxl'' ''2026-03'' sample_time Map.empty = (r, w1)"
    by (rule prod.exhaust)
  have claim: "claim_live_strategy_run map_store sample_store (at_account (two_attempts True)) (at_profile (two_attempts True))
      (at_period (two_attempts True)) (at_now (two_attempts True)) Map.empty = (r, w1)"
    by (simp add: two_attempts_def r)
  have "race_step map_store sample_store two_attempts (\<lambda>_ _. False) (Map.empty, \<lambda>_. Waiting)
      (w1, (\<lambda>_. Waiting)(True := outcome_of r))"
    using claim by (intro asks [where i = True]) simp_all
  moreover have "outcome_of r = Granted"
  proof -
    obtain b where b: "r = Inr b"
      using create_never_fails [OF map_store_creates sample_plain r] by auto
    have "b" using claim_result(2) [OF map_store_laws sample_plain claim] b by (cases b) auto
    with b show ?thesis by simp
  qed
  ultimately have "race_step map_store sample_store two_attempts (\<lambda>_ _. False) (Map.empty, \<lambda>_. Waiting) (w1, (\<lambda>_. Waiting)(True := Granted))"
    by simp
  then show ?thesis by (intro exI [of _ w1] r_into_rtranclp)
qed

theorem claims_refine_a_register_witness:
  "\<exists>reg. (register_step two_attempts)\<^sup>*\<^sup>* (Map.empty, \<lambda>_. Waiting) (reg, (\<lambda>_. Waiting)(True := Granted))
     \<and> reg (claim_key_of (two_attempts True)) = Some True"
proof -
  obtain w1 where step: "(race_step map_store sample_store two_attempts (\<lambda>_ _. False))\<^sup>*\<^sup>* (Map.empty, \<lambda>_. Waiting) (w1, (\<lambda>_. Waiting)(True := Granted))"
    using first_attempt_steps by auto
  from claims_refine_a_register [OF map_store_laws sample_plain _ step]
  show ?thesis by (metis fun_upd_same)
qed


end
