(* ===== verification/AccountFacts.thy ===== *)
theory AccountFacts
  imports ClientSession RunCycle PyDecimal
begin

text \<open>
  \<open>application/account_facts_readonly.py\<close>: the facts of one account, read through a client
  that is connected read-only. Numbers become canonical decimal texts; a fact the provider
  does not give stays unknown. Payloads come from JSON, so the branch of \<open>_decimal_text\<close> for
  \<open>Decimal\<close> objects does not occur.
\<close>

section \<open>Decimal texts\<close>

fun split_on :: "char \<Rightarrow> string \<Rightarrow> string list" where
  "split_on c [] = [[]]"
| "split_on c (x # xs) =
     (if x = c then [] # split_on c xs
      else case split_on c xs of [] \<Rightarrow> [[x]] | g # gs \<Rightarrow> (x # g) # gs)"

definition all_digits :: "string \<Rightarrow> bool" where
  "all_digits s \<longleftrightarrow> s \<noteq> [] \<and> list_all is_digit s"

text \<open>\<open>_DECIMAL_RE\<close>: an optional sign, digits that may be grouped by commas, an optional fraction.\<close>

definition whole_digits :: "string \<Rightarrow> string option" where
  "whole_digits s =
     (case split_on (CHR '','') s of
        [] \<Rightarrow> None
      | [g] \<Rightarrow> if all_digits g then Some g else None
      | g # gs \<Rightarrow> if all_digits g \<and> length g \<le> 3 \<and> list_all (\<lambda>h. all_digits h \<and> length h = 3) gs
                  then Some (concat (g # gs)) else None)"

definition decimal_shape :: "string \<Rightarrow> (bool \<times> string \<times> string) option" where
  "decimal_shape s =
     (let (neg, t) = (case s of [] \<Rightarrow> (False, []) | c # r \<Rightarrow>
            if c = CHR ''-'' then (True, r) else if c = CHR ''+'' then (False, r) else (False, s));
          (w, dot, f) = partition_at (CHR ''.'') t
      in case whole_digits w of
           None \<Rightarrow> None
         | Some d \<Rightarrow> if \<not> dot then Some (neg, d, []) else if all_digits f then Some (neg, d, f) else None)"

text \<open>\<open>format(number, "f")\<close> without trailing zeros, of \<open>n / 10 ^ k\<close>.\<close>

definition plain_text :: "bool \<Rightarrow> int \<Rightarrow> nat \<Rightarrow> string" where
  "plain_text neg n k =
     (if n = 0 then ''0''
      else (if neg then ''-'' else []) @ int_digits (n div 10 ^ k)
           @ (let f = rstrip_chars ''0'' (zero_padded k (n mod 10 ^ k)) in if f = [] then [] else CHR ''.'' # f))"

definition facts_invalid :: pyexc where
  "facts_invalid = AccountFactsUnavailable ''provider_value_invalid''"

definition facts_out_of_range :: pyexc where
  "facts_out_of_range = AccountFactsUnavailable ''provider_value_out_of_range''"

text \<open>A number in parentheses is negative; \<open>-abs(number)\<close> rounds to the context.\<close>

definition in_parentheses :: "string \<Rightarrow> bool" where
  "in_parentheses s \<longleftrightarrow> starts_with s ''('' \<and> ends_with s '')''"

definition unwrapped :: "string \<Rightarrow> string" where
  "unwrapped s =
     (let a = (if in_parentheses s then py_strip (butlast (tl s)) else s)
      in if starts_with a ''$'' then py_strip (tl a) else a)"

definition rounded :: "int \<Rightarrow> nat \<Rightarrow> int" where
  "rounded n k = \<lfloor>dec28 (of_int n / 10 ^ k) * 10 ^ k\<rfloor>"

definition decimal_of_text :: "string \<Rightarrow> string option exc" where
  "decimal_of_text s =
     (if s = [] then Inr None
      else if 64 < length s then Inl facts_out_of_range
      else case decimal_shape (unwrapped s) of
        None \<Rightarrow> Inl facts_invalid
      | Some (neg, w, f) \<Rightarrow>
          if in_parentheses s \<and> (starts_with (unwrapped s) ''+'' \<or> starts_with (unwrapped s) ''-'') then Inl facts_invalid
          else if 30 < length w \<or> 28 < length f then Inl facts_out_of_range
          else let n = digits_val (w @ f); k = length f
               in Inr (Some (plain_text (neg \<or> in_parentheses s) (if in_parentheses s then rounded n k else n) k)))"

fun decimal_text :: "pyval \<Rightarrow> string option exc" where
  "decimal_text PNone = Inr None"
| "decimal_text (PBool b) = Inl facts_invalid"
| "decimal_text (PList xs) = Inl facts_invalid"
| "decimal_text (PDict d) = Inl facts_invalid"
| "decimal_text v = decimal_of_text (py_strip (py_str v))"

section \<open>Balances, currencies and positions\<close>

text \<open>\<open>len(set(matches)) > 1\<close>, and the match there is, if any.\<close>

definition unanimous :: "string \<Rightarrow> string option list \<Rightarrow> string option exc" where
  "unanimous reason vs =
     (case dedup (somes vs) of
        [] \<Rightarrow> Inr None
      | m # ms \<Rightarrow> if ms = [] then Inr (Some m) else Inl (AccountFactsUnavailable reason))"

definition exact_balance_value :: "pyval dict \<Rightarrow> string list \<Rightarrow> string option exc" where
  "exact_balance_value d keys =
     bindE (mapE (\<lambda>k. decimal_text (pget d k)) keys) (unanimous ''balances_ambiguous'')"

definition is_currency :: "string \<Rightarrow> bool" where
  "is_currency s \<longleftrightarrow> length s = 3 \<and> list_all is_upper s"

definition currency_of :: "pyval \<Rightarrow> string option exc" where
  "currency_of v =
     (case v of
        PNone \<Rightarrow> Inr None
      | PStr s \<Rightarrow>
          if s = [] then Inr None
          else if is_currency (py_upper (py_strip s)) then Inr (Some (py_upper (py_strip s)))
          else Inl (AccountFactsUnavailable ''provider_currency_invalid'')
      | _ \<Rightarrow> Inl (AccountFactsUnavailable ''provider_currency_invalid''))"

definition currency_code :: "pyval dict \<Rightarrow> string option exc" where
  "currency_code d =
     bindE (mapE (\<lambda>k. currency_of (pget d k)) [''currency'', ''currency_code'']) (unanimous ''provider_currency_ambiguous'')"

definition positions_unavailable :: pyexc where
  "positions_unavailable = AccountFactsUnavailable ''positions_unavailable''"

definition position_rows :: "pyval \<Rightarrow> pyval dict list exc" where
  "position_rows payload =
     bindE (case payload of
        PDict d \<Rightarrow> (case first_some (dget d) [''items'', ''positions'', ''data'', ''result''] of
            Some rows \<Rightarrow> Inr rows
          | None \<Rightarrow> if dget d ''symbol'' = None then Inl positions_unavailable else Inr (PList [payload]))
      | _ \<Rightarrow> Inr payload) (\<lambda>rows.
     case rows of
       PList xs \<Rightarrow> if list_all is_dict xs then Inr (dict_rows xs) else Inl positions_unavailable
     | _ \<Rightarrow> Inl positions_unavailable)"

record position_fact =
  pf_symbol :: "string option"
  pf_quantity :: "string option"
  pf_market_value :: "string option"
  pf_currency :: "string option"

definition position_fact_of :: "pyval dict \<Rightarrow> position_fact exc" where
  "position_fact_of row =
     (let raw = get_first row [''symbol'', ''ticker'', ''security_symbol''];
          symbol = (if raw = PNone then [] else py_upper (py_strip (py_str raw))) in
      bindE (decimal_text (get_first row [''quantity'', ''shares'', ''qty''])) (\<lambda>quantity.
      bindE (decimal_text (get_first row [''market_value'', ''marketValue'', ''value'', ''current_value''])) (\<lambda>value.
      bindE (currency_code row) (\<lambda>currency.
      Inr \<lparr> pf_symbol = (if symbol = [] then None else Some symbol), pf_quantity = quantity, pf_market_value = value,
            pf_currency = currency \<rparr>))))"

definition identity_missing :: "position_fact \<Rightarrow> bool" where
  "identity_missing p \<longleftrightarrow> pf_symbol p = None \<or> pf_quantity p = None"

definition position_value :: "position_fact \<Rightarrow> pyval" where
  "position_value p =
     PDict [(''symbol'', opt_str (pf_symbol p)), (''quantity'', opt_str (pf_quantity p)),
            (''market_value'', opt_str (pf_market_value p)), (''currency'', opt_str (pf_currency p))]"

section \<open>The observation\<close>

record balance_facts =
  bf_provider_equity :: "string option"
  bf_cash_balance :: "string option"
  bf_long_stock_value :: "string option"
  bf_long_stock_ambiguous :: bool
  bf_available_cash :: "string option"
  bf_buying_power :: "string option"
  bf_currency :: "string option"

definition equity_keys :: "string list" where
  "equity_keys = [''total_equity'', ''total_value'', ''account_list_total_value'']"

text \<open>The value of a key at the top and in the \<open>result\<close> envelope.\<close>

definition cash_of_result :: "pyval dict \<Rightarrow> string option \<Rightarrow> string option exc" where
  "cash_of_result balances cash =
     (case pget balances ''result'' of
        PDict r \<Rightarrow> bindE (exact_balance_value r [''cash_balance'']) (\<lambda>rc.
          if cash \<noteq> None \<and> rc \<noteq> None \<and> cash \<noteq> rc then Inl (AccountFactsUnavailable ''balances_ambiguous'')
          else Inr (if cash = None then rc else cash))
      | _ \<Rightarrow> Inr cash)"

definition long_stock_of_result :: "pyval dict \<Rightarrow> string option \<Rightarrow> (string option \<times> bool) exc" where
  "long_stock_of_result balances long =
     (case pget balances ''result'' of
        PDict r \<Rightarrow> bindE (exact_balance_value r [''long_stock_value'']) (\<lambda>rl.
          Inr (if long \<noteq> None \<and> rl \<noteq> None \<and> long \<noteq> rl then (None, True)
               else (if long = None then rl else long, False)))
      | _ \<Rightarrow> Inr (long, False))"

definition balance_facts_of :: "pyval dict \<Rightarrow> balance_facts exc" where
  "balance_facts_of balances =
     bindE (exact_balance_value balances equity_keys) (\<lambda>equity.
     bindE (exact_balance_value balances [''cash_balance'']) (\<lambda>cash0.
     bindE (cash_of_result balances cash0) (\<lambda>cash.
     bindE (exact_balance_value balances [''long_stock_value'']) (\<lambda>long0.
     bindE (long_stock_of_result balances long0) (\<lambda>(long, ambiguous).
     bindE (exact_balance_value balances [''available_cash'']) (\<lambda>available.
     bindE (exact_balance_value balances [''buying_power'']) (\<lambda>power.
     bindE (currency_code balances) (\<lambda>currency.
     Inr \<lparr> bf_provider_equity = equity, bf_cash_balance = cash, bf_long_stock_value = long, bf_long_stock_ambiguous = ambiguous,
           bf_available_cash = available, bf_buying_power = power, bf_currency = currency \<rparr>))))))))"

definition count_of :: "('a \<Rightarrow> bool) \<Rightarrow> 'a list \<Rightarrow> pyval" where
  "count_of p xs = PInt (int (length (filter p xs)))"

definition if_asked :: "bool \<Rightarrow> pyval \<Rightarrow> pyval" where
  "if_asked asked v = (if asked then v else PNone)"

definition coverage_of :: "bool \<Rightarrow> position_fact list \<Rightarrow> balance_facts \<Rightarrow> pyval" where
  "coverage_of asked ps b =
     (let missing_currency = count_of (\<lambda>p. pf_currency p = None) ps in
      PDict [(''positions_requested'', PBool asked), (''positions_count'', if_asked asked (PInt (int (length ps)))),
             (''positions_missing_market_value'', if_asked asked (count_of (\<lambda>p. pf_market_value p = None) ps)),
             (''positions_missing_identity_fields'', if_asked asked (count_of identity_missing ps)),
             (''provider_equity_available'', PBool (bf_provider_equity b \<noteq> None)),
             (''cash_balance_available'', PBool (bf_cash_balance b \<noteq> None)),
             (''long_stock_value_available'', PBool (bf_long_stock_value b \<noteq> None)),
             (''long_stock_value_ambiguous'', PBool (bf_long_stock_ambiguous b)),
             (''available_cash_available'', PBool (bf_available_cash b \<noteq> None)),
             (''buying_power_available'', PBool (bf_buying_power b \<noteq> None)),
             (''balance_currency_available'', PBool (bf_currency b \<noteq> None)),
             (''positions_missing_currency'', if_asked asked missing_currency),
             (''currency_coverage_complete'', PBool (asked \<and> bf_currency b \<noteq> None \<and> missing_currency = PInt 0))])"

definition observation :: "string \<Rightarrow> datetime \<Rightarrow> datetime \<Rightarrow> bool \<Rightarrow> position_fact list \<Rightarrow> balance_facts \<Rightarrow> pyval dict" where
  "observation account started finished asked ps b =
     [(''status'', PStr ''available''), (''platform'', PStr ''firstrade''), (''account_selector_status'', PStr ''matched''),
      (''broker_account_id'', PStr account), (''observed_started_at'', PStr (isoformat started)),
      (''observed_finished_at'', PStr (isoformat finished)),
      (''balances'', PDict [(''provider_equity'', opt_str (bf_provider_equity b)), (''cash_balance'', opt_str (bf_cash_balance b)),
         (''long_stock_value'', opt_str (bf_long_stock_value b)), (''available_cash'', opt_str (bf_available_cash b)),
         (''buying_power'', opt_str (bf_buying_power b)), (''currency'', opt_str (bf_currency b))]),
      (''positions_status'', PStr (if asked then ''available'' else ''not_requested'')),
      (''positions'', if_asked asked (PList (map position_value ps))),
      (''coverage'', coverage_of asked ps b)]"

section \<open>Collection\<close>

definition dt_fields :: "datetime \<Rightarrow> int list" where
  "dt_fields t = [dt_year t, dt_month t, dt_day t, dt_hour t, dt_minute t, dt_second t, dt_micro t]"

text \<open>\<open>clock\<close> answers a UTC time; \<open>None\<close> is a value that is no aware time.\<close>

definition read_clock :: "('w, datetime option) io \<Rightarrow> ('w, datetime) io" where
  "read_clock clock =
     catchIO (bindIO clock (\<lambda>t. case t of None \<Rightarrow> raiseIO (AccountFactsUnavailable ''observation_time_invalid'') | Some d \<Rightarrow> returnIO d))
       (\<lambda>e. raiseIO (case e of AccountFactsUnavailable r \<Rightarrow> e | _ \<Rightarrow> AccountFactsUnavailable ''observation_time_invalid''))"

definition facts_client_ready :: "('s, 'w account_data) client \<Rightarrow> bool" where
  "facts_client_ready cl \<longleftrightarrow>
     cl_session_reused cl \<and> cl_read_only cl \<and> \<not> cl_live_trading_enabled cl \<and> cl_session cl \<noteq> None \<and> cl_account_data cl \<noteq> None"

definition check_identity :: "('s, 'w account_data) client \<Rightarrow> string \<Rightarrow> unit exc" where
  "check_identity cl expected =
     (case account_numbers (cl_account_data cl) of
        Inl e \<Rightarrow> Inl (AccountFactsUnavailable ''account_identity_unavailable'')
      | Inr accounts \<Rightarrow>
          if [] \<in> set accounts then Inl (AccountFactsUnavailable ''account_identity_mismatch'')
          else if accounts = [] then Inl (AccountFactsUnavailable ''account_list_empty'')
          else if length (filter ((=) expected) accounts) \<noteq> 1 then Inl (AccountFactsUnavailable ''account_identity_mismatch'')
          else (case select_account (cl_account_data cl) (Some expected) of
              Inl e \<Rightarrow> Inl (AccountFactsUnavailable ''account_identity_unavailable'')
            | Inr selected \<Rightarrow> if selected = expected then Inr () else Inl (AccountFactsUnavailable ''account_identity_mismatch'')))"

definition replace_error :: "string \<Rightarrow> ('w, 'a) io \<Rightarrow> ('w, 'a) io" where
  "replace_error reason m = catchIO m (\<lambda>_. raiseIO (AccountFactsUnavailable reason))"

definition facts_balances :: "('s, 'w account_data) client \<Rightarrow> string \<Rightarrow> ('w, pyval dict) io" where
  "facts_balances cl expected =
     bindIO (replace_error ''balances_unavailable'' (get_balances (cl_account_data cl) expected)) (\<lambda>b.
     if b = [] \<or> truthy (pget b ''error'') then raiseIO (AccountFactsUnavailable ''balances_unavailable'') else returnIO b)"

definition facts_rows :: "bool \<Rightarrow> pyval dict \<Rightarrow> pyval dict list exc" where
  "facts_rows asked payload = (if asked then position_rows (PDict payload) else Inr [])"

definition collect_firstrade_account_facts ::
  "('s, 'w account_data) client \<Rightarrow> ('w, datetime option) io \<Rightarrow> string \<Rightarrow> bool \<Rightarrow> ('w, pyval dict) io" where
  "collect_firstrade_account_facts cl clock expected asked =
     (if py_strip expected = [] \<or> py_strip expected \<noteq> expected
      then raiseIO (AccountFactsUnavailable ''account_identity_unavailable'')
      else if \<not> facts_client_ready cl then raiseIO (AccountFactsUnavailable ''readonly_client_unavailable'')
      else bindIO (read_clock clock) (\<lambda>started.
           bindIO (liftE (check_identity cl expected)) (\<lambda>_.
           bindIO (facts_balances cl expected) (\<lambda>balances.
           bindIO (if asked then replace_error ''positions_unavailable'' (get_positions (cl_account_data cl) expected)
                   else returnIO []) (\<lambda>payload.
           bindIO (read_clock clock) (\<lambda>finished.
           if dt_fields finished < dt_fields started then raiseIO (AccountFactsUnavailable ''observation_time_invalid'')
           else bindIO (liftE (facts_rows asked payload)) (\<lambda>rows.
                bindIO (liftE (mapE position_fact_of rows)) (\<lambda>ps.
                bindIO (liftE (balance_facts_of balances)) (\<lambda>b.
                returnIO (observation expected started finished asked ps b))))))))))"

section \<open>Canonical texts\<close>

lemma split_on_none: "c \<notin> set s \<Longrightarrow> split_on c s = [s]"
  by (induction s) auto

lemma digit_not_sep: "is_digit c \<Longrightarrow> c \<noteq> CHR '','' \<and> c \<noteq> CHR ''.'' \<and> c \<noteq> CHR ''-'' \<and> c \<noteq> CHR ''+'' \<and> c \<noteq> CHR ''('' \<and> c \<noteq> CHR ''$'' \<and> \<not> is_space c"
  by (auto simp: is_digit_def is_space_def cp_def)

lemma whole_digits_plain: "all_digits s \<Longrightarrow> whole_digits s = Some s"
  using digit_not_sep by (subst whole_digits_def, subst split_on_none) (auto simp: all_digits_def list_all_iff)

lemma concat_split: "concat (split_on c s) = filter (\<lambda>x. x \<noteq> c) s"
  by (induction s) (auto split: list.splits)

lemma whole_digits_all: "whole_digits s = Some d \<Longrightarrow> all_digits d"
  by (auto simp: whole_digits_def all_digits_def list_all_iff split: list.splits if_splits)

lemma decimal_shape_digits: "decimal_shape s = Some (neg, w, f) \<Longrightarrow> all_digits w \<and> list_all is_digit f"
  by (auto simp: decimal_shape_def Let_def all_digits_def dest: whole_digits_all split: list.splits prod.splits option.splits if_splits)

lemma digits_val_append: "digits_val (a @ b) = digits_val a * 10 ^ length b + digits_val b"
proof (induction b rule: rev_induct)
  case (snoc x b)
  then show ?case by (simp add: digits_val_snoc append_assoc [symmetric] algebra_simps del: append_assoc)
qed (simp add: digits_val_def)

lemma digits_val_bounds: "list_all is_digit s \<Longrightarrow> 0 \<le> digits_val s \<and> digits_val s < 10 ^ length s"
proof (induction s rule: rev_induct)
  case (snoc x s)
  then have "0 \<le> digit_val x" "digit_val x < 10" by (auto simp: digit_val_def is_digit_def)
  with snoc show ?case by (auto simp: digits_val_snoc)
qed (simp add: digits_val_def)

lemma length_int_digits: "0 \<le> n \<Longrightarrow> n < 10 ^ m \<Longrightarrow> 0 < m \<Longrightarrow> length (int_digits n) \<le> m"
proof (induction n arbitrary: m rule: int_digits.induct)
  case (1 n)
  show ?case
  proof (cases "n < 10")
    case True with 1 show ?thesis by (subst int_digits.simps) simp
  next
    case False
    then obtain k where k: "m = Suc k" "0 < k"
      using 1(3,4) by (cases m; cases "m - 1") auto
    have "n < 10 * 10 ^ k" using 1(3) k(1) by simp
    then have "n div 10 < 10 ^ k" by linarith
    then have "length (int_digits (n div 10)) \<le> k" using 1(1) [OF False] 1(2) k(2) by (simp add: pos_imp_zdiv_nonneg_iff)
    with False k(1) show ?thesis by (subst int_digits.simps) simp
  qed
qed

lemma digits_unique:
  assumes "list_all is_digit a" "list_all is_digit b" "length a = length b" "digits_val a = digits_val b"
  shows "a = b"
  using assms
proof (induction a arbitrary: b rule: rev_induct)
  case (snoc x xs)
  then obtain y ys where b: "b = ys @ [y]" by (cases b rule: rev_cases) auto
  then have d: "0 \<le> digit_val x" "digit_val x < 10" "0 \<le> digit_val y" "digit_val y < 10"
    using snoc.prems by (auto simp: digit_val_def is_digit_def)
  have "10 * digits_val xs + digit_val x = 10 * digits_val ys + digit_val y"
    using snoc.prems(4) by (simp add: b digits_val_snoc)
  with d have v: "digits_val xs = digits_val ys" "digit_val x = digit_val y" by presburger+
  then have "x = y" by (simp add: digit_val_def cp_def)
  with v show ?case using snoc.IH [of ys] snoc.prems b by simp
qed simp

lemma zero_padded_facts:
  assumes "0 \<le> n" "n < 10 ^ k" "0 < k"
  shows "length (zero_padded k n) = k" "list_all is_digit (zero_padded k n)" "digits_val (zero_padded k n) = n"
proof -
  have zeros: "digits_val (replicate m (CHR ''0'')) = 0" for m
    by (induction m) (simp_all add: digits_val_def digit_val_def cp_def)
  have "length (int_digits n) \<le> k" by (rule length_int_digits [OF assms])
  then show "length (zero_padded k n) = k" by (simp add: zero_padded_def Let_def)
  show "list_all is_digit (zero_padded k n)"
    using int_digits_all_digits [OF assms(1)] by (auto simp: zero_padded_def Let_def list_all_iff is_digit_def cp_def)
  show "digits_val (zero_padded k n) = n"
    using assms(1) by (simp add: zero_padded_def Let_def digits_val_append zeros)
qed

definition fraction_text :: "nat \<Rightarrow> int \<Rightarrow> string" where
  "fraction_text k n = rstrip_chars ''0'' (zero_padded k n)"

lemma rstrip_zeros: "\<exists>m. s = rstrip_chars ''0'' s @ replicate m (CHR ''0'')"
proof -
  have "takeWhile (\<lambda>c. c \<in> set ''0'') (rev s) = replicate (length (takeWhile (\<lambda>c. c \<in> set ''0'') (rev s))) (CHR ''0'')"
    by (rule replicate_length_same [symmetric]) (auto dest: set_takeWhileD)
  moreover have "s = rstrip_chars ''0'' s @ rev (takeWhile (\<lambda>c. c \<in> set ''0'') (rev s))"
    unfolding rstrip_chars_def by (metis rev_append rev_rev_ident takeWhile_dropWhile_id)
  ultimately show ?thesis by (metis rev_replicate)
qed

lemma rstrip_idem: "rstrip_chars cs (rstrip_chars cs s) = rstrip_chars cs s"
  by (simp add: rstrip_chars_def dropWhile_idem)

lemma fraction_facts:
  assumes "0 \<le> n" "n < 10 ^ k"
  shows "list_all is_digit (fraction_text k n)" "length (fraction_text k n) \<le> k"
    "digits_val (fraction_text k n) * 10 ^ (k - length (fraction_text k n)) = n"
    "rstrip_chars ''0'' (fraction_text k n) = fraction_text k n"
proof -
  show "rstrip_chars ''0'' (fraction_text k n) = fraction_text k n" by (simp add: fraction_text_def rstrip_idem)
  have "list_all is_digit (fraction_text k n) \<and> length (fraction_text k n) \<le> k
      \<and> digits_val (fraction_text k n) * 10 ^ (k - length (fraction_text k n)) = n"
  proof (cases "k = 0")
    case True
    then have n: "n = 0" using assms by simp
    have z: "fraction_text 0 0 = []" by code_simp
    show ?thesis unfolding True n z by (simp add: digits_val_def)
  next
    case False
    note z = zero_padded_facts [OF assms, simplified, OF False [simplified]]
    have zeros: "digits_val (replicate m (CHR ''0'')) = 0" for m
      by (induction m) (simp_all add: digits_val_def digit_val_def cp_def)
    obtain m where m: "zero_padded k n = fraction_text k n @ replicate m (CHR ''0'')"
      using rstrip_zeros [of "zero_padded k n"] by (auto simp: fraction_text_def)
    have "k = length (fraction_text k n) + m" using z(1) unfolding m by simp
    moreover have "n = digits_val (fraction_text k n) * 10 ^ m" using z(3) unfolding m by (simp add: digits_val_append zeros)
    ultimately show ?thesis using z(2) unfolding m by (metis add_diff_cancel_left' le_add1 list_all_append)
  qed
  then show "list_all is_digit (fraction_text k n)" "length (fraction_text k n) \<le> k"
    "digits_val (fraction_text k n) * 10 ^ (k - length (fraction_text k n)) = n" by blast+
qed

lemma div_below:
  fixes n q d :: int
  assumes "n < q * d" "0 < d" shows "n div d < q"
proof (rule ccontr)
  assume "\<not> n div d < q"
  then have "q * d \<le> n div d * d" using assms(2) by (simp add: mult_right_mono)
  moreover have "n div d * d \<le> n" using assms(2) div_mult_mod_eq [of n d] pos_mod_sign [of d n] by linarith
  ultimately show False using assms(1) by linarith
qed

text \<open>The parts of a plain text are read back, and write the same text again.\<close>

lemma plain_text_parts:
  fixes n :: int and k :: nat
  assumes "0 \<le> n" "n \<noteq> 0"
  defines "w \<equiv> int_digits (n div 10 ^ k)" and "f \<equiv> fraction_text k (n mod 10 ^ k)"
  shows "decimal_shape (plain_text neg n k) = Some (neg, w, f)" "plain_text neg (digits_val (w @ f)) (length f) = plain_text neg n k"
    "digits_val (w @ f) * 10 ^ (k - length f) = n" "length f \<le> k" "all_digits w" "list_all is_digit f"
proof -
  have q: "0 \<le> n div 10 ^ k" "0 \<le> n mod 10 ^ k" "n mod 10 ^ k < 10 ^ k" using assms(1) by (simp_all add: pos_imp_zdiv_nonneg_iff)
  note fr = fraction_facts [OF q(2,3), folded f_def]
  show w: "all_digits w" using int_digits_all_digits [OF q(1)] by (simp add: w_def all_digits_def)
  show "length f \<le> k" "list_all is_digit f" by (rule fr)+
  have wv: "digits_val w = n div 10 ^ k" using q(1) by (simp add: w_def)
  have nodot: "CHR ''.'' \<notin> set w" using w digit_not_sep by (auto simp: all_digits_def list_all_iff)
  have hd: "hd w \<noteq> CHR ''-''" "hd w \<noteq> CHR ''+''" "w \<noteq> []"
    using w digit_not_sep [of "hd w"] by (auto simp: all_digits_def list_all_iff)
  have part_w: "partition_at (CHR ''.'') (w @ (if f = [] then [] else CHR ''.'' # f)) = (w, f \<noteq> [], f)"
    using nodot by (auto simp: partition_at_def Let_def takeWhile_append dropWhile_append)
  have pt: "plain_text neg n k = (if neg then ''-'' else []) @ w @ (if f = [] then [] else CHR ''.'' # f)"
    using assms(2) by (simp add: plain_text_def w_def f_def fraction_text_def Let_def)
  show "decimal_shape (plain_text neg n k) = Some (neg, w, f)"
  proof (cases neg)
    case True
    then show ?thesis using part_w whole_digits_plain [OF w] fr(1) unfolding pt by (auto simp: decimal_shape_def Let_def all_digits_def)
  next
    case False
    obtain c r where cr: "w = c # r" using hd by (cases w) auto
    have "c \<noteq> CHR ''-''" "c \<noteq> CHR ''+''" using hd cr by auto
    then show ?thesis using False part_w whole_digits_plain [OF w] fr(1) unfolding pt unfolding cr
      by (auto simp: decimal_shape_def Let_def all_digits_def)
  qed
  have scale: "(10::int) ^ k = 10 ^ length f * 10 ^ (k - length f)" using fr(2) by (simp add: power_add [symmetric])
  show val: "digits_val (w @ f) * 10 ^ (k - length f) = n"
  proof -
    have "digits_val (w @ f) * 10 ^ (k - length f) = digits_val w * (10 ^ length f * 10 ^ (k - length f)) + digits_val f * 10 ^ (k - length f)"
      by (simp only: digits_val_append distrib_right mult.assoc)
    also have "\<dots> = n div 10 ^ k * 10 ^ k + n mod 10 ^ k" by (simp only: fr(3) wv scale [symmetric])
    also have "\<dots> = n" by (rule div_mult_mod_eq)
    finally show ?thesis .
  qed
  have fb: "0 \<le> digits_val f" "digits_val f < 10 ^ length f" using digits_val_bounds [OF fr(1)] by auto
  have nz: "digits_val (w @ f) \<noteq> 0" using val assms(2) by auto
  have "digits_val (w @ f) div 10 ^ length f = n div 10 ^ k" "digits_val (w @ f) mod 10 ^ length f = digits_val f"
    using fb by (simp_all add: digits_val_append wv div_pos_pos_trivial)
  moreover have "fraction_text (length f) (digits_val f) = f"
  proof (cases "f = []")
    case True
    have "fraction_text 0 0 = []" by code_simp
    with True show ?thesis by (simp add: digits_val_def)
  next
    case False
    then have "zero_padded (length f) (digits_val f) = f"
      using zero_padded_facts [OF fb] fr(1) by (intro digits_unique) auto
    then show ?thesis using fr(4) by (simp add: fraction_text_def)
  qed
  ultimately show "plain_text neg (digits_val (w @ f)) (length f) = plain_text neg n k"
    using nz pt by (simp add: plain_text_def Let_def fraction_text_def [symmetric] w_def)
qed

lemma plain_text_chars: "0 \<le> n \<Longrightarrow> c \<in> set (plain_text neg n k) \<Longrightarrow> is_digit c \<or> c = CHR ''-'' \<or> c = CHR ''.''"
  using int_digits_all_digits [of "n div 10 ^ k"] fraction_facts(1) [of "n mod 10 ^ k" k]
  by (auto simp: plain_text_def Let_def list_all_iff fraction_text_def [symmetric] pos_imp_zdiv_nonneg_iff is_digit_def cp_def split: if_splits)

lemma plain_text_read:
  assumes "0 \<le> n" "n < 10 ^ (30 + k)" "k \<le> 28"
  shows "decimal_of_text (plain_text neg n k) = Inr (Some (plain_text neg n k))" "py_strip (plain_text neg n k) = plain_text neg n k"
proof -
  let ?t = "plain_text neg n k"
  have ne: "?t \<noteq> []" by (auto simp: plain_text_def)
  have plain: "is_digit c \<or> c = CHR ''-'' \<or> c = CHR ''.''" if "c \<in> set ?t" for c by (rule plain_text_chars [OF assms(1) that])
  have "\<not> is_space c" if "c \<in> set ?t" for c using plain [OF that] by (auto simp: is_digit_def is_space_def cp_def)
  then show strip: "py_strip ?t = ?t" using ne by (intro py_strip_id) (auto simp: hd_in_set last_in_set)
  have "hd ?t \<noteq> CHR ''(''" "hd ?t \<noteq> CHR ''$''" using plain [of "hd ?t"] ne by (auto simp: is_digit_def cp_def)
  then have np: "\<not> in_parentheses ?t" "unwrapped ?t = ?t"
    using ne by (cases ?t; simp add: in_parentheses_def unwrapped_def)+
  show "decimal_of_text ?t = Inr (Some ?t)"
  proof (cases "n = 0")
    case True
    then have "?t = ''0''" by (simp add: plain_text_def)
    moreover have "decimal_of_text ''0'' = Inr (Some ''0'')" by code_simp
    ultimately show ?thesis by simp
  next
    case False
    note parts = plain_text_parts [OF assms(1) False, where k = k]
    let ?w = "int_digits (n div 10 ^ k)" and ?f = "fraction_text k (n mod 10 ^ k)"
    have "n div 10 ^ k < 10 ^ 30" using assms(2) unfolding power_add by (intro div_below) (simp_all del: power_numeral)
    then have lw: "length ?w \<le> 30" using assms(1) by (intro length_int_digits) (simp_all add: pos_imp_zdiv_nonneg_iff)
    have lf: "length ?f \<le> 28" using parts(4) assms(3) by linarith
    have "length ?t \<le> 64"
      using lw lf False by (auto simp: plain_text_def Let_def fraction_text_def [symmetric])
    then show ?thesis
      using ne np parts(1,2) [of neg] lw lf by (simp add: decimal_of_text_def Let_def)
  qed
qed

section \<open>Properties\<close>

lemma decimal_text_of: "decimal_text v = Inr (Some t) \<Longrightarrow> decimal_of_text (py_strip (py_str v)) = Inr (Some t)"
  by (cases v rule: decimal_text.cases) auto

lemma decimal_of_text_parts:
  assumes "decimal_of_text s = Inr (Some t)" "\<not> in_parentheses s"
  obtains neg w f where "decimal_shape (unwrapped s) = Some (neg, w, f)" "length w \<le> 30" "length f \<le> 28"
    "t = plain_text neg (digits_val (w @ f)) (length f)"
  using assms by (auto simp: decimal_of_text_def Let_def split: if_splits option.splits)



text \<open>
  A number in parentheses goes through \<open>-abs\<close>, which rounds to 28 digits: of the 30 digits
  that are let through, the last two are lost.
\<close>

theorem parenthesised_amounts_are_rounded:
  "decimal_text (PStr ''(123456789012345678901234567891)'') = Inr (Some ''-123456789012345678901234567900'')
   \<and> decimal_text (PStr ''-123456789012345678901234567891'') = Inr (Some ''-123456789012345678901234567891'')"
  by (rule conjI; code_simp)

lemma unanimous_Some:
  assumes "unanimous reason vs = Inr (Some t)"
  shows "Some t \<in> set vs" "Some x \<in> set vs \<Longrightarrow> x = t"
proof -
  have "dedup (somes vs) = [t]" using assms by (auto simp: unanimous_def split: list.splits if_splits)
  then have "set (somes vs) = {t}" using set_dedup [of "somes vs"] by simp
  moreover have "set (somes vs) = {x. Some x \<in> set vs}" by (auto simp: somes_def split: option.splits)
  ultimately show "Some t \<in> set vs" "Some x \<in> set vs \<Longrightarrow> x = t" by auto
qed

lemma mapE_Inr_each: "mapE f xs = Inr ys \<Longrightarrow> x \<in> set xs \<Longrightarrow> \<exists>y\<in>set ys. f x = Inr y"
  by (induction xs arbitrary: ys) (auto simp: bindE_Inr_iff)

text \<open>A balance that is reported is what every filled key of its own says.\<close>

lemma exact_balance_agrees:
  assumes "exact_balance_value d keys = Inr (Some t)"
  shows "\<exists>k\<in>set keys. decimal_text (pget d k) = Inr (Some t)"
    "k \<in> set keys \<Longrightarrow> decimal_text (pget d k) \<in> {Inr None, Inr (Some t)}"
proof -
  obtain vs where m: "mapE (\<lambda>k. decimal_text (pget d k)) keys = Inr vs" "unanimous ''balances_ambiguous'' vs = Inr (Some t)"
    using assms by (auto simp: exact_balance_value_def bindE_Inr_iff)
  show "\<exists>k\<in>set keys. decimal_text (pget d k) = Inr (Some t)" by (rule mapE_Inr_set [OF m(1) unanimous_Some(1) [OF m(2)]])
  assume "k \<in> set keys"
  from mapE_Inr_each [OF m(1) this] obtain y where y: "y \<in> set vs" "decimal_text (pget d k) = Inr y" by blast
  show "decimal_text (pget d k) \<in> {Inr None, Inr (Some t)}"
  proof (cases y)
    case (Some x)
    then show ?thesis using y unanimous_Some(2) [OF m(2), of x] by simp
  qed (simp add: y)
qed

lemma check_identity_listed:
  "check_identity cl expected = Inr u \<Longrightarrow>
   \<exists>as. account_numbers (cl_account_data cl) = Inr as \<and> count_list as expected = 1"
  by (auto simp: check_identity_def count_list_eq_length_filter split: sum.splits if_splits)

lemma facts_balances_read:
  "facts_balances cl a w = (Inr b, w') \<Longrightarrow> get_balances (cl_account_data cl) a w = (Inr b, w')"
  by (auto simp: facts_balances_def replace_error_def bindIO_Inr catchIO_def split: if_splits prod.splits sum.splits)

text \<open>
  Property C27. An observation is about the expected account and made of what the broker said:
  it comes from a client that is read-only, not trading and on a cached login, the account is
  listed exactly once, and the equity it reports, if any, is the number under one of the three
  exact keys of the balances just read, on which no other of those keys disagrees.
\<close>

theorem observation_is_of_the_account:
  assumes "collect_firstrade_account_facts cl clock expected asked w = (Inr obs, w')"
  shows "cl_read_only cl \<and> cl_session_reused cl \<and> \<not> cl_live_trading_enabled cl
    \<and> (\<exists>as. account_numbers (cl_account_data cl) = Inr as \<and> count_list as expected = 1)
    \<and> pget obs ''broker_account_id'' = PStr expected
    \<and> (\<exists>balances w1 w2 b. get_balances (cl_account_data cl) expected w1 = (Inr balances, w2) \<and> pget obs ''balances'' = PDict b
        \<and> (\<forall>t. pget b ''provider_equity'' = PStr t \<longrightarrow>
              (\<exists>k\<in>set equity_keys. decimal_text (pget balances k) = Inr (Some t))
              \<and> (\<forall>k\<in>set equity_keys. decimal_text (pget balances k) \<in> {Inr None, Inr (Some t)})))"
proof -
  have ready: "facts_client_ready cl" using assms by (auto simp: collect_firstrade_account_facts_def split: if_splits)
  obtain started u w1 balances w2 finished ps b where
    id: "check_identity cl expected = Inr u" and bal: "facts_balances cl expected w1 = (Inr balances, w2)"
    and b: "balance_facts_of balances = Inr b" and obs: "obs = observation expected started finished asked ps b"
    using assms by (auto simp: collect_firstrade_account_facts_def bindIO_Inr liftE_def split: if_splits)
  define d where "d = [(''provider_equity'', opt_str (bf_provider_equity b)), (''cash_balance'', opt_str (bf_cash_balance b)),
         (''long_stock_value'', opt_str (bf_long_stock_value b)), (''available_cash'', opt_str (bf_available_cash b)),
         (''buying_power'', opt_str (bf_buying_power b)), (''currency'', opt_str (bf_currency b))]"
  have d: "pget obs ''balances'' = PDict d" "pget obs ''broker_account_id'' = PStr expected"
    by (simp_all add: obs observation_def d_def)
  have equity: "exact_balance_value balances equity_keys = Inr (bf_provider_equity b)"
    using b by (auto simp: balance_facts_of_def bindE_Inr_iff split: prod.splits)
  have said: "(\<exists>k\<in>set equity_keys. decimal_text (pget balances k) = Inr (Some t))
              \<and> (\<forall>k\<in>set equity_keys. decimal_text (pget balances k) \<in> {Inr None, Inr (Some t)})"
    if "pget d ''provider_equity'' = PStr t" for t
  proof -
    have "bf_provider_equity b = Some t" using that by (simp add: d_def opt_str_def split: option.splits)
    then show ?thesis using exact_balance_agrees equity by metis
  qed
  show ?thesis
    using ready check_identity_listed [OF id] facts_balances_read [OF bal] d said
    unfolding facts_client_ready_def by blast
qed

definition facts_account_data :: "unit account_data" where
  "facts_account_data = sample_account_data
     \<lparr> ad_get_balances := (\<lambda>a. returnIO (PDict [(''total_value'', PStr ''1,000.50''), (''currency'', PStr ''usd'')])),
       ad_get_positions := (\<lambda>a. returnIO (PDict [(''items'', PList [PDict [(''symbol'', PStr ''spy''), (''quantity'', PInt 2)]])])) \<rparr>"

definition facts_client :: "(unit, unit account_data) client" where
  "facts_client = (new_client False)
     \<lparr> cl_session := Some (), cl_account_data := Some facts_account_data, cl_session_reused := True, cl_read_only := True \<rparr>"

definition facts_observation :: "pyval dict exc \<times> unit" where
  "facts_observation = collect_firstrade_account_facts facts_client (returnIO (Some sample_time)) ''12345678'' True ()"

lemma facts_observed:
  "case fst facts_observation of Inl e \<Rightarrow> False
   | Inr obs \<Rightarrow> (case pget obs ''balances'' of PDict b \<Rightarrow> pget b ''provider_equity'' = PStr ''1000.5'' | _ \<Rightarrow> False)"
  by code_simp

theorem observation_is_of_the_account_witness:
  "\<exists>obs b. fst facts_observation = Inr obs \<and> pget obs ''balances'' = PDict b \<and> pget b ''provider_equity'' = PStr ''1000.5''
     \<and> pget obs ''broker_account_id'' = PStr ''12345678''"
proof -
  obtain obs where f: "fst facts_observation = Inr obs" using facts_observed by (cases "fst facts_observation") auto
  then have o: "facts_observation = (Inr obs, ())" by (intro prod_eqI) simp_all
  from observation_is_of_the_account [OF o [unfolded facts_observation_def]]
  have "pget obs ''broker_account_id'' = PStr ''12345678''" by blast
  then show ?thesis using facts_observed [unfolded f] f by (auto split: pyval.splits)
qed

end
