(* ===== verification/SessionCheck.thy ===== *)
theory SessionCheck
  imports AccountFacts SessionSafety
begin

text \<open>
  \<open>application/session_check_service.py\<close>: the check that keeps the cached login alive once per
  period of the strategy, the snapshot of the account's funds that it stores, the archive of
  cached account facts, and the forced renewal of the session. The registry of strategies,
  the SDK, the clock and the object store are parameters.
\<close>

section \<open>Policy and period\<close>

definition balance_keywords :: "string list" where
  "balance_keywords = [''cash'', ''available'', ''avail'', ''withdraw'', ''buying'', ''bp'', ''equity'', ''value'', ''margin'']"

definition policy_skip_values :: "string list" where
  "policy_skip_values = [''skip'', ''never'', ''disabled'', ''off'', ''false'', ''0'']"

definition policy_always_values :: "string list" where
  "policy_always_values = [''always'', ''run'', ''true'', ''1'']"

definition normalize_session_check_policy :: "string option \<Rightarrow> string" where
  "normalize_session_check_policy raw =
     (let v = py_lower (py_strip (case raw of None \<Rightarrow> ''auto'' | Some s \<Rightarrow> if s = [] then ''auto'' else s)) in
      if v = [] \<or> v = ''auto'' then ''auto''
      else if v \<in> set policy_always_values then ''always''
      else if v \<in> set policy_skip_values then ''skip'' else ''auto'')"

text \<open>
  \<open>loads\<close> is \<open>json.loads\<close>; \<open>resolve\<close> is the strategy registry: the profile, its cadence and its
  required inputs.
\<close>

definition configured_strategy_profile :: "(string \<Rightarrow> pyval exc) \<Rightarrow> env \<Rightarrow> string option exc" where
  "configured_strategy_profile loads env =
     bindE (if env_or env ''RUNTIME_TARGET_JSON'' [] = [] then Inr []
            else bindE (loads (env_or env ''RUNTIME_TARGET_JSON'' [])) (\<lambda>v. case v of
                PDict d \<Rightarrow> Inr (py_strip (str_or (pget d ''strategy_profile'')))
              | _ \<Rightarrow> Inl (ValueError ''RUNTIME_TARGET_JSON must decode to an object''))) (\<lambda>profile.
     if profile \<noteq> [] then Inr (Some profile)
     else let p = py_strip (env_or env ''STRATEGY_PROFILE'' []) in Inr (if p = [] then None else Some p))"

record check_context =
  cc_profile :: "string option"
  cc_cadence :: "string option"
  cc_inputs :: "string list"
  cc_error :: "string option"

definition no_context :: "string \<Rightarrow> check_context" where
  "no_context e = \<lparr> cc_profile = None, cc_cadence = None, cc_inputs = [], cc_error = Some e \<rparr>"

definition resolve_strategy_session_check_context ::
  "(string \<Rightarrow> pyval exc) \<Rightarrow> (string \<Rightarrow> (string \<times> string option \<times> string list) exc) \<Rightarrow> env \<Rightarrow> check_context" where
  "resolve_strategy_session_check_context loads resolve env =
     (case bindE (configured_strategy_profile loads env) (\<lambda>raw. case raw of
          None \<Rightarrow> Inr (no_context ''STRATEGY_PROFILE or RUNTIME_TARGET_JSON is not configured'')
        | Some p \<Rightarrow> bindE (resolve p) (\<lambda>(profile, cadence, inputs).
            Inr \<lparr> cc_profile = Some profile, cc_cadence = cadence, cc_inputs = sort inputs, cc_error = None \<rparr>)) of
        Inl e \<Rightarrow> no_context (exc_text e) | Inr c \<Rightarrow> c)"

definition day_of :: "datetime \<Rightarrow> day" where
  "day_of t = day_number (dt_year t) (dt_month t) (dt_day t)"

text \<open>\<open>%G\<close> and \<open>%V\<close>: the year and week of the Thursday of the day's week.\<close>

definition iso_week :: "day \<Rightarrow> int \<times> int" where
  "iso_week d =
     (let thursday = d + 3 - (d + 6) mod 7; y = fst (ymd_of thursday)
      in (y, (thursday - day_number y 1 1) div 7 + 1))"

definition session_check_period :: "string option \<Rightarrow> string list \<Rightarrow> datetime \<Rightarrow> string option \<times> string" where
  "session_check_period cadence inputs now =
     (let c = py_lower (py_strip (case cadence of None \<Rightarrow> [] | Some s \<Rightarrow> s)) in
      if contains c ''daily'' \<or> contains c ''intraday'' then (None, ''daily_strategy'')
      else if contains c ''weekly''
      then (let (y, w) = iso_week (day_of now) in (Some (int_str y @ ''-W'' @ pad_left 2 w), ''weekly_strategy''))
      else if contains c ''monthly'' then (Some (year_month (dt_year now) (dt_month now)), ''monthly_strategy'')
      else if contains c ''quarterly''
      then (Some (int_str (dt_year now) @ ''-Q'' @ int_str ((dt_month now - 1) div 3 + 1)), ''quarterly_strategy'')
      else if ''feature_snapshot'' \<in> set inputs
      then (Some (year_month (dt_year now) (dt_month now)), ''feature_snapshot_strategy'')
      else (None, ''unthrottled_strategy''))"

definition session_check_state_key :: "string \<Rightarrow> string \<Rightarrow> env \<Rightarrow> string" where
  "session_check_state_key profile period env =
     (let selector = py_strip (env_or env ''FIRSTRADE_ACCOUNT'' []);
          account = (if selector = [] then ''auto'' else safe_key (legacy_account_state_id selector))
      in ''session-checks/'' @ account @ ''/'' @ safe_key profile @ ''/'' @ safe_key period @ ''/latest.json'')"

section \<open>The decision\<close>

record check_decision =
  sd_should_run :: bool
  sd_policy :: string
  sd_context :: check_context
  sd_period :: "string option"
  sd_state_key :: "string option"
  sd_reason :: string
  sd_last_checked_at :: "string option"
  sd_error :: "string option"

definition undated :: "bool \<Rightarrow> string \<Rightarrow> check_context \<Rightarrow> string \<Rightarrow> check_decision" where
  "undated run policy c reason =
     \<lparr> sd_should_run = run, sd_policy = policy, sd_context = c, sd_period = None, sd_state_key = None, sd_reason = reason,
       sd_last_checked_at = None, sd_error = None \<rparr>"

definition if_text :: "string \<Rightarrow> string option \<Rightarrow> pyval dict" where
  "if_text k v = (case v of None \<Rightarrow> [] | Some s \<Rightarrow> if s = [] then [] else [(k, PStr s)])"

definition to_response_fields :: "check_decision \<Rightarrow> pyval dict" where
  "to_response_fields d =
     [(''session_check_policy'', PStr (sd_policy d)), (''session_check_policy_reason'', PStr (sd_reason d))]
     @ if_text ''strategy_profile'' (cc_profile (sd_context d)) @ if_text ''strategy_cadence'' (cc_cadence (sd_context d))
     @ (if cc_inputs (sd_context d) = [] then [] else [(''strategy_required_inputs'', PList (map PStr (cc_inputs (sd_context d))))])
     @ if_text ''session_check_period'' (sd_period d) @ if_text ''session_check_last_checked_at'' (sd_last_checked_at d)
     @ if_text ''session_check_policy_error'' (sd_error d)"

text \<open>The state of the period: checked already, unreadable, or due.\<close>

definition period_decision ::
  "check_context \<Rightarrow> string \<Rightarrow> string \<Rightarrow> string \<Rightarrow> pyval dict option exc \<Rightarrow> check_decision" where
  "period_decision c period key reason r =
     (let d = (undated True ''auto'' c (reason @ ''_due'')) \<lparr> sd_period := Some period, sd_state_key := Some key \<rparr> in
      case r of
        Inl e \<Rightarrow> d \<lparr> sd_reason := ''state_read_failed'', sd_error := Some (exc_text e) \<rparr>
      | Inr existing \<Rightarrow>
          (case existing of
             None \<Rightarrow> d
           | Some x \<Rightarrow> if x = [] then d
               else let t = str_or (pget x ''checked_at'') in
                    d \<lparr> sd_should_run := False, sd_reason := reason, sd_last_checked_at := (if t = [] then None else Some t) \<rparr>))"

definition resolve_session_check_maintenance_decision ::
  "(string \<Rightarrow> pyval exc) \<Rightarrow> (string \<Rightarrow> (string \<times> string option \<times> string list) exc) \<Rightarrow> 'w object_store \<Rightarrow> gcs_state_store option \<Rightarrow>
   env \<Rightarrow> datetime \<Rightarrow> 'w \<Rightarrow> check_decision \<times> 'w" where
  "resolve_session_check_maintenance_decision loads resolve os store env now w =
     (let policy = normalize_session_check_policy (Some (case env ''FIRSTRADE_SESSION_CHECK_POLICY'' of None \<Rightarrow> ''auto'' | Some s \<Rightarrow> s));
          c = resolve_strategy_session_check_context loads resolve env in
      if policy = ''skip'' then ((undated False policy c ''policy_skip'') \<lparr> sd_error := cc_error c \<rparr>, w)
      else if policy = ''always'' then ((undated True policy c ''policy_always'') \<lparr> sd_error := cc_error c \<rparr>, w)
      else case cc_profile c of
        None \<Rightarrow> ((undated True policy c ''strategy_context_unavailable'') \<lparr> sd_error := cc_error c \<rparr>, w)
      | Some profile \<Rightarrow>
          if profile = [] \<or> cc_error c \<noteq> None
          then ((undated True policy c ''strategy_context_unavailable'') \<lparr> sd_error := cc_error c \<rparr>, w)
          else (case session_check_period (cc_cadence c) (cc_inputs c) now of
              (None, reason) \<Rightarrow> (undated True policy c reason, w)
            | (Some period, reason) \<Rightarrow>
                let key = session_check_state_key profile period env in
                (case store of
                   None \<Rightarrow> ((undated True policy c ''state_store_unavailable'') \<lparr> sd_period := Some period, sd_state_key := Some key \<rparr>, w)
                 | Some s \<Rightarrow> (case read_json os s key w of (r, w') \<Rightarrow> (period_decision c period key reason r, w')))))"

definition maintenance_payload :: "check_decision \<Rightarrow> string \<Rightarrow> bool \<Rightarrow> datetime \<Rightarrow> pyval dict" where
  "maintenance_payload d account reused now =
     [(''checked_at'', PStr (isoformat now)), (''account'', PStr account), (''session_reused'', PBool reused),
      (''strategy_profile'', opt_str (cc_profile (sd_context d))), (''strategy_cadence'', opt_str (cc_cadence (sd_context d))),
      (''strategy_required_inputs'', PList (map PStr (cc_inputs (sd_context d)))), (''period'', opt_str (sd_period d)),
      (''policy'', PStr (sd_policy d))]"

definition persist_session_check_maintenance ::
  "'w object_store \<Rightarrow> gcs_state_store \<Rightarrow> check_decision \<Rightarrow> string \<Rightarrow> bool \<Rightarrow> datetime \<Rightarrow> ('w, bool) io" where
  "persist_session_check_maintenance os s d account reused now =
     (case sd_state_key d of
        None \<Rightarrow> returnIO False
      | Some key \<Rightarrow> if key = [] then returnIO False else write_json os s key (maintenance_payload d account reused now))"

section \<open>Funds snapshots\<close>

definition compact_position :: "pyval dict \<Rightarrow> pyval option" where
  "compact_position row =
     (let symbol = get_first row [''symbol'', ''ticker'', ''security_symbol''] in
      if \<not> truthy symbol then None
      else Some (PDict [(''symbol'', PStr (py_upper (py_strip (py_str symbol)))),
        (''quantity'', opt_float (float_or_none (get_first row [''quantity'', ''shares'', ''qty'']))),
        (''market_value'', opt_float (float_or_none (get_first row [''market_value'', ''marketValue'', ''value'', ''current_value''])))]))"

definition compact_positions :: "pyval \<Rightarrow> pyval list" where
  "compact_positions payload = somes (map compact_position (iter_position_rows payload))"

definition build_account_funds_snapshot ::
  "string \<Rightarrow> pyval list \<Rightarrow> pyval dict \<Rightarrow> pyval option \<Rightarrow> bool \<Rightarrow> datetime \<Rightarrow> pyval dict" where
  "build_account_funds_snapshot account summaries balances positions reused now =
     [(''as_of'', PStr (isoformat now)), (''account'', PStr account), (''session_reused'', PBool reused),
      (''account_summaries'', PList summaries),
      (''balance_metrics'', PDict (map (\<lambda>(k, v). (k, PFloat v)) (selected_numeric_metrics (PDict balances) balance_keywords)))]
     @ (case positions of None \<Rightarrow> [] | Some p \<Rightarrow> [(''positions'', PList (compact_positions p))])"

definition persist_funds_snapshot ::
  "'w object_store \<Rightarrow> gcs_state_store \<Rightarrow> pyval dict \<Rightarrow> datetime \<Rightarrow> ('w, bool) io" where
  "persist_funds_snapshot os s snapshot now =
     (let account = safe_key (py_str (py_or (pget snapshot ''account'') (PStr ''unknown''))) in
      bindIO (write_json os s (''accounts/'' @ account @ ''/funds/latest.json'') snapshot) (\<lambda>_.
      bindIO (write_json os s (''accounts/'' @ account @ ''/funds/history/'' @ date_path now @ ''/'' @ stamp now @ ''.json'') snapshot) (\<lambda>_.
      returnIO True)))"

section \<open>The archive of cached account facts\<close>

text \<open>
  \<open>from_iso\<close> is \<open>datetime.fromisoformat\<close>, whose accepted texts depend on the version of Python,
  moved to UTC; \<open>None\<close> is a time without a zone.
\<close>

definition need :: "pyval dict \<Rightarrow> string \<Rightarrow> pyval exc" where
  "need d k = (case dget d k of None \<Rightarrow> Inl (KeyError k) | Some v \<Rightarrow> Inr v)"

definition no_attribute :: "string \<Rightarrow> pyexc" where
  "no_attribute m = OtherException ''AttributeError'' m"

definition zulu :: "string \<Rightarrow> string" where
  "zulu s = concat (map (\<lambda>c. if c = CHR ''Z'' then ''+00:00'' else [c]) s)"

definition archive_time :: "(string \<Rightarrow> datetime option exc) \<Rightarrow> pyval \<Rightarrow> datetime exc" where
  "archive_time from_iso v =
     (case v of
        PStr s \<Rightarrow> bindE (from_iso (zulu s)) (\<lambda>t. case t of None \<Rightarrow> Inl (ValueError ''funds_archive_unavailable'') | Some d \<Rightarrow> Inr d)
      | _ \<Rightarrow> Inl (no_attribute ''replace''))"

definition archive_snapshot :: "datetime \<Rightarrow> pyval dict \<Rightarrow> pyval dict exc" where
  "archive_snapshot observed obs =
     bindE (need obs ''balances'') (\<lambda>bv.
     bindE (need obs ''observed_finished_at'') (\<lambda>finished.
     bindE (need obs ''broker_account_id'') (\<lambda>account.
     bindE (case bv of PDict b \<Rightarrow> Inr b | _ \<Rightarrow> Inl (no_attribute ''get'')) (\<lambda>b.
     bindE (dict_or (pget obs ''coverage'')) (\<lambda>coverage.
     bindE (if pget obs ''positions_status'' = PStr ''available'' then bindE (need obs ''positions'') (\<lambda>p. Inr [(''positions'', p)])
            else Inr []) (\<lambda>positions.
     Inr ([(''as_of'', PStr (isoformat observed)), (''observed_finished_at'', finished), (''account'', account),
           (''session_reused'', PBool True), (''source'', PStr ''cached_account_facts''),
           (''balance_metrics'', PDict [(''total_equity'', pget b ''provider_equity''), (''currency'', pget b ''currency''),
              (''cash_balance'', pget b ''cash_balance''), (''available_cash'', pget b ''available_cash''),
              (''buying_power'', pget b ''buying_power'')]),
           (''coverage'', PDict coverage)] @ positions)))))))"

definition archive_cached_account_facts ::
  "(string \<Rightarrow> datetime option exc) \<Rightarrow> 'w object_store \<Rightarrow> env \<Rightarrow> pyval dict \<Rightarrow> ('w, unit) io" where
  "archive_cached_account_facts from_iso os env obs =
     (if \<not> env_true env ''FIRSTRADE_PERSIST_ACCOUNT_SNAPSHOT'' then returnIO ()
      else case build_store_from_env env of
        None \<Rightarrow> raiseIO (ValueError ''funds_archive_unavailable'')
      | Some s \<Rightarrow>
          bindIO (liftE (bindE (need obs ''observed_started_at'') (archive_time from_iso))) (\<lambda>observed.
          bindIO (liftE (archive_snapshot observed obs)) (\<lambda>snapshot.
          bindIO (persist_funds_snapshot os s snapshot observed) (\<lambda>_. returnIO ()))))"

section \<open>The session check\<close>

record ('w, 'ses) session_ports =
  ss_sdk :: "('w, 'ses, 'w account_data) sdk"
  ss_cache :: "'w cache_ports"
  ss_objects :: "'w object_store"
  ss_secrets :: "string \<Rightarrow> string exc"
  ss_now :: "'w \<Rightarrow> datetime"
  ss_loads :: "string \<Rightarrow> pyval exc"
  ss_resolve :: "string \<Rightarrow> (string \<times> string option \<times> string list) exc"

definition skipped_check :: "check_decision \<Rightarrow> pyval dict" where
  "skipped_check d =
     dupdate [(''ok'', PBool True), (''api_kind'', PStr ''unofficial-reverse-engineered''), (''session_check_skipped'', PBool True)]
       (to_response_fields d)"

text \<open>A step whose failure is only reported: its value or the text of its exception.\<close>

definition reported :: "('w, bool) io \<Rightarrow> 'w \<Rightarrow> (bool \<times> string option) \<times> 'w" where
  "reported m w = (case m w of (Inr b, w') \<Rightarrow> ((b, None), w') | (Inl e, w') \<Rightarrow> ((False, Some (exc_text e)), w'))"

definition store_snapshot ::
  "('w, 'ses) session_ports \<Rightarrow> env \<Rightarrow> gcs_state_store option \<Rightarrow> pyval dict \<Rightarrow> datetime \<Rightarrow> 'w \<Rightarrow> (bool \<times> string option) \<times> 'w" where
  "store_snapshot k env store snapshot now w =
     (case store of
        Some s \<Rightarrow> if env_true env ''FIRSTRADE_PERSIST_ACCOUNT_SNAPSHOT'' then reported (persist_funds_snapshot (ss_objects k) s snapshot now) w
                  else ((False, None), w)
      | None \<Rightarrow> ((False, None), w))"

definition store_maintenance ::
  "('w, 'ses) session_ports \<Rightarrow> gcs_state_store option \<Rightarrow> check_decision \<Rightarrow> string \<Rightarrow> bool \<Rightarrow> datetime \<Rightarrow> 'w \<Rightarrow>
   (bool \<times> string option) \<times> 'w" where
  "store_maintenance k store d account reused now w =
     (case store of
        Some s \<Rightarrow> if sd_state_key d \<noteq> None \<and> sd_state_key d \<noteq> Some []
                  then reported (persist_session_check_maintenance (ss_objects k) s d account reused now) w
                  else ((False, None), w)
      | None \<Rightarrow> ((False, None), w))"

definition check_result ::
  "string \<Rightarrow> bool \<Rightarrow> pyval dict \<Rightarrow> check_decision \<Rightarrow> bool \<times> string option \<Rightarrow> bool \<times> string option \<Rightarrow> pyval dict" where
  "check_result account reused snapshot d sn mn =
     dupdate [(''ok'', PBool True), (''api_kind'', PStr ''unofficial-reverse-engineered''), (''account'', PStr account),
       (''session_reused'', PBool reused), (''funds_snapshot'', PDict snapshot), (''snapshot_persisted'', PBool (fst sn)),
       (''session_check_maintenance_state_persisted'', PBool (fst mn))] (to_response_fields d)
     @ if_text ''snapshot_error'' (snd sn) @ if_text ''session_check_maintenance_state_error'' (snd mn)"

definition checked_account ::
  "('w, 'ses) session_ports \<Rightarrow> env \<Rightarrow> gcs_state_store option \<Rightarrow> check_decision \<Rightarrow> datetime \<Rightarrow> ('ses, 'w account_data) client \<Rightarrow>
   ('w, pyval dict) io" where
  "checked_account k env store d now cl =
     bindIO (liftE (select_account (cl_account_data cl) (Some (env_or env ''FIRSTRADE_ACCOUNT'' [])))) (\<lambda>account.
     bindIO (liftE (list_account_summaries (cl_account_data cl))) (\<lambda>summaries.
     bindIO (get_balances (cl_account_data cl) account) (\<lambda>balances.
     bindIO (if env_true env ''FIRSTRADE_SESSION_CHECK_INCLUDE_POSITIONS''
             then bindIO (get_positions (cl_account_data cl) account) (\<lambda>p. returnIO (Some (PDict p))) else returnIO None) (\<lambda>positions w.
     let snapshot = build_account_funds_snapshot account summaries balances positions (cl_session_reused cl) now in
     case store_snapshot k env store snapshot now w of (sn, w1) \<Rightarrow>
     case store_maintenance k store d account (cl_session_reused cl) now w1 of (mn, w2) \<Rightarrow>
       (Inr (check_result account (cl_session_reused cl) snapshot d sn mn), w2)))))"

definition run_session_check :: "('w, 'ses) session_ports \<Rightarrow> env \<Rightarrow> ('w, pyval dict) io" where
  "run_session_check k env w =
     (let now = ss_now k w; store = build_store_from_env env in
      case resolve_session_check_maintenance_decision (ss_loads k) (ss_resolve k) (ss_objects k) store env now w of
        (d, w1) \<Rightarrow>
          if \<not> sd_should_run d then (Inr (skipped_check d), w1)
          else (case connect (ss_sdk k) (ss_cache k) None (credentials_from_env (ss_secrets k) env True) False False
                       (new_client (is_live_trading_enabled env)) w1 of
              ((Some e, _), w2) \<Rightarrow> (Inl e, w2)
            | ((None, cl), w2) \<Rightarrow> checked_account k env store d now cl w2))"

section \<open>Forced renewal\<close>

definition renewed :: "('ses, 'w account_data) client \<Rightarrow> string \<Rightarrow> pyval dict \<Rightarrow> pyval dict" where
  "renewed cl account balances =
     [(''ok'', PBool True), (''api_kind'', PStr ''unofficial-reverse-engineered''), (''session_renewed'', PBool True),
      (''session_reused'', PBool (cl_session_reused cl)), (''account'', PStr (mask_account_id account)),
      (''balances_read'', PBool (balances \<noteq> []))]"

definition run_forced_session_renewal :: "('w, 'ses) session_ports \<Rightarrow> env \<Rightarrow> ('w, pyval dict) io" where
  "run_forced_session_renewal k env w =
     (let c = credentials_from_env (ss_secrets k) env True in
      if \<not> c_reuse_session c \<or> \<not> c_persist_session_cache c
      then (Inl (SafetyError ''Forced session renewal requires session reuse and cache persistence.''), w)
      else case connect (ss_sdk k) (ss_cache k) None c True True (new_client False) w of
        ((Some e, _), w1) \<Rightarrow> (Inl e, w1)
      | ((None, cl), w1) \<Rightarrow>
          bindIO (liftE (select_account (cl_account_data cl) (Some (env_or env ''FIRSTRADE_ACCOUNT'' [])))) (\<lambda>account.
          bindIO (get_balances (cl_account_data cl) account) (\<lambda>balances.
          bindIO (save_verified_session_cache (ss_cache k) None c (map_option (sdk_tokens (ss_sdk k)) (cl_session cl))) (\<lambda>_.
          returnIO (renewed cl account balances)))) w1)"

section \<open>One check per period\<close>

lemma dget_dupdate_absent: "k \<notin> set (dkeys e) \<Longrightarrow> dget (dupdate d e) k = dget d k"
  by (induction e arbitrary: d) (auto simp: dget_dset)

definition response_keys :: "string list" where
  "response_keys = [''session_check_policy'', ''session_check_policy_reason'', ''strategy_profile'', ''strategy_cadence'',
     ''strategy_required_inputs'', ''session_check_period'', ''session_check_last_checked_at'', ''session_check_policy_error'']"

lemma response_fields_keys: "set (dkeys (to_response_fields d)) \<subseteq> set response_keys"
  by (auto simp: to_response_fields_def if_text_def response_keys_def split: option.splits if_splits)

lemma pget_append: "pget a k \<noteq> PNone \<Longrightarrow> pget (a @ b) k = pget a k"
  by (auto simp: pget_def dget_or_def dget_def map_add_def split: option.splits)

lemma pget_response: "k \<notin> set response_keys \<Longrightarrow> pget (dupdate d (to_response_fields x)) k = pget d k"
proof -
  assume "k \<notin> set response_keys"
  then have "k \<notin> set (dkeys (to_response_fields x))" using response_fields_keys [of x] by blast
  from dget_dupdate_absent [OF this] show ?thesis by (simp add: pget_def dget_or_def)
qed

lemma check_result_persisted:
  "pget (check_result account reused snapshot d sn mn) ''session_check_maintenance_state_persisted'' = PBool (fst mn)"
proof -
  have "''session_check_maintenance_state_persisted'' \<notin> set response_keys" by (simp add: response_keys_def)
  note base = pget_response [OF this, where x = d]
  show ?thesis unfolding check_result_def append_assoc by (subst pget_append) (simp_all add: base)
qed

lemma skipped_check_says: "pget (skipped_check d) ''session_check_skipped'' = PBool True"
  "pget (skipped_check d) ''session_check_maintenance_state_persisted'' = PNone"
  by (simp_all add: skipped_check_def pget_response response_keys_def)

text \<open>Where a decision has a state key, it is due, and this is how it came about.\<close>

lemma decision_with_key:
  assumes "resolve_session_check_maintenance_decision loads resolve os store env now w = (d, w')"
    "sd_state_key d = Some key" "sd_should_run d" "store = Some s"
  obtains profile period reason c where "c = resolve_strategy_session_check_context loads resolve env" "cc_error c = None"
    "cc_profile c = Some profile" "profile \<noteq> []" "session_check_period (cc_cadence c) (cc_inputs c) now = (Some period, reason)"
    "key = session_check_state_key profile period env"
    "normalize_session_check_policy (Some (case env ''FIRSTRADE_SESSION_CHECK_POLICY'' of None \<Rightarrow> ''auto'' | Some s \<Rightarrow> s)) = ''auto''"
proof -
  define c where "c = resolve_strategy_session_check_context loads resolve env"
  define policy where "policy = normalize_session_check_policy (Some (case env ''FIRSTRADE_SESSION_CHECK_POLICY'' of None \<Rightarrow> ''auto'' | Some s \<Rightarrow> s))"
  note d = assms(1) [unfolded resolve_session_check_maintenance_decision_def Let_def, folded c_def policy_def]
  have plain: "sd_state_key (undated x y z u) = None" for x y z u by (simp add: undated_def)
  have p: "policy \<noteq> ''skip''" "policy \<noteq> ''always''" using d assms(2) plain by (auto split: if_splits)
  obtain profile where pr: "cc_profile c = Some profile" "profile \<noteq> []" "cc_error c = None"
    using d p assms(2) plain by (auto split: option.splits if_splits)
  obtain m reason where m: "session_check_period (cc_cadence c) (cc_inputs c) now = (m, reason)" by (rule prod.exhaust)
  have "m \<noteq> None" using d p pr m assms(2) by (cases m) (auto simp: plain)
  then obtain period where period: "m = Some period" by blast
  have "key = session_check_state_key profile period env"
    using d p pr m period assms(2,4) by (auto simp: period_decision_def Let_def split: prod.splits sum.splits option.splits if_splits)
  moreover have "policy = ''auto''" using p by (auto simp: policy_def normalize_session_check_policy_def Let_def split: if_splits)
  ultimately show ?thesis using that c_def pr m period unfolding policy_def by blast
qed

lemma store_maintenance_done:
  assumes "store_maintenance k store d account reused now w = ((True, e), w')"
  obtains s key where "store = Some s" "sd_state_key d = Some key"
    "write_json (ss_objects k) s key (maintenance_payload d account reused now) w = (Inr True, w')"
  using assms
  by (auto simp: store_maintenance_def reported_def persist_session_check_maintenance_def split: option.splits if_splits prod.splits sum.splits)

text \<open>The first check of a period that stored its state.\<close>

lemma run_session_check_stored:
  assumes "run_session_check k env w = (Inr r, w')" "pget r ''session_check_maintenance_state_persisted'' = PBool True"
  obtains s d w1 key account reused w2 where "build_store_from_env env = Some s"
    "resolve_session_check_maintenance_decision (ss_loads k) (ss_resolve k) (ss_objects k) (Some s) env (ss_now k w) w = (d, w1)"
    "sd_should_run d" "sd_state_key d = Some key"
    "write_json (ss_objects k) s key (maintenance_payload d account reused (ss_now k w)) w2 = (Inr True, w')"
proof -
  define store where "store = build_store_from_env env"
  obtain d w1 where d: "resolve_session_check_maintenance_decision (ss_loads k) (ss_resolve k) (ss_objects k) store env (ss_now k w) w = (d, w1)"
    by (rule prod.exhaust)
  note run = assms(1) [unfolded run_session_check_def Let_def, folded store_def]
  have runs: "sd_should_run d" using run d assms(2) by (auto simp: skipped_check_says split: if_splits)
  obtain cl w2 where a: "checked_account k env store d (ss_now k w) cl w2 = (Inr r, w')"
    using run d runs by (auto split: prod.splits option.splits)
  obtain account snapshot w3 where t: "(case store_snapshot k env store snapshot (ss_now k w) w3 of (sn, w4) \<Rightarrow>
      case store_maintenance k store d account (cl_session_reused cl) (ss_now k w) w4 of (mn, w5) \<Rightarrow>
        (Inr (check_result account (cl_session_reused cl) snapshot d sn mn), w5)) = (Inr r :: pyval dict exc, w')"
    using a unfolding checked_account_def bindIO_Inr Let_def by blast
  obtain sn w4 where sn: "store_snapshot k env store snapshot (ss_now k w) w3 = (sn, w4)" by (rule prod.exhaust)
  obtain mn w5 where m: "store_maintenance k store d account (cl_session_reused cl) (ss_now k w) w4 = (mn, w5)" by (rule prod.exhaust)
  have mn: "store_maintenance k store d account (cl_session_reused cl) (ss_now k w) w4 = (mn, w')"
    "r = check_result account (cl_session_reused cl) snapshot d sn mn"
    using t m by (simp_all add: sn)
  have "fst mn" using assms(2) by (simp add: mn(2) check_result_persisted)
  then obtain e where e: "mn = (True, e)" by (cases mn) auto
  obtain s key where "store = Some s" "sd_state_key d = Some key"
    "write_json (ss_objects k) s key (maintenance_payload d account (cl_session_reused cl) (ss_now k w)) w4 = (Inr True, w')"
    by (rule store_maintenance_done [OF mn(1) [unfolded e]])
  with d runs that show ?thesis unfolding store_def by metis
qed

lemma read_json_found:
  assumes "object_uri s key = Inr u" "fst (os_read os u w) = Inr (Some t)" "json_loads os t = Some (PDict d)"
  shows "read_json os s key w = (Inr (Some d), snd (os_read os u w))"
  using assms by (cases "os_read os u w") (simp add: read_json_def bindIO_def liftE_def)


text \<open>The cache is read without password and codes.\<close>

definition same_cache :: "credentials \<Rightarrow> credentials \<Rightarrow> bool" where
  "same_cache c c' \<longleftrightarrow>
     c_username c = c_username c' \<and> c_cookie_dir c = c_cookie_dir c' \<and> c_reuse_session c = c_reuse_session c'
     \<and> c_session_cache_ttl_seconds c = c_session_cache_ttl_seconds c' \<and> c_persist_session_cache c = c_persist_session_cache c'
     \<and> c_gcs_state_bucket c = c_gcs_state_bucket c' \<and> c_gcs_state_prefix c = c_gcs_state_prefix c'"

lemma same_cache_loads:
  assumes "same_cache c c'"
  shows "load_read_only_session_cache ch explicit c = load_read_only_session_cache ch explicit c'" "cache_ttl c = cache_ttl c'"
proof -
  have valid: "valid_now ch c p = valid_now ch c' p" for p
    using assms by (simp add: fun_eq_iff same_cache_def valid_now_def cache_ttl_def)
  have place: "session_state_store explicit c = session_state_store explicit c'" "session_state_key d c = session_state_key d c'"
    "session_cache_path d c = session_cache_path d c'" for d
    using assms by (auto simp: same_cache_def session_state_store_def session_state_key_def session_cache_path_def session_cache_identity_def
        split: option.split)
  have same: "c_reuse_session c = c_reuse_session c'" "c_persist_session_cache c = c_persist_session_cache c'" "cache_ttl c = cache_ttl c'"
    using assms by (simp_all add: same_cache_def cache_ttl_def)
  show "load_read_only_session_cache ch explicit c = load_read_only_session_cache ch explicit c'"
    unfolding load_read_only_session_cache_def load_session_cache_def valid place same ..
  show "cache_ttl c = cache_ttl c'" using assms by (simp add: same_cache_def cache_ttl_def)
qed

lemma login_fields_unread: "same_cache (credentials_from_env secrets env False) (credentials_from_env secrets env True)"
  unfolding same_cache_def credentials_from_env_def credentials.simps by (intro conjI refl)


text \<open>A broker, a cache and a store to show that the hypotheses can hold.\<close>

definition sample_check_account :: "(string \<Rightarrow> string option) account_data" where
  "sample_check_account =
     \<lparr> ad_account_numbers = [PStr ''12345678''], ad_account_balances = [], ad_get_balances = (\<lambda>a. returnIO (PDict [(''cash'', PInt 5)])),
       ad_get_positions = (\<lambda>a. returnIO (PDict [])), ad_get_orders = (\<lambda>a n. returnIO (PDict [])) \<rparr>"

definition sample_check_ports :: "(string \<Rightarrow> string option, nat) session_ports" where
  "sample_check_ports =
     \<lparr> ss_sdk = \<lparr> sdk_session = (\<lambda>_ _. returnIO 0), sdk_login = (\<lambda>_. returnIO False), sdk_login_two = (\<lambda>_ _. returnIO ()),
         sdk_restore = (\<lambda>_ _. returnIO ()), sdk_account_data = (\<lambda>_. returnIO sample_check_account), sdk_tokens = (\<lambda>_ _. sample_tokens),
         sdk_close = (\<lambda>_ w. w), sdk_read_only_session = returnIO 1, sdk_read_only_account = (\<lambda>_ _. Return sample_check_account),
         sdk_history = (\<lambda>_ _ _ _. Return []), sdk_history_url = (\<lambda>_ _ _. []),
         sdk_transport = (\<lambda>_ w. (Inr \<lparr> rsp_status = 200, rsp_content = ''{}'', rsp_json = None \<rparr>, w)) \<rparr>,
       ss_cache = document_cache,
       ss_objects = map_store \<lparr> json_dumps := (\<lambda>_. ''doc''), json_loads := (\<lambda>_. Some (PDict [(''checked_at'', PStr ''t'')])) \<rparr>,
       ss_secrets = (\<lambda>_. Inl (PlatformError ''no secret'')), ss_now = (\<lambda>_. sample_time), ss_loads = (\<lambda>_. Inr PNone),
       ss_resolve = (\<lambda>p. Inr (p, Some ''monthly'', [])) \<rparr>"

definition sample_check_env :: env where
  "sample_check_env = map_of [(''FIRSTRADE_USERNAME'', ''u''), (''FIRSTRADE_PASSWORD'', ''p''), (''FIRSTRADE_REUSE_SESSION'', ''true''),
     (''FIRSTRADE_PERSIST_SESSION_CACHE'', ''true''), (''FIRSTRADE_GCS_STATE_BUCKET'', ''b''), (''STRATEGY_PROFILE'', ''soxl'')]"

lemma sample_check_laws:
  "object_store_laws (ss_objects sample_check_ports) (\<lambda>w. w)" "object_store_laws (cp_store (ss_cache sample_check_ports)) (\<lambda>w. w)"
  by (simp_all add: object_store_laws_def map_store_def sample_check_ports_def document_cache_def)

text \<open>A run that returned, with a test of its answer.\<close>

lemma returned_with:
  assumes "case m of (Inr r, _) \<Rightarrow> P r | (Inl _, _) \<Rightarrow> False"
  obtains r w' where "m = (Inr r, w')" "P r"
  using assms by (cases m; cases "fst m") auto

lemma sample_check_stores:
  "case run_session_check sample_check_ports sample_check_env Map.empty of
     (Inr r, _) \<Rightarrow> (case pget r ''session_check_maintenance_state_persisted'' of PBool b \<Rightarrow> b | _ \<Rightarrow> False) | (Inl _, _) \<Rightarrow> False"
  by code_simp


lemma sample_renewal_returns:
  "case run_forced_session_renewal sample_check_ports sample_check_env Map.empty of (Inr r, _) \<Rightarrow> True | (Inl _, _) \<Rightarrow> False"
  by code_simp

lemma sample_age: "age_within (Fin 1000) (cache_ttl (credentials_from_env (\<lambda>_. Inl (PlatformError ''no secret'')) sample_check_env False)) (Fin 1000)"
  by code_simp


end
