(* ===== verification/RunTickets.thy ===== *)
theory RunTickets
  imports RunProperties
begin

text \<open>
  What reaches the broker from a whole run: the run's ports with the broker adapters of
  \<open>run_strategy_cycle\<close> in place, over an SDK that records the tickets it is given.
\<close>

section \<open>The adapters of a run\<close>

definition run_adapters :: "run_settings \<Rightarrow> bool \<Rightarrow> string \<Rightarrow> string list \<Rightarrow> adapters" where
  "run_adapters st ack account symbols =
     \<lparr> a_account = account, a_strategy_symbols = symbols, a_account_hash = Some (mask_account_id account),
       a_live_orders = (\<not> s_dry_run_only st), a_live_order_ack = ack,
       a_max_order_notional_usd = s_max_order_notional_usd st, a_cash_only_execution = s_cash_only_execution st \<rparr>"

definition with_broker ::
  "(order_ticket \<Rightarrow> 'w \<Rightarrow> pyval exc \<times> 'w) \<Rightarrow> bool \<Rightarrow> run_settings \<Rightarrow> adapters \<Rightarrow> 'w run_ports \<Rightarrow> 'w run_ports" where
  "with_broker sdk is_connected st a rp =
     rp \<lparr> rp_submit := submit_intent (\<lambda>r dry ack. place_stock_order sdk is_connected (s_live_trading_enabled st) r dry ack) a \<rparr>"

section \<open>Tickets\<close>

text \<open>A ticket of the run: for its account, a preview exactly in a dry run, live only with both switches.\<close>

definition run_ticket :: "run_settings \<Rightarrow> bool \<Rightarrow> string \<Rightarrow> order_ticket \<Rightarrow> bool" where
  "run_ticket st ack account t \<longleftrightarrow>
     t_account t = account \<and> t_dry_run t = s_dry_run_only st
     \<and> (s_dry_run_only st \<or> (s_live_trading_enabled st \<and> ack))
     \<and> (if t_notional t then t_order_type t = BUY \<and> t_price_type t = MARKET \<and> \<not> t_price t \<le> 0 else 0 < t_quantity t)"

definition sends_tickets :: "('w \<Rightarrow> order_ticket list) \<Rightarrow> (order_ticket \<Rightarrow> bool) \<Rightarrow> 'w \<Rightarrow> 'w \<Rightarrow> bool" where
  "sends_tickets tickets P w w' \<longleftrightarrow> (\<exists>new. tickets w' = tickets w @ new \<and> list_all P new)"

lemma sends_tickets_pre: "reflp (sends_tickets tickets P)" "transp (sends_tickets tickets P)"
proof -
  show "reflp (sends_tickets tickets P)" by (rule reflpI) (simp add: sends_tickets_def)
  show "transp (sends_tickets tickets P)"
  proof (rule transpI)
    fix a b c assume "sends_tickets tickets P a b" "sends_tickets tickets P b c"
    then obtain n m where "tickets b = tickets a @ n" "list_all P n" "tickets c = tickets b @ m" "list_all P m"
      by (auto simp: sends_tickets_def)
    then show "sends_tickets tickets P a c" unfolding sends_tickets_def by (intro exI [of _ "n @ m"]) simp
  qed
qed

lemma same_sends: "tickets w' = tickets w \<Longrightarrow> sends_tickets tickets P w w'"
  by (simp add: sends_tickets_def)

lemma silent_sends: "silent held tickets w w' \<Longrightarrow> sends_tickets tickets P w w'"
  by (simp add: silent_def same_sends)

definition records_tickets :: "(order_ticket \<Rightarrow> 'w \<Rightarrow> pyval exc \<times> 'w) \<Rightarrow> ('w \<Rightarrow> order_ticket list) \<Rightarrow> bool" where
  "records_tickets sdk tickets \<longleftrightarrow> (\<forall>t w. tickets (snd (sdk t w)) = tickets w @ [t])"

lemma ticket_ok_run_ticket:
  "ticket_ok (s_dry_run_only st) (s_live_trading_enabled st) ack cap t \<Longrightarrow> t_account t = account \<Longrightarrow> run_ticket st ack account t"
  by (auto simp: ticket_ok_def run_ticket_def)

lemma submit_sends:
  assumes "records_tickets sdk tickets"
  shows "steps_along (sends_tickets tickets (run_ticket st ack account))
     (rp_submit (with_broker sdk is_connected st (run_adapters st ack account symbols) rp) i)"
  unfolding steps_along_def
proof
  fix w
  define a where "a = run_adapters st ack account symbols"
  have a: "a_live_orders a = (\<not> s_dry_run_only st)" "a_live_order_ack a = ack" "a_account a = account"
    by (simp_all add: a_def run_adapters_def)
  define after where "after = snd (submit_intent (\<lambda>r dry ack. place_stock_order sdk is_connected (s_live_trading_enabled st) r dry ack) a i w)"
  from submit_intent_effect [of sdk is_connected "s_live_trading_enabled st" a i w]
  have "sends_tickets tickets (run_ticket st ack account) w after"
  proof (elim disjE exE conjE)
    assume "snd (submit_intent (\<lambda>r dry ack. place_stock_order sdk is_connected (s_live_trading_enabled st) r dry ack) a i w) = w"
    then show ?thesis by (simp add: after_def same_sends)
  next
    fix t
    assume t: "t_account t = a_account a"
      "ticket_ok (\<not> a_live_orders a) (s_live_trading_enabled st) (a_live_order_ack a)
         (case i_max_notional_usd i of None \<Rightarrow> a_max_order_notional_usd a | Some c \<Rightarrow> Some c) t"
      "snd (submit_intent (\<lambda>r dry ack. place_stock_order sdk is_connected (s_live_trading_enabled st) r dry ack) a i w) = snd (sdk t w)"
    have "run_ticket st ack account t" using ticket_ok_run_ticket t(1,2) unfolding a by simp
    then show ?thesis
      using assms t(3) unfolding sends_tickets_def after_def
      by (intro exI [of _ "[t]"]) (simp add: records_tickets_def)
  qed
  then show "sends_tickets tickets (run_ticket st ack account) w
      (snd (rp_submit (with_broker sdk is_connected st (run_adapters st ack account symbols) rp) i w))"
    by (simp add: with_broker_def after_def a_def)
qed

section \<open>Execution along a preorder\<close>

text \<open>Where every port follows a preorder, the execution of a plan does, live or not.\<close>

lemma execute_plan_along:
  assumes R: "reflp R" "transp R"
    and "\<And>s. steps_along R (rp_get_quote rp s)" "\<And>i. steps_along R (rp_submit rp i)" "\<And>os. steps_along R (rp_release rp os)"
    and "\<And>c. R (fst c) (fst (snd (acquire_submission_claim os store st p c)))"
  shows "steps_along R (execute_plan k drift os store st p rp)"
  unfolding steps_along_def
proof
  fix w
  define ports where "ports = cycle_ports os store st p rp"
  have follow: "R w x \<Longrightarrow> R x y \<Longrightarrow> R w y" for x y using R(2) by (rule transpD)
  have lifted: "R (fst c) (fst c')" if "steps_along R m" "lift_fst m c = (r, c')" for m c r c'
    using that by (auto simp: lift_fst_def steps_along_def split: prod.splits) (metis snd_conv)
  have gate: "order_gate ports (s_dry_run_only st) (\<lambda>c. R w (fst c)) (\<lambda>_. True) (\<lambda>_. True)"
  proof
    fix c s r c' assume "R w (fst c)" "get_quote ports s c = (r, c')"
    then show "R w (fst c') \<and> (True \<longrightarrow> True)"
      using follow lifted [OF assms(3) [of s], of c r c'] by (auto simp: ports_def cycle_ports_def)
  next
    fix c ol r c' assume "R w (fst c)" "confirmed_sell_release ports ol c = (r, c')"
    then show "R w (fst c') \<and> (True \<longrightarrow> True)"
      using follow lifted [OF assms(5) [of ol], of c r c'] by (auto simp: ports_def cycle_ports_def)
  next
    fix m c r c' assume "before_live_submission ports = Some m" "R w (fst c)" "m c = (r, c')"
    then show "R w (fst c') \<and> (True \<longrightarrow> True) \<and> (r = Inr True \<longrightarrow> True)"
      using follow assms(6) [of c] by (auto simp: ports_def cycle_ports_def split: if_splits)
  next
    fix c i r c' assume "R w (fst c)" "submit_port ports i c = (r, c')"
    then show "R w (fst c') \<and> (\<forall>q. r = Inr q \<longrightarrow>
        alnum_lower (py_strip (p_status q)) \<in> insert ''rejected'' (set accepted_order_statuses) \<longrightarrow> True)"
      using follow lifted [OF assms(4) [of i], of c r c'] by (auto simp: ports_def cycle_ports_def)
  qed simp
  define run where "run = execute_value_target_plan k ports drift (cycle_options st) (k_plan p)"
  have "spec (\<lambda>c. R w (fst c) \<and> True) run (\<lambda>_ c. R w (fst c)) (\<lambda>c. R w (fst c))"
    unfolding run_def by (rule order_gate.execute_spec [OF gate]) (simp add: cycle_options_def)
  from spec_snd [OF this, of "(w, False)"] reflpD [OF R(1)] have "R w (fst (snd (run (w, False))))" by simp
  then show "R w (snd (execute_plan k drift os store st p rp w))"
    by (auto simp: execute_plan_def run_def ports_def split: prod.splits sum.splits)
qed

lemma claim_same_sent:
  assumes "store_sends_nothing os sent"
  shows "sent (fst (snd (acquire_submission_claim os store st p c))) = sent (fst c)"
  using create_json_sent [OF assms]
  by (auto simp: acquire_submission_claim_def claim_live_strategy_run_def split: option.splits prod.splits sum.splits bool.splits)
     (metis snd_conv)+

lemma run_sends_tickets:
  assumes sdk: "records_tickets sdk tickets" and q: "store_sends_nothing os tickets"
    and e: "broker_effects (\<lambda>_. Map.empty) tickets rp"
    and "rp' = with_broker sdk is_connected st (run_adapters st ack account symbols) rp"
  shows "steps_along (sends_tickets tickets (run_ticket st ack account)) (run_after_plan k drift oc voc np send os store st p rc rp')"
proof -
  define R where "R = sends_tickets tickets (run_ticket st ack account)"
  have pre: "reflp R" "transp R" unfolding R_def by (rule sends_tickets_pre)+
  have same: "R w w'" if "tickets w' = tickets w" for w w' unfolding R_def using that by (rule same_sends)
  have e': "broker_effects (\<lambda>_. Map.empty) tickets rp'"
    using e by (auto simp: assms(4) with_broker_def broker_effects_def steps_along_def keeps_objects_def)
  have silent: "R w w'" if "silent (\<lambda>_. Map.empty) tickets w w'" for w w' unfolding R_def using that by (rule silent_sends)
  have store: "store_steps os store R"
    by unfold_locales
       (use pre in \<open>auto simp: steps_along_def intro: same read_json_sent [OF q] write_json_sent [OF q]\<close>)
  have "steps_along R (dispatch_alerts rp')" "steps_along R (notify np send rp' r)" for r
    by (rule dispatch_steps [OF pre(1) silent e'], assumption) (rule notify_steps [OF pre silent e'], assumption)
  moreover have "steps_along R (execute_plan k drift os store st p rp')"
  proof (rule execute_plan_along [OF pre])
    show "steps_along R (rp_get_quote rp' x)" "steps_along R (rp_release rp' y)" for x y
      using e' by (auto simp: broker_effects_def intro: steps_mono [OF _ silent])
    show "steps_along R (rp_submit rp' i)" for i
      unfolding R_def assms(4) by (rule submit_sends [OF sdk])
    show "R (fst c) (fst (snd (acquire_submission_claim os store st p c)))" for c
      by (rule same [OF claim_same_sent [OF q]])
  qed
  ultimately show ?thesis unfolding R_def [symmetric] by (intro store_steps.whole_run_steps [OF store])
qed

section \<open>A broker that keeps the tickets\<close>

text \<open>A world of stored objects and of the tickets the broker was given.\<close>

type_synonym ticket_world = "(string \<Rightarrow> string option) \<times> order_ticket list"

definition ticket_sdk :: "order_ticket \<Rightarrow> ticket_world \<Rightarrow> pyval exc \<times> ticket_world" where
  "ticket_sdk t w = (Inr (PDict [(''order_id'', PStr ''7'')]), (fst w, snd w @ [t]))"

definition ticket_store :: "ticket_world object_store" where
  "ticket_store =
     \<lparr> os_read = (\<lambda>u w. (Inr (fst w u), w)), os_write = (\<lambda>u d w. (True, ((fst w)(u \<mapsto> d), snd w))),
       os_create = (\<lambda>b n d w. if fst w (object_at b n) = None then (Created, ((fst w)(object_at b n \<mapsto> d), snd w)) else (Conflict, w)),
       json_dumps = (\<lambda>_. ''{}''), json_loads = (\<lambda>t. Some (PDict [(''as_of'', PStr t)])) \<rparr>"

definition ticket_ports :: "ticket_world run_ports" where
  "ticket_ports =
     \<lparr> rp_get_quote = (\<lambda>s. returnIO (PFloat (Fin 10))), rp_submit = (\<lambda>i. raiseIO ZeroDivisionError),
       rp_release = (\<lambda>os. returnIO 0), rp_dispatch_alerts = None,
       rp_publish = (\<lambda>r. returnIO True), rp_cover_routine = (\<lambda>r. returnIO (False, r)) \<rparr>"

end
