(* ===== verification/DecisionPlan.thy ===== *)
theory DecisionPlan
  imports ExecBudget RunPersistence
begin

text \<open>
  \<open>decision_mapper.py\<close>: from a strategy decision to the plan that the cycle executes. The
  contracts of \<open>quant_platform_kit\<close> and \<open>us_equity_strategies\<close> are parameters; of their
  data classes only the fields that the source reads or sets are known, the rest is kept
  as it is in \<open>pt_rest\<close> and \<open>vs_rest\<close>.
\<close>

section \<open>Data\<close>

record 'x position_target =
  pt_symbol :: string
  pt_target_value :: "pyfloat option"
  pt_role :: "string option"
  pt_order_preference :: pyval
  pt_rest :: 'x

record 'x decision =
  d_positions :: "'x position_target list"
  d_risk_flags :: "string list"
  d_diagnostics :: "pyval dict"

record portfolio_inputs =
  pi_total_equity :: pyfloat
  pi_liquid_cash :: pyfloat
  pi_market_values :: "pyfloat dict"

record 'y semantics =
  vs_trade_threshold_value :: pyfloat
  vs_reserved_cash :: "pyfloat option"
  vs_signal_date :: string
  vs_effective_date :: string
  vs_execution_timing_contract :: string
  vs_execution_calendar_source :: string
  vs_signal_effective_after_trading_days :: "int option"
  vs_benchmark_symbol :: "string option"
  vs_benchmark_price :: "pyfloat option"
  vs_long_trend_value :: "pyfloat option"
  vs_exit_line :: "pyfloat option"
  vs_current_min_trade :: "pyfloat option"
  vs_investable_cash :: "pyfloat option"
  vs_rest :: 'y

record display =
  sd_signal_display :: string
  sd_status_display :: string
  sd_dashboard_text :: string

text \<open>
  The parameters: \<open>weight_equity\<close> answers the equity to translate with, whether execution is
  blocked, and whether the account is being deleveraged; \<open>default_pt\<close> and \<open>default_vs\<close> are
  the fields that the source leaves at their defaults.
\<close>

record ('s, 'x, 'y) contracts =
  canonical_profile :: "string \<Rightarrow> string exc"
  inputs_of :: "'s \<Rightarrow> bool \<Rightarrow> portfolio_inputs exc"
  snapshot_metadata :: "'s \<Rightarrow> pyval dict"
  target_mode :: "'x decision \<Rightarrow> string exc"
  weight_equity :: "portfolio_inputs \<Rightarrow> bool \<Rightarrow> (pyfloat \<times> bool \<times> bool) exc"
  to_value_mode :: "'x decision \<Rightarrow> pyfloat \<Rightarrow> 'x decision exc"
  annotation_parts :: "'x decision \<Rightarrow> ('y semantics \<times> display) exc"
  runtime_plan :: "'x decision \<Rightarrow> string \<Rightarrow> portfolio_inputs \<Rightarrow> 'y semantics \<Rightarrow> display \<Rightarrow> pyval dict exc"
  default_pt :: 'x
  default_vs :: 'y

section \<open>Roles, thresholds and reserves\<close>

definition safe_haven_symbols :: "string list" where
  "safe_haven_symbols = [''BOXX'', ''BIL'']"

definition income_symbols :: "string list" where
  "income_symbols = [''QQQI'', ''SPYI'']"

definition symbol_role :: "string \<Rightarrow> string option" where
  "symbol_role s =
     (let n = symbol_of (PStr s) in
      if n \<in> set safe_haven_symbols then Some ''safe_haven''
      else if n \<in> set income_symbols then Some ''income'' else None)"

definition default_min_trade_floor :: pyfloat where
  "default_min_trade_floor = fl 100"

definition default_rebalance_threshold_ratio :: pyfloat where
  "default_rebalance_threshold_ratio = fl (1 / 100)"

definition default_threshold_value :: "pyfloat \<Rightarrow> pyfloat" where
  "default_threshold_value equity = pmax default_min_trade_floor (equity * default_rebalance_threshold_ratio)"

definition meta_or_empty :: "pyval dict option \<Rightarrow> pyval dict" where
  "meta_or_empty m = (case m of None \<Rightarrow> [] | Some d \<Rightarrow> d)"

definition resolve_platform_reserved_cash :: "pyfloat \<Rightarrow> pyval dict option \<Rightarrow> pyfloat exc" where
  "resolve_platform_reserved_cash equity meta =
     (case pget (meta_or_empty meta) ''firstrade_execution_policy'' of
        PDict policy \<Rightarrow>
          bindE (float_or0 (dget_or policy ''reserved_cash_floor_usd'' (PFloat 0))) (\<lambda>floor.
          bindE (float_or0 (dget_or policy ''reserved_cash_ratio'' (PFloat 0))) (\<lambda>ratio.
          Inr (pmax (pmax 0 floor) (pmax 0 equity * pmax 0 (pmin (fl 1) ratio)))))
      | _ \<Rightarrow> Inr 0)"

definition opt_or0 :: "pyfloat option \<Rightarrow> pyfloat" where
  "opt_or0 x = (case x of None \<Rightarrow> 0 | Some y \<Rightarrow> if ftrue y then y else 0)"

definition apply_reserved_cash_policy ::
  "'y semantics \<Rightarrow> portfolio_inputs \<Rightarrow> pyval dict option \<Rightarrow> 'y semantics exc" where
  "apply_reserved_cash_policy vs inp meta =
     bindE (resolve_platform_reserved_cash (pi_total_equity inp) meta) (\<lambda>platform.
     let reserved = pmax (opt_or0 (vs_reserved_cash vs)) platform;
         base = (case vs_investable_cash vs of
                   None \<Rightarrow> pmax 0 (pi_liquid_cash inp - opt_or0 (vs_reserved_cash vs)) | Some c \<Rightarrow> c)
     in Inr (vs \<lparr> vs_reserved_cash := Some reserved,
                  vs_investable_cash := Some (pmin (pmax 0 base) (pmax 0 (pi_liquid_cash inp - reserved))) \<rparr>))"

section \<open>Decisions that hold\<close>

definition build_hold_current_value_decision ::
  "('s, 'x, 'y) contracts \<Rightarrow> portfolio_inputs \<Rightarrow> pyval dict \<Rightarrow> 'x decision" where
  "build_hold_current_value_decision k inp diagnostics =
     \<lparr> d_positions = map (\<lambda>s. \<lparr> pt_symbol = s, pt_target_value = Some (dget_or (pi_market_values inp) s 0),
          pt_role = symbol_role s, pt_order_preference = PNone, pt_rest = default_pt k \<rparr>)
          (sort (dkeys (pi_market_values inp))),
       d_risk_flags = [''no_execute''], d_diagnostics = diagnostics \<rparr>"

definition role_or :: "string option \<Rightarrow> string option \<Rightarrow> string option" where
  "role_or r z = (if r = None \<or> r = Some [] then z else r)"

definition build_zero_equity_no_execute_decision ::
  "('s, 'x, 'y) contracts \<Rightarrow> 'x decision \<Rightarrow> portfolio_inputs \<Rightarrow> pyval dict \<Rightarrow> 'x decision" where
  "build_zero_equity_no_execute_decision k d inp diagnostics =
     (if pi_market_values inp \<noteq> [] then build_hold_current_value_decision k inp diagnostics
      else \<lparr> d_positions = map (\<lambda>p. \<lparr> pt_symbol = pt_symbol p, pt_target_value = Some 0,
                pt_role = role_or (pt_role p) (symbol_role (pt_symbol p)),
                pt_order_preference = pt_order_preference p, pt_rest = default_pt k \<rparr>) (d_positions d),
             d_risk_flags = dedup (d_risk_flags d @ [''no_execute'']), d_diagnostics = diagnostics \<rparr>)"

section \<open>Annotations of a translated decision\<close>

fun first_truthy :: "pyval list \<Rightarrow> pyval" where
  "first_truthy [] = PStr []"
| "first_truthy (v # vs) = (if truthy v then v else first_truthy vs)"

definition text_of :: "pyval list \<Rightarrow> string" where
  "text_of vs = py_str (first_truthy vs)"

definition opt_number :: "pyval \<Rightarrow> pyfloat option exc" where
  "opt_number v = (if v = PNone then Inr None else bindE (py_float v) (\<lambda>x. Inr (Some x)))"

definition update_mapping :: "pyval dict \<Rightarrow> pyval \<Rightarrow> pyval dict" where
  "update_mapping d v = (case v of PDict e \<Rightarrow> dupdate d e | _ \<Rightarrow> d)"

definition merged_annotations :: "pyval dict option \<Rightarrow> pyval dict \<Rightarrow> pyval dict" where
  "merged_annotations meta diagnostics =
     update_mapping (update_mapping [] (pget (meta_or_empty meta) ''execution_annotations''))
       (pget diagnostics ''execution_annotations'')"

definition signal_delay :: "pyval dict \<Rightarrow> pyval dict \<Rightarrow> int option exc" where
  "signal_delay ann diagnostics =
     (let v = dget_or ann ''signal_effective_after_trading_days'' (pget diagnostics ''signal_effective_after_trading_days'')
      in if v = PNone then Inr None else bindE (py_int v) (\<lambda>n. Inr (Some n)))"

definition build_weight_translation_annotations ::
  "('s, 'x, 'y) contracts \<Rightarrow> 'x decision \<Rightarrow> pyfloat \<Rightarrow> pyfloat \<Rightarrow> pyval dict option \<Rightarrow> ('y semantics \<times> display) exc" where
  "build_weight_translation_annotations k d equity liquid meta =
     (let diag = dupdate (meta_or_empty meta) (d_diagnostics d);
          ann = merged_annotations meta diag; threshold = default_threshold_value equity;
          annotated = (\<lambda>f. text_of [pget ann f, pget diag f]);
          benchmark = symbol_of (pget diag ''benchmark_symbol'')
      in bindE (signal_delay ann diag) (\<lambda>delay.
         bindE (opt_number (pget diag ''benchmark_price'')) (\<lambda>benchmark_price.
         bindE (opt_number (pget diag ''long_trend_value'')) (\<lambda>trend.
         bindE (opt_number (pget diag ''exit_line'')) (\<lambda>exit_line.
         Inr (\<lparr> vs_trade_threshold_value = threshold, vs_reserved_cash = Some 0,
                vs_signal_date = annotated ''signal_date'', vs_effective_date = annotated ''effective_date'',
                vs_execution_timing_contract = annotated ''execution_timing_contract'',
                vs_execution_calendar_source = annotated ''execution_calendar_source'',
                vs_signal_effective_after_trading_days = delay,
                vs_benchmark_symbol = (if benchmark = [] then None else Some benchmark),
                vs_benchmark_price = benchmark_price, vs_long_trend_value = trend, vs_exit_line = exit_line,
                vs_current_min_trade = Some threshold, vs_investable_cash = Some (pmax 0 liquid),
                vs_rest = default_vs k \<rparr>,
              \<lparr> sd_signal_display = py_strip (text_of (map (pget diag) [''signal_description'', ''signal_display'', ''signal_message''])),
                sd_status_display = py_strip (text_of (map (pget diag) [''status_description'', ''market_status'', ''canary_status''])),
                sd_dashboard_text = text_of [pget ann ''dashboard_text'', pget diag ''dashboard''] \<rparr>))))))"

section \<open>Decisions in values\<close>

definition normalize_to_value_decision ::
  "('s, 'x, 'y) contracts \<Rightarrow> 'x decision \<Rightarrow> portfolio_inputs \<Rightarrow> pyval dict option \<Rightarrow> bool \<Rightarrow>
   ('x decision \<times> ('y semantics \<times> display) option) exc" where
  "normalize_to_value_decision k d inp meta cash_only =
     bindE (target_mode k d) (\<lambda>mode.
     let no_execute = ''no_execute'' \<in> set (d_risk_flags d);
         diag = dupdate (meta_or_empty meta) (d_diagnostics d)
     in if mode = ''value'' \<and> \<not> no_execute then Inr (d, None)
        else if mode = ''weight'' \<and> \<not> no_execute
        then bindE (weight_equity k inp cash_only) (\<lambda>(equity, block, deleverage).
             if block
             then bindE (build_weight_translation_annotations k d (pi_total_equity inp) (pi_liquid_cash inp) meta) (\<lambda>a.
                  Inr (build_zero_equity_no_execute_decision k d inp
                         (dset (dset diag ''execution_blocked_reason'' (PStr ''non_positive_total_equity''))
                               ''portfolio_total_equity'' (PFloat (pi_total_equity inp))), Some a))
             else bindE (to_value_mode k (if deleverage then d \<lparr> d_diagnostics := dset (d_diagnostics d) ''cash_only_deleverage_mode'' (PBool True) \<rparr>
                                          else d) equity) (\<lambda>t.
                  bindE (build_weight_translation_annotations k d equity (pi_liquid_cash inp) meta) (\<lambda>a.
                  Inr (t, Some a))))
        else Inr (build_hold_current_value_decision k inp diag, None))"

definition lacks_threshold :: "pyexc \<Rightarrow> bool" where
  "lacks_threshold e = (case e of OtherException n m \<Rightarrow>
     n = ''StrategyContractValidationError'' \<and> contains m ''requires trade_threshold_value'' | _ \<Rightarrow> False)"

definition with_default_threshold :: "'x decision \<Rightarrow> portfolio_inputs \<Rightarrow> 'x decision" where
  "with_default_threshold d inp =
     (let ann = (case pget (d_diagnostics d) ''execution_annotations'' of PDict a \<Rightarrow> a | _ \<Rightarrow> [])
      in d \<lparr> d_diagnostics := dset (d_diagnostics d) ''execution_annotations''
             (PDict (dset ann ''trade_threshold_value'' (PFloat (default_threshold_value (pi_total_equity inp))))) \<rparr>)"

definition build_annotations ::
  "('s, 'x, 'y) contracts \<Rightarrow> 'x decision \<Rightarrow> portfolio_inputs \<Rightarrow> ('y semantics \<times> display) exc" where
  "build_annotations k d inp =
     bindE (case annotation_parts k d of
              Inl e \<Rightarrow> (if lacks_threshold e then annotation_parts k (with_default_threshold d inp) else Inl e)
            | Inr p \<Rightarrow> Inr p) (\<lambda>(vs, sd).
     bindE (case vs_investable_cash vs of
              Some c \<Rightarrow> Inr c
            | None \<Rightarrow> (case vs_reserved_cash vs of
                None \<Rightarrow> Inl (TypeError ''unsupported operand type(s) for -'')
              | Some r \<Rightarrow> Inr (pmax 0 (pi_liquid_cash inp - r)))) (\<lambda>cash.
     Inr (vs \<lparr> vs_current_min_trade := Some (case vs_current_min_trade vs of
                  None \<Rightarrow> vs_trade_threshold_value vs | Some m \<Rightarrow> m),
               vs_investable_cash := Some cash \<rparr>, sd)))"

section \<open>The plan\<close>

text \<open>The fields a diagnosis hands to the execution part of a plan, in the code's order.\<close>

definition delever_fields :: "string list" where
  "delever_fields = map ((@) ''dual_drive_volatility_delever_'')
     [''enabled'', ''window'', ''threshold_mode'', ''threshold'', ''exit_threshold'', ''dynamic_threshold'',
      ''dynamic_sample_count'', ''dynamic_lookback'', ''dynamic_percentile'', ''dynamic_min_periods'', ''dynamic_floor'',
      ''dynamic_cap'', ''metric'', ''triggered'', ''entry_triggered'', ''hysteresis_triggered'', ''trigger_reason'',
      ''applied'', ''vetoed'', ''veto_reason'', ''taco_veto_enabled'', ''taco_rebound_context_active'',
      ''true_crisis_active'', ''retention_mode'', ''retention_policy'', ''retention_ratio'', ''retention_source'',
      ''retention_context_found'', ''retention_reason_codes'', ''redirect_symbol'', ''source_value'', ''retained_value'',
      ''removed_value'', ''retained_ratio'', ''redirected_ratio'']"

definition tqqq_risk_control_execution_fields :: "string list" where
  "tqqq_risk_control_execution_fields = delever_fields
     @ map ((@) ''dual_drive_macro_risk_governor_'')
         [''enabled'', ''found'', ''route'', ''active'', ''applied'', ''leverage_scalar'', ''risk_asset_scalar'',
          ''removed_value'', ''redirected_to_unlevered'']
     @ map ((@) ''dual_drive_crisis_defense_'') [''enabled'', ''triggered'', ''applied'', ''destination'', ''removed_value'']"

definition soxl_risk_control_execution_fields :: "string list" where
  "soxl_risk_control_execution_fields = map ((@) ''blend_gate_volatility_delever_'')
     [''enabled'', ''symbol'', ''window'', ''threshold_mode'', ''threshold'', ''dynamic_threshold'', ''dynamic_sample_count'',
      ''dynamic_lookback'', ''dynamic_percentile'', ''dynamic_min_periods'', ''dynamic_floor'', ''dynamic_cap'', ''metric'',
      ''triggered'', ''retention_ratio'', ''retention_mode'', ''retention_policy'', ''effective_retention_ratio'',
      ''retention_source'', ''retention_context_found'', ''retention_reason_codes'', ''redirect_symbol'', ''removed_ratio'']"

definition market_regime_control_execution_fields :: "string list" where
  "market_regime_control_execution_fields = map ((@) ''market_regime_control_'')
     [''enabled'', ''found'', ''source'', ''schema_version'', ''route'', ''route_source'', ''active'', ''applied'',
      ''route_allowed'', ''risk_scalar'', ''risk_budget_scalar'', ''leverage_scalar'', ''risk_asset_scalar'',
      ''taco_allowed'', ''local_delever_veto_allowed'', ''crisis_defense_required'', ''blocked_actions'', ''vetoes'',
      ''reason_codes'', ''removed_weight'', ''removed_ratio'', ''redirected_to_unlevered_ratio'', ''safe_haven'',
      ''risk_symbols'']"

definition execution_fields :: "string list" where
  "execution_fields = market_regime_control_execution_fields @ tqqq_risk_control_execution_fields
     @ soxl_risk_control_execution_fields"

definition copy_fields :: "pyval dict \<Rightarrow> string list \<Rightarrow> pyval dict \<Rightarrow> pyval dict" where
  "copy_fields diag fs e =
     foldl (\<lambda>a f. case dget diag f of None \<Rightarrow> a | Some v \<Rightarrow> dset a f v) e fs"

definition plan_diagnostics :: "pyval dict option \<Rightarrow> 'x decision \<Rightarrow> 'x decision \<Rightarrow> pyval dict" where
  "plan_diagnostics meta d nd =
     (let diag = dupdate (dupdate (meta_or_empty meta) (d_diagnostics d)) (d_diagnostics nd)
      in update_mapping (update_mapping (update_mapping diag
           (pget (meta_or_empty meta) ''execution_annotations''))
           (pget (d_diagnostics d) ''execution_annotations''))
           (pget (d_diagnostics nd) ''execution_annotations''))"

definition set_cash_by_currency :: "pyval dict \<Rightarrow> pyval dict \<Rightarrow> pyval dict exc" where
  "set_cash_by_currency meta plan =
     (case pget meta ''cash_by_currency'' of
        PDict c \<Rightarrow> (case dget plan ''portfolio'' of
            None \<Rightarrow> Inl (KeyError ''portfolio'')
          | Some (PDict p) \<Rightarrow> Inr (dset plan ''portfolio'' (PDict (dset p ''cash_by_currency'' (PDict c))))
          | Some _ \<Rightarrow> Inl (TypeError ''object does not support item assignment''))
      | _ \<Rightarrow> Inr plan)"

definition set_execution :: "pyval dict \<Rightarrow> pyval dict \<Rightarrow> pyval dict exc" where
  "set_execution diag plan =
     (case dget_or plan ''execution'' (PDict []) of
        PDict e \<Rightarrow> Inr (dset plan ''execution'' (PDict (copy_fields diag execution_fields e)))
      | _ \<Rightarrow> (if list_ex (\<lambda>f. dget diag f \<noteq> None) execution_fields
              then Inl (TypeError ''object does not support item assignment'') else Inr plan))"

definition cash_only_policy :: "pyval dict option \<Rightarrow> bool" where
  "cash_only_policy meta =
     (case pget (meta_or_empty meta) ''firstrade_execution_policy'' of
        PDict policy \<Rightarrow> truthy (dget_or policy ''cash_only_execution'' (PBool True)) | _ \<Rightarrow> True)"

definition map_strategy_decision_to_plan ::
  "('s, 'x, 'y) contracts \<Rightarrow> 'x decision \<Rightarrow> 's \<Rightarrow> string \<Rightarrow> pyval dict option \<Rightarrow> pyval dict exc" where
  "map_strategy_decision_to_plan k d snapshot profile meta =
     bindE (canonical_profile k profile) (\<lambda>prof.
     bindE (inputs_of k snapshot (cash_only_policy meta)) (\<lambda>inp.
     bindE (normalize_to_value_decision k d inp meta (cash_only_policy meta)) (\<lambda>(nd, parts).
     bindE (case parts of Some a \<Rightarrow> Inr a | None \<Rightarrow> build_annotations k nd inp) (\<lambda>(vs, sd).
     bindE (apply_reserved_cash_policy vs inp meta) (\<lambda>vs'.
     bindE (runtime_plan k nd prof inp vs' sd) (\<lambda>plan.
     bindE (set_cash_by_currency (snapshot_metadata k snapshot) plan) (\<lambda>plan'.
     set_execution (plan_diagnostics meta d nd) plan')))))))"

section \<open>The plan of a run\<close>

definition runtime_metadata_with_execution_policy ::
  "pyval dict option \<Rightarrow> pyfloat option \<Rightarrow> pyfloat option \<Rightarrow> bool \<Rightarrow> pyval dict" where
  "runtime_metadata_with_execution_policy meta least share cash_only =
     dset (meta_or_empty meta) ''firstrade_execution_policy''
       (PDict [(''reserved_cash_floor_usd'', PFloat (opt_or0 least)), (''reserved_cash_ratio'', PFloat (opt_or0 share)),
               (''cash_only_execution'', PBool cash_only)])"

definition mark_cash_only :: "bool \<Rightarrow> pyval dict \<Rightarrow> pyval dict exc" where
  "mark_cash_only cash_only plan =
     bindE (as_dict (dget_or plan ''execution'' (PDict []))) (\<lambda>e.
     Inr (dset plan ''execution'' (PDict (dset e ''cash_only_execution'' (PBool cash_only)))))"

definition plan_for_run ::
  "('s, 'x, 'y) contracts \<Rightarrow> (string \<Rightarrow> (int \<times> int) option) \<Rightarrow> datetime \<Rightarrow> 'x decision \<Rightarrow> 's \<Rightarrow> string \<Rightarrow>
   pyval dict option \<Rightarrow> pyfloat option \<Rightarrow> pyfloat option \<Rightarrow> bool \<Rightarrow> pyfloat \<Rightarrow> (pyval dict \<times> string) exc" where
  "plan_for_run k from_iso now d snapshot profile meta least share cash_only threshold =
     bindE (map_strategy_decision_to_plan k d snapshot profile
              (Some (runtime_metadata_with_execution_policy meta least share cash_only))) (\<lambda>plan.
     bindE (substitute_small_safe_haven_targets_with_cash plan threshold) (\<lambda>plan1.
     bindE (mark_cash_only cash_only plan1) (\<lambda>plan2.
     bindE (resolve_strategy_run_period from_iso now plan2 (meta_or_empty meta)) (\<lambda>period.
     Inr (plan2, period)))))"

section \<open>Facts\<close>

lemma distinct_sort_keys: "distinct (dkeys d) \<Longrightarrow> distinct (sort (dkeys d))"
  by simp

lemma copy_fields_dget:
  "dget (copy_fields diag fs e) f = (if f \<in> set fs \<and> dget diag f \<noteq> None then dget diag f else dget e f)"
  unfolding copy_fields_def
  by (induction fs arbitrary: e) (auto simp: dget_dset split: option.splits)

lemma pmax_not_nan: "x \<noteq> NaN \<Longrightarrow> pmax x y \<noteq> NaN"
  by (cases x; cases y) (auto simp: pmax_def)

lemma platform_reserve_not_nan: "resolve_platform_reserved_cash e meta = Inr p \<Longrightarrow> p \<noteq> NaN"
  by (auto simp: resolve_platform_reserved_cash_def bindE_Inr_iff pmax_not_nan zero_Fin split: pyval.splits)

lemma copied_field:
  "set_execution diag plan = Inr plan' \<Longrightarrow> f \<in> set execution_fields \<Longrightarrow> dget diag f = Some v \<Longrightarrow>
   \<exists>e. dget plan' ''execution'' = Some (PDict e) \<and> dget e f = Some v"
  by (auto simp: set_execution_def copy_fields_dget dget_dset list_ex_iff split: pyval.splits if_splits)

section \<open>A plan that holds\<close>

lemma minus_self_no_sign: "\<not> x - x < (0 :: pyfloat)" "\<not> 0 < x - (x :: pyfloat)"
  by (cases x; simp add: minus_pyfloat_def zero_Fin fl_0 [unfolded zero_Fin])+

lemma tradable_deltas_delta:
  "(d', w') = tradable_deltas ports b ss d w \<Longrightarrow> list_all (\<lambda>(s, v, p). v = delta_of b s) (d_deltas d) \<Longrightarrow>
   list_all (\<lambda>(s, v, p). v = delta_of b s) (d_deltas d')"
  by (induction ports b ss d w rule: tradable_deltas.induct) (auto split: if_splits prod.splits option.splits)

definition only_quotes :: "event list \<Rightarrow> bool" where
  "only_quotes evs \<longleftrightarrow> list_all (\<lambda>e. \<not> is_sent e \<and> \<not> is_claim e) evs"

lemma quote_price_only_quotes:
  "only_quotes (snd w) \<Longrightarrow> only_quotes (snd (snd (quote_price (get_quote (logged_ports base)) s w)))"
  by (auto simp: quote_price_def logged_ports_def logged_def only_quotes_def split: prod.splits sum.splits)

lemma tradable_deltas_only_quotes:
  "only_quotes (snd w) \<Longrightarrow> only_quotes (snd (snd (tradable_deltas (logged_ports base) b ss d w)))"
proof (induction "logged_ports base" b ss d w rule: tradable_deltas.induct)
  case (2 b s ss d w)
  then show ?case
    using quote_price_only_quotes [of w base s] by (auto split: prod.splits option.splits)
qed simp

section \<open>Properties\<close>


definition sample_semantics :: "unit semantics" where
  "sample_semantics = \<lparr> vs_trade_threshold_value = fl 100, vs_reserved_cash = Some 0, vs_signal_date = [],
     vs_effective_date = [], vs_execution_timing_contract = [], vs_execution_calendar_source = [],
     vs_signal_effective_after_trading_days = None, vs_benchmark_symbol = None, vs_benchmark_price = None,
     vs_long_trend_value = None, vs_exit_line = None, vs_current_min_trade = None,
     vs_investable_cash = Some (fl 900), vs_rest = () \<rparr>"

definition sample_inputs :: portfolio_inputs where
  "sample_inputs = \<lparr> pi_total_equity = fl 4000, pi_liquid_cash = fl 1000, pi_market_values = [(''SPY'', fl 3000)] \<rparr>"

definition sample_policy :: "pyval dict option" where
  "sample_policy = Some (runtime_metadata_with_execution_policy None (Some (fl 150)) (Some (fl (1 / 16))) True)"


text \<open>
  Property C38. A decision that says \<open>no_execute\<close> becomes a plan that holds: the target of
  every symbol is its present market value, in the order of the symbols, and nothing else
  is a target.
\<close>

theorem no_execute_holds_every_position:
  assumes "normalize_to_value_decision k d inp meta cash_only = Inr (nd, parts)"
    and "''no_execute'' \<in> set (d_risk_flags d)" "distinct (dkeys (pi_market_values inp))"
  shows "parts = None \<and> d_risk_flags nd = [''no_execute'']
     \<and> map pt_symbol (d_positions nd) = sort (dkeys (pi_market_values inp))
     \<and> list_all (\<lambda>p. pt_target_value p = dget (pi_market_values inp) (pt_symbol p)) (d_positions nd)"
proof -
  have n: "nd = build_hold_current_value_decision k inp (dupdate (meta_or_empty meta) (d_diagnostics d))" "parts = None"
    using assms(1,2) by (auto simp: normalize_to_value_decision_def Let_def bindE_Inr_iff split: if_splits)
  have "Some (dget_or (pi_market_values inp) s 0) = dget (pi_market_values inp) s" if "s \<in> set (dkeys (pi_market_values inp))" for s
    using that by (auto simp: dget_or_def dget_def split: option.splits dest: weak_map_of_SomeI)
  then show ?thesis
    using n by (auto simp: build_hold_current_value_decision_def o_def list_all_iff)
qed

text \<open>
  Executing a plan whose targets are the market values sends nothing: no claim
  is asked for and no order is sent or reported, live or dry, whatever the quotes, the
  threshold and the cash.
\<close>

theorem hold_plan_sends_nothing:
  assumes "b_targets b = b_market_values b"
  shows "case execute_book (logged_ports base) drift x reference b (w, []) of (r, (w', evs)) \<Rightarrow>
     list_all (\<lambda>e. \<not> is_sent e \<and> \<not> is_claim e) evs \<and> (case r of Inr res \<Rightarrow> submitted_orders res = [] | Inl e \<Rightarrow> True)"
proof -
  have no: "\<not> delta_of b s < 0" "\<not> 0 < delta_of b s" for s
    unfolding delta_of_def assms by (rule minus_self_no_sign)+
  obtain d st where d: "tradable_deltas (logged_ports base) b (plan_symbols b) \<lparr> d_skipped = [], d_prices = [], d_deltas = [] \<rparr> (w, []) = (d, st)"
    by (rule prod.exhaust)
  have q: "only_quotes (snd st)"
    using tradable_deltas_only_quotes [of "(w, [])" base b "plan_symbols b" "\<lparr> d_skipped = [], d_prices = [], d_deltas = [] \<rparr>"] d
    by (simp add: only_quotes_def)
  have "list_all (\<lambda>(s, v, p). v = delta_of b s) (d_deltas d)"
    using tradable_deltas_delta [OF d [symmetric]] by simp
  then have none: "filter (\<lambda>(_, v, _). v < 0) (d_deltas d) = []" "filter (\<lambda>(_, v, _). 0 < v) (d_deltas d) = []"
    using no by (auto simp: filter_empty_conv list_all_iff)
  show ?thesis
    using q d none
    by (auto simp: execute_book_def sell_phase_def buy_phase_def then_continue_def gate_buys_def only_quotes_def
          logged_ports_def logged_def bindIO_def liftE_def finish_cycle_def returnIO_def bindE_Inr_iff Let_def
        split: prod.splits sum.splits)
qed

definition hold_book :: book where
  "hold_book = \<lparr> b_targets = [(''SPY'', fl 3000)], b_market_values = [(''SPY'', fl 3000)], b_sellable = [(''SPY'', fl 5)],
     b_quantities = [(''SPY'', fl 5)], b_threshold = 0, b_base_cash = fl 1000, b_raw_cash = fl 1000, b_cap = None,
     b_notes = [], b_total_value = PInt 4000 \<rparr>"

theorem hold_plan_sends_nothing_witness:
  "case execute_book (logged_ports preview_ports) (\<lambda>_. Inr []) preview_options [] hold_book (0, []) of (r, (w', evs)) \<Rightarrow>
     list_all (\<lambda>e. \<not> is_sent e \<and> \<not> is_claim e) evs \<and> (case r of Inr res \<Rightarrow> submitted_orders res = [] | Inl e \<Rightarrow> True)"
  using hold_plan_sends_nothing [of hold_book preview_ports "\<lambda>_. Inr []" preview_options "[]" 0] by (simp add: hold_book_def)

definition sample_contracts :: "(unit, unit, unit) contracts" where
  "sample_contracts = \<lparr> canonical_profile = Inr, inputs_of = (\<lambda>_ _. Inr sample_inputs), snapshot_metadata = (\<lambda>_. []),
     target_mode = (\<lambda>_. Inr ''weight''), weight_equity = (\<lambda>i _. Inr (pi_total_equity i, False, False)),
     to_value_mode = (\<lambda>d _. Inr d), annotation_parts = (\<lambda>_. Inl (ValueError [])),
     runtime_plan = (\<lambda>_ _ _ _ _. Inr []), default_pt = (), default_vs = () \<rparr>"

definition stopped_decision :: "unit decision" where
  "stopped_decision = \<lparr> d_positions = [], d_risk_flags = [''no_execute''], d_diagnostics = [] \<rparr>"

theorem no_execute_holds_every_position_witness:
  "\<exists>nd. normalize_to_value_decision sample_contracts stopped_decision sample_inputs None True = Inr (nd, None)
     \<and> map pt_symbol (d_positions nd) = [''SPY'']"
proof -
  obtain nd parts where n: "normalize_to_value_decision sample_contracts stopped_decision sample_inputs None True = Inr (nd, parts)"
    by (simp add: normalize_to_value_decision_def sample_contracts_def stopped_decision_def)
  have "''no_execute'' \<in> set (d_risk_flags stopped_decision)" "distinct (dkeys (pi_market_values sample_inputs))"
    by (simp_all add: stopped_decision_def sample_inputs_def)
  from no_execute_holds_every_position [OF n this] n show ?thesis by (simp add: sample_inputs_def)
qed

end
