(* ===== verification/StrategyCycle.thy ===== *)
theory StrategyCycle
  imports RunTickets DecisionPlan ClientSession
begin

text \<open>
  \<open>run_strategy_cycle\<close> of \<open>application/rebalance_service.py\<close> from its settings to its result:
  the capability check, the account selector, the login, the account, the adapters, the
  portfolio, the strategy, the plan, and then the run of \<open>RunCycle\<close>. The strategies, the
  contracts of \<open>quant_platform_kit\<close> and the SDK are parameters.
\<close>

section \<open>Settings\<close>

text \<open>
  Of the runtime target, the attributes that the platform reads; the account selector and
  the scope are values, since the code checks their types.
\<close>

record runtime_target =
  rt_dry_run_only :: pyval
  rt_execution_environment :: string
  rt_execution_mode :: pyval
  rt_account_selector :: pyval
  rt_account_scope :: pyval
  rt_deployment_selector :: pyval
  rt_strategy_release :: pyval

record platform_settings =
  ps_run :: run_settings
  ps_profile :: string
  ps_display_name :: string
  ps_live_order_ack :: bool
  ps_runtime_target_enabled :: bool
  ps_reserved_cash_floor_usd :: "pyfloat option"
  ps_reserved_cash_ratio :: "pyfloat option"
  ps_runtime_target :: "runtime_target option"

section \<open>Parameters\<close>

text \<open>
  A loaded strategy. \<open>lr_evaluate\<close> builds the market inputs over the connected account and
  evaluates the strategy on the portfolio: the decision and its metadata.
\<close>

record ('w, 's, 'x) loaded_runtime =
  lr_profile :: string
  lr_display_name :: string
  lr_managed_symbols :: "string list"
  lr_evaluate :: "'w account_data \<Rightarrow> adapters \<Rightarrow> 's \<Rightarrow> ('w, 'x decision \<times> pyval dict option) io"

text \<open>
  \<open>sp_plugin_report\<close> is what the plugin signals, or the failure to load them, add to a
  result; \<open>sp_run_ports\<close> the quotes, release checks, alerts and notifications of a run;
  \<open>sp_place\<close> the order call of the SDK.
\<close>

record ('w, 'ses, 's, 'x, 'y) strategy_ports =
  sp_now :: "'w \<Rightarrow> datetime"
  sp_plugin_report :: "platform_settings \<Rightarrow> ('w, pyval dict) io"
  sp_unsupported :: "string \<Rightarrow> string option"
  sp_secrets :: "string \<Rightarrow> string exc"
  sp_sdk :: "('w, 'ses, 'w account_data) sdk"
  sp_cache :: "'w cache_ports"
  sp_load_runtime :: "platform_settings \<Rightarrow> ('w, ('w, 's, 'x) loaded_runtime) io"
  sp_instant :: "'w \<Rightarrow> instant"
  sp_instant_text :: "instant \<Rightarrow> string"
  sp_with_plugins :: "portfolio_snapshot \<Rightarrow> 's"
  sp_contracts :: "('s, 'x, 'y) contracts"
  sp_from_iso :: "string \<Rightarrow> (int \<times> int) option"
  sp_signal_snapshot :: "string \<Rightarrow> pyval dict \<Rightarrow> pyval \<Rightarrow> pyval dict \<Rightarrow> pyval"
  sp_routine_counts :: pyval
  sp_run_ports :: "'w account_data \<Rightarrow> adapters \<Rightarrow> 'w run_ports"
  sp_place :: "'w account_data \<Rightarrow> order_ticket \<Rightarrow> 'w \<Rightarrow> pyval exc \<times> 'w"
  sp_qpk :: qpk
  sp_drift :: "drift_input \<Rightarrow> pyval list exc"
  sp_outcomes :: run_outcomes
  sp_vocabulary :: stage_vocabulary
  sp_notify :: notify_policy
  sp_objects :: "'w object_store"

section \<open>Steps of the cycle\<close>

definition unsupported_strategy_execution_result :: "platform_settings \<Rightarrow> string \<Rightarrow> pyval dict \<Rightarrow> pyval dict" where
  "unsupported_strategy_execution_result ps reason plugins =
     dupdate ([(''ok'', PBool True), (''status'', PStr ''skipped''), (''skip_reason'', PStr reason),
       (''api_kind'', PStr ''unofficial-reverse-engineered''), (''strategy_profile'', PStr (ps_profile ps)),
       (''strategy_display_name'', PStr (ps_display_name ps)), (''dry_run_only'', PBool (s_dry_run_only (ps_run ps))),
       (''live_trading_enabled'', PBool (s_live_trading_enabled (ps_run ps))), (''submitted_orders'', PList []),
       (''skipped_orders'', PList [PDict [(''reason'', PStr reason), (''strategy_profile'', PStr (ps_profile ps))]]),
       (''action_done'', PBool False), (''strategy_run_stage'', PStr ''NO_ACTION'')] @ empty_alert_fields) plugins"

text \<open>A connected client has its account data; the state store passed to the client is none.\<close>

definition connect_client ::
  "('w, 'ses, 's, 'x, 'y) strategy_ports \<Rightarrow> credentials \<Rightarrow> bool \<Rightarrow> ('w, ('ses, 'w account_data) client) io" where
  "connect_client k c live w =
     (case connect (sp_sdk k) (sp_cache k) None c False False (new_client live) w of
        ((None, cl), w') \<Rightarrow> (Inr cl, w') | ((Some e, _), w') \<Rightarrow> (Inl e, w'))"

definition portfolio_client_of ::
  "('w, 'ses, 's, 'x, 'y) strategy_ports \<Rightarrow> 'w account_data option \<Rightarrow> 'w portfolio_client" where
  "portfolio_client_of k c = \<lparr> pc_get_balances = get_balances c, pc_get_positions = get_positions c, pc_clock = sp_instant k \<rparr>"

definition heartbeat_snapshot :: "(instant \<Rightarrow> string) \<Rightarrow> portfolio_snapshot \<Rightarrow> pyval" where
  "heartbeat_snapshot text sn =
     PDict [(''available_cash'', opt_float (sn_cash_balance sn)), (''net_assets'', opt_float (sn_broker_account_equity sn)),
            (''observed_at'', PStr (text (sn_as_of sn)))]"

definition signal_execution :: "pyval dict \<Rightarrow> pyval dict" where
  "signal_execution plan =
     dset (pdict_of (pget plan ''execution'')) ''latest_price_source'' (PStr ''firstrade_ohlc_with_live_quote_overlay'')"

definition planned_of ::
  "('w, 'ses, 's, 'x, 'y) strategy_ports \<Rightarrow> ('w, 's, 'x) loaded_runtime \<Rightarrow> datetime \<Rightarrow> pyval dict \<Rightarrow> string \<Rightarrow> bool \<Rightarrow>
   portfolio_snapshot \<Rightarrow> 'x decision \<times> pyval dict option \<Rightarrow> pyval dict \<times> string \<Rightarrow> planned_run" where
  "planned_of k rt now plugins account reused sn ev planned =
     \<lparr> k_account = account, k_profile = lr_profile rt, k_display_name = lr_display_name rt, k_period = snd planned,
       k_plan = fst planned, k_metadata = meta_or_empty (snd ev), k_diagnostics = d_diagnostics (fst ev),
       k_session_reused = reused, k_heartbeat = heartbeat_snapshot (sp_instant_text k) sn,
       k_signal_snapshot = sp_signal_snapshot k (lr_profile rt) (signal_execution (fst planned))
         (or_dict (pget (fst planned) ''allocation'')) (meta_or_empty (snd ev)),
       k_plugin_report = plugins, k_now = now \<rparr>"

text \<open>The ports of the run: without the dispatch of plugin alerts there are none.\<close>

definition ports_of ::
  "('w, 'ses, 's, 'x, 'y) strategy_ports \<Rightarrow> platform_settings \<Rightarrow> bool \<Rightarrow> 'w account_data \<Rightarrow> adapters \<Rightarrow> 'w run_ports" where
  "ports_of k ps dispatch d a =
     with_broker (sp_place k d) True (ps_run ps) a
       (if dispatch then sp_run_ports k d a else (sp_run_ports k d a) \<lparr> rp_dispatch_alerts := None \<rparr>)"

text \<open>From the account on: the adapters, the portfolio, the strategy, the plan and the run.\<close>

definition cycle_for_account ::
  "('w, 'ses, 's, 'x, 'y) strategy_ports \<Rightarrow> platform_settings \<Rightarrow> env \<Rightarrow> bool \<Rightarrow> bool \<Rightarrow> datetime \<Rightarrow> pyval dict \<Rightarrow>
   'w account_data \<Rightarrow> bool \<Rightarrow> string \<Rightarrow> ('w, pyval dict) io" where
  "cycle_for_account k ps env send dispatch now plugins d reused account =
     bindIO (sp_load_runtime k ps) (\<lambda>rt.
     let a = run_adapters (ps_run ps) (ps_live_order_ack ps) account (lr_managed_symbols rt) in
     bindIO (build_portfolio_snapshot (portfolio_client_of k (Some d)) a) (\<lambda>sn.
     bindIO (lr_evaluate rt d a (sp_with_plugins k sn)) (\<lambda>ev.
     bindIO (liftE (plan_for_run (sp_contracts k) (sp_from_iso k) now (fst ev) (sp_with_plugins k sn) (ps_profile ps) (snd ev)
                      (ps_reserved_cash_floor_usd ps) (ps_reserved_cash_ratio ps) (s_cash_only_execution (ps_run ps))
                      (s_safe_haven_threshold_usd (ps_run ps)))) (\<lambda>planned.
     run_after_plan (sp_qpk k) (sp_drift k) (sp_outcomes k) (sp_vocabulary k) (sp_notify k) send (sp_objects k)
       (build_store_from_env env) (ps_run ps) (planned_of k rt now plugins account reused sn ev planned)
       (if dispatch then Some (sp_routine_counts k) else None) (ports_of k ps dispatch d a)))))"

text \<open>\<open>callback\<close> is \<open>verified_account_callback\<close>: it is told an account that a runtime target names.\<close>

definition tell_account :: "(string \<Rightarrow> ('w, unit) io) option \<Rightarrow> string option \<Rightarrow> string \<Rightarrow> ('w, unit) io" where
  "tell_account callback expected account =
     (case (expected, callback) of (Some _, Some f) \<Rightarrow> f account | _ \<Rightarrow> returnIO ())"

definition run_strategy_cycle ::
  "('w, 'ses, 's, 'x, 'y) strategy_ports \<Rightarrow> platform_settings \<Rightarrow> env \<Rightarrow> bool \<Rightarrow> bool \<Rightarrow> (string \<Rightarrow> ('w, unit) io) option \<Rightarrow>
   ('w, pyval dict) io" where
  "run_strategy_cycle k ps env send dispatch callback w0 =
     (let now = sp_now k w0 in
      bindIO (sp_plugin_report k ps) (\<lambda>plugins.
      case sp_unsupported k (ps_profile ps) of
        Some reason \<Rightarrow> returnIO (unsupported_strategy_execution_result ps reason plugins)
      | None \<Rightarrow>
          bindIO (liftE (configured_selector (map_option rt_account_selector (ps_runtime_target ps)) env)) (\<lambda>expected.
          bindIO (connect_client k (credentials_from_env (sp_secrets k) env True) (s_live_trading_enabled (ps_run ps))) (\<lambda>cl.
          bindIO (liftE (select_run_account (cl_account_data cl) expected env)) (\<lambda>account.
          bindIO (tell_account callback expected account) (\<lambda>_.
          bindIO (liftE (require_connected (cl_account_data cl))) (\<lambda>d.
          cycle_for_account k ps env send dispatch now plugins d (cl_session_reused cl) account)))))) w0)"

section \<open>What the parameters are relied on for\<close>

text \<open>A computation that sends nothing, and whose value, if it has one, satisfies \<open>G\<close>.\<close>

definition quiet_io :: "('w \<Rightarrow> 'o) \<Rightarrow> ('a \<Rightarrow> bool) \<Rightarrow> ('w, 'a) io \<Rightarrow> bool" where
  "quiet_io sent G m \<longleftrightarrow> (\<forall>w. sent (snd (m w)) = sent w \<and> (\<forall>x. fst (m w) = Inr x \<longrightarrow> G x))"

abbreviation quiet :: "('w \<Rightarrow> 'o) \<Rightarrow> ('w, 'a) io \<Rightarrow> bool" where
  "quiet sent \<equiv> quiet_io sent (\<lambda>_. True)"

definition quiet_account :: "('w \<Rightarrow> 'o) \<Rightarrow> 'w account_data \<Rightarrow> bool" where
  "quiet_account sent d \<longleftrightarrow> (\<forall>a. quiet sent (ad_get_balances d a) \<and> quiet sent (ad_get_positions d a))"

definition quiet_sdk :: "('w \<Rightarrow> 'o) \<Rightarrow> ('w, 'ses, 'w account_data) sdk \<Rightarrow> bool" where
  "quiet_sdk sent k \<longleftrightarrow>
     (\<forall>c b. quiet sent (sdk_session k c b))
     \<and> (\<forall>s. quiet sent (sdk_login k s) \<and> (\<forall>code. quiet sent (sdk_login_two k s code))
          \<and> (\<forall>payload. quiet sent (sdk_restore k s payload)) \<and> quiet_io sent (quiet_account sent) (sdk_account_data k s))"

definition quiet_cache :: "('w \<Rightarrow> 'o) \<Rightarrow> 'w cache_ports \<Rightarrow> bool" where
  "quiet_cache sent ch \<longleftrightarrow>
     (\<forall>path. quiet sent (cp_local ch path)) \<and> (\<forall>path d w. sent (cp_write_local ch path d w) = sent w)
     \<and> (\<forall>path w. sent (cp_delete_local ch path w) = sent w) \<and> store_sends_nothing (cp_store ch) sent"

text \<open>Nothing but the order call sends; over account data that send nothing, the strategy and the ports do not.\<close>

definition only_place_sends :: "('w \<Rightarrow> order_ticket list) \<Rightarrow> ('w, 'ses, 's, 'x, 'y) strategy_ports \<Rightarrow> bool" where
  "only_place_sends tickets k \<longleftrightarrow>
     (\<forall>ps. quiet tickets (sp_plugin_report k ps)) \<and> quiet_sdk tickets (sp_sdk k) \<and> quiet_cache tickets (sp_cache k)
     \<and> store_sends_nothing (sp_objects k) tickets
     \<and> (\<forall>ps. quiet_io tickets (\<lambda>rt. \<forall>d a s. quiet_account tickets d \<longrightarrow> quiet tickets (lr_evaluate rt d a s)) (sp_load_runtime k ps))
     \<and> (\<forall>d a. quiet_account tickets d \<longrightarrow>
          broker_effects (\<lambda>_. Map.empty) tickets (sp_run_ports k d a) \<and> records_tickets (sp_place k d) tickets)"

section \<open>Quiet computations\<close>

lemma quiet_return [intro]: "G x \<Longrightarrow> quiet_io sent G (returnIO x)"
  by (simp add: quiet_io_def)

lemma quiet_raise [intro]: "quiet_io sent G (raiseIO e)"
  by (simp add: quiet_io_def)

lemma quiet_liftE: "(\<And>x. r = Inr x \<Longrightarrow> G x) \<Longrightarrow> quiet_io sent G (liftE r)"
  by (simp add: quiet_io_def liftE_def)

lemma quiet_lifted: "quiet_io sent (\<lambda>x. r = Inr x) (liftE r)"
  by (simp add: quiet_io_def liftE_def)

lemma quiet_mono: "quiet_io sent G m \<Longrightarrow> (\<And>x. G x \<Longrightarrow> H x) \<Longrightarrow> quiet_io sent H m"
  by (simp add: quiet_io_def)

lemma quiet_bind:
  assumes "quiet_io sent G m" "\<And>x. G x \<Longrightarrow> quiet_io sent H (f x)" shows "quiet_io sent H (bindIO m f)"
  unfolding quiet_io_def
proof (intro allI conjI impI)
  fix w
  obtain r w1 where m: "m w = (r, w1)" by (cases "m w")
  from assms(1) have 1: "sent w1 = sent w" "\<And>x. r = Inr x \<Longrightarrow> G x"
    unfolding quiet_io_def using m by (metis fst_conv snd_conv)+
  show "sent (snd (bindIO m f w)) = sent w"
    using assms(2) 1 by (cases r) (auto simp: bindIO_def m quiet_io_def)
  show "H x" if "fst (bindIO m f w) = Inr x" for x
    using assms(2) 1 that by (cases r) (auto simp: bindIO_def m quiet_io_def)
qed

lemma quiet_catch:
  "quiet_io sent G m \<Longrightarrow> (\<And>e. quiet_io sent G (h e)) \<Longrightarrow> quiet_io sent G (catchIO m h)"
  by (auto simp: quiet_io_def catchIO_def split: prod.splits sum.splits) (metis fst_conv snd_conv)+

lemma quiet_run: "quiet_io sent G m \<Longrightarrow> m w = (r, w') \<Longrightarrow> sent w' = sent w \<and> (\<forall>x. r = Inr x \<longrightarrow> G x)"
  by (metis quiet_io_def fst_conv snd_conv)

lemma quiet_read: "store_sends_nothing os sent \<Longrightarrow> quiet sent (read_json os s key)"
  by (simp add: quiet_io_def read_json_sent)

lemma quiet_write: "store_sends_nothing os sent \<Longrightarrow> quiet sent (write_json os s key d)"
  by (simp add: quiet_io_def write_json_sent)

lemma quiet_valid: "quiet sent (valid_now ch c v)"
  by (simp add: quiet_io_def valid_now_def)

text \<open>The same without a claim about the value; together they follow the structure of a computation.\<close>

lemma quiet_then: "quiet sent m \<Longrightarrow> (\<And>x. quiet sent (f x)) \<Longrightarrow> quiet sent (bindIO m f)"
  by (rule quiet_bind)

lemma quiet_value: "quiet sent (returnIO x)" "quiet sent (raiseIO e)" "quiet sent (liftE r)"
  by (simp_all add: quiet_io_def liftE_def)

lemma quiet_update: "(\<And>w. sent (f w) = sent w) \<Longrightarrow> quiet sent (\<lambda>w. (Inr x, f w))"
  by (simp add: quiet_io_def)

lemmas quiet_rules = quiet_then quiet_value quiet_update quiet_catch quiet_read quiet_write quiet_valid

section \<open>Login and portfolio are quiet\<close>

lemma quiet_load: "quiet_cache sent ch \<Longrightarrow> quiet sent (load_session_cache ch explicit c)"
  by (auto simp: load_session_cache_def Let_def quiet_cache_def intro!: quiet_rules split: option.split)

lemma quiet_save:
  assumes "quiet_cache sent ch" shows "quiet sent (save_session_cache ch explicit c tokens)"
proof -
  have "sent (cp_write_local ch path d w) = sent w" "store_sends_nothing (cp_store ch) sent" for path d w
    using assms by (auto simp: quiet_cache_def)
  then have save: "quiet sent (bindIO (\<lambda>w. (Inr (), cp_write_local ch path d w)) (\<lambda>_.
           bindIO (liftE (session_state_store explicit c)) (\<lambda>store.
           case store of
             None \<Rightarrow> returnIO ()
           | Some s \<Rightarrow> catchIO (bindIO (write_json (cp_store ch) s key d) (\<lambda>_. returnIO ())) (\<lambda>_. returnIO ()))))" for path d key
    by (intro quiet_rules) (auto intro!: quiet_rules split: option.split)
  show ?thesis using save unfolding save_session_cache_def quiet_io_def Let_def by auto
qed

lemma quiet_login: "quiet_sdk sent k \<Longrightarrow> quiet sent (login k c s)"
  by (auto simp: login_def quiet_sdk_def intro!: quiet_rules)

text \<open>\<open>m\<close> leaves a client whose account data, if any, are quiet.\<close>

definition quiet_client :: "('w \<Rightarrow> 'o) \<Rightarrow> ('ses, 'w account_data) client \<Rightarrow> bool" where
  "quiet_client sent cl \<longleftrightarrow> (\<forall>d. cl_account_data cl = Some d \<longrightarrow> quiet_account sent d)"

lemma quiet_client_simps [simp]:
  "quiet_client sent (attach s d b cl) \<longleftrightarrow> quiet_account sent d"
  "quiet_client sent (cl \<lparr> cl_read_only := ro \<rparr>) \<longleftrightarrow> quiet_client sent cl"
  "quiet_client sent (cl \<lparr> cl_session := ss \<rparr>) \<longleftrightarrow> quiet_client sent cl"
  "quiet_client sent (new_client live)"
  by (simp_all add: quiet_client_def attach_def new_client_def)

lemma quiet_cached:
  assumes k: "quiet_sdk sent k" and ch: "quiet_cache sent ch" and cl: "quiet_client sent cl"
    and m: "try_cached_session k ch explicit c s cl w = ((r, cl'), w')"
  shows "sent w' = sent w \<and> quiet_client sent cl'"
proof -
  have delete: "sent (cp_delete_local ch path x) = sent x" for path x using ch by (simp add: quiet_cache_def)
  have restore: "quiet_io sent (quiet_account sent) (bindIO (sdk_restore k s payload) (\<lambda>_. sdk_account_data k s))" for payload
    using k by (intro quiet_bind [where G = "\<lambda>_. True"]) (auto simp: quiet_sdk_def)
  show ?thesis
    using m cl delete
    by (auto simp: try_cached_session_def split: prod.splits sum.splits option.splits
        dest!: quiet_run [OF quiet_load [OF ch]] quiet_run [OF restore] quiet_run [OF quiet_save [OF ch]])
qed

lemma quiet_connect:
  assumes k: "quiet_sdk sent k" and ch: "quiet_cache sent ch" and cl: "quiet_client sent cl"
    and m: "connect k ch explicit c force defer_save cl w = ((r, cl'), w')"
  shows "sent w' = sent w \<and> quiet_client sent cl'"
proof -
  have session: "quiet sent (sdk_session k c b)" and account: "quiet_io sent (quiet_account sent) (sdk_account_data k s)" for c b s
    using k by (auto simp: quiet_sdk_def)
  have ro: "quiet_client sent (cl \<lparr> cl_read_only := False \<rparr>)" using cl by simp
  show ?thesis
    using m cl
    by (auto simp: connect_def Let_def split: prod.splits sum.splits if_splits bool.splits
        dest!: quiet_run [OF session] quiet_run [OF account] quiet_run [OF quiet_login [OF k]] quiet_run [OF quiet_save [OF ch]]
          quiet_cached [OF k ch ro])
qed

lemma quiet_connect_client:
  assumes "only_place_sends tickets k"
  shows "quiet_io tickets (quiet_client tickets) (connect_client k c live)"
proof -
  have q: "quiet_sdk tickets (sp_sdk k)" "quiet_cache tickets (sp_cache k)" using assms by (auto simp: only_place_sends_def)
  show ?thesis
    unfolding quiet_io_def connect_client_def
    by (auto split: prod.splits option.splits dest!: quiet_connect [OF q quiet_client_simps(4)])
qed

lemma quiet_portfolio:
  assumes "quiet_account sent d" shows "quiet sent (build_portfolio_snapshot (portfolio_client_of k (Some d)) a)"
proof -
  have "quiet sent (ad_get_balances d x)" "quiet sent (ad_get_positions d x)" for x using assms by (auto simp: quiet_account_def)
  then show ?thesis
    unfolding build_portfolio_snapshot_def portfolio_client_of_def get_balances_def get_positions_def require_connected_def Let_def
    by (auto intro!: quiet_rules) (simp add: quiet_io_def)
qed

section \<open>What a cycle sends\<close>

text \<open>A quiet first step changes nothing about what is sent in the end.\<close>

lemma quiet_first:
  assumes "quiet_io tickets G m" "Q (tickets w)"
    and "\<And>x w1. G x \<Longrightarrow> tickets w1 = tickets w \<Longrightarrow> Q (tickets (snd (f x w1)))"
  shows "Q (tickets (snd (bindIO m f w)))"
proof -
  obtain r w1 where m: "m w = (r, w1)" by (cases "m w")
  from quiet_run [OF assms(1) m] assms(2,3) show ?thesis by (cases r) (auto simp: bindIO_def m)
qed

lemma after_quiet:
  assumes "quiet_io tickets G m" "\<And>x w. G x \<Longrightarrow> sends_tickets tickets P w (snd (f x w))"
  shows "sends_tickets tickets P w (snd (bindIO m f w))"
  using assms(2) unfolding sends_tickets_def
  by (intro quiet_first [OF assms(1), where Q = "\<lambda>ts. \<exists>new. ts = tickets w @ new \<and> list_all P new"]) (auto, metis)

text \<open>From the account on, a cycle is quiet until its run, and its run sends tickets of the account.\<close>

lemma cycle_for_account_sends:
  assumes k: "only_place_sends tickets k" and d: "quiet_account tickets d"
  shows "sends_tickets tickets (run_ticket (ps_run ps) (ps_live_order_ack ps) account) w
     (snd (cycle_for_account k ps env send dispatch now plugins d reused account w))"
proof -
  have rt: "quiet_io tickets (\<lambda>rt. \<forall>d a s. quiet_account tickets d \<longrightarrow> quiet tickets (lr_evaluate rt d a s)) (sp_load_runtime k ps)"
    and store: "store_sends_nothing (sp_objects k) tickets"
    and ports: "broker_effects (\<lambda>_. Map.empty) tickets (sp_run_ports k d a)" "records_tickets (sp_place k d) tickets" for a
    using k d by (auto simp: only_place_sends_def)
  have ports': "broker_effects (\<lambda>_. Map.empty) tickets
      (if dispatch then sp_run_ports k d a else (sp_run_ports k d a) \<lparr> rp_dispatch_alerts := None \<rparr>)" for a
    using ports(1) [of a] by (auto simp: broker_effects_def)
  show ?thesis
    unfolding cycle_for_account_def Let_def
    by (intro after_quiet [OF rt] after_quiet [OF quiet_portfolio [OF d]] after_quiet [of tickets "\<lambda>_. True"] quiet_value)
       (use d run_sends_tickets [OF ports(2) store ports' refl] in \<open>auto simp: ports_of_def steps_along_def\<close>)
qed

text \<open>The account that a target names, where the environment does not contradict it.\<close>

definition target_names :: "runtime_target option \<Rightarrow> env \<Rightarrow> string \<Rightarrow> bool" where
  "target_names target env account \<longleftrightarrow>
     (\<forall>t. target = Some t \<longrightarrow> (\<exists>s. rt_account_selector t = PList [PStr s] \<and> account = py_strip s)
        \<and> account \<noteq> [] \<and> py_strip (env_or env ''FIRSTRADE_ACCOUNT'' []) \<in> {[], account})"

lemma selected_account_named:
  assumes "configured_selector (map_option rt_account_selector target) env = Inr expected"
    and "select_run_account c expected env = Inr account"
  shows "target_names target env account"
proof (cases target)
  case (Some t)
  then obtain e where e: "runtime_target_account_selector (Some (rt_account_selector t)) = Inr (Some e)"
    "expected = Some e" "py_strip (env_or env ''FIRSTRADE_ACCOUNT'' []) \<in> {[], e}"
    using assms(1) target_never_default [of "rt_account_selector t"]
    by (auto simp: configured_selector_def bindE_Inr_iff Let_def guardE_def split: option.splits if_splits)
  moreover have "account = e"
    using assms(2) e(2) by (auto simp: select_run_account_def select_runtime_target_account_def bindE_Inr_iff)
  ultimately show ?thesis using target_selector [OF e(1)] Some by (auto simp: target_names_def)
qed (simp add: target_names_def)

definition cycle_sends :: "('w \<Rightarrow> order_ticket list) \<Rightarrow> platform_settings \<Rightarrow> env \<Rightarrow> 'w \<Rightarrow> 'w \<Rightarrow> bool" where
  "cycle_sends tickets ps env w w' \<longleftrightarrow>
     tickets w' = tickets w
     \<or> (\<exists>account. target_names (ps_runtime_target ps) env account
          \<and> sends_tickets tickets (run_ticket (ps_run ps) (ps_live_order_ack ps) account) w w')"

lemma run_strategy_cycle_sends:
  assumes k: "only_place_sends tickets k" and callback: "\<And>f a. callback = Some f \<Longrightarrow> quiet tickets (f a)"
  shows "cycle_sends tickets ps env w (snd (run_strategy_cycle k ps env send dispatch callback w))"
proof -
  define Q where "Q ts \<longleftrightarrow> ts = tickets w \<or> (\<exists>account. target_names (ps_runtime_target ps) env account
    \<and> (\<exists>new. ts = tickets w @ new \<and> list_all (run_ticket (ps_run ps) (ps_live_order_ack ps) account) new))" for ts
  have Q0: "tickets w1 = tickets w \<Longrightarrow> Q (tickets w1)" for w1 by (simp add: Q_def)
  have told: "quiet tickets (tell_account callback e a)" for e a
    using callback by (auto simp: tell_account_def intro: quiet_rules split: option.split)
  have plugins: "quiet tickets (sp_plugin_report k ps)" using k by (simp add: only_place_sends_def)
  have ran: "Q (tickets (snd (cycle_for_account k ps env send dispatch now pl d reused account w1)))"
    if "tickets w1 = tickets w" "target_names (ps_runtime_target ps) env account" "quiet_account tickets d" for now pl d reused account w1
    using cycle_for_account_sends [OF k that(3), of ps account w1 env send dispatch now pl reused] that(1,2)
    unfolding Q_def sends_tickets_def by auto
  have "Q (tickets (snd (run_strategy_cycle k ps env send dispatch callback w)))"
    unfolding run_strategy_cycle_def Let_def
  proof (rule quiet_first [where Q = Q and tickets = tickets, OF plugins Q0 [OF refl]])
    fix pl w1 assume w1: "tickets w1 = tickets w"
    show "Q (tickets (snd ((case sp_unsupported k (ps_profile ps) of
        Some reason \<Rightarrow> returnIO (unsupported_strategy_execution_result ps reason pl)
      | None \<Rightarrow>
          bindIO (liftE (configured_selector (map_option rt_account_selector (ps_runtime_target ps)) env)) (\<lambda>expected.
          bindIO (connect_client k (credentials_from_env (sp_secrets k) env True) (s_live_trading_enabled (ps_run ps))) (\<lambda>cl.
          bindIO (liftE (select_run_account (cl_account_data cl) expected env)) (\<lambda>account.
          bindIO (tell_account callback expected account) (\<lambda>_.
          bindIO (liftE (require_connected (cl_account_data cl))) (\<lambda>d.
          cycle_for_account k ps env send dispatch (sp_now k w) pl d (cl_session_reused cl) account)))))) w1)))"
    proof (cases "sp_unsupported k (ps_profile ps)")
      case None
      show ?thesis unfolding None option.case
      proof (intro quiet_first [where Q = Q and tickets = tickets, OF quiet_lifted] quiet_first [where Q = Q and tickets = tickets, OF quiet_connect_client [OF k]]
          quiet_first [where Q = Q and tickets = tickets, OF told])
        fix expected w2 cl w3 account w4 d w5 w6
        assume "configured_selector (map_option rt_account_selector (ps_runtime_target ps)) env = Inr expected"
          "quiet_client tickets cl" "select_run_account (cl_account_data cl) expected env = Inr account"
          "require_connected (cl_account_data cl) = Inr d" "tickets w2 = tickets w1" "tickets w3 = tickets w2"
          "tickets w4 = tickets w3" "tickets w5 = tickets w4" "tickets w6 = tickets w5"
        then show "Q (tickets (snd (cycle_for_account k ps env send dispatch (sp_now k w) pl d (cl_session_reused cl) account w6)))"
          using w1 by (intro ran selected_account_named) (auto simp: quiet_client_def require_connected_def split: option.splits)
      qed (use w1 Q0 in auto)
    qed (use w1 Q0 in auto)
  qed
  then show ?thesis unfolding Q_def cycle_sends_def sends_tickets_def by auto
qed

section \<open>Properties\<close>

text \<open>
  Property C7. A whole strategy cycle, from settings to result, acts for one account: every
  ticket it sends is a ticket of its mode for one account, and where a runtime target is
  set that account is the one the target names and \<open>FIRSTRADE_ACCOUNT\<close> does not contradict.
  Login, cache, portfolio, strategy, store and notification send nothing themselves.
\<close>

theorem cycle_acts_for_one_account:
  assumes "only_place_sends tickets k" "\<And>f a. callback = Some f \<Longrightarrow> quiet tickets (f a)"
  shows "cycle_sends tickets ps env w (snd (run_strategy_cycle k ps env send dispatch callback w))"
  using assms by (rule run_strategy_cycle_sends)

definition live_env :: env where
  "live_env = map_of [(''FIRSTRADE_USERNAME'', ''u''), (''FIRSTRADE_PASSWORD'', ''p''), (''FIRSTRADE_MFA_SECRET'', ''s''),
     (''FIRSTRADE_GCS_STATE_BUCKET'', ''b''), (''FIRSTRADE_STATE_PREFIX'', ''p''),
     (''FIRSTRADE_RUN_STRATEGY_ON_HTTP'', ''true''), (''FIRSTRADE_FORCE_RUN'', ''true'')]"

definition sample_target :: runtime_target where
  "sample_target = \<lparr> rt_dry_run_only = PBool False, rt_execution_environment = ''live'', rt_execution_mode = PStr ''live'',
     rt_account_selector = PList [PStr ''12345678''], rt_account_scope = PStr ''US'', rt_deployment_selector = PStr ''d'',
     rt_strategy_release = PNone \<rparr>"

definition sample_platform :: platform_settings where
  "sample_platform = \<lparr> ps_run = live_settings, ps_profile = ''soxl'', ps_display_name = ''Soxl'', ps_live_order_ack = True,
     ps_runtime_target_enabled = True, ps_reserved_cash_floor_usd = None, ps_reserved_cash_ratio = None,
     ps_runtime_target = Some sample_target \<rparr>"

definition ticket_account :: "ticket_world account_data" where
  "ticket_account = \<lparr> ad_account_numbers = [PStr ''12345678''], ad_account_balances = [],
     ad_get_balances = (\<lambda>a. returnIO (PDict [(''cash'', PInt 1000)])), ad_get_positions = (\<lambda>a. returnIO (PDict [])),
     ad_get_orders = (\<lambda>a n. returnIO (PDict [])) \<rparr>"

definition ticket_login :: "(ticket_world, unit, ticket_world account_data) sdk" where
  "ticket_login = \<lparr> sdk_session = (\<lambda>c b. returnIO ()), sdk_login = (\<lambda>s. returnIO False), sdk_login_two = (\<lambda>s c. returnIO ()),
     sdk_restore = (\<lambda>s v. returnIO ()), sdk_account_data = (\<lambda>s. returnIO ticket_account),
     sdk_tokens = (\<lambda>s w. \<lparr> sv_access_token = PNone, sv_ftat = PNone, sv_sid = PNone, sv_cookies = None \<rparr>),
     sdk_close = (\<lambda>s w. w), sdk_read_only_session = returnIO (), sdk_read_only_account = (\<lambda>s v. Return ticket_account),
     sdk_history = (\<lambda>a x y z. Return []), sdk_history_url = (\<lambda>x y z. []), sdk_transport = (\<lambda>r w. (Inl TimedOut, w)) \<rparr>"

definition ticket_cache :: "ticket_world cache_ports" where
  "ticket_cache = \<lparr> cp_clock = (\<lambda>w. Fin 1000), cp_local = (\<lambda>path. returnIO None), cp_write_local = (\<lambda>path d w. w),
     cp_delete_local = (\<lambda>path w. w), cp_digest = (\<lambda>x. x), cp_store = ticket_store \<rparr>"

definition ticket_runtime :: "(ticket_world, unit, unit) loaded_runtime" where
  "ticket_runtime = \<lparr> lr_profile = ''soxl'', lr_display_name = ''Soxl'', lr_managed_symbols = [''A''],
     lr_evaluate = (\<lambda>d a s. returnIO (\<lparr> d_positions = [], d_risk_flags = [], d_diagnostics = [] \<rparr>, None)) \<rparr>"

definition ticket_contracts :: "(unit, unit, unit) contracts" where
  "ticket_contracts = sample_contracts \<lparr> target_mode := (\<lambda>_. Inr ''value''),
     annotation_parts := (\<lambda>_. Inr (sample_semantics, \<lparr> sd_signal_display = [], sd_status_display = [], sd_dashboard_text = [] \<rparr>)),
     runtime_plan := (\<lambda>_ _ _ _ _. Inr preview_plan) \<rparr>"

definition ticket_strategy :: "(ticket_world, unit, unit, unit, unit) strategy_ports" where
  "ticket_strategy = \<lparr> sp_now = (\<lambda>w. sample_time), sp_plugin_report = (\<lambda>ps. returnIO []), sp_unsupported = (\<lambda>p. None),
     sp_secrets = (\<lambda>n. Inl (RuntimeError [])), sp_sdk = ticket_login, sp_cache = ticket_cache,
     sp_load_runtime = (\<lambda>ps. returnIO ticket_runtime), sp_instant = (\<lambda>w. 0), sp_instant_text = (\<lambda>i. []),
     sp_with_plugins = (\<lambda>sn. ()), sp_contracts = ticket_contracts, sp_from_iso = (\<lambda>t. None),
     sp_signal_snapshot = (\<lambda>p e al m. PNone), sp_routine_counts = PDict [], sp_run_ports = (\<lambda>d a. ticket_ports),
     sp_place = (\<lambda>d. ticket_sdk), sp_qpk = empty_qpk, sp_drift = (\<lambda>_. Inr []), sp_outcomes = sample_outcomes,
     sp_vocabulary = sample_vocabulary, sp_notify = quiet_policy, sp_objects = ticket_store \<rparr>"

definition ticket_cycle :: "pyval dict exc \<times> ticket_world" where
  "ticket_cycle = run_strategy_cycle ticket_strategy sample_platform live_env False True None (Map.empty, [])"

lemma ticket_strategy_quiet: "only_place_sends snd ticket_strategy"
proof -
  have "records_tickets ticket_sdk snd" by (simp add: records_tickets_def ticket_sdk_def)
  moreover have store: "store_sends_nothing ticket_store snd" by (simp add: store_sends_nothing_def ticket_store_def)
  moreover have "broker_effects (\<lambda>_. Map.empty) snd ticket_ports"
    by (auto simp: broker_effects_def ticket_ports_def steps_along_def silent_def returnIO_def raiseIO_def keeps_objects_def)
  ultimately show ?thesis
    by (simp add: only_place_sends_def ticket_strategy_def quiet_sdk_def quiet_cache_def ticket_login_def ticket_cache_def
        quiet_io_def quiet_account_def ticket_account_def ticket_runtime_def)
qed

definition idle_decision :: "unit decision" where
  "idle_decision = \<lparr> d_positions = [], d_risk_flags = [], d_diagnostics = [] \<rparr>"

definition marked_plan :: "pyval dict" where
  "marked_plan = dset preview_plan ''execution'' (PDict [(''cash_only_execution'', PBool True)])"

lemma idle_plan:
  "map_strategy_decision_to_plan ticket_contracts idle_decision () ''soxl'' (Some (runtime_metadata_with_execution_policy None None None True))
   = Inr (dset preview_plan ''execution'' (PDict []))"
proof -
  let ?m = "Some (runtime_metadata_with_execution_policy None None None True)"
  have "set_execution (plan_diagnostics ?m idle_decision idle_decision) preview_plan = Inr (dset preview_plan ''execution'' (PDict []))"
    by code_simp
  moreover have "apply_reserved_cash_policy v sample_inputs ?m \<noteq> Inl e" for v e
  proof -
    have "case resolve_platform_reserved_cash (pi_total_equity sample_inputs) ?m of Inr _ \<Rightarrow> True | Inl _ \<Rightarrow> False" by code_simp
    then show ?thesis by (auto simp: apply_reserved_cash_policy_def Let_def bindE_def split: sum.splits)
  qed
  ultimately show ?thesis
    by (auto simp: map_strategy_decision_to_plan_def ticket_contracts_def sample_contracts_def normalize_to_value_decision_def Let_def
       build_annotations_def sample_semantics_def bindE_def idle_decision_def set_cash_by_currency_def pget_def dget_or_def split: sum.splits)
qed

lemma idle_plan_of_run: "plan_for_run ticket_contracts (\<lambda>t. None) sample_time idle_decision () ''soxl'' None None None True 0 = Inr (marked_plan, ''2026-03'')"
proof -
  have "substitute_small_safe_haven_targets_with_cash (dset preview_plan ''execution'' (PDict [])) 0 = Inr (dset preview_plan ''execution'' (PDict []))"
   "mark_cash_only True  (dset preview_plan ''execution'' (PDict [])) = Inr marked_plan" 
   "resolve_strategy_run_period (\<lambda>t. None) sample_time marked_plan [] = Inr ''2026-03''"
   by code_simp+
  then show ?thesis by (simp add: plan_for_run_def idle_plan meta_or_empty_def)
qed

lemma ticket_strategy_sel:
  "sp_load_runtime ticket_strategy = (\<lambda>ps. returnIO ticket_runtime)" "sp_with_plugins ticket_strategy = (\<lambda>sn. ())"
  "sp_contracts ticket_strategy = ticket_contracts" "sp_from_iso ticket_strategy = (\<lambda>t. None)"
  "sp_qpk ticket_strategy = empty_qpk" "sp_drift ticket_strategy = (\<lambda>_. Inr [])" "sp_outcomes ticket_strategy = sample_outcomes"
  "sp_vocabulary ticket_strategy = sample_vocabulary" "sp_notify ticket_strategy = quiet_policy"
  "sp_objects ticket_strategy = ticket_store" "sp_routine_counts ticket_strategy = PDict []" "sp_now ticket_strategy = (\<lambda>w. sample_time)"
  "sp_plugin_report ticket_strategy = (\<lambda>ps. returnIO [])" "sp_unsupported ticket_strategy = (\<lambda>p. None)"
  "lr_managed_symbols ticket_runtime = [''A'']" "lr_evaluate ticket_runtime = (\<lambda>d a s. returnIO (idle_decision, None))"
  by (simp_all add: ticket_strategy_def ticket_runtime_def idle_decision_def)

lemma sample_platform_sel:
  "ps_run sample_platform = live_settings" "ps_live_order_ack sample_platform = True" "ps_profile sample_platform = ''soxl''"
  "ps_reserved_cash_floor_usd sample_platform = None" "ps_reserved_cash_ratio sample_platform = None"
  "s_cash_only_execution live_settings = True" "s_safe_haven_threshold_usd live_settings = 0"
  "s_live_trading_enabled live_settings = True" "map_option rt_account_selector (ps_runtime_target sample_platform) = Some (PList [PStr ''12345678''])"
  by (simp_all add: sample_platform_def live_settings_def sample_target_def)

definition ticket_adapters :: adapters where
  "ticket_adapters = run_adapters live_settings True ''12345678'' [''A'']"

definition ticket_snapshot :: portfolio_snapshot where
  "ticket_snapshot = snapshot_of ticket_adapters 0 [(''cash'', PInt 1000)] []"

lemma ticket_heartbeat: "heartbeat_snapshot (\<lambda>i. []) ticket_snapshot =
   PDict [(''available_cash'', PFloat (Fin 1000)), (''net_assets'', PNone), (''observed_at'', PStr [])]" by code_simp

lemma ticket_portfolio: "build_portfolio_snapshot (portfolio_client_of ticket_strategy (Some ticket_account)) ticket_adapters w = (Inr ticket_snapshot, w)"
proof -
  have a: "a_account ticket_adapters = ''12345678''" by (simp add: ticket_adapters_def run_adapters_def)
  have "iter_position_rows (PDict []) = []" by code_simp
  moreover have "normal_balances (ad_account_balances ticket_account) = []" by code_simp
  ultimately show ?thesis
   by (simp add: build_portfolio_snapshot_def portfolio_client_of_def ticket_strategy_def get_balances_def get_positions_def require_connected_def
     a ticket_account_def pget_def dget_or_def Let_def somes_def ticket_snapshot_def bindIO_def returnIO_def)
qed

definition ticket_planned :: planned_run where
  "ticket_planned = sample_planned \<lparr> k_plan := marked_plan, k_heartbeat :=
     PDict [(''available_cash'', PFloat (Fin 1000)), (''net_assets'', PNone), (''observed_at'', PStr [])] \<rparr>"

definition planned_tickets :: ticket_world where
  "planned_tickets = snd (run_after_plan empty_qpk (\<lambda>_. Inr []) sample_outcomes sample_vocabulary quiet_policy False ticket_store
     (build_store_from_env live_env) live_settings ticket_planned (Some (PDict []))
     (with_broker ticket_sdk True live_settings ticket_adapters ticket_ports) (Map.empty, []))"

lemma planned_sends_one: "map (\<lambda>t. (t_account t, t_dry_run t)) (snd planned_tickets) = [(''12345678'', False)]" by code_simp

lemma ticket_planned_eq: "planned_of ticket_strategy ticket_runtime sample_time [] ''12345678'' False ticket_snapshot (idle_decision, None) (marked_plan, ''2026-03'')
   = ticket_planned"
  by (simp add: planned_of_def ticket_strategy_def ticket_heartbeat ticket_planned_def sample_planned_def ticket_runtime_def meta_or_empty_def idle_decision_def)

lemma ticket_for_account: "snd (cycle_for_account ticket_strategy sample_platform live_env False True sample_time [] ticket_account False ''12345678'' (Map.empty, []))
   = planned_tickets"
proof -
  have ports: "ports_of ticket_strategy sample_platform True ticket_account ticket_adapters = with_broker ticket_sdk True live_settings ticket_adapters ticket_ports"
    by (simp add: ports_of_def ticket_strategy_def sample_platform_def)
  show ?thesis
   using ticket_portfolio ticket_planned_eq idle_plan_of_run ports
   by (simp add: cycle_for_account_def Let_def ticket_strategy_sel sample_platform_sel ticket_adapters_def [symmetric]
      planned_tickets_def bindIO_case returnIO_eq)
qed

lemma ticket_cycle_tickets: "snd ticket_cycle = planned_tickets"
proof -
  have s: "configured_selector (Some (PList [PStr ''12345678''])) live_env = Inr (Some ''12345678'')"
    "select_run_account (Some ticket_account) (Some ''12345678'') live_env = Inr ''12345678''" by code_simp+
  have "connect_client ticket_strategy (credentials_from_env (sp_secrets ticket_strategy) live_env True) True w
     = (Inr (attach () ticket_account False (new_client True)), w)" for w
  proof -
    have "require_login_fields (credentials_from_env (sp_secrets ticket_strategy) live_env True) = Inr ()" 
      "c_reuse_session (credentials_from_env (sp_secrets ticket_strategy) live_env True) = False" by code_simp+
    then show ?thesis
     by (simp add: connect_client_def connect_def ticket_strategy_def ticket_login_def login_def Let_def returnIO_def bindIO_def
       save_session_cache_def new_client_def attach_def)
  qed
  with s ticket_for_account show ?thesis
    by (simp add: ticket_cycle_def run_strategy_cycle_def Let_def ticket_strategy_sel sample_platform_sel bindIO_case returnIO_eq attach_def new_client_def
       tell_account_def require_connected_def)
qed

theorem cycle_acts_for_one_account_witness:
  "\<exists>t. snd (snd ticket_cycle) = [t] \<and> \<not> t_dry_run t \<and> cycle_sends snd sample_platform live_env (Map.empty, []) (snd ticket_cycle)"
proof -
  have "cycle_sends snd sample_platform live_env (Map.empty, []) (snd ticket_cycle)"
    unfolding ticket_cycle_def by (rule cycle_acts_for_one_account [OF ticket_strategy_quiet]) simp
  moreover obtain t where "snd (snd ticket_cycle) = [t]" "\<not> t_dry_run t"
    using planned_sends_one unfolding ticket_cycle_tickets by (auto simp: map_eq_Cons_conv)
  ultimately show ?thesis by blast
qed

end
