(* ===== verification/FactsPublisher.thy ===== *)
theory FactsPublisher
  imports SessionCheck StrategyCycle
begin

text \<open>
  \<open>application/account_facts_publisher.py\<close>: the configuration of the publication, the
  snapshot that is built from an observation, and the one POST with its acknowledgement.
  The HTTP session is a parameter.
\<close>

section \<open>Configuration\<close>

definition approved_sync_url :: string where
  "approved_sync_url = ''https://qsl-strategy-switch-console.pigbibi.workers.dev/api/account-facts/sync''"

definition key_char :: "char \<Rightarrow> bool" where
  "key_char c \<longleftrightarrow> is_alnum c \<or> c \<in> set ''._:-''"

text \<open>The regular expressions of the module, as full matches.\<close>

definition is_target_id :: "string \<Rightarrow> bool" where
  "is_target_id s \<longleftrightarrow> s \<noteq> [] \<and> length s \<le> 64 \<and> list_all (\<lambda>c. is_digit c \<or> is_lower c \<or> c = CHR ''-'') s
     \<and> hd s \<noteq> CHR ''-'' \<and> last s \<noteq> CHR ''-''"

definition is_account_key :: "string \<Rightarrow> bool" where
  "is_account_key s \<longleftrightarrow> s \<noteq> [] \<and> is_alnum (hd s) \<and> list_all key_char s"

definition is_binding_id :: "string \<Rightarrow> bool" where
  "is_binding_id s \<longleftrightarrow> length s = 64 \<and> list_all (\<lambda>c. c \<in> set ''0123456789abcdef'') s"

definition is_broker_account_id :: "string \<Rightarrow> bool" where
  "is_broker_account_id s \<longleftrightarrow> 1 \<le> length s \<and> length s \<le> 128 \<and> list_all key_char s"

definition is_position_symbol :: "string \<Rightarrow> bool" where
  "is_position_symbol s \<longleftrightarrow> s \<noteq> [] \<and> length s \<le> 32 \<and> (is_upper (hd s) \<or> is_digit (hd s))
     \<and> list_all (\<lambda>c. is_upper c \<or> is_digit c \<or> c \<in> set ''./ -'') s"

definition safe_qrs_errors :: "string list" where
  "safe_qrs_errors = [''account_facts_daily_conflict'', ''account_facts_observation_conflict'',
     ''account_facts_identity_mismatch'', ''account_facts_binding_unmatched'', ''account_facts_binding_mismatch'',
     ''account_facts_history_out_of_range'', ''account_facts_account_unattributed'', ''account_facts_store_unavailable'']"

record publish_config =
  pc_sync_url :: string
  pc_sync_token :: string
  pc_target_id :: string
  pc_source_binding_id :: string
  pc_account_key :: string
  pc_account_scope :: string
  pc_account_id :: "string option"
  pc_position_currency :: "string option"

definition refuse :: "string \<Rightarrow> 'a exc" where
  "refuse reason = Inl (AccountFactsPublishError reason)"

definition ensure :: "bool \<Rightarrow> string \<Rightarrow> unit exc" where
  "ensure ok reason = guardE ok (AccountFactsPublishError reason)"

definition required_env :: "env \<Rightarrow> string \<Rightarrow> string exc" where
  "required_env env k =
     (case env k of
        None \<Rightarrow> refuse ''configuration_incomplete''
      | Some v \<Rightarrow>
          if v = [] \<or> v \<noteq> py_strip v then refuse ''configuration_incomplete''
          else if list_ex (\<lambda>c. cp c < 32 \<or> cp c = 127) v then refuse ''configuration_invalid''
          else Inr v)"

text \<open>\<open>urlsplit\<close> of the fixed URL has no query, fragment, user or password.\<close>

definition approved_destination :: "string \<Rightarrow> bool" where
  "approved_destination url \<longleftrightarrow>
     url = approved_sync_url
     \<and> split_url url = (''https'', ''qsl-strategy-switch-console.pigbibi.workers.dev'', ''/api/account-facts/sync'')"

definition other_tokens :: "string list" where
  "other_tokens = [''ACCOUNT_FACTS_SYNC_TOKEN'', ''IBKR_ACCOUNT_FACTS_SYNC_TOKEN'', ''SCHWAB_ACCOUNT_FACTS_SYNC_TOKEN'',
     ''BINANCE_ACCOUNT_FACTS_SYNC_TOKEN'', ''EXECUTION_EVIDENCE_SYNC_TOKEN'', ''STRATEGY_SWITCH_SYNC_TOKEN'',
     ''RECONCILIATION_RECOVERY_SYNC_TOKEN'', ''RECONCILIATION_RECOVERY_CONTROLLER_TOKEN'']"

definition configured_account :: "env \<Rightarrow> string option \<Rightarrow> bool \<Rightarrow> string option exc" where
  "configured_account env expected allow_missing =
     bindE (case env ''FIRSTRADE_ACCOUNT'' of
              None \<Rightarrow> Inr expected
            | Some v \<Rightarrow> if v = [] then Inr expected
                else bindE (required_env env ''FIRSTRADE_ACCOUNT'') (\<lambda>a.
                     if expected \<noteq> None \<and> expected \<noteq> Some a then refuse ''account_identity_mismatch'' else Inr (Some a))) (\<lambda>account.
     case account of
       None \<Rightarrow> if allow_missing then Inr None else refuse ''account_identity_unavailable''
     | Some a \<Rightarrow> if is_broker_account_id a then Inr (Some a) else refuse ''account_identity_invalid'')"

definition load_account_facts_publish_config :: "env \<Rightarrow> string option \<Rightarrow> bool \<Rightarrow> publish_config exc" where
  "load_account_facts_publish_config env expected allow_missing =
     bindE (ensure (env ''FIRSTRADE_ACCOUNT_FACTS_SYNC_ENABLED'' = Some ''true'') ''disabled'') (\<lambda>_.
     bindE (required_env env ''FIRSTRADE_ACCOUNT_FACTS_SYNC_URL'') (\<lambda>url.
     bindE (ensure (approved_destination url) ''destination_not_approved'') (\<lambda>_.
     bindE (required_env env ''FIRSTRADE_ACCOUNT_FACTS_SYNC_TOKEN'') (\<lambda>token.
     bindE (ensure (\<not> list_ex is_space token) ''sync_token_invalid'') (\<lambda>_.
     bindE (ensure (\<not> list_ex (\<lambda>k. env k = Some token) other_tokens) ''sync_token_not_dedicated'') (\<lambda>_.
     bindE (required_env env ''FIRSTRADE_ACCOUNT_FACTS_TARGET_ID'') (\<lambda>target.
     bindE (ensure (is_target_id target) ''target_invalid'') (\<lambda>_.
     bindE (required_env env ''FIRSTRADE_ACCOUNT_FACTS_SOURCE_BINDING_ID'') (\<lambda>binding.
     bindE (ensure (is_binding_id binding) ''source_binding_invalid'') (\<lambda>_.
     bindE (required_env env ''FIRSTRADE_ACCOUNT_FACTS_ACCOUNT_KEY'') (\<lambda>key.
     bindE (ensure (length key \<le> 128 \<and> is_account_key key) ''account_key_invalid'') (\<lambda>_.
     bindE (required_env env ''FIRSTRADE_ACCOUNT_FACTS_ACCOUNT_SCOPE'') (\<lambda>scope.
     bindE (ensure (length scope \<le> 128 \<and> is_account_key scope) ''account_scope_invalid'') (\<lambda>_.
     bindE (configured_account env expected allow_missing) (\<lambda>account.
     let currency = env_or env ''FIRSTRADE_ACCOUNT_FACTS_POSITION_CURRENCY'' [] in
     bindE (ensure (currency = [] \<or> is_currency currency) ''position_currency_invalid'') (\<lambda>_.
     Inr \<lparr> pc_sync_url = url, pc_sync_token = token, pc_target_id = target, pc_source_binding_id = binding,
           pc_account_key = key, pc_account_scope = scope, pc_account_id = account,
           pc_position_currency = (if currency = [] then None else Some currency) \<rparr>))))))))))))))))"

definition bind_account_facts_runtime_selector :: "publish_config \<Rightarrow> pyval \<Rightarrow> publish_config exc" where
  "bind_account_facts_runtime_selector cfg selector =
     (case selector of
        PStr a \<Rightarrow>
          if \<not> is_broker_account_id a then refuse ''runtime_target_account_selector_invalid''
          else if pc_account_id cfg \<noteq> None \<and> pc_account_id cfg \<noteq> Some a then refuse ''account_identity_mismatch''
          else Inr (cfg \<lparr> pc_account_id := Some a \<rparr>)
      | _ \<Rightarrow> refuse ''runtime_target_account_selector_invalid'')"

section \<open>The snapshot\<close>

text \<open>\<open>from_iso\<close> as in \<open>archive_time\<close>.\<close>

definition timestamp :: "(string \<Rightarrow> datetime option exc) \<Rightarrow> pyval \<Rightarrow> datetime exc" where
  "timestamp from_iso v =
     (case v of
        PStr s \<Rightarrow> (case from_iso (zulu s) of
            Inr (Some t) \<Rightarrow> Inr t
          | Inr None \<Rightarrow> refuse ''snapshot_invalid''
          | Inl (ValueError m) \<Rightarrow> refuse ''snapshot_invalid''
          | Inl e \<Rightarrow> Inl e)
      | _ \<Rightarrow> refuse ''snapshot_invalid'')"

text \<open>\<open>_AMOUNT_RE\<close>: an integer without leading zeros and an optional fraction.\<close>

definition unsigned :: "string \<Rightarrow> string" where
  "unsigned s = (case s of [] \<Rightarrow> [] | c # r \<Rightarrow> if c = CHR ''-'' then r else s)"

definition is_amount :: "string \<Rightarrow> bool" where
  "is_amount s \<longleftrightarrow>
     (case partition_at (CHR ''.'') (unsigned s) of (w, dot, f) \<Rightarrow>
        all_digits w \<and> (w = ''0'' \<or> hd w \<noteq> CHR ''0'') \<and> (dot \<longrightarrow> all_digits f))"

definition amount :: "pyval \<Rightarrow> string exc" where
  "amount v =
     (case v of
        PStr s \<Rightarrow>
          if 64 < length s \<or> \<not> is_amount s then refuse ''snapshot_amount_invalid''
          else (case partition_at (CHR ''.'') (dropWhile (\<lambda>c. c = CHR ''-'') s) of (w, dot, f) \<Rightarrow>
                 if 15 < length w \<or> 8 < length f then refuse ''snapshot_amount_out_of_range'' else Inr s)
      | _ \<Rightarrow> refuse ''snapshot_amount_invalid'')"

definition identity_matches :: "pyval dict \<Rightarrow> publish_config \<Rightarrow> string \<Rightarrow> bool" where
  "identity_matches obs cfg scope \<longleftrightarrow>
     pget obs ''status'' = PStr ''available'' \<and> pget obs ''platform'' = PStr ''firstrade''
     \<and> pget obs ''account_selector_status'' = PStr ''matched'' \<and> pc_account_id cfg \<noteq> None
     \<and> pget obs ''broker_account_id'' = opt_str (pc_account_id cfg) \<and> scope = pc_account_scope cfg"

definition published_position :: "string \<Rightarrow> string list \<Rightarrow> pyval \<Rightarrow> (string \<times> pyval) exc" where
  "published_position configured seen row =
     (case row of
        PDict d \<Rightarrow> (case pget d ''symbol'' of
            PStr symbol \<Rightarrow>
              if \<not> is_position_symbol symbol \<or> symbol \<in> set seen then refuse ''positions_invalid''
              else (let native = pget d ''currency''; currency = (if native = PNone then PStr configured else native) in
                bindE (ensure (case currency of PStr c \<Rightarrow> is_currency c | _ \<Rightarrow> False) ''position_currency_invalid'') (\<lambda>_.
                bindE (amount (pget d ''quantity'')) (\<lambda>quantity.
                bindE (amount (pget d ''market_value'')) (\<lambda>value.
                Inr (symbol, PDict ([(''symbol'', PStr symbol), (''quantity'', PStr quantity), (''market_value'', PStr value),
                               (''currency'', currency)]
                             @ (if native = PNone then [(''currency_source'', PStr ''configured'')] else [])))))))
          | _ \<Rightarrow> refuse ''positions_invalid'')
      | _ \<Rightarrow> refuse ''positions_invalid'')"

fun published_positions :: "string \<Rightarrow> string list \<Rightarrow> pyval list \<Rightarrow> pyval list exc" where
  "published_positions configured seen [] = Inr []"
| "published_positions configured seen (row # rows) =
     bindE (published_position configured seen row) (\<lambda>(symbol, item).
     bindE (published_positions configured (symbol # seen) rows) (\<lambda>items. Inr (item # items)))"

definition position_fields :: "pyval dict \<Rightarrow> publish_config \<Rightarrow> pyval dict exc" where
  "position_fields obs cfg =
     (case pc_position_currency cfg of
        None \<Rightarrow> Inr []
      | Some currency \<Rightarrow>
          if pget obs ''positions_status'' \<noteq> PStr ''available'' then refuse ''positions_unavailable''
          else (case pget obs ''positions'' of
              PList rows \<Rightarrow>
                if 64 < length rows then refuse ''positions_unavailable''
                else bindE (published_positions currency [] rows) (\<lambda>items.
                  Inr (if items = [] then []
                       else [(''broker_reported_positions'', PList items), (''broker_reported_positions_scope'', PStr ''broker_reported'')]))
            | _ \<Rightarrow> refuse ''positions_unavailable''))"

definition valuation_fields :: "pyval dict \<Rightarrow> pyval dict \<Rightarrow> bool \<Rightarrow> pyval dict exc" where
  "valuation_fields obs b include =
     (if \<not> include then Inr []
      else if pget b ''long_stock_value'' = PNone
      then bindE (dict_or (pget obs ''coverage'')) (\<lambda>coverage.
           refuse (if pget coverage ''long_stock_value_ambiguous'' = PBool True then ''long_stock_value_ambiguous''
                   else ''long_stock_value_unavailable''))
      else bindE (amount (pget b ''long_stock_value'')) (\<lambda>v. Inr [(''long_stock_value'', PStr v)]))"

definition cash_rows :: "pyval dict \<Rightarrow> string \<Rightarrow> pyval list exc" where
  "cash_rows b currency =
     (if pget b ''cash_balance'' = PNone then Inr []
      else bindE (amount (pget b ''cash_balance'')) (\<lambda>v.
        Inr [PDict [(''currency'', PStr currency), (''cash_balance'', PStr v), (''source_tag'', PStr ''provider.cash_balance'')]]))"

text \<open>\<open>schema_fields\<close> is what does not depend on the numbers.\<close>

definition schema_fields :: "publish_config \<Rightarrow> datetime \<Rightarrow> datetime \<Rightarrow> pyval dict" where
  "schema_fields cfg started finished =
     [(''schema_version'', PStr ''firstrade_account_snapshot_history.v1''),
      (''snapshot_schema_version'', PStr ''firstrade_account_snapshot.v1''),
      (''account_scope'', PStr (pc_account_scope cfg)), (''target_id'', PStr (pc_target_id cfg)),
      (''source_binding'', PDict [(''kind'', PStr ''deployment_runtime_account''), (''status'', PStr ''bound''),
         (''id'', PStr (pc_source_binding_id cfg))]),
      (''observed_started_at'', PStr (isoformat started)), (''observed_finished_at'', PStr (isoformat finished)),
      (''snapshot_atomic'', PBool False), (''observation_date'', PStr (date_isoformat (day_of started))),
      (''broker_account_id'', opt_str (pc_account_id cfg))]"

definition build_firstrade_account_snapshot ::
  "(string \<Rightarrow> datetime option exc) \<Rightarrow> pyval dict \<Rightarrow> publish_config \<Rightarrow> string \<Rightarrow> bool \<Rightarrow> pyval dict exc" where
  "build_firstrade_account_snapshot from_iso obs cfg scope include =
     bindE (ensure (identity_matches obs cfg scope) ''account_identity_mismatch'') (\<lambda>_.
     bindE (case pget obs ''balances'' of PDict b \<Rightarrow> Inr b | _ \<Rightarrow> refuse ''snapshot_invalid'') (\<lambda>b.
     bindE (case pget b ''currency'' of
              PStr c \<Rightarrow> if is_currency c then Inr c else refuse ''provider_currency_unavailable''
            | _ \<Rightarrow> refuse ''provider_currency_unavailable'') (\<lambda>currency.
     bindE (ensure (pget b ''provider_equity'' \<noteq> PNone) ''provider_equity_unavailable'') (\<lambda>_.
     bindE (timestamp from_iso (pget obs ''observed_started_at'')) (\<lambda>started.
     bindE (timestamp from_iso (pget obs ''observed_finished_at'')) (\<lambda>finished.
     bindE (ensure (\<not> dt_fields finished < dt_fields started) ''snapshot_time_invalid'') (\<lambda>_.
     bindE (cash_rows b currency) (\<lambda>cash.
     bindE (amount (pget b ''provider_equity'')) (\<lambda>equity.
     bindE (valuation_fields obs b include) (\<lambda>long.
     bindE (position_fields obs cfg) (\<lambda>positions.
     Inr (schema_fields cfg started finished
          @ [(''broker_reported_balances'', PList [PDict ([(''currency'', PStr currency), (''net_assets'', PStr equity)] @ long)]),
             (''cash'', PList cash)]
          @ positions))))))))))))"

section \<open>The publication\<close>

fun contains_private_account_id :: "pyval \<Rightarrow> bool" where
  "contains_private_account_id (PDict d) = list_ex (\<lambda>(k, v). k = ''broker_account_id'' \<or> contains_private_account_id v) d"
| "contains_private_account_id (PList xs) = list_ex contains_private_account_id xs"
| "contains_private_account_id _ = False"

definition ack_matches :: "pyval \<Rightarrow> publish_config \<Rightarrow> string \<Rightarrow> string \<Rightarrow> bool" where
  "ack_matches v cfg day finished \<longleftrightarrow>
     (case v of
        PDict d \<Rightarrow>
          pget d ''ok'' = PBool True \<and> pget d ''stored'' = PBool True \<and> pget d ''platform'' = PStr ''firstrade''
          \<and> pget d ''account_key'' = PStr (pc_account_key cfg) \<and> pget d ''target_id'' = PStr (pc_target_id cfg)
          \<and> pget d ''observation_date'' = PStr day \<and> pget d ''observed_finished_at'' = PStr finished
          \<and> \<not> contains_private_account_id v
      | _ \<Rightarrow> False)"

record publish_request =
  pq_url :: string
  pq_json :: "pyval dict"
  pq_authorization :: string
  pq_timeout :: "int \<times> int"
  pq_allow_redirects :: bool
  pq_trust_env :: bool

record 'w http_ports =
  ph_open :: "('w, unit) io"
  ph_post :: "publish_request \<Rightarrow> ('w, response) io"
  ph_close :: "'w \<Rightarrow> 'w"
  ph_print :: "string \<Rightarrow> 'w \<Rightarrow> 'w"

definition publish_url :: "publish_config \<Rightarrow> bool \<Rightarrow> string" where
  "publish_url cfg historical =
     (let u = pc_sync_url cfg in
      if historical then (if ends_with u ''/sync'' then take (length u - 5) u else u) @ ''/history/sync'' else u)"

definition snapshot_request :: "pyval dict \<Rightarrow> publish_config \<Rightarrow> bool \<Rightarrow> publish_request" where
  "snapshot_request payload cfg historical =
     \<lparr> pq_url = publish_url cfg historical, pq_json = payload, pq_authorization = ''Bearer '' @ pc_sync_token cfg,
       pq_timeout = (5, 15), pq_allow_redirects = False, pq_trust_env = False \<rparr>"

definition qrs_error :: "response \<Rightarrow> string" where
  "qrs_error r =
     (case rsp_json r of
        Some (PDict b) \<Rightarrow> (case pget b ''error'' of PStr e \<Rightarrow> if e \<in> set safe_qrs_errors then e else [] | _ \<Rightarrow> [])
      | _ \<Rightarrow> [])"

definition reject_line :: "response \<Rightarrow> string" where
  "reject_line r =
     ''account_facts_sync qrs_reject status='' @ (if 100 \<le> rsp_status r \<and> rsp_status r \<le> 599 then int_str (rsp_status r) else ''unknown'')
     @ '' error='' @ (if qrs_error r = [] then ''<redacted>'' else qrs_error r)"

definition acknowledged :: "pyval dict \<Rightarrow> publish_config \<Rightarrow> bool \<Rightarrow> response \<Rightarrow> unit exc" where
  "acknowledged payload cfg historical r =
     (if 8192 < length (rsp_content r) then refuse ''sync_ack_invalid''
      else case rsp_json r of
        None \<Rightarrow> refuse ''sync_ack_invalid''
      | Some ack \<Rightarrow>
          bindE (need payload ''observation_date'') (\<lambda>day.
          bindE (need payload ''observed_finished_at'') (\<lambda>finished.
          if \<not> ack_matches ack cfg (py_str day) (py_str finished) then refuse ''sync_ack_invalid''
          else ensure (historical \<longrightarrow> (case ack of
                 PDict d \<Rightarrow> pget d ''historical'' = PBool True \<and> pget d ''latest_unchanged'' = PBool True | _ \<Rightarrow> False))
               ''sync_ack_invalid'')))"

definition publish_firstrade_account_snapshot ::
  "'w http_ports \<Rightarrow> pyval dict \<Rightarrow> publish_config \<Rightarrow> bool \<Rightarrow> ('w, unit) io" where
  "publish_firstrade_account_snapshot k payload cfg historical w =
     (case ph_open k w of
        (Inl e, w1) \<Rightarrow> (refuse ''sync_unavailable'', w1)
      | (Inr _, w1) \<Rightarrow>
          (case ph_post k (snapshot_request payload cfg historical) w1 of
             (Inl e, w2) \<Rightarrow> (refuse ''sync_unavailable'', ph_close k w2)
           | (Inr r, w2) \<Rightarrow>
               if rsp_status r \<noteq> 200 then (refuse ''sync_rejected'', ph_close k (ph_print k (reject_line r) w2))
               else (acknowledged payload cfg historical r, ph_close k w2)))"

section \<open>What an observation says can be published\<close>

lemma int_digits_hd: "0 < n \<Longrightarrow> hd (int_digits n) \<noteq> CHR ''0''"
proof (induction n rule: int_digits.induct)
  case (1 n)
  show ?case
  proof (cases "n < 10")
    case True
    then have "n \<in> {1, 2, 3, 4, 5, 6, 7, 8, 9}" using 1(2) by auto
    then show ?thesis by (elim insertE; simp; code_simp)
  next
    case False
    then have "int_digits n = int_digits (n div 10) @ int_digits (n mod 10)" by (subst int_digits.simps) (simp add: int_digits.simps [of "n mod 10"])
    moreover have "int_digits (n div 10) \<noteq> []" by (subst int_digits.simps) simp
    moreover have "0 < n div 10" using False by linarith
    ultimately show ?thesis using 1(1) False by simp
  qed
qed

lemma plain_text_is_amount:
  assumes "0 \<le> n" "n < 10 ^ (30 + k)" "k \<le> 28"
  shows "is_amount (plain_text neg n k)" "length (plain_text neg n k) \<le> 64"
proof -
  let ?w = "int_digits (n div 10 ^ k)" and ?f = "fraction_text k (n mod 10 ^ k)"
  have q: "0 \<le> n div 10 ^ k" using assms(1) by (simp add: pos_imp_zdiv_nonneg_iff)
  have "is_amount (plain_text neg n k) \<and> length (plain_text neg n k) \<le> 64"
  proof (cases "n = 0")
    case True
    moreover have "is_amount ''0''" by code_simp
    ultimately show ?thesis by (simp add: plain_text_def)
  next
    case False
    note parts = plain_text_parts [OF assms(1) False, where k = k]
    have pt: "plain_text neg n k = (if neg then ''-'' else []) @ ?w @ (if ?f = [] then [] else CHR ''.'' # ?f)"
      using False by (simp add: plain_text_def fraction_text_def Let_def)
    have w: "?w \<noteq> []" "CHR ''.'' \<notin> set ?w" "hd ?w \<noteq> CHR ''-''"
      using parts(5) digit_not_sep by (auto simp: all_digits_def list_all_iff dest: hd_in_set)
    have u: "unsigned (plain_text neg n k) = ?w @ (if ?f = [] then [] else CHR ''.'' # ?f)"
      using w(1,3) unfolding pt unsigned_def by (cases neg; cases ?w) auto
    have p: "partition_at (CHR ''.'') (?w @ (if ?f = [] then [] else CHR ''.'' # ?f)) = (?w, ?f \<noteq> [], ?f)"
      using w(2) by (auto simp: partition_at_def Let_def takeWhile_append dropWhile_append)
    have "?w = ''0'' \<or> hd ?w \<noteq> CHR ''0''"
      using q int_digits_hd [of "n div 10 ^ k"] by (cases "n div 10 ^ k = 0") (auto simp: int_digits.simps)
    then have amount: "is_amount (plain_text neg n k)"
      using parts(5,6) by (auto simp: is_amount_def u p all_digits_def)
    have "n div 10 ^ k < 10 ^ 30" using assms(2) unfolding power_add by (intro div_below) (simp_all del: power_numeral)
    then have "length ?w \<le> 30" using q by (intro length_int_digits) simp_all
    then show ?thesis using amount parts(4) assms(3) by (simp add: pt)
  qed
  then show "is_amount (plain_text neg n k)" "length (plain_text neg n k) \<le> 64" by auto
qed

lemma amount_of_text:
  "is_amount t \<Longrightarrow> length t \<le> 64 \<Longrightarrow> amount (PStr t) = Inr t \<or> amount (PStr t) = refuse ''snapshot_amount_out_of_range''"
  by (auto simp: amount_def split: prod.split)

text \<open>
  The two readers of numbers agree: a text that the observation writes for a
  value that is not in parentheses is an amount the snapshot publishes unchanged, or refuses
  only for its range.
\<close>

theorem observed_numbers_are_publishable:
  assumes "decimal_text v = Inr (Some t)" "\<not> in_parentheses (py_strip (py_str v))"
  shows "is_amount t \<and> (amount (PStr t) = Inr t \<or> amount (PStr t) = refuse ''snapshot_amount_out_of_range'')"
proof -
  obtain neg w f where p: "decimal_shape (unwrapped (py_strip (py_str v))) = Some (neg, w, f)" "length w \<le> 30" "length f \<le> 28"
    "t = plain_text neg (digits_val (w @ f)) (length f)"
    using decimal_of_text_parts [OF decimal_text_of [OF assms(1)] assms(2)] by blast
  have "list_all is_digit (w @ f)" using decimal_shape_digits [OF p(1)] by (auto simp: all_digits_def)
  then have n: "0 \<le> digits_val (w @ f)" "digits_val (w @ f) < 10 ^ length (w @ f)" using digits_val_bounds by blast+
  moreover have "(10::int) ^ length (w @ f) \<le> 10 ^ (30 + length f)" using p(2) by (intro power_increasing) auto
  ultimately have "digits_val (w @ f) < 10 ^ (30 + length f)" by linarith
  from plain_text_is_amount [OF n(1) this p(3), of neg] show ?thesis
    using amount_of_text unfolding p(4) by blast
qed

theorem observed_numbers_are_publishable_witness:
  "decimal_text (PStr '' $1,234.500 '') = Inr (Some ''1234.5'') \<and> amount (PStr ''1234.5'') = Inr ''1234.5'' \<and> is_amount ''1234.5''"
proof -
  have a: "decimal_text (PStr '' $1,234.500 '') = Inr (Some ''1234.5'')" "\<not> in_parentheses (py_strip (py_str (PStr '' $1,234.500 '')))"
    by code_simp+
  have "amount (PStr ''1234.5'') = Inr ''1234.5''" by code_simp
  then show ?thesis using observed_numbers_are_publishable [OF a] a(1) by blast
qed

end
