(* ===== verification/ExecutionReceipt.thy ===== *)
theory ExecutionReceipt
  imports RunProperties
begin

text \<open>
  \<open>application/execution_receipt_adapter.py\<close>: the facts a run's result proves about the
  broker, and the status of the report and of the HTTP answer (\<open>main.py\<close>). The receipt
  resolver and the attachment of \<open>quant_platform_kit\<close> are parameters.
\<close>

section \<open>Facts of a result\<close>

definition reconciliation_stages :: "string list" where
  "reconciliation_stages = [''PENDING_RECONCILIATION'', ''PENDING_SUBMISSION'']"

definition risk_blocked_stages :: "string list" where
  "risk_blocked_stages = [''EXECUTION_BLOCKED'', ''FUNDING_BLOCKED'']"

definition error_fields :: "string list" where
  "error_fields = [''error'', ''errors'', ''strategy_run_persistence_error'', ''strategy_plugin_error'',
     ''strategy_plugin_alert_error'', ''notification_error'', ''report_persistence_error'']"

definition as_sequence :: "pyval \<Rightarrow> pyval list" where
  "as_sequence v = (case v of PList xs \<Rightarrow> xs | _ \<Rightarrow> [])"

definition is_expected_funding_skip :: "run_outcomes \<Rightarrow> pyval dict \<Rightarrow> bool" where
  "is_expected_funding_skip oc r \<longleftrightarrow>
     (let blockers = as_sequence (pget r ''execution_blocking_skips'') in
      is_true (pget r ''ok'')
      \<and> pget r ''strategy_run_stage'' = PStr ''FUNDING_BLOCKED''
      \<and> is_true (pget r ''funding_blocked'')
      \<and> pget r ''action_done'' = PBool False
      \<and> pget r ''broker_submission_done'' = PBool False
      \<and> pget r ''submitted_orders'' = PList []
      \<and> \<not> truthy (pget r ''orders_pending_count'')
      \<and> \<not> truthy (pget r ''pending_reconciliation'')
      \<and> pget r ''execution_status'' \<noteq> PStr ''pending_reconciliation''
      \<and> \<not> any_of r error_fields
      \<and> blockers \<noteq> [] \<and> list_all is_dict blockers \<and> is_funding_block oc blockers)"

definition ok_is_false :: "pyval dict \<Rightarrow> bool" where
  "ok_is_false r \<longleftrightarrow> dget_or r ''ok'' (PBool True) = PBool False"

definition strategy_result_report_status :: "pyval dict \<Rightarrow> string" where
  "strategy_result_report_status r = (if ok_is_false r \<or> any_of r error_fields then ''error'' else ''ok'')"

definition strategy_result_http_status :: "run_outcomes \<Rightarrow> pyval dict \<Rightarrow> int" where
  "strategy_result_http_status oc r =
     (if is_expected_funding_skip oc r then 200
      else if truthy (pget r ''execution_blocked'') \<and> truthy (pget r ''execution_block_retryable'') then 500
      else 200)"

section \<open>Receipts\<close>

text \<open>\<open>None\<close> is an argument that the caller leaves at the resolver's default.\<close>

record receipt_facts =
  f_dry_run :: bool
  f_submission_attempted :: bool
  f_reconciliation_required :: "bool option"
  f_risk_blocked :: "bool option"
  f_failed :: bool

record receipt_ports =
  resolve_fact :: "receipt_facts \<Rightarrow> (string \<times> string) exc"
  attach_receipt :: "pyval dict \<Rightarrow> string \<Rightarrow> string \<Rightarrow> pyval dict exc"

definition is_legacy_unattested :: "pyval dict \<Rightarrow> bool" where
  "is_legacy_unattested report =
     (case pget report ''runtime_release_receipt'' of
        PDict r \<Rightarrow> pget r ''attestation_state'' = PStr ''legacy_unattested'' \<and> pget r ''strategy_release'' = PNone
      | _ \<Rightarrow> False)"

definition facts_of :: "run_outcomes \<Rightarrow> pyval dict \<Rightarrow> bool \<Rightarrow> receipt_facts" where
  "facts_of oc r dry =
     (let stage = py_upper (py_strip (str_or (pget r ''strategy_run_stage'')));
          attempted = (truthy (pget r ''action_done'') \<or> truthy (pget r ''broker_submission_done'')
            \<or> as_sequence (pget r ''submitted_orders'') \<noteq> []);
          reconcile = (stage \<in> set reconciliation_stages
            \<or> pget r ''execution_status'' = PStr ''pending_reconciliation'' \<or> truthy (pget r ''orders_pending_count''));
          blocked = (\<not> attempted \<and> \<not> is_expected_funding_skip oc r
            \<and> (stage \<in> set risk_blocked_stages \<or> truthy (pget r ''execution_blocked'') \<or> truthy (pget r ''funding_blocked'')))
      in \<lparr> f_dry_run = dry, f_submission_attempted = attempted, f_reconciliation_required = Some reconcile,
           f_risk_blocked = Some blocked,
           f_failed = (ok_is_false r \<and> \<not> attempted \<and> \<not> reconcile \<and> \<not> blocked) \<rparr>)"

definition attach_strategy_result_execution_receipt ::
  "receipt_ports \<Rightarrow> run_outcomes \<Rightarrow> pyval dict \<Rightarrow> pyval dict \<Rightarrow> bool \<Rightarrow> pyval dict exc" where
  "attach_strategy_result_execution_receipt k oc report r dry =
     (if is_legacy_unattested report then Inr report
      else bindE (resolve_fact k (facts_of oc r dry)) (\<lambda>(outcome, confirmation).
           attach_receipt k report outcome confirmation))"

definition attach_unknown_failure_execution_receipt :: "receipt_ports \<Rightarrow> pyval dict \<Rightarrow> pyval dict exc" where
  "attach_unknown_failure_execution_receipt k report =
     (if is_legacy_unattested report then Inr report
      else bindE (if truthy (pget report ''dry_run'') then Inr (''failed'', ''not_applicable'')
                  else resolve_fact k \<lparr> f_dry_run = False, f_submission_attempted = True,
                         f_reconciliation_required = None, f_risk_blocked = None, f_failed = True \<rparr>)
             (\<lambda>(outcome, confirmation). attach_receipt k report outcome confirmation))"

section \<open>Facts\<close>

lemma dget_dupdate_other: "k \<notin> set (dkeys e) \<Longrightarrow> dget (dupdate d e) k = dget d k"
  by (induction e arbitrary: d) (auto simp: dget_dset)

lemma pget_dupdate_other: "k \<notin> set (dkeys e) \<Longrightarrow> pget (dupdate d e) k = pget d k"
  by (simp add: pget_def dget_or_def dget_dupdate_other)

definition result_keys :: "string list" where
  "result_keys = [''ok'', ''strategy_run_stage'', ''funding_blocked'', ''action_done'', ''broker_submission_done'',
     ''submitted_orders'', ''orders_pending_count'', ''pending_reconciliation'', ''execution_status'', ''error'',
     ''errors'', ''strategy_run_persistence_error'', ''strategy_plugin_error'', ''strategy_plugin_alert_error'',
     ''notification_error'', ''report_persistence_error'', ''execution_blocking_skips'']"

lemma skip_rows_dicts: "list_all is_dict (skip_rows p res)"
  by (auto simp: skip_rows_def skip_row_def list_all_iff)

lemma verdict_expected:
  assumes "v = verdict oc st p res" "v_expected_funding_skip v"
  shows "v_funding_blocked v" "\<not> action_done res" "\<not> broker_submission_done res" "submitted_orders res = []"
    "\<not> pending_reconciliation res" "v_blocking_skips v = filter_blocking_skips oc (skip_rows p res) (blocking_reasons oc)"
    "is_funding_block oc (v_blocking_skips v)"
  using assms by (simp_all add: verdict_def Let_def)

lemma executed_fields_keys:
  "list_all (\<lambda>k. pget (executed_fields st p v res persisted) k =
    pget [(''ok'', PBool (\<not> v_blocked v \<or> v_expected_funding_skip v)), (''strategy_run_stage'', PStr (v_stage v)),
          (''action_done'', PBool (action_done res)), (''broker_submission_done'', PBool (broker_submission_done res)),
          (''submitted_orders'', PList (map (\<lambda>o1. PDict (order_dict o1)) (submitted_orders res))),
          (''orders_pending_count'', PInt (pending_count res)), (''execution_status'', PStr (pending_status res))] k) result_keys"
  by (simp add: result_keys_def executed_fields_def base_fields_def)

lemmas executed_fields_key = executed_fields_keys [unfolded list_all_iff, THEN bspec]

lemma counts_field_key: "k \<noteq> ''routine_observation_counts'' \<Longrightarrow> pget (counts_field c r) k = pget r k"
  by (auto simp: counts_field_def pget_dset split: option.splits)

lemma block_fields_key:
  "k \<noteq> ''execution_blocked'' \<Longrightarrow> k \<noteq> ''execution_block_retryable'' \<Longrightarrow> v_blocked v \<Longrightarrow> v_expected_funding_skip v \<Longrightarrow>
   pget (block_fields v a r) k = (if k = ''execution_blocking_skips'' then PList (v_blocking_skips v) else pget r k)"
  by (auto simp: block_fields_def pget_dset)

lemma funding_fields_key:
  "k \<noteq> ''notification_suppressed_by_policy'' \<Longrightarrow> k \<noteq> ''notification_suppressed_reason'' \<Longrightarrow> v_funding_blocked v \<Longrightarrow>
   pget (funding_fields v e r) k = (if k = ''funding_blocked'' then PBool True else pget r k)"
  by (auto simp: funding_fields_def pget_dset)

lemma executed_result_key:
  assumes "k \<in> set result_keys" "list_all (\<lambda>k. k \<notin> set (dkeys af)) result_keys"
    "list_all (\<lambda>k. k \<notin> set (dkeys (k_plugin_report p))) result_keys"
    "v_expected_funding_skip v" "v_blocked v" "v_funding_blocked v"
  shows "pget (executed_result st p v res acquired existing persisted [] counts af []) k =
    (if k = ''funding_blocked'' then PBool True
     else if k = ''execution_blocking_skips'' then PList (v_blocking_skips v)
     else pget (executed_fields st p v res persisted) k)"
proof -
  have "k \<notin> set (dkeys af)" "k \<notin> set (dkeys (k_plugin_report p))" using assms(1-3) by (auto simp: list_all_iff)
  moreover have "k \<notin> {''routine_observation_counts'', ''execution_blocked'', ''execution_block_retryable'',
      ''notification_suppressed_by_policy'', ''notification_suppressed_reason''}"
    using assms(1) by (auto simp: result_keys_def)
  ultimately show ?thesis
    using assms(4-6)
    by (simp add: executed_result_def alert_result_fields_def error_field_def pget_dupdate_other funding_fields_key
        block_fields_key counts_field_key)
qed

section \<open>Properties\<close>

text \<open>
  Property C28. The run and the receipt adapter agree on what a normal cash skip is: a run
  that \<open>run_strategy_cycle\<close> calls an expected funding skip, at stage \<open>FUNDING_BLOCKED\<close> and
  with nothing else wrong, is recognised as one from its result alone; so its report is
  \<open>ok\<close> and the HTTP answer is 200.
\<close>

theorem expected_funding_skip_is_recognised:
  assumes "v = verdict oc st p res" "v_expected_funding_skip v" "v_blocked v" "v_stage v = ''FUNDING_BLOCKED''"
    and "set (filter_blocking_skips oc (skip_rows p res) (blocking_reasons oc)) \<subseteq> set (skip_rows p res)"
    and "list_all (\<lambda>k. k \<notin> set (dkeys af)) result_keys"
    and "list_all (\<lambda>k. k \<notin> set (dkeys (k_plugin_report p))) result_keys"
    and "r = executed_result st p v res acquired existing persisted [] counts af []"
  shows "is_expected_funding_skip oc r \<and> strategy_result_report_status r = ''ok'' \<and> strategy_result_http_status oc r = 200"
proof -
  note e = verdict_expected [OF assms(1,2)]
  note key = executed_result_key [OF _ assms(6,7,2,3) e(1), of _ st res acquired existing persisted counts, folded assms(8)]
  have "v_blocking_skips v \<noteq> []" using assms(1,3) by (simp add: verdict_def Let_def)
  moreover have "list_all is_dict (v_blocking_skips v)"
    using skip_rows_dicts [of p res] assms(5) e(6) by (auto simp: list_all_iff)
  moreover have no: "\<not> any_of r error_fields"
    by (simp add: any_of_def error_fields_def key executed_fields_key result_keys_def e(4,5) pending_count_def pending_status_def)
  moreover have facts: "pget r ''ok'' = PBool True" "pget r ''strategy_run_stage'' = PStr ''FUNDING_BLOCKED''"
    "pget r ''funding_blocked'' = PBool True" "pget r ''execution_blocking_skips'' = PList (v_blocking_skips v)"
    "pget r ''action_done'' = PBool False" "pget r ''broker_submission_done'' = PBool False"
    "pget r ''submitted_orders'' = PList []" "pget r ''orders_pending_count'' = PInt 0"
    "pget r ''pending_reconciliation'' = PNone" "pget r ''execution_status'' = PStr []"
    by (simp_all add: key executed_fields_key result_keys_def assms(2,4) e(2-5) pending_count_def pending_status_def)
  ultimately have "is_expected_funding_skip oc r"
    using e(7) by (simp add: is_expected_funding_skip_def is_true_def as_sequence_def)
  moreover note facts(1)
  then have "\<not> ok_is_false r" by (auto simp: ok_is_false_def dget_or_def pget_def split: option.splits)
  ultimately show ?thesis using no by (simp add: strategy_result_report_status_def strategy_result_http_status_def)
qed

definition funding_outcomes :: run_outcomes where
  "funding_outcomes = \<lparr> default_blocking_skip_reasons = [''insufficient_cash''], filter_blocking_skips = (\<lambda>xs _. xs),
     is_funding_block = (\<lambda>xs. xs \<noteq> []), resolve_stage = (\<lambda>_ _ _ _. ''FUNDING_BLOCKED'') \<rparr>"

definition poor_planned :: planned_run where
  "poor_planned = sample_planned \<lparr> k_diagnostics := [(''skip_reason'', PStr ''insufficient_cash'')] \<rparr>"

definition no_orders :: cycle_result where
  "no_orders = \<lparr> submitted_orders = [], skipped_orders = [], action_done = False, broker_submission_done = False,
     pending_reconciliation = False, execution_notes = [], idempotency_blocked = False \<rparr>"

theorem expected_funding_skip_is_recognised_witness:
  "is_expected_funding_skip funding_outcomes (executed_result live_settings poor_planned
     (verdict funding_outcomes live_settings poor_planned no_orders) no_orders False None True [] None empty_alert_fields [])"
proof -
  have sk: "skip_rows poor_planned no_orders = [PDict [(''reason'', PStr ''insufficient_cash'')]]"
    by code_simp
  have v: "v_expected_funding_skip (verdict funding_outcomes live_settings poor_planned no_orders)"
    "v_blocked (verdict funding_outcomes live_settings poor_planned no_orders)"
    "v_stage (verdict funding_outcomes live_settings poor_planned no_orders) = ''FUNDING_BLOCKED''"
    by (simp_all add: verdict_def Let_def funding_outcomes_def no_orders_def sk [unfolded no_orders_def])
  have k: "list_all (\<lambda>k. k \<notin> set (dkeys empty_alert_fields)) result_keys"
    "list_all (\<lambda>k. k \<notin> set (dkeys (k_plugin_report poor_planned))) result_keys"
    by code_simp+
  have f: "set (filter_blocking_skips funding_outcomes (skip_rows poor_planned no_orders) (blocking_reasons funding_outcomes))
      \<subseteq> set (skip_rows poor_planned no_orders)"
    by (simp add: funding_outcomes_def)
  show ?thesis using expected_funding_skip_is_recognised [OF refl v f k refl] by blast
qed

end
