(* ===== verification/NotificationKind.thy ===== *)
theory NotificationKind
  imports RunCycle
begin

text \<open>
  What kind of message a run deserves: \<open>cycle_kind\<close> and \<open>known_pending_orders\<close> of
  \<open>notifications/unified.py\<close>, and \<open>defer_routine_cycle_to_digest\<close> of
  \<open>notifications/digest_snapshot/digest_routing.py\<close>, as it is called there: in the mode
  \<open>daily_digest\<close> and with orders included.
\<close>

section \<open>Orders known to be pending\<close>

definition harmless_skips :: "string list" where
  "harmless_skips = [''below_trade_threshold'', ''buy_notional_below_minimum'']"

text \<open>A skip that is not harmless; a reason that cannot be hashed raises in the set lookup.\<close>

fun any_harmful_skip :: "pyval list \<Rightarrow> bool exc" where
  "any_harmful_skip [] = Inr False"
| "any_harmful_skip (PDict d # xs) =
     (case pget d ''reason'' of
        PStr s \<Rightarrow> if s \<in> set harmless_skips then any_harmful_skip xs else Inr True
      | PList _ \<Rightarrow> Inl (TypeError ''unhashable type: list'')
      | PDict _ \<Rightarrow> Inl (TypeError ''unhashable type: dict'')
      | _ \<Rightarrow> Inr True)"
| "any_harmful_skip (_ # xs) = Inr True"

definition unproven_keys :: "string list" where
  "unproven_keys = [''error'', ''errors'', ''auth_expired'', ''execution_blocked'', ''execution_blocking_skips'',
     ''strategy_run_persistence_error'', ''report_persistence_error'', ''strategy_plugin_error'',
     ''strategy_plugin_alert_error'', ''notification_error'', ''notification_attention_reason_codes'',
     ''reconciliation_required'', ''outcome_unknown'', ''submission_halted'']"

definition order_error_keys :: "string list" where
  "order_error_keys = [''error'', ''errors'', ''fail_reason'', ''reconciliation_required'', ''outcome_unknown'']"

text \<open>The broker's identity of an acknowledged order, if the row proves one.\<close>

definition acknowledged_identity :: "pyval \<Rightarrow> string option" where
  "acknowledged_identity order =
     (case order of
        PDict d \<Rightarrow>
          (case py_or (pget d ''raw_payload'') (PDict []) of
             PDict raw \<Rightarrow>
               if any_of d order_error_keys \<or> any_of raw order_error_keys then None
               else (case pget d ''broker_order_id'' of
                   PStr i \<Rightarrow> if alnum_lower (str_or (pget d ''status'')) \<in> {''accepted'', ''submitted'', ''partiallyfilled''}
                                \<and> py_strip i \<noteq> [] then Some i else None
                 | _ \<Rightarrow> None)
           | _ \<Rightarrow> None)
      | _ \<Rightarrow> None)"

definition known_pending_orders :: "pyval dict \<Rightarrow> bool exc" where
  "known_pending_orders r =
     (case pget r ''submitted_orders'' of
        PList orders \<Rightarrow>
          if pget r ''execution_status'' \<noteq> PStr ''pending_reconciliation'' \<or> \<not> is_true (pget r ''ok'')
             \<or> \<not> is_true (pget r ''broker_submission_done'') \<or> orders = []
             \<or> pget r ''orders_pending_count'' \<noteq> PInt (int (length orders))
          then Inr False
          else (case py_or (pget r ''skipped_orders'') (PList []) of
              PList skipped \<Rightarrow>
                bindE (any_harmful_skip skipped) (\<lambda>harmful.
                Inr (\<not> harmful \<and> \<not> any_of r unproven_keys
                   \<and> list_all (\<lambda>order. acknowledged_identity order \<noteq> None) orders
                   \<and> distinct (map (\<lambda>order. the (acknowledged_identity order)) orders)))
            | _ \<Rightarrow> Inr False)
      | _ \<Rightarrow> Inr False)"

section \<open>Routine cycles\<close>

definition no_op_reasons :: "string list" where
  "no_op_reasons = [[], ''no_action'', ''no_signal'', ''no_rebalance'', ''below_threshold'', ''rebalance_diff_below_threshold'',
     ''threshold_not_met'']"

definition urgent_keys :: "string list" where
  "urgent_keys = [''error'', ''errors'', ''fail_reason'', ''execution_blocked_reason'', ''plugin_error'', ''persistence_error'',
     ''report_persistence_error'', ''notification_error'', ''reconciliation_required'', ''market_data_retry_required'',
     ''notification_attention_reason_codes'', ''account_new_risk_buy_blocked'', ''small_account_buy_blocked'', ''risk_flags'',
     ''execution_blocked'', ''execution_blocking_skips'', ''strategy_run_persistence_error'', ''strategy_plugin_error'',
     ''strategy_plugin_alert_error'', ''auth_expired'', ''strategy_plugin_alert_failed_count'',
     ''strategy_plugin_alert_telegram_failed_count'', ''data_error'', ''blocked_reason'', ''failed_order_count'',
     ''outcome_unknown'', ''submission_halted'']"

definition denied_gates :: "string list" where
  "denied_gates = [''BLOCK'', ''BLOCKED'', ''REJECT'', ''REJECTED'', ''DENY'', ''DENIED'']"

definition routine_statuses :: "bool \<Rightarrow> string list" where
  "routine_statuses pending_proven =
     [''filled'', ''completed'', ''executed'']
     @ (if pending_proven
        then [''accepted'', ''submitted'', ''pending'', ''pendingsubmit'', ''apipending'', ''apipendingsubmit'', ''presubmitted'',
              ''partiallyfilled'', ''partial'', ''partially_filled'', ''broker_acknowledged''] else [])"

definition has_routine_status :: "bool \<Rightarrow> pyval \<Rightarrow> bool" where
  "has_routine_status proven order =
     (case order of PDict d \<Rightarrow> py_lower (str_or (pget d ''status'')) \<in> set (routine_statuses proven) | _ \<Rightarrow> False)"

definition defer_routine_cycle_to_digest :: "pyval dict \<Rightarrow> pyval list \<Rightarrow> bool \<Rightarrow> bool" where
  "defer_routine_cycle_to_digest e orders known_pending \<longleftrightarrow>
     (let proven = (known_pending \<and> orders \<noteq> []); status = py_lower (str_or (pget e ''execution_status'')) in
      (status \<in> {''no_action'', ''no_op'', ''completed'', ''executed''} \<or> (proven \<and> status = ''pending_reconciliation''))
      \<and> (pget e ''no_op_reason'' = PNone \<or> pget e ''no_op_reason'' \<in> PStr ` set no_op_reasons
         \<or> (proven \<and> pget e ''no_op_reason'' = PStr ''broker_order_pending_confirmation''))
      \<and> \<not> any_of e urgent_keys
      \<and> (proven \<or> \<not> (truthy (pget e ''pending_reconciliation'') \<or> truthy (pget e ''orders_pending_count'')))
      \<and> py_upper (str_or (pget e ''risk_gate'')) \<notin> set denied_gates
      \<and> (if orders \<noteq> [] then list_all (has_routine_status proven) orders
         else \<not> truthy (pget e ''broker_submission_done'')))"

section \<open>The kind of a cycle\<close>

definition real_error_keys :: "string list" where
  "real_error_keys = [''error'', ''errors'', ''strategy_run_persistence_error'', ''report_persistence_error'',
     ''strategy_plugin_error'', ''strategy_plugin_alert_error'', ''notification_error'']"

definition completed_evidence :: "pyval dict \<Rightarrow> pyval dict" where
  "completed_evidence r =
     (if \<not> truthy (pget r ''execution_status'') \<and> is_true (pget r ''ok'') then dset r ''execution_status'' (PStr ''completed'') else r)"

definition routine_or_unknown :: "pyval dict \<Rightarrow> string exc" where
  "routine_or_unknown r =
     bindE (known_pending_orders r) (\<lambda>known.
     bindE (py_tuple (py_or (pget r ''submitted_orders'') (PList []))) (\<lambda>orders.
     Inr (if defer_routine_cycle_to_digest (completed_evidence r) orders known
          then (if known then ''order_submitted'' else if orders \<noteq> [] then ''fill'' else ''routine_cycle'')
          else if orders \<noteq> [] then ''order_status_unknown'' else ''real_error'')))"

definition cycle_kind :: "pyval dict \<Rightarrow> string exc" where
  "cycle_kind r =
     (if truthy (pget r ''auth_expired'') then Inr ''auth_failure''
      else if truthy (pget r ''notification_attention_reason_codes'') then Inr ''risk_escalation''
      else if truthy (pget r ''execution_blocked'') \<or> truthy (pget r ''execution_blocking_skips'') then Inr ''blocked_run''
      else bindE (if truthy (pget r ''orders_pending_count'') \<or> truthy (pget r ''pending_reconciliation'')
                  then bindE (known_pending_orders r) (\<lambda>known. Inr (\<not> known)) else Inr False) (\<lambda>unknown.
      if unknown then Inr ''order_status_unknown''
      else if pget r ''ok'' = PBool False \<or> any_of r real_error_keys then Inr ''real_error''
      else if is_true (pget r ''dry_run_only'')
              \<and> py_lower (str_or (pget r ''execution_status'')) \<in> {''dry_run'', ''dry_run_completed'', ''no_action'', ''completed''}
      then Inr ''routine_cycle''
      else routine_or_unknown r))"

definition routine_kinds :: "string list" where
  "routine_kinds = [''routine_cycle'', ''order_submitted'', ''fill'']"

section \<open>Facts\<close>

lemma known_pending_rows:
  assumes "known_pending_orders r = Inr True"
  shows "\<exists>orders. pget r ''submitted_orders'' = PList orders \<and> orders \<noteq> [] \<and> pget r ''orders_pending_count'' = PInt (int (length orders))
     \<and> list_all (\<lambda>order. acknowledged_identity order \<noteq> None) orders \<and> distinct (map (\<lambda>order. the (acknowledged_identity order)) orders)"
  using assms by (auto simp: known_pending_orders_def bindE_Inr_iff split: pyval.splits if_splits)

lemma submitted_rows:
  "pget r ''submitted_orders'' = PList orders \<Longrightarrow> py_tuple (py_or (pget r ''submitted_orders'') (PList [])) = Inr orders"
  by (cases orders) (simp_all add: py_or_def)

text \<open>The evidence differs from the result in the status only.\<close>

lemma completed_evidence_key: "k \<noteq> ''execution_status'' \<Longrightarrow> pget (completed_evidence r) k = pget r k"
  by (simp add: completed_evidence_def pget_def dget_or_def dget_dset)

lemma completed_evidence_any: "''execution_status'' \<notin> set ks \<Longrightarrow> any_of (completed_evidence r) ks = any_of r ks"
  by (induction ks) (auto simp: any_of_def completed_evidence_key)

lemma routine_or_unknown_cases:
  assumes "routine_or_unknown r = Inr kind" "kind \<in> set routine_kinds"
  shows "\<exists>known orders. known_pending_orders r = Inr known
      \<and> py_tuple (py_or (pget r ''submitted_orders'') (PList [])) = Inr orders
      \<and> defer_routine_cycle_to_digest (completed_evidence r) orders known
      \<and> kind = (if known then ''order_submitted'' else if orders \<noteq> [] then ''fill'' else ''routine_cycle'')"
proof -
  obtain known orders where o: "known_pending_orders r = Inr known"
    "py_tuple (py_or (pget r ''submitted_orders'') (PList [])) = Inr orders"
    "kind = (if defer_routine_cycle_to_digest (completed_evidence r) orders known
          then (if known then ''order_submitted'' else if orders \<noteq> [] then ''fill'' else ''routine_cycle'')
          else if orders \<noteq> [] then ''order_status_unknown'' else ''real_error'')"
    using assms(1) unfolding routine_or_unknown_def bindE_Inr_iff by blast
  have "defer_routine_cycle_to_digest (completed_evidence r) orders known"
  proof (rule ccontr)
    assume "\<not> ?thesis"
    then have "kind \<in> {''order_status_unknown'', ''real_error''}" using o(3) by simp
    then show False using assms(2) by (auto simp: routine_kinds_def)
  qed
  with o show ?thesis by auto
qed

lemma routine_kind_cases:
  assumes "cycle_kind r = Inr kind" "kind \<in> set routine_kinds"
  shows "pget r ''ok'' \<noteq> PBool False \<and> \<not> any_of r real_error_keys \<and> \<not> truthy (pget r ''auth_expired'')
     \<and> \<not> truthy (pget r ''notification_attention_reason_codes'') \<and> \<not> truthy (pget r ''execution_blocked'')
     \<and> \<not> truthy (pget r ''execution_blocking_skips'')"
    and "(kind = ''routine_cycle'' \<and> is_true (pget r ''dry_run_only'')) \<or> (\<exists>known orders. known_pending_orders r = Inr known
      \<and> py_tuple (py_or (pget r ''submitted_orders'') (PList [])) = Inr orders
      \<and> defer_routine_cycle_to_digest (completed_evidence r) orders known
      \<and> kind = (if known then ''order_submitted'' else if orders \<noteq> [] then ''fill'' else ''routine_cycle''))"
proof -
  have other: "kind \<notin> {''auth_failure'', ''risk_escalation'', ''blocked_run'', ''order_status_unknown'', ''real_error''}"
    using assms(2) by (auto simp: routine_kinds_def)
  have u: "\<not> truthy (pget r ''auth_expired'')" "\<not> truthy (pget r ''notification_attention_reason_codes'')"
    "\<not> (truthy (pget r ''execution_blocked'') \<or> truthy (pget r ''execution_blocking_skips''))"
    by (rule notI; use assms(1) other in \<open>simp add: cycle_kind_def\<close>;
        use assms(1) other in \<open>cases "truthy (pget r ''auth_expired'')"; cases "truthy (pget r ''notification_attention_reason_codes'')";
          simp add: cycle_kind_def\<close>)+
  obtain unknown where u4:
    "(if unknown then Inr ''order_status_unknown''
      else if pget r ''ok'' = PBool False \<or> any_of r real_error_keys then Inr ''real_error''
      else if is_true (pget r ''dry_run_only'')
              \<and> py_lower (str_or (pget r ''execution_status'')) \<in> {''dry_run'', ''dry_run_completed'', ''no_action'', ''completed''}
      then Inr ''routine_cycle''
      else routine_or_unknown r) = Inr kind"
    using assms(1) unfolding cycle_kind_def if_not_P [OF u(1)] if_not_P [OF u(2)] if_not_P [OF u(3)] bindE_Inr_iff by blast
  have n: "\<not> unknown"
  proof
    assume unknown
    then show False using u4 other by simp
  qed
  have ok: "\<not> (pget r ''ok'' = PBool False \<or> any_of r real_error_keys)"
  proof
    assume "pget r ''ok'' = PBool False \<or> any_of r real_error_keys"
    then show False using u4 other n by simp
  qed
  show "pget r ''ok'' \<noteq> PBool False \<and> \<not> any_of r real_error_keys \<and> \<not> truthy (pget r ''auth_expired'')
     \<and> \<not> truthy (pget r ''notification_attention_reason_codes'') \<and> \<not> truthy (pget r ''execution_blocked'')
     \<and> \<not> truthy (pget r ''execution_blocking_skips'')"
    using u ok by blast
  show "(kind = ''routine_cycle'' \<and> is_true (pget r ''dry_run_only'')) \<or> (\<exists>known orders. known_pending_orders r = Inr known
      \<and> py_tuple (py_or (pget r ''submitted_orders'') (PList [])) = Inr orders
      \<and> defer_routine_cycle_to_digest (completed_evidence r) orders known
      \<and> kind = (if known then ''order_submitted'' else if orders \<noteq> [] then ''fill'' else ''routine_cycle''))"
    using u4 routine_or_unknown_cases [OF _ assms(2)] unfolding if_not_P [OF n] if_not_P [OF ok] by (metis Inr_inject)
qed

section \<open>Properties\<close>


definition acknowledged_result :: "pyval dict" where
  "acknowledged_result =
     [(''ok'', PBool True), (''execution_status'', PStr ''pending_reconciliation''), (''broker_submission_done'', PBool True),
      (''orders_pending_count'', PInt 1),
      (''submitted_orders'', PList [PDict [(''status'', PStr ''Submitted''), (''broker_order_id'', PStr ''7'')]])]"


text \<open>
  \<open>run_strategy_cycle\<close> leaves the execution status of a dry run empty, so the test for
  \<open>dry_run\<close> never holds for its results: a clean dry run that previewed an order is taken for
  one whose orders are in an unknown state.
\<close>

theorem previewed_orders_read_as_unknown:
  assumes "pget r ''ok'' = PBool True" "pget r ''dry_run_only'' = PBool True" "pget r ''execution_status'' = PStr []"
    and "pget r ''submitted_orders'' = PList (PDict d # orders)" "pget d ''status'' = PStr ''previewed''"
    and "\<not> any_of r ([''auth_expired'', ''notification_attention_reason_codes'', ''execution_blocked'', ''execution_blocking_skips'',
                    ''orders_pending_count'', ''pending_reconciliation''] @ real_error_keys)"
  shows "cycle_kind r = Inr ''order_status_unknown''"
proof -
  have "known_pending_orders r = Inr False" using assms(3,4) by (simp add: known_pending_orders_def)
  moreover have "py_lower (str_or (PStr ''previewed'')) \<notin> set (routine_statuses False)" by code_simp
  then have "\<not> has_routine_status False (PDict d)" by (simp add: has_routine_status_def assms(5))
  moreover have "py_lower (str_or (PStr [])) \<notin> {''dry_run'', ''dry_run_completed'', ''no_action'', ''completed''}" by code_simp
  ultimately show ?thesis
    using assms submitted_rows [OF assms(4)]
    by (simp add: cycle_kind_def routine_or_unknown_def defer_routine_cycle_to_digest_def any_of_def is_true_def Let_def)
qed

end
