(* ===== verification/CycleReport.thy ===== *)
theory CycleReport
  imports StrategyCycle ExecutionReceipt NotificationKind
begin

text \<open>
  \<open>_run_strategy_cycle_with_report\<close> of \<open>main.py\<close>: the override of the settings, the summary and
  the diagnostics of a result, the report around a cycle, and the routing of the cycle's
  message. The report functions of \<open>quant_platform_kit\<close>, the hash and the delivery of messages
  are parameters.
\<close>

section \<open>Names and texts of exceptions\<close>

text \<open>\<open>type(exc).__name__\<close> and \<open>str(exc)\<close>: the parts of \<open>exc_text\<close>.\<close>

fun exc_name :: "pyexc \<Rightarrow> string" where
  "exc_name (TypeError _) = ''TypeError''"
| "exc_name (ValueError _) = ''ValueError''"
| "exc_name ZeroDivisionError = ''ZeroDivisionError''"
| "exc_name OverflowError = ''OverflowError''"
| "exc_name (KeyError _) = ''KeyError''"
| "exc_name IndexError = ''IndexError''"
| "exc_name (RuntimeError _) = ''RuntimeError''"
| "exc_name (PlatformError _) = ''FirstradePlatformError''"
| "exc_name (CredentialsError _) = ''FirstradeCredentialsError''"
| "exc_name MfaRequired = ''FirstradeMfaRequired''"
| "exc_name (SafetyError _) = ''FirstradeSafetyError''"
| "exc_name (CachedSessionError _ _ _) = ''FirstradeCachedSessionError''"
| "exc_name (StatePersistenceError _) = ''StatePersistenceError''"
| "exc_name (FeeScheduleError _) = ''FeeScheduleError''"
| "exc_name (ReconciliationUnavailable _) = ''FirstradeReconciliationUnavailable''"
| "exc_name (AccountFactsUnavailable _) = ''AccountFactsUnavailable''"
| "exc_name (AccountFactsPublishError _) = ''AccountFactsPublishError''"
| "exc_name (OtherException n _) = n"

definition exc_str :: "pyexc \<Rightarrow> string" where
  "exc_str e = drop (length (exc_name e) + 2) (exc_text e)"

lemma exc_text_parts: "exc_text e = exc_name e @ '': '' @ exc_str e"
  by (cases e) (simp_all add: exc_str_def)

section \<open>Settings of a request\<close>

definition override_settings :: "bool option \<Rightarrow> platform_settings \<Rightarrow> platform_settings" where
  "override_settings dry ps =
     (case dry of
        None \<Rightarrow> ps
      | Some b \<Rightarrow>
          ps \<lparr> ps_run := (ps_run ps) \<lparr> s_dry_run_only := b,
                 s_live_trading_enabled := (if b then False else s_live_trading_enabled (ps_run ps)) \<rparr>,
               ps_runtime_target := map_option (\<lambda>t. t \<lparr> rt_dry_run_only := PBool b,
                 rt_execution_environment := (if b then ''dry_run'' else rt_execution_environment t) \<rparr>) (ps_runtime_target ps) \<rparr>)"

definition runtime_settings :: "('w, platform_settings) io \<Rightarrow> bool option \<Rightarrow> ('w, platform_settings) io" where
  "runtime_settings load dry = bindIO load (\<lambda>ps. returnIO (override_settings dry ps))"

section \<open>Summary and diagnostics\<close>

definition plugin_report_fields :: "pyval dict \<Rightarrow> pyval dict" where
  "plugin_report_fields r =
     filter (\<lambda>(k, v). k \<in> {''strategy_plugins'', ''routine_observation_counts''} \<or> starts_with k ''strategy_plugin_alert_'') r"

text \<open>\<open>list(result.get(key) or ())\<close>.\<close>

definition rows_of :: "pyval dict \<Rightarrow> string \<Rightarrow> pyval list exc" where
  "rows_of r k = py_tuple (py_or (pget r k) (PList []))"

definition bool_of :: "pyval dict \<Rightarrow> string \<Rightarrow> pyval" where
  "bool_of r k = PBool (truthy (pget r k))"

text \<open>\<open>evidence\<close> is \<open>cycle_evidence\<close> with the proof of pending orders.\<close>

definition strategy_result_summary ::
  "(pyval dict \<Rightarrow> pyval list \<Rightarrow> bool \<Rightarrow> bool \<Rightarrow> pyval exc) \<Rightarrow> pyval dict \<Rightarrow> bool \<Rightarrow> pyval dict exc" where
  "strategy_result_summary evidence r dry =
     bindE (rows_of r ''submitted_orders'') (\<lambda>submitted.
     bindE (rows_of r ''skipped_orders'') (\<lambda>skipped.
     bindE (rows_of r ''execution_notes'') (\<lambda>notes.
     let previewed = (if dry then int (length submitted) else 0);
         base = dupdate
           [(''action_done'', bool_of r ''action_done''), (''execution_status'', pget r ''strategy_run_stage''),
            (''order_events_count'', PInt (int (length submitted))), (''orders_previewed_count'', PInt previewed),
            (''orders_skipped_count'', PInt (int (length skipped))), (''notes_count'', PInt (int (length notes))),
            (''dry_run_order_preview_available'', PBool (dry \<and> 0 < previewed)),
            (''strategy_run_period'', pget r ''strategy_run_period''), (''strategy_run_stage'', pget r ''strategy_run_stage''),
            (''strategy_run_persisted'', pget r ''strategy_run_persisted''), (''session_reused'', bool_of r ''session_reused''),
            (''live_trading_enabled'', bool_of r ''live_trading_enabled''), (''notification_sent'', bool_of r ''notification_sent''),
            (''notification_suppressed'', bool_of r ''notification_suppressed'')]
           (plugin_report_fields r);
         summary = set_if (notes \<noteq> []) ''execution_notes'' (PList notes)
           (set_if (skipped \<noteq> []) ''orders_skipped'' (PList skipped)
           (set_if (dry \<and> submitted \<noteq> []) ''orders_previewed'' (PList submitted)
           (set_if (truthy (pget r ''notification_error'')) ''notification_error'' (pget r ''notification_error'') base)))
     in bindE (known_pending_orders r) (\<lambda>known.
        bindE (evidence (completed_evidence r) submitted dry known) (\<lambda>digest.
        Inr (dset summary ''notification_digest'' digest))))))"

definition diagnostic_keys :: "string list" where
  "diagnostic_keys = [''strategy_plugin_error'', ''strategy_plugin_alert_error'', ''strategy_run_persistence_error'',
     ''execution_blocked'', ''execution_block_retryable'', ''execution_blocking_skips'', ''funding_blocked'', ''error'']"

definition strategy_result_diagnostics :: "pyval dict \<Rightarrow> pyval dict" where
  "strategy_result_diagnostics r =
     (if truthy (pget r ''signal_snapshot'') then [(''signal_snapshot'', pget r ''signal_snapshot'')] else [])
     @ concat (map (\<lambda>k. let v = pget r k in if v \<in> {PNone, PStr [], PList [], PDict []} then [] else [(k, v)]) diagnostic_keys)"

section \<open>The account's binding and the archive\<close>

text \<open>\<open>digest\<close> is the hash of the identity's JSON text.\<close>

definition verified_account_facts_binding ::
  "(pyval dict \<Rightarrow> string) \<Rightarrow> env \<Rightarrow> string \<Rightarrow> platform_settings \<Rightarrow> string option" where
  "verified_account_facts_binding digest env account ps =
     (let service = env_or env ''K_SERVICE'' ''firstrade-quant-service'';
          configured = (case env ''FIRSTRADE_ACCOUNT_FACTS_SOURCE_BINDING_ID'' of None \<Rightarrow> [] | Some v \<Rightarrow> v)
      in case ps_runtime_target ps of
           None \<Rightarrow> None
         | Some t \<Rightarrow>
             (case (rt_account_scope t, rt_deployment_selector t) of
                (PStr scope, PStr deployment) \<Rightarrow>
                  if account = [] \<or> scope = [] \<or> deployment = [] then None
                  else (let actual = digest [(''platform'', PStr ''firstrade''), (''service_name'', PStr service),
                            (''deployment_selector'', PStr deployment), (''account_scope'', PStr scope),
                            (''broker_account_id'', PStr account)]
                        in if actual = configured then Some actual else None)
              | _ \<Rightarrow> None))"

definition archive_prefix :: "env \<Rightarrow> string" where
  "archive_prefix env = env_or env ''QSL_EXECUTION_REPORT_GCS_URI'' (env_or env ''EXECUTION_REPORT_GCS_URI'' [])"

definition report_archive_confirmed :: "(pyval dict \<Rightarrow> string \<Rightarrow> string exc) \<Rightarrow> env \<Rightarrow> pyval dict \<Rightarrow> string option \<Rightarrow> bool exc" where
  "report_archive_confirmed cloud_uri env report path =
     (case path of
        None \<Rightarrow> Inr False
      | Some p \<Rightarrow>
          if archive_prefix env = [] then Inr False
          else (case cloud_uri report (archive_prefix env) of
              Inl e \<Rightarrow> (if is_type_or_value_error e then Inr False else Inl e)
            | Inr expected \<Rightarrow>
                Inr (case pget report ''artifacts'' of
                   PDict a \<Rightarrow> p = expected \<and> pget a ''runtime_report_cloud_uri'' = PStr expected
                 | _ \<Rightarrow> False)))"

section \<open>A cycle with its report\<close>

text \<open>
  The parameters of the report: \<open>pr_persist\<close> is \<open>_persist_runtime_report\<close>, which may add the
  artifacts to the report; \<open>pr_bind\<close> and \<open>pr_bound\<close> write and read the variable
  \<open>verified_binding\<close> that the callback of the cycle closes over; \<open>pr_notify\<close> is \<open>notify_cycle\<close>
  with the senders of this cycle, \<open>pr_send_failure\<close> the sender of the failure text.
\<close>

record 'w report_ports =
  pr_build :: "platform_settings \<Rightarrow> bool \<Rightarrow> ('w, pyval dict) io"
  pr_receipts :: receipt_ports
  pr_evidence :: "pyval dict \<Rightarrow> pyval list \<Rightarrow> bool \<Rightarrow> bool \<Rightarrow> pyval exc"
  pr_finalize :: "pyval dict \<Rightarrow> string \<Rightarrow> (pyval dict \<times> pyval dict) option \<Rightarrow> pyval dict exc"
  pr_append_error :: "pyval dict \<Rightarrow> string \<Rightarrow> string \<Rightarrow> string \<Rightarrow> pyval dict exc"
  pr_persist :: "pyval dict \<Rightarrow> ('w, string option \<times> pyval dict) io"
  pr_cloud_uri :: "pyval dict \<Rightarrow> string \<Rightarrow> string exc"
  pr_digest :: "pyval dict \<Rightarrow> string"
  pr_bind :: "string option \<Rightarrow> 'w \<Rightarrow> 'w"
  pr_bound :: "'w \<Rightarrow> string option"
  pr_notify :: "pyval dict \<Rightarrow> pyval dict \<Rightarrow> ('w, pyval dict) io"
  pr_send_failure :: "('w, unit) io"

text \<open>The report is part of the state: what was done to it before an exception stays.\<close>

type_synonym 'w reporting = "'w \<times> pyval dict"

definition on_report :: "(pyval dict \<Rightarrow> pyval dict exc) \<Rightarrow> ('w reporting, unit) io" where
  "on_report f s = (case f (snd s) of Inl e \<Rightarrow> (Inl e, s) | Inr rep \<Rightarrow> (Inr (), (fst s, rep)))"

definition with_report :: "(pyval dict \<Rightarrow> 'a exc) \<Rightarrow> ('w reporting, 'a) io" where
  "with_report f s = (f (snd s), s)"

definition sending_report :: "(pyval dict \<Rightarrow> ('w, 'a) io) \<Rightarrow> ('w reporting, 'a) io" where
  "sending_report f s = lift_fst (f (snd s)) s"

definition binding_key :: string where
  "binding_key = ''account_facts_source_binding_id''"

definition persist_private_report :: "'w report_ports \<Rightarrow> ('w reporting, string option) io" where
  "persist_private_report k s =
     (let rep = (case pr_bound k (fst s) of None \<Rightarrow> snd s | Some b \<Rightarrow> dset (snd s) binding_key (PStr b))
      in case pr_persist k rep (fst s) of
           (Inl e, w) \<Rightarrow> (Inl e, (w, ddel rep binding_key))
         | (Inr (path, rep'), w) \<Rightarrow> (Inr path, (w, ddel rep' binding_key)))"

definition persist_or_none :: "'w report_ports \<Rightarrow> ('w reporting, string option) io" where
  "persist_or_none k = catchIO (persist_private_report k) (\<lambda>_. returnIO None)"

text \<open>The message of a cycle, after its report was written to \<open>path\<close>.\<close>

definition consolidation :: "string \<Rightarrow> pyval dict \<Rightarrow> pyval dict" where
  "consolidation route r =
     dset (dset r ''notification_consolidation'' (PDict [(''route'', PStr route), (''candidate_persisted'', PBool False)]))
       ''notification_sent'' (PBool False)"

definition delivered :: "pyval dict \<Rightarrow> pyval dict \<Rightarrow> pyval dict" where
  "delivered delivery r =
     (let r1 = dset (dset r ''notification_consolidation'' (PDict delivery))
                 ''notification_sent'' (PBool (is_true (pget delivery ''transport_acknowledged'')))
      in if pget delivery ''route'' = PStr ''digest_candidate''
         then dset r1 ''notification_suppressed_reason'' (PStr ''deferred_digest'') else r1)"

definition publish_unified :: "'w report_ports \<Rightarrow> env \<Rightarrow> bool \<Rightarrow> string option \<Rightarrow> pyval dict \<Rightarrow> ('w reporting, pyval dict) io" where
  "publish_unified k env dry path r =
     bindIO (liftE (cycle_kind r)) (\<lambda>kind.
     let routine = kind \<in> set routine_kinds in
     if dry \<and> routine then returnIO (consolidation ''preview'' r)
     else bindIO (with_report (\<lambda>rep. report_archive_confirmed (pr_cloud_uri k) env rep path)) (\<lambda>confirmed.
          bindIO (if \<not> confirmed \<and> (routine \<or> truthy (pget r ''routine_observation_counts''))
                  then catchIO (lift_fst (pr_send_failure k)) (\<lambda>_. returnIO ()) else returnIO ()) (\<lambda>_.
          if \<not> confirmed \<and> routine then returnIO (consolidation ''failed'' r)
          else let r1 = (if confirmed then r else dset r ''report_persistence_error'' (PStr ''execution_report_write_unconfirmed''))
               in bindIO (sending_report (\<lambda>rep. pr_notify k rep r1)) (\<lambda>delivery. returnIO (delivered delivery r1)))))"

definition cycle_callback ::
  "'w report_ports \<Rightarrow> env \<Rightarrow> platform_settings \<Rightarrow> (string \<Rightarrow> ('w, unit) io) option" where
  "cycle_callback k env ps =
     (if env_or env ''FIRSTRADE_ACCOUNT_FACTS_SOURCE_BINDING_ID'' [] = [] then None
      else Some (\<lambda>account w. (Inr (), pr_bind k (verified_account_facts_binding (pr_digest k) env account ps) w)))"

definition report_success ::
  "'w report_ports \<Rightarrow> run_outcomes \<Rightarrow> bool \<Rightarrow> pyval dict \<Rightarrow> ('w reporting, string option) io" where
  "report_success k oc dry r =
     bindIO (on_report (\<lambda>rep. attach_strategy_result_execution_receipt (pr_receipts k) oc rep r dry)) (\<lambda>_.
     bindIO (liftE (strategy_result_summary (pr_evidence k) r dry)) (\<lambda>summary.
     bindIO (on_report (\<lambda>rep. pr_finalize k rep (strategy_result_report_status r) (Some (summary, strategy_result_diagnostics r)))) (\<lambda>_.
     persist_or_none k)))"

definition report_failure :: "'w report_ports \<Rightarrow> pyexc \<Rightarrow> ('w reporting, 'a) io" where
  "report_failure k e =
     bindIO (on_report (\<lambda>rep. pr_append_error k rep ''strategy_cycle'' (exc_str e) (exc_name e))) (\<lambda>_.
     bindIO (on_report (attach_unknown_failure_execution_receipt (pr_receipts k))) (\<lambda>_.
     bindIO (on_report (\<lambda>rep. pr_finalize k rep ''error'' None)) (\<lambda>_.
     bindIO (persist_or_none k) (\<lambda>_. raiseIO e))))"

definition run_strategy_cycle_with_report ::
  "('w, 'ses, 's, 'x, 'y) strategy_ports \<Rightarrow> 'w report_ports \<Rightarrow> ('w, platform_settings) io \<Rightarrow> env \<Rightarrow> bool option \<Rightarrow> bool \<Rightarrow> bool \<Rightarrow>
   ('w, pyval dict) io" where
  "run_strategy_cycle_with_report sp k load env override send dispatch =
     bindIO (runtime_settings load override) (\<lambda>ps.
     let dry = s_dry_run_only (ps_run ps) in
     bindIO (pr_build k ps dry) (\<lambda>report w.
     case catchIO
            (bindIO (lift_fst (run_strategy_cycle sp ps env False dispatch (cycle_callback k env ps))) (\<lambda>r.
             bindIO (report_success k (sp_outcomes sp) dry r) (\<lambda>path.
             if send then publish_unified k env dry path r else returnIO r)))
            (report_failure k) (pr_bind k None w, report) of
       (result, s) \<Rightarrow> (result, fst s)))"

section \<open>What a reported cycle sends\<close>

definition quiet_report :: "('w \<Rightarrow> 'o) \<Rightarrow> 'w report_ports \<Rightarrow> bool" where
  "quiet_report sent k \<longleftrightarrow>
     (\<forall>ps dry. quiet sent (pr_build k ps dry)) \<and> (\<forall>rep. quiet sent (pr_persist k rep))
     \<and> (\<forall>b w. sent (pr_bind k b w) = sent w) \<and> (\<forall>rep r. quiet sent (pr_notify k rep r)) \<and> quiet sent (pr_send_failure k)"

lemma quiet_after: "(\<And>x. quiet sent (f x)) \<Longrightarrow> sent (snd (bindIO m f w)) = sent (snd (m w))"
  by (auto simp: bindIO_def quiet_io_def split: prod.split sum.split)

lemma quiet_handled: "(\<And>e. quiet sent (h e)) \<Longrightarrow> sent (snd (catchIO m h w)) = sent (snd (m w))"
  by (auto simp: catchIO_def quiet_io_def split: prod.split sum.split)

text \<open>Computations on a world and a report, seen from the world.\<close>

lemma quiet_lift_fst: "quiet sent m \<Longrightarrow> quiet (\<lambda>s. sent (fst s)) (lift_fst m)"
  unfolding quiet_io_def lift_fst_def by (metis (no_types, lifting) case_prod_beta fst_conv snd_conv)

lemma quiet_on_report: "quiet (\<lambda>s. sent (fst s)) (on_report f)" "quiet (\<lambda>s. sent (fst s)) (with_report g)"
  by (auto simp: quiet_io_def on_report_def with_report_def split: sum.split)

lemma quiet_sending: "(\<And>rep. quiet sent (f rep)) \<Longrightarrow> quiet (\<lambda>s. sent (fst s)) (sending_report f)"
  by (simp add: quiet_io_def sending_report_def lift_fst_def split: prod.split) (metis snd_conv)

lemma quiet_persist: "quiet_report sent k \<Longrightarrow> quiet (\<lambda>s. sent (fst s)) (persist_private_report k)"
  unfolding quiet_io_def quiet_report_def persist_private_report_def Let_def
  by (auto split: prod.split sum.split) (metis snd_conv)+

lemma quiet_publish: "quiet_report sent k \<Longrightarrow> quiet (\<lambda>s. sent (fst s)) (publish_unified k env dry path r)"
  unfolding publish_unified_def Let_def
  by (auto intro!: quiet_then quiet_value quiet_catch quiet_lift_fst quiet_on_report quiet_sending simp: quiet_report_def)

lemma quiet_success: "quiet_report sent k \<Longrightarrow> quiet (\<lambda>s. sent (fst s)) (report_success k oc dry r)"
  unfolding report_success_def persist_or_none_def
  by (auto intro!: quiet_then quiet_value quiet_catch quiet_on_report quiet_persist)

lemma quiet_failure: "quiet_report sent k \<Longrightarrow> quiet (\<lambda>s. sent (fst s)) (report_failure k e)"
  unfolding report_failure_def persist_or_none_def
  by (auto intro!: quiet_then quiet_value quiet_catch quiet_on_report quiet_persist)

text \<open>The orders of a reported cycle are those of the cycle it runs.\<close>

lemma reported_cycle_orders:
  assumes k: "quiet_report tickets k" and l: "load w = (Inr ps, w1)"
    and ps': "ps' = override_settings override ps" and b: "pr_build k ps' (s_dry_run_only (ps_run ps')) w1 = (Inr report, w2)"
  shows "tickets (snd (run_strategy_cycle_with_report sp k load env override send dispatch w))
       = tickets (snd (run_strategy_cycle sp ps' env False dispatch (cycle_callback k env ps') (pr_bind k None w2)))"
proof -
  define cycle where "cycle = run_strategy_cycle sp ps' env False dispatch (cycle_callback k env ps')"
  define start where "start = (pr_bind k None w2, report)"
  define body where "body = catchIO
        (bindIO (lift_fst cycle) (\<lambda>r. bindIO (report_success k (sp_outcomes sp) (s_dry_run_only (ps_run ps')) r) (\<lambda>path.
         if send then publish_unified k env (s_dry_run_only (ps_run ps')) path r else returnIO r)))
        (report_failure k) start"
  have "tickets (fst (snd body)) = tickets (fst (snd (lift_fst cycle start)))"
    unfolding body_def
    by (rule trans [OF quiet_handled [where sent = "\<lambda>s. tickets (fst s)"] quiet_after [where sent = "\<lambda>s. tickets (fst s)"]])
       (auto intro!: quiet_failure quiet_then quiet_success quiet_publish quiet_value k)
  also have "\<dots> = tickets (snd (cycle (pr_bind k None w2)))" by (simp add: lift_fst_def start_def split: prod.split)
  finally have "tickets (fst (snd body)) = tickets (snd (cycle (pr_bind k None w2)))" .
  moreover have "snd (run_strategy_cycle_with_report sp k load env override send dispatch w) = fst (snd body)"
    using l b
    by (simp add: run_strategy_cycle_with_report_def runtime_settings_def bindIO_case returnIO_eq ps' [symmetric] Let_def
        body_def cycle_def start_def split: prod.split)
  ultimately show ?thesis by (simp add: cycle_def)
qed

lemma reported_cycle_sends:
  assumes sp: "only_place_sends tickets sp" and k: "quiet_report tickets k" and load: "quiet tickets load"
  shows "tickets (snd (run_strategy_cycle_with_report sp k load env override send dispatch w)) = tickets w
     \<or> (\<exists>ps w1. load w = (Inr ps, w1)
          \<and> cycle_sends tickets (override_settings override ps) env w (snd (run_strategy_cycle_with_report sp k load env override send dispatch w)))"
proof -
  have callback: "quiet tickets (f a)" if "cycle_callback k env ps = Some f" for ps f a
    using that k by (auto simp: cycle_callback_def quiet_io_def quiet_report_def split: if_splits)
  obtain r w1 where l: "load w = (r, w1)" by (cases "load w")
  show ?thesis
  proof (cases r)
    case (Inl e)
    then show ?thesis using quiet_run [OF load l] by (simp add: run_strategy_cycle_with_report_def runtime_settings_def bindIO_case l)
  next
    case (Inr ps)
    define ps' where "ps' = override_settings override ps"
    obtain r2 w2 where b: "pr_build k ps' (s_dry_run_only (ps_run ps')) w1 = (r2, w2)" by (cases "pr_build k ps' (s_dry_run_only (ps_run ps')) w1")
    have "quiet tickets (pr_build k ps' (s_dry_run_only (ps_run ps')))" "tickets (pr_bind k None w2) = tickets w2"
      using k by (auto simp: quiet_report_def)
    then have same: "tickets w1 = tickets w" "tickets w2 = tickets w1" "tickets (pr_bind k None w2) = tickets w2"
      using quiet_run [OF load l] quiet_run [where m = "pr_build k ps' (s_dry_run_only (ps_run ps'))"] b by blast+
    show ?thesis
    proof (cases r2)
      case (Inl e)
      then show ?thesis using same b
        by (simp add: run_strategy_cycle_with_report_def runtime_settings_def bindIO_case l Inr returnIO_eq ps'_def Let_def)
    next
      case report: (Inr report)
      have t: "tickets (snd (run_strategy_cycle_with_report sp k load env override send dispatch w))
          = tickets (snd (run_strategy_cycle sp ps' env False dispatch (cycle_callback k env ps') (pr_bind k None w2)))"
        by (rule reported_cycle_orders) (use k l b Inr report ps'_def in simp_all)
      have "cycle_sends tickets ps' env (pr_bind k None w2)
              (snd (run_strategy_cycle sp ps' env False dispatch (cycle_callback k env ps') (pr_bind k None w2)))"
        by (rule run_strategy_cycle_sends [OF sp]) (rule callback)
      then have "cycle_sends tickets ps' env w (snd (run_strategy_cycle_with_report sp k load env override send dispatch w))"
        using same t by (simp add: cycle_sends_def sends_tickets_def)
      then show ?thesis using l \<open>r = Inr ps\<close> by (auto simp: ps'_def)
    qed
  qed
qed

end
