(* ===== verification/RunRoutes.thy ===== *)
theory RunRoutes
  imports CycleReport PaperCommands
begin

text \<open>
  The routes of \<open>main.py\<close> that run the strategy, \<open>/run\<close> and \<open>/dry-run\<close>, with the gate of the
  market hours (\<open>entrypoints/cloud_run.py\<close>) and the paper admission, and the guards of the
  session routes and of the paper command consumer. Texts are redacted by a parameter.
\<close>

section \<open>Market hours\<close>

text \<open>
  \<open>cal_schedule_empty\<close> is the calendar, the time zone, the clock and the schedule of the day up
  to the test of \<open>schedule.empty\<close>; \<open>cal_open\<close> is \<open>open_at_time\<close> on it.
\<close>

record 'w calendar_ports =
  cal_schedule_empty :: "('w, bool) io"
  cal_open :: "('w, bool) io"
  cal_session_gate :: "('w, string \<times> bool) io"

definition not_covered :: string where
  "not_covered = ''not covered by the schedule''"

text \<open>The value of \<open>is_market_open_now\<close>, which never raises: whether it is open, and the error met.\<close>

definition is_market_open_now :: "'w calendar_ports \<Rightarrow> 'w \<Rightarrow> (bool \<times> pyexc option) \<times> 'w" where
  "is_market_open_now k w =
     (case cal_schedule_empty k w of
        (Inl e, w1) \<Rightarrow> ((False, Some e), w1)
      | (Inr True, w1) \<Rightarrow> ((False, None), w1)
      | (Inr False, w1) \<Rightarrow>
          (case cal_open k w1 of
             (Inr b, w2) \<Rightarrow> ((b, None), w2)
           | (Inl e, w2) \<Rightarrow> ((False, if is_value_error e \<and> contains (exc_str e) not_covered then None else Some e), w2)))"

definition force_strategy_run_env :: "env \<Rightarrow> bool" where
  "force_strategy_run_env env = env_true env ''FIRSTRADE_FORCE_RUN''"

definition market_open_skip_payload :: "env \<Rightarrow> bool \<Rightarrow> pyexc option \<Rightarrow> pyval dict" where
  "market_open_skip_payload env market_open error =
     [(''ok'', PBool True), (''status'', PStr ''skipped''), (''skip_reason'', PStr ''market_closed''), (''action_done'', PBool False),
      (''submitted_orders'', PList []), (''skipped_orders'', PList [PDict [(''reason'', PStr ''market_closed'')]])]
     @ (case error of None \<Rightarrow> [] | Some e \<Rightarrow> [(''market_hours_check_error'', PStr (exc_text e))])
     @ (if force_strategy_run_env env \<and> \<not> market_open then [(''market_hours_bypass_requested'', PBool True)] else [])"

text \<open>\<open>None\<close> lets the run go on; a payload is the answer of a run that is skipped.\<close>

definition should_skip_for_market_hours :: "'w calendar_ports \<Rightarrow> env \<Rightarrow> 'w \<Rightarrow> pyval dict option \<times> 'w" where
  "should_skip_for_market_hours k env w =
     (if force_strategy_run_env env then (None, w)
      else case cal_session_gate k w of
        (Inl e, w1) \<Rightarrow> (Some (market_open_skip_payload env False (Some e)), w1)
      | (Inr (session, allowed), w1) \<Rightarrow>
          if \<not> allowed then (Some (market_open_skip_payload env False None), w1)
          else (case is_market_open_now k w1 of
              ((True, error), w2) \<Rightarrow> (None, w2)
            | ((False, error), w2) \<Rightarrow> (Some (market_open_skip_payload env False error), w2)))"

section \<open>Answers\<close>

type_synonym answer = "pyval dict \<times> int"

text \<open>
  The application: \<open>ap_target_enabled\<close> is \<open>_runtime_target_enabled_env\<close> and may raise;
  \<open>ap_is_os_error\<close> tells the classes that are an \<open>EnvironmentError\<close>; \<open>ap_notify_error\<close> is
  \<open>_handle_strategy_run_exception\<close>.
\<close>

record ('w, 'ses, 's, 'x, 'y) app_ports =
  ap_strategy :: "('w, 'ses, 's, 'x, 'y) strategy_ports"
  ap_report :: "'w report_ports"
  ap_calendar :: "'w calendar_ports"
  ap_load_settings :: "('w, platform_settings) io"
  ap_target_enabled :: "bool exc"
  ap_admission :: admission_ports
  ap_redact :: "string \<Rightarrow> string"
  ap_is_os_error :: "string \<Rightarrow> bool"
  ap_notify_error :: "pyexc \<Rightarrow> ('w, bool) io"

definition safe_exception_text :: "(string \<Rightarrow> string) \<Rightarrow> pyexc \<Rightarrow> bool \<Rightarrow> string" where
  "safe_exception_text redact e include_type =
     (if include_type then exc_name e @ '': '' @ redact (exc_str e) else redact (exc_str e))"

definition is_expected_error :: "(string \<Rightarrow> bool) \<Rightarrow> pyexc \<Rightarrow> bool" where
  "is_expected_error is_os e \<longleftrightarrow> is_platform_error e \<or> is_value_error e \<or> is_os (exc_name e)"

definition error_response :: "('w, 'ses, 's, 'x, 'y) app_ports \<Rightarrow> pyexc \<Rightarrow> ('w, answer) io" where
  "error_response k e =
     bindIO (ap_notify_error k e) (\<lambda>attempted. returnIO
       ([(''ok'', PBool False), (''error'', PStr (safe_exception_text (ap_redact k) e (\<not> is_expected_error (ap_is_os_error k) e))),
         (''runtime_error_notification_attempted'', PBool attempted)], 500))"

section \<open>Running the strategy\<close>

definition run_disabled :: answer where
  "run_disabled =
     ([(''ok'', PBool False),
       (''error'', PStr ''Set FIRSTRADE_RUN_STRATEGY_ON_HTTP=true to allow HTTP-triggered strategy evaluation and guarded order routing.'')], 403)"

definition target_disabled :: answer where
  "target_disabled = ([(''ok'', PBool True), (''status'', PStr ''skipped''), (''skip_reason'', PStr ''runtime_target_disabled'')], 200)"

definition run_enabled :: "('w, 'ses, 's, 'x, 'y) app_ports \<Rightarrow> env \<Rightarrow> ('w, answer) io" where
  "run_enabled k env =
     bindIO (runtime_settings (ap_load_settings k) None) (\<lambda>ps.
     if \<not> ps_runtime_target_enabled ps then returnIO target_disabled
     else (\<lambda>w. case should_skip_for_market_hours (ap_calendar k) env w of
         (Some payload, w1) \<Rightarrow> (Inr (payload, 200), w1)
       | (None, w1) \<Rightarrow>
           bindIO (run_strategy_cycle_with_report (ap_strategy k) (ap_report k) (ap_load_settings k) env None True True) (\<lambda>r.
             returnIO (r, strategy_result_http_status (sp_outcomes (ap_strategy k)) r)) w1))"

definition run_strategy :: "('w, 'ses, 's, 'x, 'y) app_ports \<Rightarrow> env \<Rightarrow> ('w, answer) io" where
  "run_strategy k env =
     (if \<not> env_true env ''FIRSTRADE_RUN_STRATEGY_ON_HTTP'' then returnIO run_disabled
      else bindIO (liftE (ap_target_enabled k)) (\<lambda>enabled.
           if \<not> enabled then returnIO target_disabled else catchIO (run_enabled k env) (error_response k)))"

section \<open>Dry runs\<close>

text \<open>The release identity of the admission: a target that cannot be loaded is none.\<close>

definition admission_target :: "('w, 'ses, 's, 'x, 'y) app_ports \<Rightarrow> ('w, paper_target option) io" where
  "admission_target k =
     catchIO (bindIO (runtime_settings (ap_load_settings k) (Some True)) (\<lambda>ps. returnIO (map_option
        (\<lambda>t. \<lparr> tgt_dry_run_only = rt_dry_run_only t, tgt_strategy_release = rt_strategy_release t \<rparr>) (ps_runtime_target ps))))
       (\<lambda>e. if is_value_error e \<or> ap_is_os_error k (exc_name e) then returnIO None else raiseIO e)"

definition evaluate_admission :: "('w, 'ses, 's, 'x, 'y) app_ports \<Rightarrow> env \<Rightarrow> ('w, audit option) io" where
  "evaluate_admission k env =
     (if \<not> paper_dry_run_admission_requested env then returnIO None
      else bindIO (admission_target k) (\<lambda>target. liftE (evaluate_paper_dry_run_admission (ap_admission k) target env)))"

definition audit_value :: "audit \<Rightarrow> pyval" where
  "audit_value a =
     PDict [(''schema_version'', PStr ''firstrade_paper_execution_admission_audit.v1''), (''admission_enabled'', PBool True),
            (''audit_color'', PStr (if au_status a = ''admitted'' then ''green'' else ''red'')), (''status'', PStr (au_status a)),
            (''command_id'', opt_str (au_command_id a)), (''disposition'', PStr (au_disposition a)),
            (''integrity_findings'', PList (map PStr (au_findings a))), (''receipt_sha256'', opt_str (au_receipt_sha256 a))]"

definition admission_blocked :: "audit \<Rightarrow> answer" where
  "admission_blocked a =
     ([(''ok'', PBool False), (''status'', PStr ''blocked''), (''action_done'', PBool False), (''submitted_orders'', PList []),
       (''skipped_orders'', PList [PDict [(''reason'', PStr ''paper_execution_admission_blocked'')]]),
       (''paper_execution_admission'', audit_value a)], 409)"

definition dry_run_admitted :: "('w, 'ses, 's, 'x, 'y) app_ports \<Rightarrow> env \<Rightarrow> ('w, answer) io" where
  "dry_run_admitted k env =
     bindIO (evaluate_admission k env) (\<lambda>adm.
     case adm of
       Some a \<Rightarrow>
         if au_status a \<noteq> ''admitted'' then returnIO (admission_blocked a)
         else bindIO (run_strategy_cycle_with_report (ap_strategy k) (ap_report k) (ap_load_settings k) env (Some True) False False) (\<lambda>r.
              returnIO (dset r ''paper_execution_admission'' (audit_value a), 200))
     | None \<Rightarrow>
         bindIO (run_strategy_cycle_with_report (ap_strategy k) (ap_report k) (ap_load_settings k) env (Some True) False False) (\<lambda>r.
         returnIO (r, 200)))"

definition dry_run :: "('w, 'ses, 's, 'x, 'y) app_ports \<Rightarrow> env \<Rightarrow> ('w, answer) io" where
  "dry_run k env w =
     (case should_skip_for_market_hours (ap_calendar k) env w of
        (Some payload, w1) \<Rightarrow> (Inr (payload, 200), w1)
      | (None, w1) \<Rightarrow> catchIO (dry_run_admitted k env) (error_response k) w1)"

section \<open>Session routes and the paper consumer\<close>

text \<open>\<open>run\<close> is \<open>run_session_check\<close> and \<open>report_error\<close> \<open>_notify_runtime_error\<close>.\<close>

definition session_check ::
  "('w, pyval dict) io \<Rightarrow> (pyexc \<Rightarrow> ('w, bool) io) \<Rightarrow> (string \<Rightarrow> string) \<Rightarrow> env \<Rightarrow> ('w, answer) io" where
  "session_check run report_error redact env =
     (if \<not> env_true env ''FIRSTRADE_RUN_SESSION_CHECK_ON_HTTP''
      then returnIO ([(''ok'', PBool False),
             (''error'', PStr ''Set FIRSTRADE_RUN_SESSION_CHECK_ON_HTTP=true to allow HTTP-triggered read-only Firstrade session and account-state checks.'')], 403)
      else catchIO (bindIO run (\<lambda>r. returnIO (r, 200))) (\<lambda>e.
             bindIO (report_error e) (\<lambda>attempted. returnIO
               ([(''ok'', PBool False), (''error'', PStr (safe_exception_text redact e (\<not> is_platform_error e))),
                 (''runtime_error_notification_attempted'', PBool attempted)], 500))))"

definition session_renew :: "('w, pyval dict) io \<Rightarrow> env \<Rightarrow> ('w, answer) io" where
  "session_renew run env =
     (if \<not> env_true env ''FIRSTRADE_RUN_SESSION_CHECK_ON_HTTP''
      then returnIO ([(''ok'', PBool False), (''error'', PStr ''session_check_on_http_disabled'')], 403)
      else catchIO (bindIO run (\<lambda>r. returnIO (r, 200))) (\<lambda>e. returnIO
             (if e = MfaRequired then ([(''ok'', PBool False), (''error'', PStr ''mfa_required'')], 409)
              else ([(''ok'', PBool False), (''error'', PStr ''session_renew_failed'')], 503))))"

definition paper_command_consumer_runtime_is_isolated :: "platform_settings \<Rightarrow> bool" where
  "paper_command_consumer_runtime_is_isolated ps \<longleftrightarrow>
     (case ps_runtime_target ps of
        None \<Rightarrow> False
      | Some t \<Rightarrow> s_dry_run_only (ps_run ps) \<and> \<not> ps_runtime_target_enabled ps \<and> s_cash_only_execution (ps_run ps)
          \<and> py_lower (py_strip (str_or (rt_execution_mode t))) = ''paper'')"

section \<open>What the routes send\<close>

definition quiet_calendar :: "('w \<Rightarrow> 'o) \<Rightarrow> 'w calendar_ports \<Rightarrow> bool" where
  "quiet_calendar sent k \<longleftrightarrow> quiet sent (cal_schedule_empty k) \<and> quiet sent (cal_open k) \<and> quiet sent (cal_session_gate k)"

definition only_strategy_sends :: "('w \<Rightarrow> order_ticket list) \<Rightarrow> ('w, 'ses, 's, 'x, 'y) app_ports \<Rightarrow> bool" where
  "only_strategy_sends tickets k \<longleftrightarrow>
     only_place_sends tickets (ap_strategy k) \<and> quiet_report tickets (ap_report k) \<and> quiet_calendar tickets (ap_calendar k)
     \<and> quiet tickets (ap_load_settings k) \<and> (\<forall>e. quiet tickets (ap_notify_error k e))"

text \<open>The market is open, or the operator forces the run.\<close>

definition market_gate :: "'w calendar_ports \<Rightarrow> env \<Rightarrow> 'w \<Rightarrow> bool" where
  "market_gate k env w \<longleftrightarrow>
     force_strategy_run_env env
     \<or> (\<exists>session w1 w2. cal_session_gate k w = (Inr (session, True), w1) \<and> is_market_open_now k w1 = ((True, None), w2))"

lemma open_without_error: "is_market_open_now k w = ((True, error), w') \<Longrightarrow> error = None"
  by (auto simp: is_market_open_now_def split: prod.splits sum.splits bool.splits)

lemma not_skipped: "should_skip_for_market_hours k env w = (None, w') \<Longrightarrow> market_gate k env w"
  by (auto simp: should_skip_for_market_hours_def market_gate_def split: prod.splits sum.splits bool.splits if_splits)
     (use open_without_error in fastforce)+

lemma quiet_open:
  assumes "quiet_calendar sent k" "is_market_open_now k w = (r, w')" shows "sent w' = sent w"
proof -
  have "quiet sent (cal_schedule_empty k)" "quiet sent (cal_open k)" using assms(1) by (auto simp: quiet_calendar_def)
  note q = quiet_run [OF this(1), THEN conjunct1] quiet_run [OF this(2), THEN conjunct1]
  show ?thesis
    using assms(2) by (auto simp: is_market_open_now_def split: prod.splits sum.splits bool.splits dest!: q)
qed

lemma quiet_skip:
  assumes "quiet_calendar sent k" "should_skip_for_market_hours k env w = (r, w')" shows "sent w' = sent w"
proof -
  have "quiet sent (cal_session_gate k)" using assms(1) by (auto simp: quiet_calendar_def)
  note q = quiet_run [OF this, THEN conjunct1] quiet_open [OF assms(1)]
  show ?thesis
    using assms(2) by (auto simp: should_skip_for_market_hours_def split: prod.splits sum.splits bool.splits if_splits dest!: q)
qed

lemma quiet_error: "only_strategy_sends tickets k \<Longrightarrow> quiet tickets (error_response k e)"
  by (auto simp: error_response_def only_strategy_sends_def intro!: quiet_then quiet_value)

lemma quiet_settings: "quiet sent load \<Longrightarrow> quiet sent (runtime_settings load dry)"
  by (auto simp: runtime_settings_def intro!: quiet_then quiet_value)

lemma quiet_admission: "only_strategy_sends tickets k \<Longrightarrow> quiet tickets (evaluate_admission k env)"
  by (auto simp: evaluate_admission_def admission_target_def only_strategy_sends_def intro!: quiet_then quiet_value quiet_catch quiet_settings)

text \<open>What a reported cycle adds, with the settings it loaded.\<close>

lemma reported_cycle_adds:
  assumes "only_strategy_sends tickets k"
  shows "\<exists>new. tickets (snd (run_strategy_cycle_with_report (ap_strategy k) (ap_report k) (ap_load_settings k) env override send dispatch w))
       = tickets w @ new
     \<and> (new \<noteq> [] \<longrightarrow> (\<exists>ps account w1. ap_load_settings k w = (Inr ps, w1) \<and> target_names (ps_runtime_target (override_settings override ps)) env account
          \<and> list_all (run_ticket (ps_run (override_settings override ps)) (ps_live_order_ack ps) account) new))"
proof -
  have ack: "ps_live_order_ack (override_settings override ps) = ps_live_order_ack ps" for ps
    by (simp add: override_settings_def split: option.split)
  show ?thesis
    using reported_cycle_sends [of tickets "ap_strategy k" "ap_report k" "ap_load_settings k" env override send dispatch w] assms
    by (auto simp: only_strategy_sends_def cycle_sends_def sends_tickets_def ack)
qed

text \<open>The same after quiet steps, and where nothing is sent.\<close>

definition adds_behind :: "('w \<Rightarrow> order_ticket list) \<Rightarrow> bool \<Rightarrow> (order_ticket list \<Rightarrow> bool) \<Rightarrow> 'w \<Rightarrow> 'w \<Rightarrow> bool" where
  "adds_behind tickets gate good w w' \<longleftrightarrow> (\<exists>new. tickets w' = tickets w @ new \<and> (new \<noteq> [] \<longrightarrow> gate \<and> good new))"

lemma adds_nothing: "tickets w' = tickets w \<Longrightarrow> adds_behind tickets gate good w w'"
  by (simp add: adds_behind_def)

lemma adds_later: "tickets w1 = tickets w \<Longrightarrow> adds_behind tickets gate good w1 w' \<Longrightarrow> adds_behind tickets gate good w w'"
  by (simp add: adds_behind_def)

lemma adds_quiet_end: "adds_behind tickets gate good w w1 \<Longrightarrow> tickets w2 = tickets w1 \<Longrightarrow> adds_behind tickets gate good w w2"
  by (simp add: adds_behind_def)

text \<open>Tickets of one account, in the mode and with the switches of settings that were loaded.\<close>

definition tickets_of_settings :: "env \<Rightarrow> platform_settings \<Rightarrow> order_ticket list \<Rightarrow> bool" where
  "tickets_of_settings env ps new \<longleftrightarrow>
     (\<exists>account. target_names (ps_runtime_target ps) env account
        \<and> list_all (run_ticket (ps_run ps) (ps_live_order_ack ps) account) new)"

definition loaded_by :: "('w, platform_settings) io \<Rightarrow> platform_settings \<Rightarrow> bool" where
  "loaded_by load ps \<longleftrightarrow> (\<exists>w w'. load w = (Inr ps, w'))"

lemma cycle_adds:
  assumes "only_strategy_sends tickets k" "gate"
    and "\<And>ps new. loaded_by (ap_load_settings k) ps \<Longrightarrow> tickets_of_settings env (override_settings override ps) new \<Longrightarrow> good new"
  shows "adds_behind tickets gate good w
     (snd (run_strategy_cycle_with_report (ap_strategy k) (ap_report k) (ap_load_settings k) env override send dispatch w))"
proof -
  have ack: "ps_live_order_ack (override_settings override ps) = ps_live_order_ack ps" for ps
    by (simp add: override_settings_def split: option.split)
  obtain new where n: "tickets (snd (run_strategy_cycle_with_report (ap_strategy k) (ap_report k) (ap_load_settings k) env override send dispatch w))
      = tickets w @ new"
    "new \<noteq> [] \<longrightarrow> (\<exists>ps account w1. ap_load_settings k w = (Inr ps, w1) \<and> target_names (ps_runtime_target (override_settings override ps)) env account
          \<and> list_all (run_ticket (ps_run (override_settings override ps)) (ps_live_order_ack ps) account) new)"
    using reported_cycle_adds [OF assms(1), of env override send dispatch w] by blast
  have "good new" if "new \<noteq> []"
    using n(2) that assms(3) by (auto simp: loaded_by_def tickets_of_settings_def ack)
  with n(1) assms(2) show ?thesis by (auto simp: adds_behind_def)
qed

text \<open>What stands before a live run, and before a dry run that asks for paper admission.\<close>

definition run_gates :: "('w, 'ses, 's, 'x, 'y) app_ports \<Rightarrow> env \<Rightarrow> 'w \<Rightarrow> bool" where
  "run_gates k env w \<longleftrightarrow>
     env_true env ''FIRSTRADE_RUN_STRATEGY_ON_HTTP'' \<and> ap_target_enabled k = Inr True
     \<and> (\<exists>ps w1. ap_load_settings k w = (Inr ps, w1) \<and> ps_runtime_target_enabled ps \<and> market_gate (ap_calendar k) env w1)"

lemma run_strategy_adds:
  assumes k: "only_strategy_sends tickets k"
    and good: "\<And>ps new. loaded_by (ap_load_settings k) ps \<Longrightarrow> tickets_of_settings env ps new \<Longrightarrow> good new"
  shows "adds_behind tickets (run_gates k env w) good w (snd (run_strategy k env w))"
proof (cases "env_true env ''FIRSTRADE_RUN_STRATEGY_ON_HTTP'' \<and> ap_target_enabled k = Inr True")
  case False
  then have "tickets (snd (run_strategy k env w)) = tickets w"
    by (cases "ap_target_enabled k") (auto simp: run_strategy_def)
  then show ?thesis by (rule adds_nothing)
next
  case True
  have load: "quiet tickets (runtime_settings (ap_load_settings k) None)" and cal: "quiet_calendar tickets (ap_calendar k)"
    using k by (auto simp: only_strategy_sends_def intro: quiet_settings)
  obtain r w1 where l: "runtime_settings (ap_load_settings k) None w = (r, w1)" by (cases "runtime_settings (ap_load_settings k) None w")
  have w1: "tickets w1 = tickets w" using quiet_run [OF load l] by blast
  have "adds_behind tickets (run_gates k env w) good w (snd (run_enabled k env w))"
  proof (cases r)
    case (Inl e)
    then show ?thesis using w1 by (simp add: run_enabled_def bindIO_case l adds_nothing)
  next
    case (Inr ps)
    have ps: "ap_load_settings k w = (Inr ps, w1)"
      using l unfolding Inr by (auto simp: runtime_settings_def override_settings_def bindIO_Inr returnIO_eq)
    obtain m w2 where s: "should_skip_for_market_hours (ap_calendar k) env w1 = (m, w2)" by (cases "should_skip_for_market_hours (ap_calendar k) env w1")
    have w2: "tickets w2 = tickets w" using quiet_skip [OF cal s] w1 by simp
    show ?thesis
    proof (cases "ps_runtime_target_enabled ps \<and> m = None")
      case False
      then have "tickets (snd (run_enabled k env w)) = tickets w"
        using w1 w2 by (cases m) (auto simp: run_enabled_def bindIO_case l Inr s returnIO_eq)
      then show ?thesis by (rule adds_nothing)
    next
      case open_market: True
      let ?cycle = "run_strategy_cycle_with_report (ap_strategy k) (ap_report k) (ap_load_settings k) env None True True"
      have "snd (run_enabled k env w) = snd (?cycle w2)"
        using open_market by (simp add: run_enabled_def bindIO_case l Inr s returnIO_eq split: prod.split sum.split)
      moreover have "run_gates k env w"
        using True ps open_market not_skipped [of "ap_calendar k" env w1 w2] s unfolding run_gates_def by blast
      then have "adds_behind tickets (run_gates k env w) good w2 (snd (?cycle w2))"
        by (rule cycle_adds [OF k]) (auto simp: override_settings_def intro: good)
      ultimately show ?thesis using adds_later [of tickets w2 w, OF w2] by simp
    qed
  qed
  moreover have "tickets (snd (run_strategy k env w)) = tickets (snd (run_enabled k env w))"
    using True quiet_error [OF k] by (simp add: run_strategy_def quiet_handled [where sent = tickets])
  ultimately show ?thesis by (rule adds_quiet_end)
qed

definition dry_run_gates :: "('w, 'ses, 's, 'x, 'y) app_ports \<Rightarrow> env \<Rightarrow> 'w \<Rightarrow> bool" where
  "dry_run_gates k env w \<longleftrightarrow>
     market_gate (ap_calendar k) env w
     \<and> (paper_dry_run_admission_requested env \<longrightarrow>
          (\<exists>target a. evaluate_paper_dry_run_admission (ap_admission k) target env = Inr (Some a) \<and> au_status a = ''admitted''))"

lemma admission_found:
  assumes "evaluate_admission k env w = (Inr adm, w')"
  shows "if paper_dry_run_admission_requested env
         then \<exists>target. evaluate_paper_dry_run_admission (ap_admission k) target env = Inr adm else adm = None"
  using assms by (auto simp: evaluate_admission_def bindIO_Inr liftE_def split: if_splits)

lemma requested_is_found: "paper_dry_run_admission_requested env \<Longrightarrow> evaluate_paper_dry_run_admission k target env \<noteq> Inr None"
  by (auto simp: evaluate_paper_dry_run_admission_def split: option.splits sum.splits if_splits)

lemma dry_run_admitted_adds:
  assumes k: "only_strategy_sends tickets k" and gate: "market_gate (ap_calendar k) env w0"
  shows "adds_behind tickets (dry_run_gates k env w0) (list_all t_dry_run) w (snd (dry_run_admitted k env w))"
proof -
  obtain r w1 where e: "evaluate_admission k env w = (r, w1)" by (cases "evaluate_admission k env w")
  have w1: "tickets w1 = tickets w" using quiet_run [OF quiet_admission [OF k] e] by blast
  let ?cycle = "run_strategy_cycle_with_report (ap_strategy k) (ap_report k) (ap_load_settings k) env (Some True) False False"
  have runs: "adds_behind tickets (dry_run_gates k env w0) (list_all t_dry_run) w1 (snd (?cycle w1))" if "dry_run_gates k env w0"
    by (rule cycle_adds [OF k that]) (auto simp: tickets_of_settings_def override_settings_def run_ticket_def list_all_iff)
  show ?thesis
  proof (cases r)
    case (Inl x)
    then show ?thesis using w1 by (simp add: dry_run_admitted_def bindIO_case e adds_nothing)
  next
    case (Inr adm)
    note f = admission_found [OF e [unfolded Inr]]
    show ?thesis
    proof (cases "case adm of Some a \<Rightarrow> au_status a = ''admitted'' | None \<Rightarrow> True")
      case False
      then show ?thesis using w1 by (cases adm) (simp_all add: dry_run_admitted_def bindIO_case e Inr adds_nothing returnIO_eq)
    next
      case True
      have "dry_run_gates k env w0"
        using f True gate requested_is_found by (auto simp: dry_run_gates_def split: if_splits option.splits)
      moreover have "snd (dry_run_admitted k env w) = snd (?cycle w1)"
        using True by (cases adm) (simp_all add: dry_run_admitted_def bindIO_case e Inr returnIO_eq split: prod.split sum.split)
      ultimately show ?thesis using adds_later [of tickets w1 w, OF w1 runs] by simp
    qed
  qed
qed

lemma dry_run_adds:
  assumes k: "only_strategy_sends tickets k"
  shows "adds_behind tickets (dry_run_gates k env w) (list_all t_dry_run) w (snd (dry_run k env w))"
proof -
  have cal: "quiet_calendar tickets (ap_calendar k)" using k by (auto simp: only_strategy_sends_def)
  obtain m w1 where s: "should_skip_for_market_hours (ap_calendar k) env w = (m, w1)" by (cases "should_skip_for_market_hours (ap_calendar k) env w")
  have w1: "tickets w1 = tickets w" by (rule quiet_skip [OF cal s])
  show ?thesis
  proof (cases m)
    case (Some p)
    then show ?thesis using w1 by (simp add: dry_run_def s adds_nothing)
  next
    case None
    have "market_gate (ap_calendar k) env w" using not_skipped [OF s [unfolded None]] by blast
    from dry_run_admitted_adds [OF k this, of w1]
    have "adds_behind tickets (dry_run_gates k env w) (list_all t_dry_run) w (snd (dry_run_admitted k env w1))"
      by (rule adds_later [of tickets w1 w, OF w1])
    moreover have "tickets (snd (dry_run k env w)) = tickets (snd (dry_run_admitted k env w1))"
      using quiet_error [OF k] by (simp add: dry_run_def s None quiet_handled [where sent = tickets])
    ultimately show ?thesis by (rule adds_quiet_end)
  qed
qed

section \<open>Properties\<close>

text \<open>
  Property C1. What the route \<open>/run\<close> sends stands behind every gate: a request sends nothing
  unless the HTTP switch is on, the runtime target is enabled in the environment and in
  the settings, and the market is open or the run is forced; what it then sends are tickets
  for one account, the one its target names, previews in a dry run and live only with live
  trading and its acknowledgement on. Errors, notifications and reports send nothing.
\<close>

theorem run_route_sends_behind_every_gate:
  assumes "only_strategy_sends tickets k"
  shows "\<exists>new. tickets (snd (run_strategy k env w)) = tickets w @ new
     \<and> (new \<noteq> [] \<longrightarrow> run_gates k env w
          \<and> (\<exists>ps account. loaded_by (ap_load_settings k) ps \<and> target_names (ps_runtime_target ps) env account
               \<and> list_all (\<lambda>t. t_account t = account \<and> t_dry_run t = s_dry_run_only (ps_run ps)
                    \<and> (t_dry_run t \<or> s_live_trading_enabled (ps_run ps) \<and> ps_live_order_ack ps)) new))"
proof -
  have "adds_behind tickets (run_gates k env w)
      (\<lambda>new. \<exists>ps account. loaded_by (ap_load_settings k) ps \<and> target_names (ps_runtime_target ps) env account
               \<and> list_all (\<lambda>t. t_account t = account \<and> t_dry_run t = s_dry_run_only (ps_run ps)
                    \<and> (t_dry_run t \<or> s_live_trading_enabled (ps_run ps) \<and> ps_live_order_ack ps)) new) w (snd (run_strategy k env w))"
    by (rule run_strategy_adds [OF assms]) (fastforce simp: tickets_of_settings_def run_ticket_def list_all_iff)
  then show ?thesis by (simp add: adds_behind_def)
qed

text \<open>An application over the strategy of \<open>ticket_strategy\<close>, with an open calendar and a report that is only kept.\<close>

definition quiet_reports :: "ticket_world report_ports" where
  "quiet_reports = \<lparr> pr_build = (\<lambda>ps dry. returnIO []),
     pr_receipts = \<lparr> resolve_fact = (\<lambda>f. Inr ([], [])), attach_receipt = (\<lambda>rep a b. Inr rep) \<rparr>,
     pr_evidence = (\<lambda>r xs a b. Inr PNone), pr_finalize = (\<lambda>rep status x. Inr rep), pr_append_error = (\<lambda>rep a b c. Inr rep),
     pr_persist = (\<lambda>rep. returnIO (None, rep)), pr_cloud_uri = (\<lambda>rep p. Inr []), pr_digest = (\<lambda>d. []), pr_bind = (\<lambda>b w. w),
     pr_bound = (\<lambda>w. None), pr_notify = (\<lambda>rep r. returnIO []), pr_send_failure = returnIO () \<rparr>"

definition ticket_app :: "(ticket_world, unit, unit, unit, unit) app_ports" where
  "ticket_app = \<lparr> ap_strategy = ticket_strategy, ap_report = quiet_reports,
     ap_calendar = \<lparr> cal_schedule_empty = returnIO False, cal_open = returnIO True, cal_session_gate = returnIO (''open'', True) \<rparr>,
     ap_load_settings = returnIO sample_platform, ap_target_enabled = Inr True, ap_admission = sample_admission,
     ap_redact = (\<lambda>t. t), ap_is_os_error = (\<lambda>n. False), ap_notify_error = (\<lambda>e. returnIO True) \<rparr>"

lemma ticket_app_sends: "only_strategy_sends snd ticket_app"
  by (auto simp: only_strategy_sends_def ticket_app_def quiet_report_def quiet_reports_def quiet_calendar_def ticket_strategy_quiet intro!: quiet_value)

lemma open_platform: "ps_runtime_target_enabled sample_platform" by (simp add: sample_platform_def)

lemma ticket_run_tickets: "snd (snd (run_strategy ticket_app live_env (Map.empty, []))) = snd (snd ticket_cycle)"
proof -
  have e: "env_true live_env ''FIRSTRADE_RUN_STRATEGY_ON_HTTP''" "force_strategy_run_env live_env"
    "env_or live_env ''FIRSTRADE_ACCOUNT_FACTS_SOURCE_BINDING_ID'' [] = []" by code_simp+
  then have c: "cycle_callback quiet_reports live_env sample_platform = None" by (simp add: cycle_callback_def)
  have "quiet_report snd quiet_reports" using ticket_app_sends by (simp add: only_strategy_sends_def ticket_app_def)
  then have "snd (snd (run_strategy_cycle_with_report ticket_strategy quiet_reports (returnIO sample_platform) live_env None True True (Map.empty, [])))
      = snd (snd (run_strategy_cycle ticket_strategy sample_platform live_env False True None (pr_bind quiet_reports None (Map.empty, []))))"
    unfolding c [symmetric]
    by (rule reported_cycle_orders) (simp_all add: returnIO_eq override_settings_def quiet_reports_def)
  moreover have "snd (snd (run_strategy ticket_app live_env (Map.empty, []))) = snd (snd (run_enabled ticket_app live_env (Map.empty, [])))"
    using e quiet_error [OF ticket_app_sends] by (simp add: run_strategy_def ticket_app_def quiet_handled [where sent = snd])
  moreover have "snd (run_enabled ticket_app live_env (Map.empty, []))
      = snd (run_strategy_cycle_with_report ticket_strategy quiet_reports (returnIO sample_platform) live_env None True True (Map.empty, []))"
    using e open_platform
    by (simp add: run_enabled_def ticket_app_def runtime_settings_def override_settings_def bindIO_case returnIO_eq
        should_skip_for_market_hours_def split: prod.split sum.split)
  moreover have "pr_bind quiet_reports None w = w" for w by (simp add: quiet_reports_def)
  ultimately show ?thesis by (simp add: ticket_cycle_def)
qed

theorem run_route_sends_behind_every_gate_witness:
  "\<exists>t. snd (snd (run_strategy ticket_app live_env (Map.empty, []))) = [t] \<and> run_gates ticket_app live_env (Map.empty, [])"
proof -
  obtain t where t: "snd (snd (run_strategy ticket_app live_env (Map.empty, []))) = [t]"
    using planned_sends_one unfolding ticket_run_tickets ticket_cycle_tickets by (auto simp: map_eq_Cons_conv)
  with run_route_sends_behind_every_gate [OF ticket_app_sends, of live_env "(Map.empty, [])"] show ?thesis by auto
qed

text \<open>
  Property C6. A dry run stays dry whatever the settings say: every ticket that a request to
  \<open>/dry-run\<close> sends is a preview, and where paper admission is requested nothing is sent unless
  the release was admitted.
\<close>

theorem dry_run_route_sends_only_previews:
  assumes "only_strategy_sends tickets k"
  shows "\<exists>new. tickets (snd (dry_run k env w)) = tickets w @ new \<and> list_all t_dry_run new
     \<and> (new \<noteq> [] \<longrightarrow> dry_run_gates k env w)"
  using dry_run_adds [OF assms, of env w] by (fastforce simp: adds_behind_def)

theorem dry_run_route_sends_only_previews_witness:
  "\<exists>new. snd (snd (dry_run ticket_app live_env (Map.empty, []))) = new \<and> list_all t_dry_run new
     \<and> (new \<noteq> [] \<longrightarrow> dry_run_gates ticket_app live_env (Map.empty, []))"
  using dry_run_route_sends_only_previews [OF ticket_app_sends, of live_env "(Map.empty, [])"] by simp

end
