(* ===== verification/FactsRoute.thy ===== *)
theory FactsRoute
  imports FactsPublisher RunRoutes
begin

text \<open>
  The route \<open>/account-facts-sync\<close> of \<open>main.py\<close>: who may call it, the binding to the runtime
  target, the read-only client, the archive and the publication, and the log entry of a failure.
\<close>

section \<open>Target and caller\<close>

record continuity =
  lc_state :: pyval
  lc_baseline_id :: pyval
  lc_baseline_target_sha256 :: pyval

record routed_target = runtime_target +
  rt_platform_id :: pyval
  rt_strategy_profile :: pyval
  rt_live_continuity :: "continuity option"

record caller =
  ca_authorization :: string
  ca_user_agent :: string
  ca_trace :: string

definition scheduler_oidc :: "caller \<Rightarrow> bool" where
  "scheduler_oidc h \<longleftrightarrow>
     starts_with (ca_user_agent h) ''Google-Cloud-Scheduler'' \<and> starts_with (ca_authorization h) ''Bearer ''
     \<and> count_list (ca_authorization h) (CHR ''.'') = 2"

definition publish_authorized :: "publish_config \<Rightarrow> caller \<Rightarrow> bool" where
  "publish_authorized cfg h \<longleftrightarrow> ca_authorization h = ''Bearer '' @ pc_sync_token cfg \<or> scheduler_oidc h"

definition only_selector :: "pyval \<Rightarrow> pyval exc" where
  "only_selector v =
     (case (case v of PStr s \<Rightarrow> Some [PStr s] | PList xs \<Rightarrow> Some xs | _ \<Rightarrow> None) of
        Some [x] \<Rightarrow> Inr x
      | _ \<Rightarrow> refuse ''runtime_target_account_selector_invalid'')"

text \<open>The configuration for the account of the target, and the target's scope.\<close>

definition bound_config :: "publish_config \<Rightarrow> routed_target option \<Rightarrow> (publish_config \<times> string) exc" where
  "bound_config cfg target =
     (case target of
        None \<Rightarrow> refuse ''runtime_target_mismatch''
      | Some t \<Rightarrow>
          bindE (ensure (rt_platform_id t = PStr ''firstrade'') ''runtime_target_mismatch'') (\<lambda>_.
          bindE (only_selector (rt_account_selector t)) (\<lambda>selector.
          bindE (bind_account_facts_runtime_selector cfg selector) (\<lambda>cfg1.
          bindE (ensure (rt_account_scope t = PStr (pc_account_scope cfg1)) ''runtime_target_mismatch'') (\<lambda>_.
          Inr (cfg1, py_str (rt_account_scope t)))))))"

definition failed :: "string \<Rightarrow> int \<Rightarrow> answer" where
  "failed reason status = ([(''ok'', PBool False), (''error'', PStr reason)], status)"

definition binding_failure :: "pyexc \<Rightarrow> answer" where
  "binding_failure e =
     (case e of
        AccountFactsPublishError r \<Rightarrow>
          failed r (if r \<in> {''runtime_target_mismatch'', ''runtime_target_account_selector_invalid'', ''account_identity_mismatch''}
                    then 409 else 503)
      | _ \<Rightarrow> failed ''runtime_target_unavailable'' 503)"

section \<open>The log entry\<close>

definition log_reasons :: "string list" where
  "log_reasons = [''cache_config_error'', ''cache_read_failed'', ''cache_missing'', ''cache_stale'', ''cache_invalid'',
     ''cache_tokens_incomplete'', ''cache_missing_or_stale'', ''read_timeout'', ''read_network_error'', ''read_http_error'',
     ''read_invalid_payload'', ''read_provider_error'', ''account_data_invalid'', ''account_identity_unavailable'',
     ''account_identity_mismatch'', ''account_list_empty'', ''balances_unavailable'', ''positions_unavailable'',
     ''readonly_client_unavailable'', ''sync_unavailable'', ''sync_rejected'', ''sync_ack_invalid'', ''configuration_incomplete'',
     ''account_facts_unavailable'', ''runtime_target_mismatch'', ''funds_archive_unavailable'']"

definition log_stages :: "string list" where
  "log_stages = [''cache'', ''userinfo'', ''account_list'', ''account_read'', ''unclassified'']"

definition is_hex :: "char \<Rightarrow> bool" where
  "is_hex c \<longleftrightarrow> c \<in> set ''0123456789abcdefABCDEF''"

text \<open>The trace id of \<open>X-Cloud-Trace-Context\<close>: 32 hexadecimal digits, then a span and options.\<close>

definition trace_options :: "string \<Rightarrow> bool" where
  "trace_options r \<longleftrightarrow> r = [] \<or> r = '';o=0'' \<or> r = '';o=1''"

definition trace_id :: "string \<Rightarrow> string option" where
  "trace_id h =
     (let t = take 32 h; r = drop 32 h;
          ok = (case r of
                  [] \<Rightarrow> True
                | c # s \<Rightarrow> if c = CHR ''/'' then s \<noteq> [] \<and> is_digit (hd s) \<and> trace_options (dropWhile is_digit s)
                    else trace_options r)
      in if length t = 32 \<and> list_all is_hex t \<and> ok then Some (py_lower t) else None)"

definition is_project_id :: "string \<Rightarrow> bool" where
  "is_project_id p \<longleftrightarrow> 6 \<le> length p \<and> length p \<le> 30 \<and> is_lower (hd p) \<and> (is_lower (last p) \<or> is_digit (last p))
     \<and> list_all (\<lambda>c. is_lower c \<or> is_digit c \<or> c = CHR ''-'') p"

definition facts_log_entry :: "env \<Rightarrow> string \<Rightarrow> string \<Rightarrow> string \<Rightarrow> int option \<Rightarrow> pyval dict" where
  "facts_log_entry env trace raw_reason raw_stage raw_status =
     (let reason = (if raw_reason \<in> set log_reasons then raw_reason else ''unknown'');
          stage = (if raw_stage \<in> set log_stages then raw_stage else ''unclassified'');
          status = (case raw_status of None \<Rightarrow> None | Some s \<Rightarrow> if 100 \<le> s \<and> s \<le> 599 then Some s else None);
          renewal = (reason \<in> {''cache_missing'', ''cache_stale'', ''cache_missing_or_stale''}
             \<or> reason = ''read_http_error'' \<and> status = Some 401 \<and> stage \<in> {''userinfo'', ''account_list'', ''account_read''})
      in [(''severity'', PStr ''WARNING''), (''message'', PStr ''account_facts_sync failed''), (''reason'', PStr reason),
          (''stage'', PStr stage), (''http_status'', case status of None \<Rightarrow> PNone | Some s \<Rightarrow> PInt s)]
         @ (if renewal then [(''recovery_action'', PStr ''manual_session_renewal_required'')] else [])
         @ (case (env ''GOOGLE_CLOUD_PROJECT'', trace_id trace) of
              (Some p, Some t) \<Rightarrow> if is_project_id p
                 then [(''logging.googleapis.com/trace'', PStr (''projects/'' @ p @ ''/traces/'' @ t))] else []
            | _ \<Rightarrow> []))"

text \<open>What a failure while reading is logged and answered as.\<close>

definition failure_facts :: "pyexc \<Rightarrow> string \<times> string \<times> int option" where
  "failure_facts e =
     (case e of
        AccountFactsUnavailable r \<Rightarrow> (r, ''unclassified'', None)
      | AccountFactsPublishError r \<Rightarrow> (r, ''unclassified'', None)
      | CachedSessionError r stage status \<Rightarrow> (r, stage, status)
      | _ \<Rightarrow> (if is_platform_error e then ''readonly_client_unavailable'' else ''account_facts_unavailable'', ''unclassified'', None))"

definition read_failure :: "pyexc \<Rightarrow> answer" where
  "read_failure e =
     (case e of
        AccountFactsUnavailable r \<Rightarrow> failed r 503
      | AccountFactsPublishError r \<Rightarrow> failed r 503
      | _ \<Rightarrow> failed (if is_platform_error e then ''readonly_client_unavailable'' else ''account_facts_unavailable'') 503)"

section \<open>The route\<close>

record ('w, 'ses) facts_ports =
  fp_session :: "('w, 'ses) session_ports"
  fp_target :: "('w, routed_target option) io"
  fp_clock :: "('w, datetime option) io"
  fp_from_iso :: "string \<Rightarrow> datetime option exc"
  fp_http :: "'w http_ports"
  fp_log :: "pyval dict \<Rightarrow> 'w \<Rightarrow> 'w"

definition build_read_only_client ::
  "('w, 'ses) session_ports \<Rightarrow> env \<Rightarrow> 'w \<Rightarrow> (pyexc option \<times> ('ses, 'w account_data) client) \<times> 'w" where
  "build_read_only_client k env w =
     connect_read_only (ss_sdk k) (ss_cache k) None (credentials_from_env (ss_secrets k) env False) (new_client False) w"

text \<open>The only account of the broker, where the configured one is not listed.\<close>

definition account_config :: "('ses, 'w account_data) client \<Rightarrow> publish_config \<Rightarrow> publish_config exc" where
  "account_config cl cfg =
     (case (pc_account_id cfg, account_numbers (cl_account_data cl)) of
        (Some expected, Inr [sole]) \<Rightarrow>
          if expected \<noteq> sole \<and> sole \<noteq> []
          then bind_account_facts_runtime_selector (cfg \<lparr> pc_account_id := None \<rparr>) (PStr sole) else Inr cfg
      | _ \<Rightarrow> Inr cfg)"

definition facts_snapshot ::
  "('w, 'ses) facts_ports \<Rightarrow> ('ses, 'w account_data) client \<Rightarrow> publish_config \<Rightarrow> string \<Rightarrow>
   ('w, pyval dict \<times> pyval dict \<times> publish_config) io" where
  "facts_snapshot k cl cfg0 scope =
     bindIO (liftE (account_config cl cfg0)) (\<lambda>cfg.
     bindIO (case pc_account_id cfg of
               None \<Rightarrow> raiseIO (AccountFactsUnavailable ''account_identity_unavailable'')
             | Some expected \<Rightarrow> collect_firstrade_account_facts cl (fp_clock k) expected (pc_position_currency cfg \<noteq> None)) (\<lambda>obs.
     bindIO (liftE (build_firstrade_account_snapshot (fp_from_iso k) obs cfg scope False)) (\<lambda>payload.
     returnIO (obs, payload, cfg))))"

definition log_failure :: "('w, 'ses) facts_ports \<Rightarrow> env \<Rightarrow> caller \<Rightarrow> string \<times> string \<times> int option \<Rightarrow> 'w \<Rightarrow> 'w" where
  "log_failure k env h f = (case f of (reason, stage, status) \<Rightarrow> fp_log k (facts_log_entry env (ca_trace h) reason stage status))"

definition close_facts_client :: "('w, 'ses) facts_ports \<Rightarrow> ('ses, 'w account_data) client \<Rightarrow> 'w \<Rightarrow> 'w" where
  "close_facts_client k cl w = snd (close_client (ss_sdk (fp_session k)) cl w)"

definition publish_facts ::
  "('w, 'ses) facts_ports \<Rightarrow> env \<Rightarrow> caller \<Rightarrow> pyval dict \<Rightarrow> pyval dict \<Rightarrow> publish_config \<Rightarrow> ('w, answer) io" where
  "publish_facts k env h obs payload cfg w =
     (case archive_cached_account_facts (fp_from_iso k) (ss_objects (fp_session k)) env obs w of
        (Inl e, w1) \<Rightarrow> (Inr (failed ''funds_archive_unavailable'' 503),
                       log_failure k env h (''funds_archive_unavailable'', ''unclassified'', None) w1)
      | (Inr _, w1) \<Rightarrow>
          (case publish_firstrade_account_snapshot (fp_http k) payload cfg False w1 of
             (Inl (AccountFactsPublishError r), w2) \<Rightarrow>
               (Inr (failed r (if starts_with r ''sync_'' then 502 else 503)), log_failure k env h (r, ''unclassified'', None) w2)
           | (Inl e, w2) \<Rightarrow> (Inl e, w2)
           | (Inr _, w2) \<Rightarrow> (Inr ([(''ok'', PBool True), (''stored'', PBool True)], 200), w2)))"

definition facts_answer :: "('w, 'ses) facts_ports \<Rightarrow> env \<Rightarrow> caller \<Rightarrow> publish_config \<Rightarrow> string \<Rightarrow> ('w, answer) io" where
  "facts_answer k env h cfg scope w =
     (case build_read_only_client (fp_session k) env w of
        ((Some e, _), w1) \<Rightarrow> (Inr (read_failure e), log_failure k env h (failure_facts e) w1)
      | ((None, cl), w1) \<Rightarrow>
          (case facts_snapshot k cl cfg scope w1 of
             (Inl e, w2) \<Rightarrow> (Inr (read_failure e), close_facts_client k cl (log_failure k env h (failure_facts e) w2))
           | (Inr (obs, payload, cfg1), w2) \<Rightarrow> publish_facts k env h obs payload cfg1 (close_facts_client k cl w2)))"

definition account_facts_sync :: "('w, 'ses) facts_ports \<Rightarrow> env \<Rightarrow> caller \<Rightarrow> ('w, answer) io" where
  "account_facts_sync k env h =
     (if env ''FIRSTRADE_ACCOUNT_FACTS_SYNC_ENABLED'' \<noteq> Some ''true'' then returnIO (failed ''disabled'' 404)
      else case load_account_facts_publish_config env None True of
        Inl (AccountFactsPublishError r) \<Rightarrow> returnIO (failed r 503)
      | Inl e \<Rightarrow> raiseIO e
      | Inr cfg \<Rightarrow>
          if \<not> publish_authorized cfg h then returnIO (failed ''unauthorized'' 401)
          else (\<lambda>w. case bindIO (fp_target k) (\<lambda>t. liftE (bound_config cfg t)) w of
               (Inl e, w1) \<Rightarrow> (Inr (binding_failure e), w1)
             | (Inr (cfg1, scope), w1) \<Rightarrow> facts_answer k env h cfg1 scope w1))"

section \<open>What reading leaves alone\<close>

primrec reader_yields :: "('b \<Rightarrow> bool) \<Rightarrow> 'b reader \<Rightarrow> bool" where
  "reader_yields G (Return x) \<longleftrightarrow> G x"
| "reader_yields G (Fail e) \<longleftrightarrow> True"
| "reader_yields G (Ask r f) \<longleftrightarrow> (\<forall>x. reader_yields G (f x))"

definition quiet_read_only :: "('w \<Rightarrow> 'o) \<Rightarrow> ('w, 'ses, 'w account_data) sdk \<Rightarrow> bool" where
  "quiet_read_only sent k \<longleftrightarrow>
     quiet sent (sdk_read_only_session k) \<and> (\<forall>r w. sent (snd (sdk_transport k r w)) = sent w)
     \<and> (\<forall>s p. reader_yields (quiet_account sent) (sdk_read_only_account k s p)) \<and> (\<forall>s w. sent (sdk_close k s w) = sent w)"

definition records_posts :: "('w \<Rightarrow> publish_request list) \<Rightarrow> 'w http_ports \<Rightarrow> bool" where
  "records_posts posts k \<longleftrightarrow>
     quiet posts (ph_open k) \<and> (\<forall>r w. posts (snd (ph_post k r w)) = posts w @ [r])
     \<and> (\<forall>w. posts (ph_close k w) = posts w) \<and> (\<forall>t w. posts (ph_print k t w) = posts w)"

definition only_publishing_posts :: "('w \<Rightarrow> publish_request list) \<Rightarrow> ('w, 'ses) facts_ports \<Rightarrow> bool" where
  "only_publishing_posts posts k \<longleftrightarrow>
     quiet_read_only posts (ss_sdk (fp_session k)) \<and> quiet_cache posts (ss_cache (fp_session k))
     \<and> store_sends_nothing (ss_objects (fp_session k)) posts \<and> quiet posts (fp_target k) \<and> quiet posts (fp_clock k)
     \<and> (\<forall>d w. posts (fp_log k d w) = posts w) \<and> records_posts posts (fp_http k)"

lemma request_quiet:
  "(\<And>r w. sent (snd (transport r w)) = sent w) \<Longrightarrow> sent (snd (snd (read_only_request transport r st))) = sent (snd st)"
proof -
  assume q: "\<And>r w. sent (snd (transport r w)) = sent w"
  obtain cl stage w where st: "st = ((cl, stage), w)" by (metis prod.exhaust)
  obtain x w' where x: "transport (r \<lparr> rq_kwargs := read_only_kwargs (rq_kwargs r) \<rparr>) w = (x, w')" by (rule prod.exhaust)
  have "sent w' = sent w" using q [of "r \<lparr> rq_kwargs := read_only_kwargs (rq_kwargs r) \<rparr>" w] by (simp add: x)
  with x show ?thesis unfolding st
    by (simp add: read_only_request_def Let_def split: sum.split)
qed

lemma reader_quiet:
  assumes "\<And>r w. sent (snd (transport r w)) = sent w" "reader_yields G p" "run_reader p transport st = (res, st')"
  shows "sent (snd st') = sent (snd st) \<and> (\<forall>x. res = Inr x \<longrightarrow> G x)"
  using assms(2,3)
proof (induction p arbitrary: st)
  case (Ask r f)
  obtain x st1 where r: "read_only_request transport r st = (x, st1)" by (rule prod.exhaust)
  have "run_reader (f x) transport st1 = (res, st')" "reader_yields G (f x)" using Ask.prems r by auto
  from Ask.IH [OF rangeI this(2,1)] have "sent (snd st') = sent (snd st1) \<and> (\<forall>x. res = Inr x \<longrightarrow> G x)" .
  moreover have "sent (snd st1) = sent (snd st)" using request_quiet [where sent = sent and transport = transport and r = r and st = st] assms(1) r by simp
  ultimately show ?case by simp
qed auto

lemma quiet_read_only_load: "quiet_cache sent ch \<Longrightarrow> quiet sent (load_read_only_session_cache ch explicit c)"
proof -
  assume q: "quiet_cache sent ch"
  then have "store_sends_nothing (cp_store ch) sent" by (simp add: quiet_cache_def)
  then show ?thesis
    unfolding load_read_only_session_cache_def
    by (auto intro!: quiet_rules quiet_load [OF q] split: sum.split option.split) (auto simp: quiet_io_def)
qed

lemma quiet_connect_read_only:
  assumes k: "quiet_read_only sent k" and ch: "quiet_cache sent ch"
    and m: "connect_read_only k ch explicit c (new_client live) w = ((r, cl), w')"
  shows "sent w' = sent w \<and> (r = None \<longrightarrow> quiet_client sent cl)"
proof -
  have q: "quiet sent (sdk_read_only_session k)" "\<And>r w. sent (snd (sdk_transport k r w)) = sent w"
    "\<And>s p. reader_yields (quiet_account sent) (sdk_read_only_account k s p)" "\<And>s w. sent (sdk_close k s w) = sent w"
    using k by (auto simp: quiet_read_only_def)
  note read = reader_quiet [where transport = "sdk_transport k" and sent = sent, OF q(2) q(3)]
  show ?thesis
    using m q(4)
    by (auto simp: connect_read_only_def split: prod.splits sum.splits if_splits option.splits
        dest!: quiet_run [OF quiet_read_only_load [OF ch]] quiet_run [OF q(1)] read)
qed

lemma quiet_collect:
  assumes "quiet_client sent cl" "quiet sent clock"
  shows "quiet sent (collect_firstrade_account_facts cl clock expected asked)"
proof -
  have b: "quiet sent (get_balances (cl_account_data cl) a)" and p: "quiet sent (get_positions (cl_account_data cl) a)" for a
    using assms(1)
    by (cases "cl_account_data cl"; auto simp: get_balances_def get_positions_def require_connected_def quiet_client_def quiet_account_def
        Let_def intro!: quiet_rules split: pyval.split)+
  have c: "quiet sent (read_clock clock)"
    unfolding read_clock_def by (auto intro!: quiet_rules assms(2) split: option.split)
  show ?thesis
    unfolding collect_firstrade_account_facts_def facts_balances_def replace_error_def
    by (auto intro!: quiet_rules b p c)
qed

lemma quiet_archive:
  "store_sends_nothing os sent \<Longrightarrow> quiet sent (archive_cached_account_facts from_iso os env obs)"
  by (auto simp: archive_cached_account_facts_def persist_funds_snapshot_def Let_def intro!: quiet_rules split: option.split)

section \<open>The facts of a publication\<close>

lemma ensure_Inr [simp]: "ensure ok reason = Inr u \<longleftrightarrow> ok"
  by (auto simp: ensure_def guardE_def refuse_def)

lemma refuse_not_Inr [simp]: "refuse reason \<noteq> Inr x"
  by (simp add: refuse_def)

lemma config_loaded:
  assumes "load_account_facts_publish_config env expected allow = Inr cfg"
  shows "env ''FIRSTRADE_ACCOUNT_FACTS_SYNC_ENABLED'' = Some ''true''" "pc_sync_url cfg = approved_sync_url"
    "required_env env ''FIRSTRADE_ACCOUNT_FACTS_SYNC_TOKEN'' = Inr (pc_sync_token cfg)"
    "\<forall>k\<in>set other_tokens. env k \<noteq> Some (pc_sync_token cfg)"
  using assms
  by (auto simp: load_account_facts_publish_config_def bindE_Inr_iff approved_destination_def Let_def list_ex_iff)

lemma bound_to_selector:
  assumes "bind_account_facts_runtime_selector cfg v = Inr cfg1"
  obtains a where "v = PStr a" "cfg1 = cfg \<lparr> pc_account_id := Some a \<rparr>" "is_broker_account_id a"
  using assms by (auto simp: bind_account_facts_runtime_selector_def split: pyval.splits if_splits)

lemma bound_config_account:
  assumes "bound_config cfg target = Inr (cfg1, scope)"
  obtains t a where "target = Some t" "rt_platform_id t = PStr ''firstrade''" "only_selector (rt_account_selector t) = Inr (PStr a)"
    "cfg1 = cfg \<lparr> pc_account_id := Some a \<rparr>" "rt_account_scope t = PStr (pc_account_scope cfg1)"
  using assms
  by (auto simp: bound_config_def bindE_Inr_iff split: option.splits elim!: bound_to_selector)

text \<open>The account of the snapshot: the configured one, or the only one of the broker.\<close>

lemma account_config_cases:
  assumes "account_config cl (cfg \<lparr> pc_account_id := Some a \<rparr>) = Inr cfg1"
  obtains b where "cfg1 = cfg \<lparr> pc_account_id := Some b \<rparr>" "b = a \<or> account_numbers (cl_account_data cl) = Inr [b]"
  using assms
  by (auto simp: account_config_def split: sum.splits list.splits if_splits elim!: bound_to_selector)

lemma snapshot_built:
  assumes "build_firstrade_account_snapshot from_iso obs cfg scope include = Inr payload"
  shows "identity_matches obs cfg scope" "pget payload ''broker_account_id'' = opt_str (pc_account_id cfg)"
  using assms
  by (auto simp: build_firstrade_account_snapshot_def bindE_Inr_iff schema_fields_def)

lemma publish_posts:
  assumes "records_posts posts k" "publish_firstrade_account_snapshot k payload cfg historical w = (r, w')"
  shows "posts w' = posts w \<and> r \<noteq> Inr () \<or> posts w' = posts w @ [snapshot_request payload cfg historical]"
proof -
  obtain x w1 where o: "ph_open k w = (x, w1)" by (rule prod.exhaust)
  obtain y w2 where p: "ph_post k (snapshot_request payload cfg historical) w1 = (y, w2)" by (rule prod.exhaust)
  have q: "quiet posts (ph_open k)" "posts (ph_close k v) = posts v" "posts (ph_print k t v) = posts v"
    "posts (snd (ph_post k r v)) = posts v @ [r]" for v t r
    using assms(1) by (auto simp: records_posts_def)
  have 1: "posts w1 = posts w" "posts w2 = posts w1 @ [snapshot_request payload cfg historical]"
    using quiet_run [OF q(1) o] q(4) [of "snapshot_request payload cfg historical" w1] p by auto
  show ?thesis
    using assms(2) 1 by (auto simp: publish_firstrade_account_snapshot_def o p q refuse_def split: sum.splits if_splits)
qed

text \<open>A snapshot is built over the client's own reads.\<close>

lemma facts_snapshot_from:
  assumes "facts_snapshot k cl (cfg \<lparr> pc_account_id := Some a \<rparr>) scope w = (Inr (obs, payload, cfg1), w')"
  obtains b where "cfg1 = cfg \<lparr> pc_account_id := Some b \<rparr>" "b = a \<or> account_numbers (cl_account_data cl) = Inr [b]"
    "collect_firstrade_account_facts cl (fp_clock k) b (pc_position_currency cfg1 \<noteq> None) w = (Inr obs, w')"
    "build_firstrade_account_snapshot (fp_from_iso k) obs cfg1 scope False = Inr payload"
proof -
  obtain b where b: "account_config cl (cfg \<lparr> pc_account_id := Some a \<rparr>) = Inr (cfg \<lparr> pc_account_id := Some b \<rparr>)"
    "cfg1 = cfg \<lparr> pc_account_id := Some b \<rparr>" "b = a \<or> account_numbers (cl_account_data cl) = Inr [b]"
    using assms by (auto simp: facts_snapshot_def bindIO_Inr liftE_def returnIO_eq elim!: account_config_cases)
  with assms that show ?thesis by (auto simp: facts_snapshot_def bindIO_Inr liftE_def returnIO_eq)
qed

lemma publish_facts_posts:
  assumes "only_publishing_posts posts k" "publish_facts k env h obs payload cfg w = (r, w')"
  shows "posts w' = posts w \<and> (\<forall>a. r = Inr a \<longrightarrow> snd a \<noteq> 200) \<or> posts w' = posts w @ [snapshot_request payload cfg False]"
proof -
  have q: "quiet posts (archive_cached_account_facts (fp_from_iso k) (ss_objects (fp_session k)) env obs)"
    "posts (fp_log k d v) = posts v" "records_posts posts (fp_http k)" for d v
    using assms(1) by (auto simp: only_publishing_posts_def intro: quiet_archive)
  obtain x w1 where x: "archive_cached_account_facts (fp_from_iso k) (ss_objects (fp_session k)) env obs w = (x, w1)" by (rule prod.exhaust)
  obtain y w2 where y: "publish_firstrade_account_snapshot (fp_http k) payload cfg False w1 = (y, w2)" by (rule prod.exhaust)
  have "posts w1 = posts w" using quiet_run [OF q(1) x] by blast
  with publish_posts [OF q(3) y] show ?thesis
    using assms(2) q(2) by (auto simp: publish_facts_def x y log_failure_def failed_def split: sum.splits pyexc.splits if_splits)
qed

text \<open>The answer of a reading, and what led to a snapshot.\<close>

lemma facts_answer_posts:
  fixes k :: "('w, 'ses) facts_ports"
  assumes k: "only_publishing_posts posts k" and run: "facts_answer k env h (cfg \<lparr> pc_account_id := Some a \<rparr>) scope w = (r, w')"
  shows "posts w' = posts w \<and> (\<forall>x. r = Inr x \<longrightarrow> snd x \<noteq> 200)
    \<or> (\<exists>(cl :: ('ses, 'w account_data) client) obs payload b wa wb. posts w' = posts w @ [snapshot_request payload (cfg \<lparr> pc_account_id := Some b \<rparr>) False]
         \<and> (b = a \<or> account_numbers (cl_account_data cl) = Inr [b])
         \<and> collect_firstrade_account_facts cl (fp_clock k) b (pc_position_currency cfg \<noteq> None) wa = (Inr obs, wb)
         \<and> build_firstrade_account_snapshot (fp_from_iso k) obs (cfg \<lparr> pc_account_id := Some b \<rparr>) scope False = Inr payload)"
proof -
  let ?c = "cfg \<lparr> pc_account_id := Some a \<rparr>"
  have sdk: "quiet_read_only posts (ss_sdk (fp_session k))" and ch: "quiet_cache posts (ss_cache (fp_session k))"
    and clock: "quiet posts (fp_clock k)" and log: "posts (log_failure k env h f v) = posts v" for f v
    using k by (auto simp: only_publishing_posts_def log_failure_def split: prod.split)
  have close: "posts (close_facts_client k cl v) = posts v" for cl v
    using sdk by (auto simp: close_facts_client_def close_client_def quiet_read_only_def split: option.split)
  have bad: "snd (read_failure e) \<noteq> 200" for e by (auto simp: read_failure_def failed_def split: pyexc.split)
  obtain x cl w1 where b: "build_read_only_client (fp_session k) env w = ((x, cl), w1)" by (metis prod.exhaust)
  have w1: "posts w1 = posts w" "x = None \<longrightarrow> quiet_client posts cl"
    using quiet_connect_read_only [OF sdk ch b [unfolded build_read_only_client_def]] by auto
  obtain y w2 where s: "facts_snapshot k cl ?c scope w1 = (y, w2)" by (rule prod.exhaust)
  show ?thesis
  proof (cases x)
    case (Some e)
    then have e: "r = Inr (read_failure e)" "w' = log_failure k env h (failure_facts e) w1" using run b by (simp_all add: facts_answer_def)
    have "posts w' = posts w" using log [of "failure_facts e" w1] w1 unfolding e by simp
    with bad [of e] show ?thesis by (simp add: e(1))
  next
    case None
    have "quiet posts (collect_firstrade_account_facts cl (fp_clock k) z asked)" for z asked
      using quiet_collect [OF _ clock] w1 None by blast
    then have "quiet posts (facts_snapshot k cl ?c scope)"
      unfolding facts_snapshot_def by (auto intro!: quiet_rules split: option.split)
    from quiet_run [OF this s] have w2: "posts w2 = posts w" using w1 by simp
    show ?thesis
    proof (cases y)
      case (Inl e)
      then have e: "r = Inr (read_failure e)" "w' = close_facts_client k cl (log_failure k env h (failure_facts e) w2)"
        using run b s None by (simp_all add: facts_answer_def)
      have "posts w' = posts w" using log [of "failure_facts e" w2] close w2 unfolding e by simp
      with bad [of e] show ?thesis by (simp add: e(1))
    next
      case (Inr z)
      obtain obs payload cfg1 where z: "z = (obs, payload, cfg1)" by (metis prod.exhaust)
      from s [unfolded Inr z] obtain b where b2: "cfg1 = cfg \<lparr> pc_account_id := Some b \<rparr>"
        "b = a \<or> account_numbers (cl_account_data cl) = Inr [b]"
        "collect_firstrade_account_facts cl (fp_clock k) b (pc_position_currency cfg1 \<noteq> None) w1 = (Inr obs, w2)"
        "build_firstrade_account_snapshot (fp_from_iso k) obs cfg1 scope False = Inr payload"
        by (rule facts_snapshot_from)
      have "publish_facts k env h obs payload cfg1 (close_facts_client k cl w2) = (r, w')"
        using run b s None Inr z by (simp add: facts_answer_def)
      from publish_facts_posts [OF k this] have "posts w' = posts w \<and> (\<forall>x. r = Inr x \<longrightarrow> snd x \<noteq> 200)
          \<or> posts w' = posts w @ [snapshot_request payload cfg1 False]" by (simp add: close w2)
      then show ?thesis
      proof
        assume "posts w' = posts w @ [snapshot_request payload cfg1 False]"
        moreover have "collect_firstrade_account_facts cl (fp_clock k) b (pc_position_currency cfg \<noteq> None) w1 = (Inr obs, w2)"
          using b2(3) by (simp add: b2(1))
        ultimately show ?thesis using b2(2,4) unfolding b2(1) by blast
      qed simp
    qed
  qed
qed


text \<open>A broker with one account and a switchboard that accepts its facts.\<close>

definition facts_world_account :: "publish_request list account_data" where
  "facts_world_account =
     \<lparr> ad_account_numbers = [PStr ''12345678''], ad_account_balances = [],
       ad_get_balances = (\<lambda>a. returnIO (PDict [(''total_value'', PStr ''1,000.50''), (''currency'', PStr ''usd'')])),
       ad_get_positions = (\<lambda>a. returnIO (PDict [])), ad_get_orders = (\<lambda>a n. returnIO (PDict [])) \<rparr>"

definition facts_world_ports :: "(publish_request list, nat) facts_ports" where
  "facts_world_ports =
     \<lparr> fp_session =
         \<lparr> ss_sdk = \<lparr> sdk_session = (\<lambda>_ _. returnIO 0), sdk_login = (\<lambda>_. returnIO False), sdk_login_two = (\<lambda>_ _. returnIO ()),
             sdk_restore = (\<lambda>_ _. returnIO ()), sdk_account_data = (\<lambda>_. returnIO facts_world_account), sdk_tokens = (\<lambda>_ _. sample_tokens),
             sdk_close = (\<lambda>_ w. w), sdk_read_only_session = returnIO 1, sdk_read_only_account = (\<lambda>_ _. Return facts_world_account),
             sdk_history = (\<lambda>_ _ _ _. Return []), sdk_history_url = (\<lambda>_ _ _. []),
             sdk_transport = (\<lambda>_ w. (Inr \<lparr> rsp_status = 200, rsp_content = ''{}'', rsp_json = None \<rparr>, w)) \<rparr>,
           ss_cache = \<lparr> cp_clock = (\<lambda>_. Fin 1000),
             cp_local = (\<lambda>_. returnIO (Some (PDict [(''access-token'', PStr ''a''), (''ftat'', PStr ''f''), (''sid'', PStr ''s''),
                                                   (''saved_at'', PInt 900)]))),
             cp_write_local = (\<lambda>_ _ w. w), cp_delete_local = (\<lambda>_ w. w), cp_digest = (\<lambda>t. t),
             cp_store = \<lparr> os_read = (\<lambda>_ w. (Inr None, w)), os_write = (\<lambda>_ _ w. (True, w)),
                          os_create = (\<lambda>_ _ _ w. (Created, w)), json_dumps = (\<lambda>_. []), json_loads = (\<lambda>_. None) \<rparr> \<rparr>,
           ss_objects = \<lparr> os_read = (\<lambda>_ w. (Inr None, w)), os_write = (\<lambda>_ _ w. (True, w)),
                          os_create = (\<lambda>_ _ _ w. (Created, w)), json_dumps = (\<lambda>_. []), json_loads = (\<lambda>_. None) \<rparr>,
           ss_secrets = (\<lambda>_. Inl (PlatformError ''no secret'')), ss_now = (\<lambda>_. sample_time), ss_loads = (\<lambda>_. Inr PNone),
           ss_resolve = (\<lambda>p. Inr (p, None, [])) \<rparr>,
       fp_target = returnIO (Some \<lparr> rt_dry_run_only = PNone, rt_execution_environment = [], rt_execution_mode = PNone,
           rt_account_selector = PList [PStr ''firstrade''], rt_account_scope = PStr ''live'', rt_deployment_selector = PNone,
           rt_strategy_release = PNone, rt_platform_id = PStr ''firstrade'', rt_strategy_profile = PNone,
           rt_live_continuity = None \<rparr>),
       fp_clock = returnIO (Some sample_time), fp_from_iso = (\<lambda>_. Inr (Some sample_time)),
       fp_http = \<lparr> ph_open = returnIO (),
         ph_post = (\<lambda>q w. (Inr \<lparr> rsp_status = 200, rsp_content = ''ack'',
           rsp_json = Some (PDict [(''ok'', PBool True), (''stored'', PBool True), (''platform'', PStr ''firstrade''),
             (''account_key'', PStr ''k1''), (''target_id'', PStr ''t1''), (''observation_date'', PStr ''2026-03-02''),
             (''observed_finished_at'', pget (pq_json q) ''observed_finished_at'')]) \<rparr>, w @ [q])),
         ph_close = (\<lambda>w. w), ph_print = (\<lambda>_ w. w) \<rparr>,
       fp_log = (\<lambda>_ w. w) \<rparr>"

definition facts_world_env :: env where
  "facts_world_env = map_of [(''FIRSTRADE_USERNAME'', ''u''), (''FIRSTRADE_REUSE_SESSION'', ''true''),
     (''FIRSTRADE_ACCOUNT_FACTS_SYNC_ENABLED'', ''true''), (''FIRSTRADE_ACCOUNT_FACTS_SYNC_URL'', approved_sync_url),
     (''FIRSTRADE_ACCOUNT_FACTS_SYNC_TOKEN'', ''tok''), (''FIRSTRADE_ACCOUNT_FACTS_TARGET_ID'', ''t1''),
     (''FIRSTRADE_ACCOUNT_FACTS_SOURCE_BINDING_ID'', replicate 64 (CHR ''a'')), (''FIRSTRADE_ACCOUNT_FACTS_ACCOUNT_KEY'', ''k1''),
     (''FIRSTRADE_ACCOUNT_FACTS_ACCOUNT_SCOPE'', ''live'')]"

definition facts_world_caller :: caller where
  "facts_world_caller = \<lparr> ca_authorization = ''Bearer tok'', ca_user_agent = [], ca_trace = [] \<rparr>"

lemma facts_world_quiet: "only_publishing_posts (\<lambda>w. w) facts_world_ports"
  by (simp add: only_publishing_posts_def facts_world_ports_def quiet_read_only_def quiet_cache_def store_sends_nothing_def
      records_posts_def quiet_io_def quiet_account_def facts_world_account_def)

lemma facts_world_publishes:
  "case account_facts_sync facts_world_ports facts_world_env facts_world_caller [] of
     (Inr (a, status), w) \<Rightarrow> status = 200 \<and> length w = 1 \<and> pget (pq_json (hd w)) ''broker_account_id'' = PStr ''12345678''
   | (Inl e, w) \<Rightarrow> False"
  by code_simp


end
