(* ===== verification/Reconciliation.thy ===== *)
theory Reconciliation
  imports FactsRoute "HOL-Library.Multiset"
begin

text \<open>
  \<open>application/broker_reconciliation.py\<close> and the route \<open>/reconcile\<close> of \<open>main.py\<close>: what the
  read-only client observes, the digests it is compared by, and the candidate that is
  answered. The shared library that builds and judges the evidence, the digest and the
  ledger are parameters.
\<close>

section \<open>JSON texts\<close>

definition json_escape :: "char \<Rightarrow> string" where
  "json_escape c =
     (if c = CHR ''\"'' then [CHR 0x5C, c] else if c = CHR 0x5C then [CHR 0x5C, CHR 0x5C]
      else if c = CHR 0x0A then [CHR 0x5C, CHR ''n''] else if c = CHR 0x0D then [CHR 0x5C, CHR ''r'']
      else if c = CHR 0x09 then [CHR 0x5C, CHR ''t''] else if c = CHR 0x0C then [CHR 0x5C, CHR ''f'']
      else if c = CHR 0x08 then [CHR 0x5C, CHR ''b'']
      else if cp c < 32 \<or> 126 < cp c then CHR 0x5C # ''u00'' @ [hex_digit (cp c div 16), hex_digit (cp c mod 16)]
      else [c])"

definition json_string :: "string \<Rightarrow> string" where
  "json_string s = [CHR ''\"''] @ concat (map json_escape s) @ [CHR ''\"'']"

text \<open>\<open>json.loads(json.dumps(v, sort_keys=True))\<close> of finite JSON, and the text of it.\<close>

fun key_sorted :: "pyval \<Rightarrow> pyval" where
  "key_sorted (PList xs) = PList (map key_sorted xs)"
| "key_sorted (PDict d) = PDict (sort_key fst (map (\<lambda>(k, v). (k, key_sorted v)) d))"
| "key_sorted v = v"

fun json_text :: "pyval \<Rightarrow> string" where
  "json_text PNone = ''null''"
| "json_text (PBool b) = (if b then ''true'' else ''false'')"
| "json_text (PStr s) = json_string s"
| "json_text (PList xs) = ''['' @ join_with '', '' (map json_text xs) @ '']''"
| "json_text (PDict d) = ''{'' @ join_with '', '' (map (\<lambda>(k, v). json_string k @ '': '' @ json_text v) d) @ ''}''"
| "json_text v = py_str v"

definition unavailable :: "string \<Rightarrow> pyexc" where
  "unavailable m = ReconciliationUnavailable m"

definition json_value :: "string \<Rightarrow> pyval \<Rightarrow> pyval exc" where
  "json_value surface v =
     (if finite_json v then Inr (key_sorted v)
      else Inl (unavailable (''Firstrade reconciliation received malformed '' @ surface @ ''.'')))"

definition canonical_records :: "pyval dict list \<Rightarrow> pyval list exc" where
  "canonical_records records =
     bindE (mapE (\<lambda>r. json_value ''orders'' (PDict r)) records) (\<lambda>vs. Inr (sort_key json_text vs))"

section \<open>Position quantities\<close>

text \<open>The number of decimal places of a fraction in lowest terms with denominator \<open>b\<close>.\<close>

function decimal_places :: "int \<Rightarrow> nat" where
  "decimal_places b = (if b \<le> 1 \<or> gcd b 10 = 1 then 0 else Suc (decimal_places (b div gcd b 10)))"
  by pat_completeness auto

termination
proof (relation "measure nat")
  fix b :: int
  assume b: "\<not> (b \<le> 1 \<or> gcd b 10 = 1)"
  then have "1 < gcd b 10" using gcd_ge_0_int [of b 10] gcd_eq_0_iff [of b 10] by linarith
  with b have "b div gcd b 10 < b" by (intro int_div_less_self) auto
  with b show "(b div gcd b 10, b) \<in> measure nat" by simp
qed simp

declare decimal_places.simps [simp del]

text \<open>\<open>format(quantity, "f")\<close> without trailing zeros.\<close>

definition plain_decimal :: "rat \<Rightarrow> string" where
  "plain_decimal q =
     (let k = decimal_places (snd (quotient_of q)) in plain_text (q < 0) \<lfloor>\<bar>q\<bar> * 10 ^ k\<rfloor> k)"

definition quantity_of_row :: "pyval \<Rightarrow> (string \<times> string) option" where
  "quantity_of_row row =
     (case row of
        PDict d \<Rightarrow> (case pget d ''symbol'' of
            PStr s \<Rightarrow>
              if py_strip s = [] then None
              else (case pget d ''quantity'' of
                  PBool b \<Rightarrow> None | PNone \<Rightarrow> None | PList xs \<Rightarrow> None | PDict e \<Rightarrow> None
                | v \<Rightarrow> map_option (\<lambda>q. (py_upper (py_strip s), plain_decimal q)) (parse_decimal (py_str v)))
          | _ \<Rightarrow> None)
      | _ \<Rightarrow> None)"

definition position_facts :: "pyval list \<Rightarrow> (string \<times> string) list option" where
  "position_facts rows =
     (if list_all (\<lambda>r. quantity_of_row r \<noteq> None) rows
      then (let ps = map (\<lambda>r. the (quantity_of_row r)) rows in if distinct (map fst ps) then Some (sort_key fst ps) else None)
      else None)"

definition incomplete_positions :: pyexc where
  "incomplete_positions = unavailable ''Firstrade reconciliation received incomplete position facts.''"

definition quantity_row :: "string \<times> string \<Rightarrow> pyval" where
  "quantity_row p = PDict [(''symbol'', PStr (fst p)), (''quantity'', PStr (snd p))]"

definition bound_position_quantities :: "pyval \<Rightarrow> pyval list exc" where
  "bound_position_quantities payload =
     bindE (json_value ''positions'' payload) (\<lambda>v.
     case v of
       PDict d \<Rightarrow>
         if truthy (pget d ''error'') then Inl incomplete_positions
         else (case pget d ''items'' of
             PList rows \<Rightarrow> (case position_facts rows of
                 None \<Rightarrow> Inl incomplete_positions
               | Some ps \<Rightarrow> Inr (map quantity_row ps))
           | _ \<Rightarrow> Inl incomplete_positions)
     | _ \<Rightarrow> Inl incomplete_positions)"

section \<open>Observations\<close>

record observations =
  ob_account :: string
  ob_account_identity_match :: bool
  ob_positions :: pyval
  ob_cash :: pyval
  ob_open_orders :: "pyval list"
  ob_recent_executions :: pyval
  ob_recent_executions_available :: bool

definition stripped_text :: "pyval \<Rightarrow> string" where
  "stripped_text v = py_strip (str_or v)"

definition terminal_statuses :: "string list" where
  "terminal_statuses = [''CANCELED'', ''REJECTED'', ''EXPIRED'', ''FILLED'', ''REPLACED'']"

definition order_state :: "pyval dict \<Rightarrow> string" where
  "order_state d = py_upper (stripped_text (py_or (pget d ''status'') (py_or (pget d ''order_status'') (pget d ''state''))))"

definition open_orders_of :: "pyval dict list \<Rightarrow> pyval dict list exc" where
  "open_orders_of rows =
     (if list_ex (\<lambda>d. order_state d = []) rows
      then Inl (unavailable ''Firstrade reconciliation received an order without status.'')
      else Inr (filter (\<lambda>d. order_state d \<notin> set terminal_statuses) rows))"

definition check_reconciled_account :: "('ses, 'w account_data) client \<Rightarrow> string \<Rightarrow> unit exc" where
  "check_reconciled_account cl account =
     bindE (account_numbers (cl_account_data cl)) (\<lambda>numbers.
     bindE (select_account (cl_account_data cl) (Some account)) (\<lambda>selected.
     guardE (account \<in> set (map py_strip numbers) \<and> py_strip selected = account)
       (unavailable ''Firstrade reconciliation account identity is incomplete.'')))"

definition bounded_orders :: "('ses, 'w account_data) client \<Rightarrow> string \<Rightarrow> ('w, pyval dict list) io" where
  "bounded_orders cl account =
     catchIO (get_orders (cl_account_data cl) account 0) (\<lambda>e. case e of
         TypeError m \<Rightarrow> raiseIO (unavailable ''Firstrade reconciliation requires the bounded read-only order API.'')
       | _ \<Rightarrow> raiseIO e)"

definition observations_of :: "string \<Rightarrow> pyval dict \<Rightarrow> pyval dict \<Rightarrow> pyval dict list \<Rightarrow> observations exc" where
  "observations_of account balances positions orders =
     bindE (guardE (balances \<noteq> []) (unavailable ''Firstrade reconciliation received incomplete balances.'')) (\<lambda>_.
     bindE (bound_position_quantities (PDict positions)) (\<lambda>_.
     bindE (open_orders_of orders) (\<lambda>open_rows.
     bindE (json_value ''positions'' (PDict positions)) (\<lambda>p.
     bindE (json_value ''balances'' (PDict balances)) (\<lambda>cash.
     bindE (canonical_records open_rows) (\<lambda>records.
     Inr \<lparr> ob_account = account, ob_account_identity_match = True, ob_positions = p, ob_cash = cash, ob_open_orders = records,
           ob_recent_executions = PDict [(''availability'', PStr ''unavailable'')], ob_recent_executions_available = False \<rparr>))))))"

definition collect_read_only_reconciliation_observations ::
  "('ses, 'w account_data) client \<Rightarrow> string \<Rightarrow> ('w, observations) io" where
  "collect_read_only_reconciliation_observations cl requested =
     (let account = py_strip requested in
      if account = [] then raiseIO (unavailable ''Firstrade reconciliation requires an explicit account.'')
      else bindIO (liftE (check_reconciled_account cl account)) (\<lambda>_.
           bindIO (get_balances (cl_account_data cl) account) (\<lambda>balances.
           bindIO (get_positions (cl_account_data cl) account) (\<lambda>positions.
           bindIO (bounded_orders cl account) (\<lambda>orders.
           liftE (observations_of account balances positions orders))))))"

section \<open>The candidate\<close>

definition digest_keys :: "string list" where
  "digest_keys = [''account_scope_sha256'', ''positions_sha256'', ''cash_sha256'', ''open_orders_sha256'',
     ''recent_executions_sha256'', ''local_execution_ledger_sha256'']"

definition without_sha_prefix :: "string \<Rightarrow> string" where
  "without_sha_prefix s = (if starts_with s ''sha256:'' then drop 7 s else s)"

definition normal_digest :: "pyval \<Rightarrow> string" where
  "normal_digest v = without_sha_prefix (py_lower (stripped_text v))"

text \<open>\<open>loads\<close> is \<open>json.loads\<close>. The expected digests are a function of the six keys.\<close>

definition expected_digests :: "(string \<Rightarrow> pyval exc) \<Rightarrow> env \<Rightarrow> (string \<Rightarrow> string) option exc" where
  "expected_digests loads env =
     (let raw = py_strip (env_or env ''FIRSTRADE_RECONCILIATION_EXPECTED_DIGESTS_JSON'' []) in
      if raw = [] then Inr None
      else case loads raw of
        Inl e \<Rightarrow> Inl (if is_value_error e then unavailable ''Firstrade reconciliation expected digests are invalid.'' else e)
      | Inr (PDict d) \<Rightarrow>
          if set (dkeys d) \<noteq> set digest_keys then Inl (unavailable ''Firstrade reconciliation expected digests are incomplete.'')
          else if list_ex (\<lambda>k. length (normal_digest (pget d k)) \<noteq> 64
                     \<or> list_ex (\<lambda>c. c \<notin> set ''0123456789abcdef'') (normal_digest (pget d k))) digest_keys
          then Inl (unavailable ''Firstrade reconciliation expected digests are invalid.'')
          else Inr (Some (\<lambda>k. normal_digest (pget d k)))
      | Inr _ \<Rightarrow> Inl (unavailable ''Firstrade reconciliation expected digests are incomplete.''))"

definition continuity_fields :: "routed_target \<Rightarrow> (string \<times> string) exc" where
  "continuity_fields t =
     (let baseline = (case rt_live_continuity t of None \<Rightarrow> [] | Some c \<Rightarrow> stripped_text (lc_baseline_id c));
          sha = (case rt_live_continuity t of None \<Rightarrow> [] | Some c \<Rightarrow> py_lower (stripped_text (lc_baseline_target_sha256 c)))
      in if baseline = [] \<or> length sha \<noteq> 64
         then Inl (unavailable ''Firstrade reconciliation requires a frozen live-continuity baseline.'') else Inr (baseline, sha))"

text \<open>What the evidence is built from.\<close>

record evidence_facts =
  ef_platform_id :: string
  ef_strategy_profile :: string
  ef_account_scope_sha256 :: string
  ef_baseline_id :: string
  ef_baseline_target_sha256 :: string
  ef_runtime_target_sha256 :: string
  ef_observed_at :: datetime
  ef_broker_connected :: bool
  ef_account_identity_match :: bool
  ef_positions_match :: bool
  ef_cash_match :: bool
  ef_open_orders_match :: bool
  ef_recent_executions_match :: bool
  ef_local_execution_ledger_match :: bool
  ef_digests :: "string \<Rightarrow> string"

record recovery_expectation =
  rx_now :: datetime
  rx_platform_id :: string
  rx_strategy_profile :: string
  rx_baseline_id :: string
  rx_runtime_target_sha256 :: string
  rx_digests :: "string \<Rightarrow> string option"

text \<open>
  \<open>rp_build\<close>, \<open>rp_evaluate\<close>, \<open>rp_to_dict\<close>, \<open>rp_from_dict\<close> and \<open>rp_platform\<close> are the shared
  library's evidence; \<open>rp_ledger\<close> reads the digest and the number of records of the ledger.
\<close>

record ('w, 'ses, 'e) recon_services =
  rp_session :: "('w, 'ses) session_ports"
  rp_target :: "('w, routed_target option) io"
  rp_loads :: "string \<Rightarrow> pyval exc"
  rp_now :: "'w \<Rightarrow> datetime"
  rp_digest :: "pyval \<Rightarrow> string"
  rp_ledger :: "routed_target \<Rightarrow> ('w, pyval \<times> pyval) io"
  rp_build :: "evidence_facts \<Rightarrow> 'e exc"
  rp_evaluate :: "'e \<Rightarrow> recovery_expectation \<Rightarrow> pyval list"
  rp_to_dict :: "'e \<Rightarrow> pyval dict"
  rp_from_dict :: "pyval \<Rightarrow> 'e exc"
  rp_platform :: "'e \<Rightarrow> string"

record 'e candidate =
  ca_evidence :: 'e
  ca_recovery_blockers :: "pyval list"
  ca_expected_digests_configured :: bool
  ca_execution_ledger_records_count :: int
  ca_recent_executions_available :: bool
  ca_local_execution_ledger_available :: bool

definition record_count :: "pyval \<Rightarrow> int option" where
  "record_count v = (case v of PInt n \<Rightarrow> if 0 \<le> n then Some n else None | PBool b \<Rightarrow> Some (if b then 1 else 0) | _ \<Rightarrow> None)"

text \<open>The digest of the ledger and, where it is available, its number of records.\<close>

definition ledger_facts :: "('w, 'ses, 'e) recon_services \<Rightarrow> routed_target \<Rightarrow> 'w \<Rightarrow> (string \<times> int option) \<times> 'w" where
  "ledger_facts k t w =
     (case rp_ledger k t w of
        (Inl e, w1) \<Rightarrow> ((rp_digest k (PDict [(''availability'', PStr ''unavailable'')]), None), w1)
      | (Inr (digest, recs), w1) \<Rightarrow>
          (let d = without_sha_prefix (py_lower (py_str digest)) in ((d, if length d = 64 then record_count recs else None), w1)))"

definition observed_digests :: "('w, 'ses, 'e) recon_services \<Rightarrow> observations \<Rightarrow> pyval list \<Rightarrow> string \<Rightarrow> string \<Rightarrow> string" where
  "observed_digests k ob positions ledger key =
     (if key = ''positions_sha256'' then rp_digest k (PList positions)
      else if key = ''cash_sha256'' then rp_digest k (ob_cash ob)
      else if key = ''open_orders_sha256'' then rp_digest k (PList (ob_open_orders ob))
      else if key = ''recent_executions_sha256'' then rp_digest k (ob_recent_executions ob)
      else if key = ''local_execution_ledger_sha256'' then ledger
      else rp_digest k (PDict [(''account_id'', PStr (ob_account ob))]))"

definition matches :: "(string \<Rightarrow> string) option \<Rightarrow> (string \<Rightarrow> string) \<Rightarrow> string \<Rightarrow> bool" where
  "matches expected digests key \<longleftrightarrow> (case expected of None \<Rightarrow> False | Some x \<Rightarrow> x key = digests key)"

definition evidence_of ::
  "observations \<Rightarrow> string \<times> string \<Rightarrow> string \<times> string \<Rightarrow> datetime \<Rightarrow> (string \<Rightarrow> string) option \<Rightarrow> (string \<Rightarrow> string) \<Rightarrow> bool \<Rightarrow> evidence_facts" where
  "evidence_of ob names baseline now expected digests ledger_available =
     \<lparr> ef_platform_id = fst names, ef_strategy_profile = snd names, ef_account_scope_sha256 = digests ''account_scope_sha256'',
       ef_baseline_id = fst baseline, ef_baseline_target_sha256 = snd baseline, ef_runtime_target_sha256 = snd baseline,
       ef_observed_at = now, ef_broker_connected = True, ef_account_identity_match = ob_account_identity_match ob,
       ef_positions_match = matches expected digests ''positions_sha256'', ef_cash_match = matches expected digests ''cash_sha256'',
       ef_open_orders_match = matches expected digests ''open_orders_sha256'',
       ef_recent_executions_match = (ob_recent_executions_available ob \<and> matches expected digests ''recent_executions_sha256''),
       ef_local_execution_ledger_match = (ledger_available \<and> matches expected digests ''local_execution_ledger_sha256''),
       ef_digests = digests \<rparr>"

definition target_identity :: "routed_target \<Rightarrow> (string \<times> string) exc" where
  "target_identity t =
     (let platform = stripped_text (rt_platform_id t); profile = stripped_text (rt_strategy_profile t) in
      if platform \<noteq> ''firstrade'' \<or> profile = [] \<or> stripped_text (rt_account_scope t) = []
      then Inl (unavailable ''Firstrade reconciliation runtime target is incomplete.'') else Inr (platform, profile))"

definition build_reconciliation_candidate ::
  "('w, 'ses, 'e) recon_services \<Rightarrow> env \<Rightarrow> observations \<Rightarrow> routed_target \<Rightarrow> ('w, 'e candidate) io" where
  "build_reconciliation_candidate k env ob t =
     bindIO (liftE (expected_digests (rp_loads k) env)) (\<lambda>expected.
     bindIO (liftE (target_identity t)) (\<lambda>names.
     bindIO (liftE (continuity_fields t)) (\<lambda>baseline.
     bindIO (liftE (bound_position_quantities (ob_positions ob))) (\<lambda>positions w.
     case ledger_facts k t w of
       ((ledger, recs), w1) \<Rightarrow>
         (let now = rp_now k w1; digests = observed_digests k ob positions ledger in
          bindIO (liftE (rp_build k (evidence_of ob names baseline now expected digests (recs \<noteq> None)))) (\<lambda>e.
          returnIO \<lparr> ca_evidence = e,
            ca_recovery_blockers = rp_evaluate k e
              \<lparr> rx_now = now, rx_platform_id = fst names, rx_strategy_profile = snd names, rx_baseline_id = fst baseline,
                rx_runtime_target_sha256 = snd baseline, rx_digests = (\<lambda>key. map_option (\<lambda>x. x key) expected) \<rparr>,
            ca_expected_digests_configured = (expected \<noteq> None),
            ca_execution_ledger_records_count = (case recs of None \<Rightarrow> 0 | Some n \<Rightarrow> n),
            ca_recent_executions_available = ob_recent_executions_available ob,
            ca_local_execution_ledger_available = (recs \<noteq> None) \<rparr>) w1)))))"

definition permits_active_lkg :: "'e candidate \<Rightarrow> bool" where
  "permits_active_lkg c \<longleftrightarrow> ca_recovery_blockers c = []"

definition to_safe_dict :: "('e \<Rightarrow> pyval dict) \<Rightarrow> 'e candidate \<Rightarrow> pyval dict" where
  "to_safe_dict to_dict c =
     [(''schema_version'', PStr ''firstrade_reconciliation_candidate.v1''), (''permits_active_lkg'', PBool (permits_active_lkg c)),
      (''expected_digests_configured'', PBool (ca_expected_digests_configured c)),
      (''execution_ledger_records_count'', PInt (ca_execution_ledger_records_count c)),
      (''recent_executions_available'', PBool (ca_recent_executions_available c)),
      (''local_execution_ledger_available'', PBool (ca_local_execution_ledger_available c)),
      (''recovery_blockers'', PList (ca_recovery_blockers c)), (''evidence'', PDict (to_dict (ca_evidence c)))]"

definition safe_candidate_keys :: "string list" where
  "safe_candidate_keys = [''schema_version'', ''permits_active_lkg'', ''expected_digests_configured'',
     ''execution_ledger_records_count'', ''recent_executions_available'', ''local_execution_ledger_available'',
     ''recovery_blockers'', ''evidence'']"

definition invalid_receipt :: pyexc where
  "invalid_receipt = unavailable ''Firstrade reconciliation receipt is invalid.''"

definition validate_reconciliation_candidate :: "('w, 'ses, 'e) recon_services \<Rightarrow> 'e candidate \<Rightarrow> pyval dict exc" where
  "validate_reconciliation_candidate k c =
     (let payload = to_safe_dict (rp_to_dict k) c in
      case rp_from_dict k (pget payload ''evidence'') of
        Inl e \<Rightarrow> Inl invalid_receipt
      | Inr e \<Rightarrow>
          if set (dkeys payload) \<noteq> set safe_candidate_keys then Inl invalid_receipt
          else if pget payload ''schema_version'' \<noteq> PStr ''firstrade_reconciliation_candidate.v1'' \<or> rp_platform k e \<noteq> ''firstrade''
          then Inl invalid_receipt
          else Inr (dset payload ''evidence'' (PDict (rp_to_dict k e))))"

section \<open>The route\<close>

definition reconciliation_enabled :: "env \<Rightarrow> bool" where
  "reconciliation_enabled env \<longleftrightarrow> env_true env ''FIRSTRADE_BROKER_RECONCILIATION_ENABLED''"

definition validate_reconciliation_preconditions :: "env \<Rightarrow> routed_target option \<Rightarrow> routed_target exc" where
  "validate_reconciliation_preconditions env target =
     (if \<not> reconciliation_enabled env then Inl (unavailable ''Firstrade broker reconciliation is disabled.'')
      else case target of
        None \<Rightarrow> Inl (unavailable ''Firstrade reconciliation requires an explicit runtime target.'')
      | Some t \<Rightarrow>
          if py_upper (case rt_live_continuity t of None \<Rightarrow> [] | Some c \<Rightarrow> stripped_text (lc_state c)) \<noteq> ''RECONCILE_ONLY''
          then Inl (unavailable ''Firstrade reconciliation is only available for a frozen baseline.'') else Inr t)"

definition blocked :: "string \<Rightarrow> answer" where
  "blocked reason = ([(''status'', PStr ''blocked''), (''reason'', PStr reason)], 503)"

text \<open>The part over the client, which is closed whatever it answers.\<close>

definition reconciled ::
  "('w, 'ses, 'e) recon_services \<Rightarrow> env \<Rightarrow> routed_target \<Rightarrow> string \<Rightarrow> ('ses, 'w account_data) client \<Rightarrow> ('w, pyval dict) io" where
  "reconciled k env t account cl =
     bindIO (collect_read_only_reconciliation_observations cl account) (\<lambda>ob.
     bindIO (build_reconciliation_candidate k env ob t) (\<lambda>c. liftE (validate_reconciliation_candidate k c)))"

definition reconciliation_run :: "('w, 'ses, 'e) recon_services \<Rightarrow> env \<Rightarrow> ('w, pyval dict) io" where
  "reconciliation_run k env =
     bindIO (rp_target k) (\<lambda>target.
     bindIO (liftE (validate_reconciliation_preconditions env target)) (\<lambda>t w.
     let account = py_strip (env_or env ''FIRSTRADE_ACCOUNT'' []) in
     if account = [] then (Inl (unavailable ''Firstrade reconciliation requires an explicit account.''), w)
     else case build_read_only_client (rp_session k) env w of
       ((Some e, _), w1) \<Rightarrow> (Inl e, w1)
     | ((None, cl), w1) \<Rightarrow>
         (case reconciled k env t account cl w1 of (r, w2) \<Rightarrow> (r, snd (close_client (ss_sdk (rp_session k)) cl w2)))))"

definition handle_reconciliation :: "('w, 'ses, 'e) recon_services \<Rightarrow> env \<Rightarrow> 'w \<Rightarrow> answer \<times> 'w" where
  "handle_reconciliation k env w =
     (if \<not> reconciliation_enabled env then (blocked ''broker_reconciliation_disabled'', w)
      else case reconciliation_run k env w of
        (Inl e, w1) \<Rightarrow> (blocked ''broker_reconciliation_unavailable'', w1)
      | (Inr d, w1) \<Rightarrow> ((d, 200), w1))"

section \<open>Properties\<close>

lemma observed_no_executions:
  "collect_read_only_reconciliation_observations cl account w = (Inr ob, w') \<Longrightarrow> \<not> ob_recent_executions_available ob"
  by (auto simp: collect_read_only_reconciliation_observations_def Let_def bindIO_Inr liftE_def observations_of_def bindE_Inr_iff
      split: if_splits)

lemma candidate_of_facts:
  assumes "build_reconciliation_candidate k env ob t w = (Inr c, w')"
  obtains names baseline now expected digests available x where
    "rp_build k (evidence_of ob names baseline now expected digests available) = Inr (ca_evidence c)"
    "ca_recovery_blockers c = rp_evaluate k (ca_evidence c) x"
proof -
  obtain ledger recs w1 where l: "ledger_facts k t w = ((ledger, recs), w1)" by (metis prod.exhaust)
  show ?thesis using assms that
    by (auto simp: build_reconciliation_candidate_def bindIO_Inr liftE_def Let_def returnIO_eq l split: prod.splits)
qed

text \<open>
  Property C14. A reconciliation never clears a frozen account: where the evidence library
  blocks recovery on executions that do not match, every candidate that \<open>/reconcile\<close> answers
  says that recovery is not permitted, even if every expected digest is given; it has no
  other keys than the public ones, and any failure answers 503.
\<close>

theorem reconciliation_never_permits_recovery:
  assumes "\<And>f e x. rp_build k f = Inr e \<Longrightarrow> \<not> ef_recent_executions_match f \<Longrightarrow> rp_evaluate k e x \<noteq> []"
    and "handle_reconciliation k env w = ((d, status), w')"
  shows "status = 200 \<and> pget d ''permits_active_lkg'' = PBool False \<and> set (dkeys d) = set safe_candidate_keys
    \<or> status = 503 \<and> pget d ''status'' = PStr ''blocked''"
proof (cases "reconciliation_enabled env \<and> (\<exists>d w1. reconciliation_run k env w = (Inr d, w1))")
  case False
  then show ?thesis using assms(2) by (auto simp: handle_reconciliation_def blocked_def split: if_splits sum.splits prod.splits)
next
  case True
  then obtain w1 where run: "reconciliation_run k env w = (Inr d, w1)" and st: "status = 200"
    using assms(2) by (auto simp: handle_reconciliation_def)
  then obtain t account cl v1 v2 where "reconciled k env t account cl v1 = (Inr d, v2)"
    by (auto simp: reconciliation_run_def bindIO_Inr Let_def split: if_splits prod.splits option.splits)
  then obtain ob v3 c where ob: "collect_read_only_reconciliation_observations cl account v1 = (Inr ob, v3)"
    and c: "build_reconciliation_candidate k env ob t v3 = (Inr c, v2)" and v: "validate_reconciliation_candidate k c = Inr d"
    unfolding reconciled_def by (auto simp: bindIO_Inr liftE_def)
  have "ca_recovery_blockers c \<noteq> []"
    by (rule candidate_of_facts [OF c]) (simp add: assms(1) evidence_of_def observed_no_executions [OF ob])
  with v st show ?thesis
    by (auto simp: validate_reconciliation_candidate_def Let_def to_safe_dict_def permits_active_lkg_def safe_candidate_keys_def
        pget_dset split: sum.splits if_splits)
qed

text \<open>A broker without positions and a library that blocks whatever does not match.\<close>

definition recon_account :: "publish_request list account_data" where
  "recon_account = facts_world_account
     \<lparr> ad_get_positions := (\<lambda>a. returnIO (PDict [(''items'', PList [])])), ad_get_orders := (\<lambda>a n. returnIO (PDict [(''items'', PList [])])) \<rparr>"

definition recon_target :: routed_target where
  "recon_target = \<lparr> rt_dry_run_only = PNone, rt_execution_environment = [], rt_execution_mode = PNone,
     rt_account_selector = PNone, rt_account_scope = PStr ''live'', rt_deployment_selector = PNone,
     rt_strategy_release = PNone, rt_platform_id = PStr ''firstrade'', rt_strategy_profile = PStr ''soxl'',
     rt_live_continuity = Some \<lparr> lc_state = PStr ''reconcile_only'', lc_baseline_id = PStr ''b1'',
       lc_baseline_target_sha256 = PStr (replicate 64 (CHR ''a'')) \<rparr> \<rparr>"

definition recon_ports :: "(publish_request list, nat, bool) recon_services" where
  "recon_ports =
     \<lparr> rp_session = (fp_session facts_world_ports)
         \<lparr> ss_sdk := (ss_sdk (fp_session facts_world_ports)) \<lparr> sdk_read_only_account := (\<lambda>_ _. Return recon_account) \<rparr> \<rparr>,
       rp_target = returnIO (Some recon_target),
       rp_loads = (\<lambda>_. Inr PNone), rp_now = (\<lambda>_. sample_time), rp_digest = (\<lambda>_. replicate 64 (CHR ''0'')),
       rp_ledger = (\<lambda>_. returnIO (PStr (replicate 64 (CHR ''0'')), PInt 3)),
       rp_build = (\<lambda>f. Inr (ef_positions_match f \<and> ef_recent_executions_match f)),
       rp_evaluate = (\<lambda>ok x. if ok then [] else [PStr ''observation_mismatch'']), rp_to_dict = (\<lambda>ok. [(''match'', PBool ok)]),
       rp_from_dict = (\<lambda>v. Inr False), rp_platform = (\<lambda>_. ''firstrade'') \<rparr>"

definition recon_env :: env where
  "recon_env = map_of [(''FIRSTRADE_USERNAME'', ''u''), (''FIRSTRADE_REUSE_SESSION'', ''true''),
     (''FIRSTRADE_BROKER_RECONCILIATION_ENABLED'', ''true''), (''FIRSTRADE_ACCOUNT'', ''12345678'')]"

definition recon_observed :: "(publish_request list, observations) io" where
  "recon_observed w =
     (case build_read_only_client (rp_session recon_ports) recon_env w of
        ((Some e, _), w1) \<Rightarrow> (Inl e, w1)
      | ((None, cl), w1) \<Rightarrow> collect_read_only_reconciliation_observations cl ''12345678'' w1)"

lemma recon_observes: "case recon_observed [] of (Inr ob, w) \<Rightarrow> ob_positions ob = PDict [(''items'', PList [])] \<and> w = [] | (Inl _, _) \<Rightarrow> False"
  by code_simp

lemma recon_gates:
  "validate_reconciliation_preconditions recon_env (Some recon_target) = Inr recon_target" "reconciliation_enabled recon_env"
  "py_strip (env_or recon_env ''FIRSTRADE_ACCOUNT'' []) = ''12345678''"
  by code_simp+

lemma recon_candidate_parts:
  "env_or recon_env ''FIRSTRADE_RECONCILIATION_EXPECTED_DIGESTS_JSON'' [] = []" "target_identity recon_target = Inr (''firstrade'', ''soxl'')"
  "continuity_fields recon_target = Inr (''b1'', replicate 64 (CHR ''a''))" "bound_position_quantities (PDict [(''items'', PList [])]) = Inr []"
  by code_simp+

lemma recon_builds:
  assumes "ob_positions ob = PDict [(''items'', PList [])]"
  obtains c where "build_reconciliation_candidate recon_ports recon_env ob recon_target w = (Inr c, w)"
proof -
  have "py_strip [] = []" by (rule py_strip_Nil)
  then have "expected_digests loads recon_env = Inr None" for loads
    by (simp add: expected_digests_def Let_def recon_candidate_parts(1))
  moreover have "rp_ledger recon_ports t v = (Inr (PStr (replicate 64 (CHR ''0'')), PInt 3), v)" "rp_build recon_ports f = Inr (ef_positions_match f \<and> ef_recent_executions_match f)" for t v f
    by (simp_all add: recon_ports_def returnIO_def)
  ultimately have "\<exists>c. build_reconciliation_candidate recon_ports recon_env ob recon_target w = (Inr c, w)"
    by (simp add: build_reconciliation_candidate_def assms recon_candidate_parts(2,3,4) ledger_facts_def Let_def bindIO_def liftE_def
        returnIO_def)
  then show ?thesis using that by blast
qed

lemma recon_valid: "\<exists>d. validate_reconciliation_candidate recon_ports c = Inr d"
  by (simp add: validate_reconciliation_candidate_def to_safe_dict_def safe_candidate_keys_def recon_ports_def Let_def)

lemma recon_answers: "\<exists>d w. handle_reconciliation recon_ports recon_env [] = ((d, 200), w)"
proof -
  obtain ob where ob: "recon_observed [] = (Inr ob, [])" "ob_positions ob = PDict [(''items'', PList [])]"
    using recon_observes by (auto split: prod.splits sum.splits)
  obtain cl w1 where cl: "build_read_only_client (rp_session recon_ports) recon_env [] = ((None, cl), w1)"
    "collect_read_only_reconciliation_observations cl ''12345678'' w1 = (Inr ob, [])"
    using ob(1) by (auto simp: recon_observed_def split: prod.splits option.splits)
  obtain c where c: "build_reconciliation_candidate recon_ports recon_env ob recon_target [] = (Inr c, [])" by (rule recon_builds [OF ob(2)])
  obtain d where "validate_reconciliation_candidate recon_ports c = Inr d" using recon_valid by blast
  then have "reconciled recon_ports recon_env recon_target ''12345678'' cl w1 = (Inr d, [])"
    by (simp add: reconciled_def bindIO_def liftE_def cl(2) c)
  moreover have "rp_target recon_ports = returnIO (Some recon_target)" by (simp add: recon_ports_def)
  ultimately have "\<exists>w. reconciliation_run recon_ports recon_env [] = (Inr d, w)"
    by (simp add: reconciliation_run_def bindIO_def liftE_def returnIO_def recon_gates Let_def cl(1))
  then show ?thesis using recon_gates(2) by (auto simp: handle_reconciliation_def)
qed

theorem reconciliation_never_permits_recovery_witness:
  "\<exists>d w. handle_reconciliation recon_ports recon_env [] = ((d, 200), w) \<and> pget d ''permits_active_lkg'' = PBool False"
proof -
  obtain d w where h: "handle_reconciliation recon_ports recon_env [] = ((d, 200), w)" using recon_answers by blast
  have "rp_build recon_ports f = Inr e \<Longrightarrow> \<not> ef_recent_executions_match f \<Longrightarrow> rp_evaluate recon_ports e x \<noteq> []" for f e x
    by (auto simp: recon_ports_def)
  from reconciliation_never_permits_recovery [OF this h] h show ?thesis by auto
qed

section \<open>What the position digest depends on\<close>

lemma map_of_filter: "map_of d k = (case filter (\<lambda>p. fst p = k) d of [] \<Rightarrow> None | p # _ \<Rightarrow> Some (snd p))"
  by (induction d) auto

lemma pget_key_sorted: "pget (sort_key fst (map (\<lambda>(k, v). (k, key_sorted v)) d)) k = key_sorted (pget d k)"
proof -
  have "filter (\<lambda>p. fst p = k) (sort_key fst (map (\<lambda>(k, v). (k, key_sorted v)) d)) = map (\<lambda>(k, v). (k, key_sorted v)) (filter (\<lambda>p. fst p = k) d)"
    unfolding sort_key_stable by (induction d) auto
  then show ?thesis
    by (simp add: pget_def dget_or_def dget_def map_of_filter split: option.split list.split)
qed

lemma truthy_key_sorted [simp]: "truthy (key_sorted v) = truthy v"
proof (cases v)
  case (PDict d)
  have "sort_key fst (map (\<lambda>(k, v). (k, key_sorted v)) d) = [] \<longleftrightarrow> d = []" by (metis length_0_conv length_map length_sort)
  then show ?thesis by (simp add: PDict)
qed simp_all

text \<open>What a row says of a holding: its symbol and quantity, as they are written.\<close>

definition holding_of :: "pyval \<Rightarrow> (pyval \<times> pyval) option" where
  "holding_of row = (case row of PDict d \<Rightarrow> Some (pget d ''symbol'', pget d ''quantity'') | _ \<Rightarrow> None)"

lemma position_of_key_sorted: "quantity_of_row (key_sorted r) = quantity_of_row r"
proof (cases r)
  case (PDict d)
  show ?thesis
  proof (cases "pget d ''symbol''")
    case (PStr s)
    then show ?thesis by (cases "pget d ''quantity''") (simp_all add: PDict quantity_of_row_def pget_key_sorted)
  qed (simp_all add: PDict quantity_of_row_def pget_key_sorted)
qed (simp_all add: quantity_of_row_def)

definition quantity_of_pair :: "(pyval \<times> pyval) option \<Rightarrow> (string \<times> string) option" where
  "quantity_of_pair h = (case h of None \<Rightarrow> None | Some (s, q) \<Rightarrow> quantity_of_row (PDict [(''symbol'', s), (''quantity'', q)]))"

lemma quantity_row_pair: "quantity_of_row r = quantity_of_pair (holding_of r)"
proof (cases r)
  case (PDict d)
  have q: "pget [(''symbol'', x), (''quantity'', y)] ''symbol'' = x" "pget [(''symbol'', x), (''quantity'', y)] ''quantity'' = y" for x y
    by simp_all
  show ?thesis
    unfolding PDict quantity_of_pair_def holding_of_def quantity_of_row_def pyval.case option.case prod.case q ..
qed (simp_all add: quantity_of_pair_def holding_of_def quantity_of_row_def)

lemma position_facts_mset:
  assumes "mset (map quantity_of_row rows') = mset (map quantity_of_row rows)" "position_facts rows = Some ps"
  shows "position_facts rows' = Some ps" "sorted (map fst ps)" "distinct (map fst ps)" "length ps = length rows"
proof -
  define qs where "qs = map (\<lambda>r. the (quantity_of_row r)) rows"
  define qs' where "qs' = map (\<lambda>r. the (quantity_of_row r)) rows'"
  have ps: "list_all (\<lambda>r. quantity_of_row r \<noteq> None) rows" "distinct (map fst qs)" "ps = sort_key fst qs"
    using assms(2) by (auto simp: position_facts_def Let_def qs_def split: if_splits)
  have same: "set (map quantity_of_row rows') = set (map quantity_of_row rows)" using assms(1) by (metis set_mset_mset)
  have m: "mset qs' = mset qs"
    using arg_cong [where f = "image_mset the", OF assms(1)] by (simp add: qs_def qs'_def mset_map [symmetric] comp_def del: mset_map)
  have "None \<notin> set (map quantity_of_row rows)" using ps(1) by (auto simp: list_all_iff)
  then have "None \<notin> set (map quantity_of_row rows')" unfolding same .
  then have all: "list_all (\<lambda>r. quantity_of_row r \<noteq> None) rows'" unfolding list_all_iff set_map by (metis imageI)
  have d: "distinct (map fst qs')" using ps(2) m by (metis mset_eq_imp_distinct_iff mset_map)
  show "sorted (map fst ps)" "length ps = length rows" by (simp_all add: ps(3) qs_def)
  show "distinct (map fst ps)" using ps(2) unfolding ps(3) by (metis mset_eq_imp_distinct_iff mset_map mset_sort)
  have "sort_key fst qs' = sort_key fst qs"
    using m d by (intro sort_key_inj_key_eq) (simp_all add: distinct_map)
  with all d show "position_facts rows' = Some ps" by (simp add: position_facts_def ps(3) qs'_def [symmetric])
qed

lemma position_quantities_of:
  assumes "finite_json (PDict d)" "\<not> truthy (pget d ''error'')" "pget d ''items'' = PList rows"
  shows "bound_position_quantities (PDict d) = (case position_facts rows of None \<Rightarrow> Inl incomplete_positions | Some ps \<Rightarrow> Inr (map quantity_row ps))"
proof -
  have "position_facts (map key_sorted rows) = position_facts rows"
    by (simp add: position_facts_def list_all_iff position_of_key_sorted comp_def)
  with assms show ?thesis
    by (simp add: bound_position_quantities_def json_value_def pget_key_sorted del: finite_json.simps)
qed

text \<open>
  Property C28. The position digest binds what is held and nothing else: two payloads whose
  rows carry the same symbols and quantities, in any order and with any other fields, give
  the same list, sorted by symbol, with each symbol once and none left out.
\<close>

theorem position_quantities_bind_the_holdings:
  assumes "bound_position_quantities (PDict d) = Inr qs" "pget d ''items'' = PList rows"
    and "finite_json (PDict d')" "\<not> truthy (pget d' ''error'')" "pget d' ''items'' = PList rows'"
    and "mset (map holding_of rows') = mset (map holding_of rows)"
  shows "bound_position_quantities (PDict d') = Inr qs
    \<and> (\<exists>ps. qs = map quantity_row ps \<and> sorted (map fst ps) \<and> distinct (map fst ps) \<and> length ps = length rows)"
proof -
  have fin: "finite_json (PDict d)" using assms(1) by (auto simp: bound_position_quantities_def json_value_def bindE_Inr_iff split: if_splits)
  have err: "\<not> truthy (pget d ''error'')"
    using assms(1) fin by (auto simp: bound_position_quantities_def json_value_def pget_key_sorted simp del: finite_json.simps split: if_splits)
  obtain ps where ps: "position_facts rows = Some ps" "qs = map quantity_row ps"
    using assms(1) unfolding position_quantities_of [OF fin err assms(2)] by (auto split: option.splits)
  have "quantity_of_row = quantity_of_pair \<circ> holding_of" by (simp add: fun_eq_iff quantity_row_pair)
  then have "mset (map quantity_of_row rows') = mset (map quantity_of_row rows)"
    using arg_cong [where f = "image_mset quantity_of_pair", OF assms(6)]
    by (simp add: mset_map [symmetric] del: mset_map)
  note facts = position_facts_mset [OF this ps(1)]
  show ?thesis unfolding position_quantities_of [OF assms(3,4,5)] using facts ps(2) by auto
qed

theorem position_quantities_bind_the_holdings_witness:
  "\<exists>qs. bound_position_quantities (PDict [(''items'', PList [PDict [(''symbol'', PStr ''spy''), (''quantity'', PStr ''2.50''), (''market_value'', PInt 9)],
                                                   PDict [(''symbol'', PStr ''ief''), (''quantity'', PInt 3)]])]) = Inr qs
     \<and> bound_position_quantities (PDict [(''items'', PList [PDict [(''symbol'', PStr ''ief''), (''quantity'', PInt 3), (''market_value'', PInt 1)],
                                                   PDict [(''symbol'', PStr ''spy''), (''quantity'', PStr ''2.50'')]])]) = Inr qs"
proof -
  define rows where "rows = [PDict [(''symbol'', PStr ''spy''), (''quantity'', PStr ''2.50''), (''market_value'', PInt 9)],
                             PDict [(''symbol'', PStr ''ief''), (''quantity'', PInt 3)]]"
  define rows' where "rows' = [PDict [(''symbol'', PStr ''ief''), (''quantity'', PInt 3), (''market_value'', PInt 1)],
                              PDict [(''symbol'', PStr ''spy''), (''quantity'', PStr ''2.50'')]]"
  define d where "d = [(''items'', PList rows)]"
  define d' where "d' = [(''items'', PList rows')]"
  have q: "bound_position_quantities (PDict d) = Inr [quantity_row (''IEF'', ''3''), quantity_row (''SPY'', ''2.5'')]"
    unfolding d_def rows_def by code_simp
  have "bound_position_quantities (PDict d') = Inr [quantity_row (''IEF'', ''3''), quantity_row (''SPY'', ''2.5'')]"
    by (rule conjunct1 [OF position_quantities_bind_the_holdings [OF q, where rows = rows and rows' = rows']])
       (simp_all add: d_def d'_def rows_def rows'_def holding_of_def)
  with q show ?thesis unfolding d_def d'_def rows_def rows'_def by blast
qed

end
