(* ===== verification/RuntimeSettings.thy ===== *)
theory RuntimeSettings
  imports RunRoutes
begin

text \<open>
  \<open>runtime_config_support.py\<close> with \<open>runtime_execution_policy.py\<close> and the premium map of
  \<open>application/rebalance_service.py\<close>: how the environment becomes the settings of a run. The
  resolvers, the runtime target and the strategy catalogue of \<open>quant_platform_kit\<close> and
  \<open>us_equity_strategies\<close> are parameters.
\<close>

section \<open>Parameters\<close>

record runtime_paths =
  rp_profile :: string
  rp_display_name :: string
  rp_domain :: string
  rp_snapshot_path :: "string option"
  rp_snapshot_manifest_path :: "string option"
  rp_config_path :: "string option"
  rp_config_source :: "string option"

text \<open>The arguments of \<open>build_runtime_target\<close>.\<close>

record target_request =
  tq_platform_id :: string
  tq_profile :: string
  tq_dry_run_only :: bool
  tq_deployment_selector :: "string option"
  tq_account_selector :: "string option"
  tq_account_scope :: string
  tq_service_name :: "string option"

text \<open>
  The functions of \<open>quant_platform_kit\<close> that the loader calls, on the environment where they
  read it. \<open>k_target_profile\<close> and \<open>k_attributes\<close> are the attributes of a target; the catalogue
  is \<open>k_definition\<close>, \<open>k_metadata\<close> and \<open>k_fractional\<close>, which tells of a profile in it whether it
  needs fractional shares.
\<close>

record 't kit =
  k_dry_run :: "env \<Rightarrow> string \<Rightarrow> bool exc"
  k_bool :: "string option \<Rightarrow> bool exc"
  k_cash_only :: "env \<Rightarrow> bool exc"
  k_optional_bool :: "env \<Rightarrow> string \<Rightarrow> bool option exc"
  k_optional_float :: "env \<Rightarrow> string \<Rightarrow> pyfloat option exc"
  k_optional_ratio :: "env \<Rightarrow> string \<Rightarrow> pyfloat option exc"
  k_optional_positive :: "env \<Rightarrow> string \<Rightarrow> pyfloat option exc"
  k_optional_dca_mode :: "env \<Rightarrow> string \<Rightarrow> string option exc"
  k_optional_exit_mode :: "env \<Rightarrow> string \<Rightarrow> string option exc"
  k_optional_symbol :: "env \<Rightarrow> string \<Rightarrow> string option exc"
  k_split_list :: "env \<Rightarrow> string \<Rightarrow> string list exc"
  k_target_from_env :: "env \<Rightarrow> string \<Rightarrow> 't exc"
  k_build_target :: "target_request \<Rightarrow> 't exc"
  k_permits_standard :: "'t \<Rightarrow> bool exc"
  k_target_profile :: "'t \<Rightarrow> string"
  k_attributes :: "'t \<Rightarrow> runtime_target"
  k_definition :: "string \<Rightarrow> string exc"
  k_metadata :: "string \<Rightarrow> pyval exc"
  k_paths :: "env \<Rightarrow> string \<Rightarrow> pyval \<Rightarrow> runtime_paths exc"
  k_secret :: "string \<Rightarrow> string option exc"
  k_fractional_reason :: "string \<Rightarrow> string option"
  k_normalize :: "string \<Rightarrow> string"
  k_fractional :: "string \<Rightarrow> bool option"

section \<open>Reading the environment\<close>

text \<open>\<open>os.getenv(a) or os.getenv(b)\<close>.\<close>

definition getenv_or :: "env \<Rightarrow> string \<Rightarrow> string option \<Rightarrow> string option" where
  "getenv_or env a other = (case env a of None \<Rightarrow> other | Some s \<Rightarrow> if s = [] then other else Some s)"

definition text_or_empty :: "string option \<Rightarrow> string" where
  "text_or_empty v = (case v of None \<Rightarrow> [] | Some s \<Rightarrow> s)"

fun first_non_empty :: "string option list \<Rightarrow> string option" where
  "first_non_empty [] = None"
| "first_non_empty (v # vs) =
     (let value = py_strip (text_or_empty v) in if value \<noteq> [] then Some value else first_non_empty vs)"

definition optional_int :: "string option \<Rightarrow> int option exc" where
  "optional_int raw =
     (let value = py_strip (text_or_empty raw) in
      if value = [] then Inr None else bindE (py_int (PStr value)) (\<lambda>n. Inr (Some n)))"

definition normalize_region :: "string option \<Rightarrow> string option" where
  "normalize_region raw =
     (case raw of None \<Rightarrow> None
      | Some s \<Rightarrow> let value = py_strip s in if value = [] then None else Some (py_upper value))"

definition default_account_region :: string where
  "default_account_region = ''US''"

definition infer_account_region :: "string option \<Rightarrow> string \<Rightarrow> string" where
  "infer_account_region raw account_prefix =
     (case normalize_region raw of
        Some r \<Rightarrow> r
      | None \<Rightarrow> (case normalize_region (Some account_prefix) of Some r \<Rightarrow> r | None \<Rightarrow> default_account_region))"

section \<open>The bot token\<close>

text \<open>\<open>_read_secret\<close> answers nothing where the secret store fails.\<close>

definition read_secret :: "(string \<Rightarrow> string option exc) \<Rightarrow> string \<Rightarrow> string option" where
  "read_secret store name = (case store name of Inl e \<Rightarrow> None | Inr v \<Rightarrow> v)"

definition config_credential :: "(string \<Rightarrow> string option exc) \<Rightarrow> env \<Rightarrow> string \<Rightarrow> string \<Rightarrow> string option" where
  "config_credential store env name var = (case env var of Some v \<Rightarrow> Some v | None \<Rightarrow> read_secret store name)"

definition legacy_telegram_token_secret_name :: string where
  "legacy_telegram_token_secret_name = ''firstrade-telegram-token''"

definition token_secret_names :: "env \<Rightarrow> string list" where
  "token_secret_names env =
     (let configured = py_strip (env_or env ''TELEGRAM_TOKEN_SECRET_NAME'' []);
          names = (if configured = [] then [] else [configured])
      in if legacy_telegram_token_secret_name \<in> set names then names else names @ [legacy_telegram_token_secret_name])"

definition resolve_telegram_token :: "env \<Rightarrow> (string \<Rightarrow> string option) \<Rightarrow> string option" where
  "resolve_telegram_token env reader =
     (let direct = py_strip (env_or env ''TELEGRAM_TOKEN'' []) in
      if direct \<noteq> [] then Some direct else first_non_empty (map reader (token_secret_names env)))"

section \<open>Numbers and flags\<close>

definition optional_non_negative_float_env :: "'t kit \<Rightarrow> env \<Rightarrow> string \<Rightarrow> pyfloat option exc" where
  "optional_non_negative_float_env k env name =
     bindE (k_optional_float k env name) (\<lambda>v. case v of
         None \<Rightarrow> Inr None
       | Some x \<Rightarrow>
           if \<not> is_fin x then Inl (ValueError (name @ '' must be finite, got '' @ float_repr x))
           else if x < 0 then Inl (ValueError (name @ '' must be non-negative, got '' @ float_repr x))
           else Inr (Some x))"

definition resolve_non_negative_float_env :: "'t kit \<Rightarrow> env \<Rightarrow> string \<Rightarrow> pyfloat \<Rightarrow> pyfloat exc" where
  "resolve_non_negative_float_env k env name z =
     bindE (k_optional_float k env name) (\<lambda>v. case v of
         None \<Rightarrow> Inr z
       | Some x \<Rightarrow>
           if \<not> is_fin x then Inl (ValueError (name @ '' must be finite, got '' @ float_repr x))
           else if x < 0 then Inl (ValueError (name @ '' must be non-negative, got '' @ float_repr x))
           else Inr x)"

definition resolve_ratio_env :: "'t kit \<Rightarrow> env \<Rightarrow> string \<Rightarrow> pyfloat \<Rightarrow> pyfloat exc" where
  "resolve_ratio_env k env name z =
     bindE (resolve_non_negative_float_env k env name z) (\<lambda>x.
     if fl 1 < x then Inl (ValueError (name @ '' must be in [0,1], got '' @ float_repr x)) else Inr x)"

definition qqqi_income_ratio_env :: "'t kit \<Rightarrow> env \<Rightarrow> pyfloat option exc" where
  "qqqi_income_ratio_env k env =
     bindE (k_optional_float k env ''QQQI_INCOME_RATIO'') (\<lambda>v. case v of
         None \<Rightarrow> Inr None
       | Some x \<Rightarrow> if 0 \<le> x \<and> x \<le> fl 1 then Inr (Some x)
           else Inl (ValueError (''QQQI_INCOME_RATIO must be in [0,1], got '' @ float_repr x)))"

definition optional_bool_env :: "'t kit \<Rightarrow> env \<Rightarrow> string \<Rightarrow> bool option exc" where
  "optional_bool_env k env name =
     (case getenv_or env (''QSL_'' @ name) (env name) of
        None \<Rightarrow> Inr None
      | Some s \<Rightarrow> if py_strip s = [] then Inr None else k_optional_bool k env name)"

definition runtime_target_enabled_env :: "'t kit \<Rightarrow> env \<Rightarrow> bool exc" where
  "runtime_target_enabled_env k env =
     bindE (optional_bool_env k env ''RUNTIME_TARGET_ENABLED'') (\<lambda>v. Inr (case v of None \<Rightarrow> False | Some b \<Rightarrow> b))"

definition execution_window_name :: string where
  "execution_window_name = ''FIRSTRADE_RUNTIME_EXECUTION_WINDOW_TRADING_DAYS''"

definition runtime_execution_window_trading_days_env :: "env \<Rightarrow> int option exc" where
  "runtime_execution_window_trading_days_env env =
     (case env execution_window_name of
        None \<Rightarrow> Inr None
      | Some s \<Rightarrow>
          if py_strip s = [] then Inr None
          else (case py_int (PStr (py_strip s)) of
              Inl e \<Rightarrow> if is_value_error e then Inl (ValueError (execution_window_name @ '' must be a positive integer'')) else Inl e
            | Inr n \<Rightarrow> if n \<le> 0 then Inl (ValueError (execution_window_name @ '' must be a positive integer'')) else Inr (Some n)))"

section \<open>Market signals\<close>

definition default_handoff_index_uri :: "string option \<Rightarrow> string option" where
  "default_handoff_index_uri report_uri =
     (let t = py_strip (text_or_empty report_uri) in
      if \<not> starts_with t ''gs://'' then None
      else let bucket = py_strip (takeWhile (\<lambda>c. c \<noteq> CHR ''/'') (drop 5 t)) in
           if bucket = [] then None else Some (''gs://'' @ bucket @ ''/platform_handoffs/index.json''))"

definition market_signal_handoff_index_uri :: "env \<Rightarrow> string option" where
  "market_signal_handoff_index_uri env =
     (case first_non_empty [env ''FIRSTRADE_MARKET_SIGNAL_HANDOFF_INDEX_URI'', env ''MARKET_SIGNAL_HANDOFF_INDEX_URI''] of
        Some explicit \<Rightarrow> Some explicit
      | None \<Rightarrow> default_handoff_index_uri (getenv_or env ''QSL_EXECUTION_REPORT_GCS_URI'' (env ''EXECUTION_REPORT_GCS_URI'')))"

definition smart_dca :: "string \<Rightarrow> string option \<Rightarrow> bool" where
  "smart_dca profile dca_mode \<longleftrightarrow>
     profile = ''ibit_smart_dca'' \<and> py_lower (py_strip (text_or_empty dca_mode)) = ''smart''"

definition market_signal_required :: "'t kit \<Rightarrow> env \<Rightarrow> string \<Rightarrow> string option \<Rightarrow> bool exc" where
  "market_signal_required k env profile dca_mode =
     (case first_non_empty [env ''FIRSTRADE_MARKET_SIGNAL_REQUIRED'', env ''MARKET_SIGNAL_REQUIRED''] of
        Some explicit \<Rightarrow> k_bool k (Some explicit)
      | None \<Rightarrow> Inr (smart_dca profile dca_mode))"

definition market_signal_fallback_mode :: "env \<Rightarrow> string \<Rightarrow> string option \<Rightarrow> string option" where
  "market_signal_fallback_mode env profile dca_mode =
     (case first_non_empty [env ''FIRSTRADE_MARKET_SIGNAL_FALLBACK_MODE'', env ''MARKET_SIGNAL_FALLBACK_MODE''] of
        Some explicit \<Rightarrow> Some explicit
      | None \<Rightarrow> if smart_dca profile dca_mode then Some ''last_valid'' else None)"

section \<open>The runtime target\<close>

definition firstrade_platform :: string where
  "firstrade_platform = ''firstrade''"

definition resolve_runtime_target :: "'t kit \<Rightarrow> env \<Rightarrow> bool \<Rightarrow> 't exc" where
  "resolve_runtime_target k env dry =
     (if env_or env ''QSL_RUNTIME_TARGET_JSON'' [] \<noteq> [] \<or> env_or env ''RUNTIME_TARGET_JSON'' [] \<noteq> []
      then k_target_from_env k env firstrade_platform
      else let profile = env_or env ''STRATEGY_PROFILE'' [] in
        if profile = [] then Inl (OtherException ''OSError'' ''STRATEGY_PROFILE or RUNTIME_TARGET_JSON is required'')
        else k_build_target k \<lparr> tq_platform_id = firstrade_platform, tq_profile = profile, tq_dry_run_only = dry,
               tq_deployment_selector = env ''K_SERVICE'', tq_account_selector = env ''FIRSTRADE_ACCOUNT'',
               tq_account_scope = env_or env ''ACCOUNT_REGION'' default_account_region, tq_service_name = env ''K_SERVICE'' \<rparr>)"

text \<open>\<open>resolve_strategy_metadata\<close> of \<open>strategy_registry.py\<close> resolves the definition again.\<close>

definition resolve_strategy_metadata :: "'t kit \<Rightarrow> string \<Rightarrow> pyval exc" where
  "resolve_strategy_metadata k profile = bindE (k_definition k profile) (\<lambda>p. k_metadata k p)"

text \<open>Notional orders (\<open>runtime_execution_policy.py\<close>).\<close>

definition dca_execution_unsupported_reason :: "'t kit \<Rightarrow> string \<Rightarrow> string option" where
  "dca_execution_unsupported_reason k profile = k_fractional_reason k profile"

definition notional_buy_execution_enabled :: "'t kit \<Rightarrow> string \<Rightarrow> bool" where
  "notional_buy_execution_enabled k profile =
     (if dca_execution_unsupported_reason k profile \<noteq> None then False
      else case k_fractional k (k_normalize k profile) of None \<Rightarrow> False | Some b \<Rightarrow> b)"

section \<open>Premiums of buy limits\<close>

definition default_limit_buy_premium_by_symbol :: "pyfloat dict" where
  "default_limit_buy_premium_by_symbol = [(''SOXL'', fl (203 / 200)), (''TQQQ'', fl (101 / 100))]"

text \<open>\<open>loads\<close> is \<open>json.loads\<close>, nothing for a text that is not JSON.\<close>

definition parse_premium :: "pyfloat dict \<Rightarrow> string \<Rightarrow> pyval \<Rightarrow> pyfloat dict exc" where
  "parse_premium parsed symbol premium =
     (let t = py_upper (py_strip symbol) in
      if t = [] then Inr parsed
      else bindE (py_float premium) (\<lambda>x.
        if x \<le> 0 then Inl (ValueError (''Limit buy premium for '' @ t @ '' must be positive.'')) else Inr (dset parsed t x)))"

fun parse_premiums :: "pyfloat dict \<Rightarrow> pyval dict \<Rightarrow> pyfloat dict exc" where
  "parse_premiums parsed [] = Inr parsed"
| "parse_premiums parsed ((symbol, premium) # rest) =
     bindE (parse_premium parsed symbol premium) (\<lambda>p. parse_premiums p rest)"

definition load_limit_buy_premium_by_symbol :: "(string \<Rightarrow> pyval option) \<Rightarrow> env \<Rightarrow> string list \<Rightarrow> pyfloat dict exc" where
  "load_limit_buy_premium_by_symbol loads env names =
     (case first_non_empty (map env names) of
        None \<Rightarrow> Inr default_limit_buy_premium_by_symbol
      | Some raw \<Rightarrow>
          (case loads raw of
             None \<Rightarrow> Inl (ValueError (''Invalid limit buy premium map JSON: '' @ str_repr raw))
           | Some (PDict payload) \<Rightarrow> parse_premiums [] payload
           | Some _ \<Rightarrow> Inl (ValueError ''Limit buy premium map must be a JSON object keyed by symbol.'')))"

definition premium_variables :: "string list" where
  "premium_variables = [''FIRSTRADE_LIMIT_BUY_PREMIUM_BY_SYMBOL_JSON'', ''LIMIT_BUY_PREMIUM_BY_SYMBOL_JSON'']"

section \<open>Settings\<close>

text \<open>
  \<open>PlatformRuntimeSettings\<close>, in four groups of its fields: what a run needs, the options of the
  strategies, the market signals and the feature snapshot. The alert settings of plugins are
  the dictionary that the loader unpacks.
\<close>

record strategy_options =
  so_income_threshold_usd :: "pyfloat option"
  so_qqqi_income_ratio :: "pyfloat option"
  so_income_layer_enabled :: "bool option"
  so_income_layer_start_usd :: "pyfloat option"
  so_income_layer_max_ratio :: "pyfloat option"
  so_dca_mode :: "string option"
  so_dca_base_investment_usd :: "pyfloat option"
  so_ibit_zscore_exit_enabled :: "bool option"
  so_ibit_zscore_exit_mode :: "string option"
  so_ibit_zscore_exit_parking_symbol :: "string option"
  so_ibit_zscore_exit_risk_reduced_exposure :: "pyfloat option"
  so_ibit_zscore_exit_risk_off_exposure :: "pyfloat option"
  so_ibit_zscore_exit_allow_outside_execution_window :: "bool option"
  so_runtime_execution_window_trading_days :: "int option"

record market_signal_settings =
  ms_handoff_index_uri :: "string option"
  ms_handoff_manifest_uri :: "string option"
  ms_consumption_audit_uri :: "string option"
  ms_cache_dir :: "string option"
  ms_required :: bool
  ms_fallback_mode :: "string option"
  ms_max_stale_days :: "int option"

record snapshot_settings =
  fs_path :: "string option"
  fs_manifest_path :: "string option"
  fs_fallback_mode :: "string option"
  fs_fallback_cache_dir :: "string option"
  fs_fallback_max_stale_days :: "int option"

record 't settings =
  st_project_id :: "string option"
  st_account_prefix :: string
  st_account_region :: string
  st_profile :: string
  st_display_name :: string
  st_domain :: string
  st_metadata :: pyval
  st_notify_lang :: string
  st_tg_token :: "string option"
  st_tg_chat_id :: "string option"
  st_dry_run_only :: bool
  st_runtime_target_enabled :: bool
  st_cash_only_execution :: bool
  st_live_trading_enabled :: bool
  st_run_strategy_on_http :: bool
  st_live_order_ack :: bool
  st_persist_strategy_runs :: bool
  st_max_order_notional_usd :: "pyfloat option"
  st_reserved_cash_floor_usd :: pyfloat
  st_reserved_cash_ratio :: pyfloat
  st_safe_haven_threshold_usd :: pyfloat
  st_debug_position_snapshot :: bool
  st_options :: strategy_options
  st_market_signals :: market_signal_settings
  st_snapshot :: snapshot_settings
  st_config_path :: "string option"
  st_config_source :: "string option"
  st_plugin_mounts_json :: "string option"
  st_plugin_alerts :: "pyval dict"
  st_runtime_target :: 't

definition load_strategy_options :: "'t kit \<Rightarrow> env \<Rightarrow> strategy_options exc" where
  "load_strategy_options k env =
     bindE (k_optional_float k env ''INCOME_THRESHOLD_USD'') (\<lambda>income_threshold.
     bindE (qqqi_income_ratio_env k env) (\<lambda>qqqi.
     bindE (optional_bool_env k env ''INCOME_LAYER_ENABLED'') (\<lambda>layer.
     bindE (optional_non_negative_float_env k env ''INCOME_LAYER_START_USD'') (\<lambda>start.
     bindE (k_optional_ratio k env ''INCOME_LAYER_MAX_RATIO'') (\<lambda>max_ratio.
     bindE (k_optional_dca_mode k env ''DCA_MODE'') (\<lambda>dca.
     bindE (k_optional_positive k env ''DCA_BASE_INVESTMENT_USD'') (\<lambda>base.
     bindE (optional_bool_env k env ''IBIT_ZSCORE_EXIT_ENABLED'') (\<lambda>exit.
     bindE (k_optional_exit_mode k env ''IBIT_ZSCORE_EXIT_MODE'') (\<lambda>exit_mode.
     bindE (k_optional_symbol k env ''IBIT_ZSCORE_EXIT_PARKING_SYMBOL'') (\<lambda>parking.
     bindE (k_optional_ratio k env ''IBIT_ZSCORE_EXIT_RISK_REDUCED_EXPOSURE'') (\<lambda>reduced.
     bindE (k_optional_ratio k env ''IBIT_ZSCORE_EXIT_RISK_OFF_EXPOSURE'') (\<lambda>off.
     bindE (optional_bool_env k env ''IBIT_ZSCORE_EXIT_ALLOW_OUTSIDE_EXECUTION_WINDOW'') (\<lambda>outside.
     bindE (runtime_execution_window_trading_days_env env) (\<lambda>days.
     Inr \<lparr> so_income_threshold_usd = income_threshold, so_qqqi_income_ratio = qqqi, so_income_layer_enabled = layer,
           so_income_layer_start_usd = start, so_income_layer_max_ratio = max_ratio, so_dca_mode = dca,
           so_dca_base_investment_usd = base, so_ibit_zscore_exit_enabled = exit, so_ibit_zscore_exit_mode = exit_mode,
           so_ibit_zscore_exit_parking_symbol = parking, so_ibit_zscore_exit_risk_reduced_exposure = reduced,
           so_ibit_zscore_exit_risk_off_exposure = off, so_ibit_zscore_exit_allow_outside_execution_window = outside,
           so_runtime_execution_window_trading_days = days \<rparr>))))))))))))))"

definition stale_days :: "env \<Rightarrow> string list \<Rightarrow> int option exc" where
  "stale_days env names = optional_int (first_non_empty (map env names))"

definition load_market_signals :: "'t kit \<Rightarrow> env \<Rightarrow> string \<Rightarrow> market_signal_settings exc" where
  "load_market_signals k env profile =
     bindE (k_optional_dca_mode k env ''DCA_MODE'') (\<lambda>dca.
     bindE (market_signal_required k env profile dca) (\<lambda>required.
     bindE (stale_days env [''FIRSTRADE_MARKET_SIGNAL_MAX_STALE_DAYS'', ''FIRSTRADE_MARKET_SIGNAL_FALLBACK_MAX_STALE_DAYS'',
        ''MARKET_SIGNAL_MAX_STALE_DAYS'', ''MARKET_SIGNAL_FALLBACK_MAX_STALE_DAYS'']) (\<lambda>stale.
     Inr \<lparr> ms_handoff_index_uri = market_signal_handoff_index_uri env,
           ms_handoff_manifest_uri = first_non_empty [env ''FIRSTRADE_MARKET_SIGNAL_HANDOFF_MANIFEST_URI'', env ''MARKET_SIGNAL_HANDOFF_MANIFEST_URI''],
           ms_consumption_audit_uri = first_non_empty [env ''FIRSTRADE_MARKET_SIGNAL_CONSUMPTION_AUDIT_URI'', env ''MARKET_SIGNAL_CONSUMPTION_AUDIT_URI''],
           ms_cache_dir = first_non_empty [env ''FIRSTRADE_MARKET_SIGNAL_CACHE_DIR'', env ''MARKET_SIGNAL_CACHE_DIR''],
           ms_required = required, ms_fallback_mode = market_signal_fallback_mode env profile dca, ms_max_stale_days = stale \<rparr>)))"

definition load_snapshot_settings :: "env \<Rightarrow> runtime_paths \<Rightarrow> snapshot_settings exc" where
  "load_snapshot_settings env paths =
     bindE (stale_days env [''FIRSTRADE_FEATURE_SNAPSHOT_MAX_STALE_DAYS'', ''FIRSTRADE_FEATURE_SNAPSHOT_FALLBACK_MAX_STALE_DAYS'',
        ''FEATURE_SNAPSHOT_MAX_STALE_DAYS'', ''FEATURE_SNAPSHOT_FALLBACK_MAX_STALE_DAYS'']) (\<lambda>stale.
     Inr \<lparr> fs_path = rp_snapshot_path paths, fs_manifest_path = rp_snapshot_manifest_path paths,
           fs_fallback_mode = first_non_empty [env ''FIRSTRADE_FEATURE_SNAPSHOT_FALLBACK_MODE'', env ''FEATURE_SNAPSHOT_FALLBACK_MODE''],
           fs_fallback_cache_dir = first_non_empty [env ''FIRSTRADE_FEATURE_SNAPSHOT_FALLBACK_CACHE_DIR'', env ''FEATURE_SNAPSHOT_FALLBACK_CACHE_DIR''],
           fs_fallback_max_stale_days = stale \<rparr>)"

text \<open>
  The alert settings of plugins: each name in lower case, in the order of the source. A list is
  split by the library; another value is its stripped text or nothing.
\<close>

datatype alert_source = Split_list | Single_text

definition plugin_alert_fields :: "(string \<times> alert_source) list" where
  "plugin_alert_fields =
     [(''CHANNELS'', Split_list), (''EMAIL_RECIPIENTS'', Split_list), (''EMAIL_SENDER_EMAIL'', Single_text),
      (''EMAIL_SENDER_PASSWORD'', Single_text), (''EMAIL_SMTP_HOST'', Single_text), (''EMAIL_SMTP_PORT'', Single_text),
      (''EMAIL_SMTP_SECURITY'', Single_text), (''SMS_RECIPIENTS'', Split_list), (''SMS_PROVIDER'', Single_text),
      (''SMS_ACCOUNT_ID'', Single_text), (''SMS_AUTH_TOKEN'', Single_text), (''SMS_SENDER'', Single_text),
      (''SMS_MESSAGING_SERVICE_ID'', Single_text), (''SMS_API_BASE_URL'', Single_text), (''SMS_BODY_MAX_CHARS'', Single_text),
      (''PUSH_RECIPIENTS'', Split_list), (''PUSH_PROVIDER'', Single_text), (''PUSH_APP_TOKEN'', Single_text),
      (''PUSH_ACCESS_TOKEN'', Single_text), (''PUSH_API_BASE_URL'', Single_text), (''PUSH_DEVICE'', Single_text),
      (''PUSH_PRIORITY'', Single_text), (''PUSH_TAGS'', Single_text), (''PUSH_BODY_MAX_CHARS'', Single_text),
      (''TELEGRAM_CHAT_IDS'', Split_list), (''TELEGRAM_BOT_TOKEN'', Single_text), (''TELEGRAM_API_BASE_URL'', Single_text),
      (''TELEGRAM_PARSE_MODE'', Single_text), (''TELEGRAM_DISABLE_WEB_PAGE_PREVIEW'', Single_text),
      (''TELEGRAM_BODY_MAX_CHARS'', Single_text)]"

definition plugin_alert_value :: "'t kit \<Rightarrow> env \<Rightarrow> string \<Rightarrow> alert_source \<Rightarrow> pyval exc" where
  "plugin_alert_value k env name source =
     (let var = ''STRATEGY_PLUGIN_ALERT_'' @ name in
      case source of
        Split_list \<Rightarrow> bindE (k_split_list k env var) (\<lambda>xs. Inr (PList (map PStr xs)))
      | Single_text \<Rightarrow> Inr (opt_str (first_non_empty
          [if name = ''TELEGRAM_BOT_TOKEN'' then getenv_or env (''QSL_'' @ var) (env var) else env var])))"

definition load_strategy_plugin_alert_settings :: "'t kit \<Rightarrow> env \<Rightarrow> pyval dict exc" where
  "load_strategy_plugin_alert_settings k env =
     mapE (\<lambda>(name, source). bindE (plugin_alert_value k env name source) (\<lambda>v.
        Inr (''strategy_plugin_alert_'' @ py_lower name, v))) plugin_alert_fields"

definition default_safe_haven_threshold_usd :: pyfloat where
  "default_safe_haven_threshold_usd = fl 1000"

definition load_platform_runtime_settings :: "'t kit \<Rightarrow> string option \<Rightarrow> env \<Rightarrow> 't settings exc" where
  "load_platform_runtime_settings k project_id env =
     bindE (k_dry_run k env ''FIRSTRADE_DRY_RUN_ONLY'') (\<lambda>dry.
     let account_prefix = (case env ''ACCOUNT_PREFIX'' of None \<Rightarrow> ''FIRSTRADE'' | Some s \<Rightarrow> s) in
     bindE (k_optional_float k env ''FIRSTRADE_SAFE_HAVEN_CASH_SUBSTITUTE_THRESHOLD_USD'') (\<lambda>threshold.
     bindE (resolve_runtime_target k env dry) (\<lambda>target.
     bindE (k_definition k (k_target_profile k target)) (\<lambda>definition_profile.
     bindE (resolve_strategy_metadata k definition_profile) (\<lambda>metadata.
     bindE (k_paths k env definition_profile metadata) (\<lambda>paths.
     bindE (runtime_target_enabled_env k env) (\<lambda>configured.
     bindE (if configured then k_permits_standard k target else Inr False) (\<lambda>enabled.
     bindE (k_cash_only k env) (\<lambda>cash_only.
     bindE (k_bool k (env ''FIRSTRADE_ENABLE_LIVE_TRADING'')) (\<lambda>live.
     bindE (k_bool k (env ''FIRSTRADE_RUN_STRATEGY_ON_HTTP'')) (\<lambda>http.
     bindE (k_bool k (env ''FIRSTRADE_LIVE_ORDER_ACK'')) (\<lambda>ack.
     bindE (k_bool k (env ''FIRSTRADE_PERSIST_STRATEGY_RUNS'')) (\<lambda>persist.
     bindE (k_optional_float k env ''FIRSTRADE_MAX_ORDER_NOTIONAL_USD'') (\<lambda>max_notional.
     bindE (resolve_non_negative_float_env k env ''FIRSTRADE_MIN_RESERVED_CASH_USD'' 0) (\<lambda>floor.
     bindE (resolve_ratio_env k env ''FIRSTRADE_RESERVED_CASH_RATIO'' 0) (\<lambda>ratio.
     bindE (k_bool k (env ''FIRSTRADE_DEBUG_POSITION_SNAPSHOT'')) (\<lambda>debug.
     bindE (load_strategy_options k env) (\<lambda>options.
     bindE (load_market_signals k env definition_profile) (\<lambda>signals.
     bindE (load_snapshot_settings env paths) (\<lambda>snapshot.
     bindE (load_strategy_plugin_alert_settings k env) (\<lambda>alerts.
     Inr \<lparr> st_project_id = project_id, st_account_prefix = account_prefix,
           st_account_region = infer_account_region (env ''ACCOUNT_REGION'') account_prefix,
           st_profile = rp_profile paths, st_display_name = rp_display_name paths, st_domain = rp_domain paths, st_metadata = metadata,
           st_notify_lang = text_or_empty (getenv_or env ''QSL_NOTIFY_LANG'' (Some (case env ''NOTIFY_LANG'' of None \<Rightarrow> ''en'' | Some l \<Rightarrow> l))),
           st_tg_token = resolve_telegram_token env (read_secret (k_secret k)),
           st_tg_chat_id = getenv_or env ''QSL_GLOBAL_TELEGRAM_CHAT_ID'' (env ''GLOBAL_TELEGRAM_CHAT_ID''),
           st_dry_run_only = dry, st_runtime_target_enabled = enabled, st_cash_only_execution = cash_only,
           st_live_trading_enabled = live, st_run_strategy_on_http = http, st_live_order_ack = ack, st_persist_strategy_runs = persist,
           st_max_order_notional_usd = max_notional, st_reserved_cash_floor_usd = floor, st_reserved_cash_ratio = ratio,
           st_safe_haven_threshold_usd = (case threshold of None \<Rightarrow> default_safe_haven_threshold_usd | Some x \<Rightarrow> pmax 0 x),
           st_debug_position_snapshot = debug, st_options = options, st_market_signals = signals, st_snapshot = snapshot,
           st_config_path = rp_config_path paths, st_config_source = rp_config_source paths,
           st_plugin_mounts_json = getenv_or env ''FIRSTRADE_STRATEGY_PLUGIN_MOUNTS_JSON''
             (getenv_or env ''QSL_STRATEGY_PLUGIN_MOUNTS_JSON'' (env ''STRATEGY_PLUGIN_MOUNTS_JSON'')),
           st_plugin_alerts = alerts, st_runtime_target = target \<rparr>)))))))))))))))))))))"

text \<open>The settings as a strategy cycle reads them, with the module's premium map.\<close>

definition settings_of_cycle :: "'t kit \<Rightarrow> pyfloat dict \<Rightarrow> 't settings \<Rightarrow> platform_settings" where
  "settings_of_cycle k premiums st =
     \<lparr> ps_run = \<lparr> s_dry_run_only = st_dry_run_only st, s_live_trading_enabled = st_live_trading_enabled st,
         s_persist_strategy_runs = st_persist_strategy_runs st, s_max_order_notional_usd = st_max_order_notional_usd st,
         s_safe_haven_threshold_usd = st_safe_haven_threshold_usd st, s_cash_only_execution = st_cash_only_execution st,
         s_notional_buy_execution = notional_buy_execution_enabled k (st_profile st), s_strategy_metadata = st_metadata st,
         s_limit_buy_premium_by_symbol = PDict (map (\<lambda>(s, x). (s, PFloat x)) premiums) \<rparr>,
       ps_profile = st_profile st, ps_display_name = st_display_name st, ps_live_order_ack = st_live_order_ack st,
       ps_runtime_target_enabled = st_runtime_target_enabled st, ps_reserved_cash_floor_usd = Some (st_reserved_cash_floor_usd st),
       ps_reserved_cash_ratio = Some (st_reserved_cash_ratio st), ps_runtime_target = Some (k_attributes k (st_runtime_target st)) \<rparr>"

section \<open>What a load says\<close>

lemma settings_loaded:
  assumes "load_platform_runtime_settings k project_id env = Inr st"
  shows "k_dry_run k env ''FIRSTRADE_DRY_RUN_ONLY'' = Inr (st_dry_run_only st)"
    "resolve_runtime_target k env (st_dry_run_only st) = Inr (st_runtime_target st)"
    "\<exists>configured. runtime_target_enabled_env k env = Inr configured
       \<and> (if configured then k_permits_standard k (st_runtime_target st) else Inr False) = Inr (st_runtime_target_enabled st)"
    "k_bool k (env ''FIRSTRADE_ENABLE_LIVE_TRADING'') = Inr (st_live_trading_enabled st)"
    "k_bool k (env ''FIRSTRADE_LIVE_ORDER_ACK'') = Inr (st_live_order_ack st)"
    "resolve_non_negative_float_env k env ''FIRSTRADE_MIN_RESERVED_CASH_USD'' 0 = Inr (st_reserved_cash_floor_usd st)"
    "resolve_ratio_env k env ''FIRSTRADE_RESERVED_CASH_RATIO'' 0 = Inr (st_reserved_cash_ratio st)"
    "\<exists>threshold. st_safe_haven_threshold_usd st = (case threshold of None \<Rightarrow> default_safe_haven_threshold_usd | Some x \<Rightarrow> pmax 0 x)"
    "load_strategy_options k env = Inr (st_options st)"
  using assms unfolding load_platform_runtime_settings_def Let_def bindE_Inr_iff by (elim exE conjE, fastforce)+

lemma options_loaded:
  assumes "load_strategy_options k env = Inr so"
  shows "qqqi_income_ratio_env k env = Inr (so_qqqi_income_ratio so)"
    "optional_non_negative_float_env k env ''INCOME_LAYER_START_USD'' = Inr (so_income_layer_start_usd so)"
    "runtime_execution_window_trading_days_env env = Inr (so_runtime_execution_window_trading_days so)"
  using assms unfolding load_strategy_options_def bindE_Inr_iff by (elim exE conjE, auto)+

lemma zero_is_fin: "is_fin 0" "\<not> 0 < (0::pyfloat)"
  by (simp_all add: zero_pyfloat_def)

lemma fin_not_less: "is_fin x \<Longrightarrow> is_fin y \<Longrightarrow> \<not> x < y \<Longrightarrow> y \<le> x"
  by (cases x; cases y) auto

lemma non_negative_loaded:
  assumes "resolve_non_negative_float_env k env name z = Inr x" "is_fin z" "0 \<le> z"
  shows "is_fin x \<and> 0 \<le> x"
  using assms fin_not_less [OF _ zero_is_fin(1)]
  by (auto simp: resolve_non_negative_float_env_def bindE_Inr_iff split: option.splits if_splits)

lemma ratio_loaded:
  assumes "resolve_ratio_env k env name z = Inr x" "is_fin z" "0 \<le> z"
  shows "is_fin x \<and> 0 \<le> x \<and> x \<le> fl 1"
proof -
  have "resolve_non_negative_float_env k env name z = Inr x" "\<not> fl 1 < x"
    using assms(1) by (auto simp: resolve_ratio_env_def bindE_Inr_iff split: if_splits)
  moreover have "is_fin (fl 1)" by code_simp
  ultimately show ?thesis using non_negative_loaded [OF _ assms(2,3)] fin_not_less [of "fl 1" x] by blast
qed

lemma start_loaded: "optional_non_negative_float_env k env name = Inr (Some x) \<Longrightarrow> is_fin x \<and> 0 \<le> x"
  using fin_not_less [OF _ zero_is_fin(1)]
  by (auto simp: optional_non_negative_float_env_def bindE_Inr_iff split: option.splits if_splits)

lemma qqqi_loaded: "qqqi_income_ratio_env k env = Inr (Some x) \<Longrightarrow> 0 \<le> x \<and> x \<le> fl 1"
  by (auto simp: qqqi_income_ratio_env_def bindE_Inr_iff split: option.splits if_splits)

lemma window_loaded: "runtime_execution_window_trading_days_env env = Inr (Some n) \<Longrightarrow> 0 < n"
  by (auto simp: runtime_execution_window_trading_days_env_def split: option.splits if_splits sum.splits)

lemma threshold_loaded: "0 \<le> (case threshold of None \<Rightarrow> default_safe_haven_threshold_usd | Some x \<Rightarrow> pmax 0 x)"
proof -
  have "0 \<le> default_safe_haven_threshold_usd" by code_simp
  moreover have "0 \<le> pmax 0 x" for x by (cases x) (auto simp: pmax_def zero_pyfloat_def)
  ultimately show ?thesis by (simp split: option.split)
qed

lemma in_dset: "e \<in> set (dset d k v) \<Longrightarrow> e = (k, v) \<or> e \<in> set d"
  by (induction d k v rule: dset.induct) (auto split: if_splits)

lemma not_le_zero: "\<not> x \<le> (0::pyfloat) \<Longrightarrow> 0 < x \<or> x = NaN"
  by (cases x) (auto simp: zero_pyfloat_def)

section \<open>Properties\<close>

text \<open>
  Property C37. Settings that load are within their bounds, whatever number the environment
  names: the reserved cash is finite and not negative, its ratio lies between 0 and 1, the
  threshold of the cash substitute is a number that is not negative, and so are the optional
  start of the income layer, its ratio and the execution window. An amount that is infinite,
  negative or not a number stops the load.
\<close>

theorem loaded_settings_are_within_bounds:
  assumes "load_platform_runtime_settings k project_id env = Inr st"
  shows "is_fin (st_reserved_cash_floor_usd st) \<and> 0 \<le> st_reserved_cash_floor_usd st
     \<and> is_fin (st_reserved_cash_ratio st) \<and> 0 \<le> st_reserved_cash_ratio st \<and> st_reserved_cash_ratio st \<le> fl 1
     \<and> 0 \<le> st_safe_haven_threshold_usd st
     \<and> (\<forall>x. so_income_layer_start_usd (st_options st) = Some x \<longrightarrow> is_fin x \<and> 0 \<le> x)
     \<and> (\<forall>x. so_qqqi_income_ratio (st_options st) = Some x \<longrightarrow> 0 \<le> x \<and> x \<le> fl 1)
     \<and> (\<forall>n. so_runtime_execution_window_trading_days (st_options st) = Some n \<longrightarrow> 0 < n)"
proof -
  have z: "is_fin 0" "(0::pyfloat) \<le> 0" by (simp_all add: zero_pyfloat_def)
  note l = settings_loaded [OF assms]
  note q = options_loaded [OF l(9)]
  have "\<forall>x. so_income_layer_start_usd (st_options st) = Some x \<longrightarrow> is_fin x \<and> 0 \<le> x" using q(2) start_loaded [of k env "''INCOME_LAYER_START_USD''"] by simp
  moreover have "\<forall>x. so_qqqi_income_ratio (st_options st) = Some x \<longrightarrow> 0 \<le> x \<and> x \<le> fl 1" using q(1) qqqi_loaded [of k env] by simp
  moreover have "\<forall>n. so_runtime_execution_window_trading_days (st_options st) = Some n \<longrightarrow> 0 < n" using q(3) window_loaded [of env] by simp
  ultimately show ?thesis using non_negative_loaded [OF l(6) z] ratio_loaded [OF l(7) z] threshold_loaded l(8) by fastforce
qed

text \<open>
  Property C9. The environment gates every order: with the settings the loader builds, a request
  to \<open>/run\<close> sends nothing unless the environment switches HTTP runs on, enables the runtime
  target explicitly and names a target that permits standard execution; the tickets go to the
  account of that target, and are previews unless the environment ends the dry run, enables live
  trading and acknowledges live orders. An unset switch leaves nothing to send.
\<close>

theorem environment_gates_every_order:
  assumes "only_strategy_sends tickets a"
    and "ap_load_settings a = liftE (bindE (load_platform_runtime_settings k project_id env) (\<lambda>st. Inr (settings_of_cycle k premiums st)))"
    and "ap_target_enabled a = runtime_target_enabled_env k env"
  shows "\<exists>new. tickets (snd (run_strategy a env w)) = tickets w @ new
     \<and> (new \<noteq> [] \<longrightarrow>
          env_true env ''FIRSTRADE_RUN_STRATEGY_ON_HTTP'' \<and> optional_bool_env k env ''RUNTIME_TARGET_ENABLED'' = Inr (Some True)
        \<and> (\<exists>target account. resolve_runtime_target k env (hd (map t_dry_run new)) = Inr target \<and> k_permits_standard k target = Inr True
             \<and> target_names (Some (k_attributes k target)) env account
             \<and> (\<forall>t\<in>set new. t_account t = account \<and> k_dry_run k env ''FIRSTRADE_DRY_RUN_ONLY'' = Inr (t_dry_run t)
                  \<and> (t_dry_run t \<or> k_bool k (env ''FIRSTRADE_ENABLE_LIVE_TRADING'') = Inr True
                       \<and> k_bool k (env ''FIRSTRADE_LIVE_ORDER_ACK'') = Inr True))))"
proof -
  define good where "good ps new \<longleftrightarrow> tickets_of_settings env ps new \<and> loaded_by (ap_load_settings a) ps" for ps new
  have "adds_behind tickets (run_gates a env w) (\<lambda>new. \<exists>ps. good ps new) w (snd (run_strategy a env w))"
    by (rule run_strategy_adds [OF assms(1)]) (auto simp: good_def)
  then obtain new where n: "tickets (snd (run_strategy a env w)) = tickets w @ new"
    and g: "new \<noteq> [] \<longrightarrow> run_gates a env w \<and> (\<exists>ps. good ps new)"
    by (auto simp: adds_behind_def)
  have loads: "\<exists>st. load_platform_runtime_settings k project_id env = Inr st \<and> ps = settings_of_cycle k premiums st"
    if "ap_load_settings a w0 = (Inr ps, w1)" for ps w0 w1
    using that by (auto simp: assms(2) liftE_def bindE_Inr_iff)
  show ?thesis
  proof (intro exI [of _ new] conjI impI)
    assume "new \<noteq> []"
    with g obtain ps where gates: "run_gates a env w" and ps: "good ps new" by blast
    obtain st where st: "load_platform_runtime_settings k project_id env = Inr st" "ps = settings_of_cycle k premiums st"
      using ps loads unfolding good_def loaded_by_def by blast
    show "env_true env ''FIRSTRADE_RUN_STRATEGY_ON_HTTP''" using gates by (simp add: run_gates_def)
    show "optional_bool_env k env ''RUNTIME_TARGET_ENABLED'' = Inr (Some True)"
      using gates by (auto simp: run_gates_def assms(3) runtime_target_enabled_env_def bindE_Inr_iff split: option.splits)
    have "st_runtime_target_enabled st" using gates loads st(1) by (fastforce simp: run_gates_def settings_of_cycle_def)
    note l = settings_loaded [OF st(1)]
    have permits: "k_permits_standard k (st_runtime_target st) = Inr True"
      using l(3) \<open>st_runtime_target_enabled st\<close> by (auto split: if_splits)
    obtain account where acc: "target_names (ps_runtime_target ps) env account"
      and all: "list_all (run_ticket (ps_run ps) (ps_live_order_ack ps) account) new"
      using ps by (auto simp: good_def tickets_of_settings_def)
    have dry: "t_dry_run t = st_dry_run_only st" "t_account t = account" 
      "t_dry_run t \<or> st_live_trading_enabled st \<and> st_live_order_ack st" if "t \<in> set new" for t
      using all that by (auto simp: list_all_iff run_ticket_def st(2) settings_of_cycle_def)
    have "hd (map t_dry_run new) = st_dry_run_only st" using dry(1) [of "hd new"] \<open>new \<noteq> []\<close> by (simp add: hd_map)
    show "\<exists>target account. resolve_runtime_target k env (hd (map t_dry_run new)) = Inr target
        \<and> k_permits_standard k target = Inr True \<and> target_names (Some (k_attributes k target)) env account
        \<and> (\<forall>t\<in>set new. t_account t = account \<and> k_dry_run k env ''FIRSTRADE_DRY_RUN_ONLY'' = Inr (t_dry_run t)
             \<and> (t_dry_run t \<or> k_bool k (env ''FIRSTRADE_ENABLE_LIVE_TRADING'') = Inr True
                  \<and> k_bool k (env ''FIRSTRADE_LIVE_ORDER_ACK'') = Inr True))"
    proof (intro exI conjI ballI)
      show "resolve_runtime_target k env (hd (map t_dry_run new)) = Inr (st_runtime_target st)"
        using l(2) \<open>hd (map t_dry_run new) = st_dry_run_only st\<close> by simp
      show "target_names (Some (k_attributes k (st_runtime_target st))) env account" using acc by (simp add: st(2) settings_of_cycle_def)
    qed (use permits dry l(1,4,5) in auto)
  qed (fact n)
qed

text \<open>
  Property C38. A premium map that loads is keyed by symbols in capitals, and no premium in it
  is zero or negative, so a limit price of a buy is not below zero; only a premium that is not
  a number passes the test.
\<close>

theorem loaded_premiums_are_positive:
  assumes "load_limit_buy_premium_by_symbol loads env names = Inr premiums" "(s, x) \<in> set premiums"
  shows "s \<noteq> [] \<and> py_upper s = s \<and> distinct (dkeys premiums) \<and> (0 < x \<or> x = NaN)"
proof -
  define good where "good d \<longleftrightarrow> distinct (dkeys d) \<and> (\<forall>(s, x)\<in>set d. s \<noteq> [] \<and> py_upper s = s \<and> (0 < x \<or> x = NaN))" for d :: "pyfloat dict"
  have step: "good d'" if "parse_premium d n v = Inr d'" "good d" for d n v d'
    using that not_le_zero by (auto simp: parse_premium_def Let_def bindE_Inr_iff good_def split: if_splits dest!: in_dset)
  have "good d'" if "parse_premiums d payload = Inr d'" "good d" for d payload d'
    using that by (induction d payload rule: parse_premiums.induct) (auto simp: bindE_Inr_iff dest: step)
  moreover have "good []" "good default_limit_buy_premium_by_symbol"
    by (simp add: good_def) (unfold good_def, code_simp)
  ultimately have "good premiums"
    using assms(1) by (auto simp: load_limit_buy_premium_by_symbol_def split: option.splits pyval.splits)
  with assms(2) show ?thesis by (auto simp: good_def)
qed

text \<open>
  Resolvers that read the environment plainly, with the target of \<open>ticket_app\<close>, to show that
  the hypotheses can hold.
\<close>

definition plain_float :: "env \<Rightarrow> string \<Rightarrow> pyfloat option exc" where
  "plain_float env name =
     (case env name of None \<Rightarrow> Inr None
      | Some t \<Rightarrow> (case parse_float t of None \<Rightarrow> Inl (ValueError name) | Some x \<Rightarrow> Inr (Some x)))"

definition sample_kit :: "string kit" where
  "sample_kit =
     \<lparr> k_dry_run = (\<lambda>env name. Inr (env name \<noteq> Some ''false'')), k_bool = (\<lambda>v. Inr (v = Some ''true'')),
       k_cash_only = (\<lambda>env. Inr True), k_optional_bool = (\<lambda>env name. Inr (map_option (\<lambda>t. t = ''true'') (env name))),
       k_optional_float = plain_float, k_optional_ratio = plain_float, k_optional_positive = plain_float,
       k_optional_dca_mode = (\<lambda>env name. Inr (env name)), k_optional_exit_mode = (\<lambda>env name. Inr (env name)),
       k_optional_symbol = (\<lambda>env name. Inr (env name)), k_split_list = (\<lambda>env name. Inr []),
       k_target_from_env = (\<lambda>env p. Inl (ValueError p)), k_build_target = (\<lambda>r. Inr (tq_profile r)),
       k_permits_standard = (\<lambda>t. Inr True), k_target_profile = (\<lambda>t. t), k_attributes = (\<lambda>t. sample_target),
       k_definition = (\<lambda>p. Inr p), k_metadata = (\<lambda>p. Inr PNone),
       k_paths = (\<lambda>env p m. Inr \<lparr> rp_profile = p, rp_display_name = ''Soxl'', rp_domain = ''us_equity'', rp_snapshot_path = None,
          rp_snapshot_manifest_path = None, rp_config_path = None, rp_config_source = None \<rparr>),
       k_secret = (\<lambda>n. Inr None), k_fractional_reason = (\<lambda>p. None), k_normalize = (\<lambda>p. p), k_fractional = (\<lambda>p. None) \<rparr>"

definition gate_env :: env where
  "gate_env = live_env ++ map_of
     [(''FIRSTRADE_DRY_RUN_ONLY'', ''false''), (''FIRSTRADE_ENABLE_LIVE_TRADING'', ''true''), (''FIRSTRADE_LIVE_ORDER_ACK'', ''true''),
      (''RUNTIME_TARGET_ENABLED'', ''true''), (''STRATEGY_PROFILE'', ''soxl''), (''FIRSTRADE_PERSIST_STRATEGY_RUNS'', ''true''),
      (''FIRSTRADE_RESERVED_CASH_RATIO'', ''0.25''), (''FIRSTRADE_SAFE_HAVEN_CASH_SUBSTITUTE_THRESHOLD_USD'', ''nan'')]"

lemma gate_env_loads:
  "map_sum id (\<lambda>st. (st_reserved_cash_ratio st, st_safe_haven_threshold_usd st, st_dry_run_only st)) (load_platform_runtime_settings sample_kit None gate_env)
   = Inr (Fin (1 / 4), Fin 0, False)"
  by code_simp

definition settings_app :: "(ticket_world, unit, unit, unit, unit) app_ports" where
  "settings_app = ticket_app
     \<lparr> ap_load_settings := liftE (bindE (load_platform_runtime_settings sample_kit None gate_env) (\<lambda>st. Inr (settings_of_cycle sample_kit [] st))),
       ap_target_enabled := runtime_target_enabled_env sample_kit gate_env \<rparr>"

theorem loaded_settings_are_within_bounds_witness:
  "\<exists>st. load_platform_runtime_settings sample_kit None gate_env = Inr st \<and> st_reserved_cash_ratio st = Fin (1 / 4)
     \<and> st_safe_haven_threshold_usd st = Fin 0 \<and> st_reserved_cash_ratio st \<le> fl 1 \<and> 0 \<le> st_safe_haven_threshold_usd st"
proof -
  obtain st where st: "load_platform_runtime_settings sample_kit None gate_env = Inr st"
      "st_reserved_cash_ratio st = Fin (1 / 4)" "st_safe_haven_threshold_usd st = Fin 0"
    using gate_env_loads by (cases "load_platform_runtime_settings sample_kit None gate_env") auto
  with loaded_settings_are_within_bounds [OF st(1)] show ?thesis by auto
qed

theorem environment_gates_every_order_witness:
  "\<exists>new. snd (snd (run_strategy settings_app gate_env (Map.empty, []))) = new
     \<and> (new = [] \<or> k_permits_standard sample_kit ''soxl'' = Inr True \<and> t_account (hd new) = ''12345678'')"
proof -
  have sends: "only_strategy_sends snd settings_app"
    using ticket_app_sends by (auto simp: only_strategy_sends_def settings_app_def liftE_def quiet_io_def)
  have target: "target_names (Some (k_attributes sample_kit t)) gate_env account \<Longrightarrow> account = ''12345678''" for t account
    by (auto simp: target_names_def sample_kit_def sample_target_def py_strip_def py_lstrip_def py_rstrip_def is_space_def cp_def)
  have "resolve_runtime_target sample_kit gate_env b = Inr ''soxl''" for b by (cases b; code_simp)
  moreover obtain new where n: "snd (snd (run_strategy settings_app gate_env (Map.empty, []))) = [] @ new"
    and g: "new \<noteq> [] \<longrightarrow> (\<exists>target account. resolve_runtime_target sample_kit gate_env (hd (map t_dry_run new)) = Inr target
        \<and> k_permits_standard sample_kit target = Inr True \<and> target_names (Some (k_attributes sample_kit target)) gate_env account
        \<and> (\<forall>t\<in>set new. t_account t = account))"
    using environment_gates_every_order [OF sends, of sample_kit None gate_env "[]" "(Map.empty, [])"]
    by (fastforce simp: settings_app_def)
  ultimately show ?thesis using target hd_in_set by fastforce
qed

lemma premium_texts:
  "load_limit_buy_premium_by_symbol (\<lambda>t. Some (PDict [('' soxl'', PStr ''1.5''), (''X'', PStr ''nan'')]))
     [''LIMIT_BUY_PREMIUM_BY_SYMBOL_JSON'' \<mapsto> ''{}''] premium_variables = Inr [(''SOXL'', Fin (3 / 2)), (''X'', NaN)]"
  by code_simp

theorem loaded_premiums_are_positive_witness:
  "\<exists>premiums. load_limit_buy_premium_by_symbol (\<lambda>t. Some (PDict [('' soxl'', PStr ''1.5''), (''X'', PStr ''nan'')]))
     [''LIMIT_BUY_PREMIUM_BY_SYMBOL_JSON'' \<mapsto> ''{}''] premium_variables = Inr premiums
     \<and> (''SOXL'', Fin (3 / 2)) \<in> set premiums \<and> (''X'', NaN) \<in> set premiums \<and> distinct (dkeys premiums)"
  using loaded_premiums_are_positive [OF premium_texts, of "''SOXL''" "Fin (3 / 2)"] premium_texts by auto

end
