(* ===== verification/Incidents.thy ===== *)
theory Incidents
  imports CycleReport PyDate
begin

text \<open>
  \<open>notifications/digest_snapshot/unified_contract.py\<close>: the facts of notifications, their routes,
  and the tracker that reserves an incident before it is sent. The digest of a list is SHA-256
  of its JSON text and a parameter; an aware time is its text and the microseconds since the start of day 0 in UTC.
\<close>

section \<open>Kinds, flags and routes\<close>

definition event_kinds :: "string list" where
  "event_kinds = [''routine_cycle'', ''healthy_heartbeat'', ''order_submitted'', ''fill'', ''receipt_missing'', ''receipt_stale'',
     ''receipt_unacceptable'', ''auth_failure'', ''order_status_unknown'', ''risk_escalation'', ''real_error'', ''blocked_run'',
     ''expected_block_observed'']"

definition routine_event_kinds :: "string list" where
  "routine_event_kinds = [''routine_cycle'', ''healthy_heartbeat'']"

definition order_event_kinds :: "string list" where
  "order_event_kinds = [''order_submitted'', ''fill'']"

definition unified_notification_enabled :: "pyval dict \<Rightarrow> string \<Rightarrow> bool" where
  "unified_notification_enabled env key \<longleftrightarrow>
     (case pget env key of PBool b \<Rightarrow> b | PStr s \<Rightarrow> py_lower (py_strip s) = ''true'' | _ \<Rightarrow> False)"

definition effective_notification_mode :: "pyval dict \<Rightarrow> string \<Rightarrow> string" where
  "effective_notification_mode env key =
     (if unified_notification_enabled env key then ''daily_digest''
      else py_str (py_or (pget env ''QSL_ROUTINE_NOTIFICATION_MODE'') (PStr ''immediate'')))"

datatype route = Immediate | Digest_candidate | Legacy

fun route_name :: "route \<Rightarrow> string" where
  "route_name Immediate = ''immediate''"
| "route_name Digest_candidate = ''digest_candidate''"
| "route_name Legacy = ''legacy''"

definition select_notification_route :: "string \<Rightarrow> pyval dict \<Rightarrow> string \<Rightarrow> route" where
  "select_notification_route kind env key =
     (if kind \<in> set routine_event_kinds \<or> kind \<in> set order_event_kinds then Digest_candidate
      else if \<not> unified_notification_enabled env key then Legacy else Immediate)"

section \<open>The business window\<close>

text \<open>The day from 06:00 in Singapore, which is eight hours ahead of UTC (since 1982).\<close>

record moment =
  mo_text :: string
  mo_micros :: int

definition hour_micros :: int where
  "hour_micros = 3600 * 10 ^ 6"

definition business_day :: "moment \<Rightarrow> day" where
  "business_day t = (mo_micros t + 8 * hour_micros - 6 * hour_micros) div (24 * hour_micros)"

definition report_date :: "moment \<Rightarrow> day" where
  "report_date t = business_day t + 1"

definition window_id :: "moment \<Rightarrow> string" where
  "window_id t = ''sgt-0600:'' @ date_isoformat (business_day t)"

text \<open>The window of a day starts at 22:00 UTC of the day before and ends where the next one starts.\<close>

lemma business_day_window:
  "business_day t = d \<longleftrightarrow> d * (24 * hour_micros) - 2 * hour_micros \<le> mo_micros t \<and> mo_micros t < (d + 1) * (24 * hour_micros) - 2 * hour_micros"
  by (auto simp: business_day_def hour_micros_def)

section \<open>Events\<close>

type_synonym digest = "pyval list \<Rightarrow> string"

definition identity_present :: "pyval \<Rightarrow> bool" where
  "identity_present v \<longleftrightarrow> (case v of PStr s \<Rightarrow> py_strip s \<noteq> [] | _ \<Rightarrow> False)"

definition order_identity_digest :: "digest \<Rightarrow> string \<Rightarrow> string exc" where
  "order_identity_digest dg identity =
     (if py_strip identity = [] then Inl (ValueError ''notification_order_identity_missing'')
      else Inr (dg [PStr ''qsl.notification_order.v1'', PStr identity]))"

record notice_event =
  ev_kind :: string
  ev_occurred_at :: moment
  ev_platform_id :: pyval
  ev_opaque_account_uid :: pyval
  ev_target_id :: pyval
  ev_strategy_profile :: pyval
  ev_source_run_id :: pyval
  ev_order_execution_digest :: "string option"
  ev_incident_reason :: "string option"
  ev_order_count :: pyval
  ev_fill_count :: pyval
  ev_expected_block_evidence :: pyval

fun is_count :: "pyval \<Rightarrow> bool" where
  "is_count PNone = True"
| "is_count (PInt n) = (0 \<le> n)"
| "is_count _ = False"

definition is_order_digest :: "string \<Rightarrow> bool" where
  "is_order_digest d \<longleftrightarrow> length d = 64 \<and> list_all (\<lambda>c. c \<in> set ''0123456789abcdef'') d"

text \<open>\<open>__post_init__\<close>; a time without a zone is none.\<close>

definition checked_event :: "moment option \<Rightarrow> notice_event \<Rightarrow> notice_event exc" where
  "checked_event occurred_at e =
     (case occurred_at of
        None \<Rightarrow> Inl (ValueError ''notification_time_timezone_missing'')
      | Some t \<Rightarrow>
          bindE (guardE (is_count (ev_order_count e) \<and> is_count (ev_fill_count e)) (ValueError ''notification_count_invalid'')) (\<lambda>_.
          bindE (guardE (case ev_order_execution_digest e of None \<Rightarrow> True | Some d \<Rightarrow> is_order_digest d)
             (ValueError ''notification_order_digest_invalid'')) (\<lambda>_.
          bindE (guardE (ev_kind e \<noteq> ''expected_block_observed'' \<or> identity_present (ev_expected_block_evidence e))
             (ValueError ''notification_expected_block_evidence_missing'')) (\<lambda>_.
          Inr (e \<lparr> ev_occurred_at := t \<rparr>)))))"

definition routine_dedupe_key :: "digest \<Rightarrow> notice_event \<Rightarrow> string option" where
  "routine_dedupe_key dg e =
     (let parts = [ev_platform_id e, ev_opaque_account_uid e, ev_target_id e, ev_strategy_profile e, ev_source_run_id e, PStr (ev_kind e)]
            @ (if ev_kind e \<in> set order_event_kinds then [opt_str (ev_order_execution_digest e)] else [])
      in if list_all identity_present parts then Some (dg (PStr ''qsl.notification_routine.v1'' # parts)) else None)"

definition coverage_known :: "digest \<Rightarrow> notice_event \<Rightarrow> bool" where
  "coverage_known dg e \<longleftrightarrow> routine_dedupe_key dg e \<noteq> None"

definition to_candidate :: "digest \<Rightarrow> notice_event \<Rightarrow> pyval dict" where
  "to_candidate dg e =
     (let known = coverage_known dg e; t = ev_occurred_at e in
      [(''event_kind'', PStr (ev_kind e)), (''occurred_at'', PStr (mo_text t)), (''platform_id'', ev_platform_id e),
       (''opaque_account_uid'', ev_opaque_account_uid e), (''target_id'', ev_target_id e), (''strategy_profile'', ev_strategy_profile e),
       (''source_run_id'', ev_source_run_id e), (''order_execution_digest'', opt_str (ev_order_execution_digest e)),
       (''incident_reason'', opt_str (ev_incident_reason e)), (''order_count'', if known then ev_order_count e else PNone),
       (''fill_count'', if known then ev_fill_count e else PNone), (''expected_block_evidence'', ev_expected_block_evidence e),
       (''schema_version'', PStr ''qsl.notification_event.v1''), (''business_day'', PStr (date_isoformat (business_day t))),
       (''report_date'', PStr (date_isoformat (report_date t))), (''window_id'', PStr (window_id t)),
       (''dedupe_key'', opt_str (routine_dedupe_key dg e)), (''coverage_status'', PStr (if known then ''known'' else ''unknown''))])"

section \<open>Routing\<close>

record routing_result =
  rr_route :: route
  rr_candidate_persisted :: bool
  rr_result :: pyval

definition candidate_error :: "string \<Rightarrow> pyexc" where
  "candidate_error msg = OtherException ''CandidatePersistenceError'' msg"

definition is_candidate_error :: "pyexc \<Rightarrow> bool" where
  "is_candidate_error e \<longleftrightarrow> (case e of OtherException n m \<Rightarrow> n = ''CandidatePersistenceError'' | _ \<Rightarrow> False)"

text \<open>Whether the candidate was written; an exception of the writer is the answer of \<open>failed\<close>.\<close>

definition candidate_written ::
  "(pyval dict \<Rightarrow> ('w, bool) io) \<Rightarrow> pyval dict \<Rightarrow> (pyexc \<Rightarrow> ('w, bool) io) \<Rightarrow> ('w, bool) io" where
  "candidate_written persist candidate failed = catchIO (persist candidate) failed"

definition route_notification_event ::
  "digest \<Rightarrow> notice_event \<Rightarrow> pyval dict \<Rightarrow> string \<Rightarrow> (pyval dict \<Rightarrow> ('w, bool) io) \<Rightarrow> ('w, pyval) io \<Rightarrow> ('w, pyval) io \<Rightarrow>
   ('w, routing_result) io" where
  "route_notification_event dg e env key persist legacy immediate =
     (let route = select_notification_route (ev_kind e) env key; unconfirmed = candidate_error ''notification_candidate_write_unconfirmed'' in
      case route of
        Legacy \<Rightarrow> bindIO legacy (\<lambda>r. returnIO \<lparr> rr_route = route, rr_candidate_persisted = False, rr_result = r \<rparr>)
      | Digest_candidate \<Rightarrow>
          if \<not> coverage_known dg e then raiseIO (candidate_error ''notification_candidate_identity_unknown'')
          else bindIO (candidate_written persist (to_candidate dg e) (\<lambda>_. raiseIO unconfirmed)) (\<lambda>persisted.
               if \<not> persisted then raiseIO unconfirmed
               else returnIO \<lparr> rr_route = route, rr_candidate_persisted = True, rr_result = PNone \<rparr>)
      | Immediate \<Rightarrow>
          bindIO (candidate_written persist (to_candidate dg e) (\<lambda>_. returnIO False)) (\<lambda>persisted.
          bindIO immediate (\<lambda>r. returnIO \<lparr> rr_route = route, rr_candidate_persisted = persisted, rr_result = r \<rparr>)))"

section \<open>Markers of incidents\<close>

text \<open>
  The durable store of markers: a read gives the version and the value of a key, neither where
  it is missing; a compare-and-set writes only where the version is still the one given. Both
  may raise, and a write that raised may have happened.
\<close>

record 'w marker_store =
  ms_read :: "string \<Rightarrow> ('w, int option \<times> pyval option) io"
  ms_compare_and_set :: "string \<Rightarrow> int option \<Rightarrow> pyval dict \<Rightarrow> ('w, bool) io"

definition marker_keys :: "string list" where
  "marker_keys = [''schema_version'', ''active'', ''state'', ''severity'', ''generation'', ''transition_key'', ''delivery_status'', ''receipt_id'']"

fun is_natural :: "pyval \<Rightarrow> bool" where
  "is_natural (PInt n) = (0 \<le> n)"
| "is_natural _ = False"

fun natural_of :: "pyval \<Rightarrow> int" where
  "natural_of (PInt n) = n"
| "natural_of _ = 0"

definition delivery_statuses :: "string list" where
  "delivery_statuses = [''not_attempted'', ''pending'', ''uncertain'', ''delivered'']"

text \<open>The tests of \<open>_read_marker\<close>; a delivery status that cannot be hashed is a \<open>TypeError\<close>.\<close>

definition marker_complete :: "pyval dict \<Rightarrow> bool exc" where
  "marker_complete d =
     (if \<not> (set marker_keys \<subseteq> set (dkeys d)) \<or> pget d ''schema_version'' \<noteq> PStr ''qsl.notification_incident.v1''
         \<or> pget d ''active'' \<notin> {PBool True, PBool False} \<or> \<not> identity_present (pget d ''state'')
         \<or> \<not> is_natural (pget d ''severity'') \<or> \<not> is_natural (pget d ''generation'')
      then Inr False
      else case pget d ''delivery_status'' of
        PList _ \<Rightarrow> Inl (TypeError ''unhashable type: list'')
      | PDict _ \<Rightarrow> Inl (TypeError ''unhashable type: dict'')
      | v \<Rightarrow> Inr (v \<in> PStr ` set delivery_statuses
                 \<and> (0 < natural_of (pget d ''generation'') \<longrightarrow> identity_present (pget d ''transition_key''))))"

definition history_incomplete :: pyexc where
  "history_incomplete = RuntimeError ''notification_marker_history_incomplete''"

definition checked_marker :: "int option \<times> pyval option \<Rightarrow> (int option \<times> pyval dict option) exc" where
  "checked_marker r =
     (case r of
        (None, None) \<Rightarrow> Inr (None, None)
      | (Some v, Some (PDict d)) \<Rightarrow>
          bindE (marker_complete d) (\<lambda>ok. if ok then Inr (Some v, Some d) else Inl history_incomplete)
      | _ \<Rightarrow> Inl history_incomplete)"

definition read_marker :: "'w marker_store \<Rightarrow> string \<Rightarrow> ('w, int option \<times> pyval dict option) io" where
  "read_marker ms key = bindIO (ms_read ms key) (\<lambda>r. liftE (checked_marker r))"

section \<open>The tracker\<close>

datatype action = Send | Duplicate | Recovered | Coverage_unknown

fun action_name :: "action \<Rightarrow> string" where
  "action_name Send = ''send''"
| "action_name Duplicate = ''duplicate''"
| "action_name Recovered = ''recovered''"
| "action_name Coverage_unknown = ''coverage_unknown''"

record incident_decision =
  id_action :: action
  id_incident_key :: "string option"
  id_transition_key :: pyval

record observation_of_incident =
  oi_event :: notice_event
  oi_state :: string
  oi_severity :: int
  oi_recovered :: bool

definition incident_parts :: "notice_event \<Rightarrow> pyval list" where
  "incident_parts e = [ev_platform_id e, ev_target_id e, ev_opaque_account_uid e, ev_strategy_profile e, opt_str (ev_incident_reason e)]"

definition incident_key :: "digest \<Rightarrow> notice_event \<Rightarrow> string" where
  "incident_key dg e = dg (PStr ''qsl.notification_incident.v1'' # incident_parts e)"

definition no_marker :: "pyval dict" where
  "no_marker = [(''schema_version'', PStr ''qsl.notification_incident.v1''), (''active'', PBool False), (''state'', PNone),
     (''severity'', PInt 0), (''generation'', PInt 0), (''transition_key'', PNone), (''delivery_status'', PStr ''not_attempted''),
     (''receipt_id'', PNone)]"

definition previous_marker :: "pyval dict option \<Rightarrow> pyval dict" where
  "previous_marker found = (case found of None \<Rightarrow> no_marker | Some d \<Rightarrow> d)"

text \<open>What an observation makes of the marker: the action, the transition and the new value.\<close>

definition next_marker :: "digest \<Rightarrow> string \<Rightarrow> observation_of_incident \<Rightarrow> pyval dict \<Rightarrow> action \<times> pyval \<times> pyval dict" where
  "next_marker dg key o1 previous =
     (let observed = (\<lambda>d. dset (dset d ''state'' (PStr (oi_state o1))) ''severity'' (PInt (oi_severity o1)));
          active = pget previous ''active'' = PBool True; transition = pget previous ''transition_key'' in
      if oi_recovered o1 then (Recovered, transition, observed (dset previous ''active'' (PBool False)))
      else if active \<and> oi_severity o1 \<le> natural_of (pget previous ''severity'') then (Duplicate, transition, observed previous)
      else let generation = natural_of (pget previous ''generation'') + 1;
               t = PStr (dg [PStr key, PInt generation, pget previous ''state'', PStr (oi_state o1), PInt (oi_severity o1)])
           in (Send, t, [(''schema_version'', PStr ''qsl.notification_incident.v1''), (''active'', PBool True),
                (''state'', PStr (oi_state o1)), (''severity'', PInt (oi_severity o1)), (''generation'', PInt generation),
                (''transition_key'', t), (''delivery_status'', PStr ''pending''), (''receipt_id'', PNone)]))"

definition concurrent_update :: pyexc where
  "concurrent_update = RuntimeError ''notification_marker_concurrent_update''"

text \<open>One attempt: nothing when another worker was faster.\<close>

definition try_mark ::
  "'w marker_store \<Rightarrow> digest \<Rightarrow> string \<Rightarrow> observation_of_incident \<Rightarrow> int option \<times> pyval dict option \<Rightarrow> ('w, incident_decision option) io" where
  "try_mark ms dg key o1 r =
     (let previous = previous_marker (snd r); (act, transition, value) = next_marker dg key o1 previous;
          d = \<lparr> id_action = act, id_incident_key = Some key, id_transition_key = transition \<rparr> in
      if py_eq (PDict value) (PDict previous) then returnIO (Some d)
      else bindIO (ms_compare_and_set ms key (fst r) value) (\<lambda>written. returnIO (if written then Some d else None)))"

fun observe_loop :: "nat \<Rightarrow> 'w marker_store \<Rightarrow> digest \<Rightarrow> string \<Rightarrow> observation_of_incident \<Rightarrow> ('w, incident_decision) io" where
  "observe_loop 0 ms dg key o1 = raiseIO concurrent_update"
| "observe_loop (Suc n) ms dg key o1 =
     bindIO (read_marker ms key) (\<lambda>r. bindIO (try_mark ms dg key o1 r) (\<lambda>d. case d of
         Some x \<Rightarrow> returnIO x
       | None \<Rightarrow> observe_loop n ms dg key o1))"

definition observable :: "observation_of_incident \<Rightarrow> bool" where
  "observable o1 \<longleftrightarrow> list_all identity_present (incident_parts (oi_event o1))"

definition state_valid :: "observation_of_incident \<Rightarrow> bool" where
  "state_valid o1 \<longleftrightarrow> py_strip (oi_state o1) \<noteq> [] \<and> 0 \<le> oi_severity o1"

definition observe :: "'w marker_store \<Rightarrow> digest \<Rightarrow> observation_of_incident \<Rightarrow> ('w, incident_decision) io" where
  "observe ms dg o1 =
     (if \<not> observable o1 then returnIO \<lparr> id_action = Coverage_unknown, id_incident_key = None, id_transition_key = PNone \<rparr>
      else if \<not> state_valid o1 then raiseIO (ValueError ''notification_incident_state_invalid'')
      else observe_loop 8 ms dg (incident_key dg (oi_event o1)) o1)"

definition delivered_marker :: "pyval \<Rightarrow> pyval dict \<Rightarrow> pyval dict" where
  "delivered_marker receipt previous =
     (let known = identity_present receipt in
      dset (dset previous ''delivery_status'' (PStr (if known then ''delivered'' else ''uncertain'')))
        ''receipt_id'' (if known then receipt else PNone))"

definition record_delivery :: "'w marker_store \<Rightarrow> incident_decision \<Rightarrow> pyval \<Rightarrow> ('w, unit) io" where
  "record_delivery ms d receipt =
     (case id_incident_key d of
        None \<Rightarrow> raiseIO (ValueError ''notification_delivery_without_reservation'')
      | Some key \<Rightarrow>
          if id_action d \<noteq> Send \<or> key = [] then raiseIO (ValueError ''notification_delivery_without_reservation'')
          else bindIO (read_marker ms key) (\<lambda>r.
            case snd r of
              None \<Rightarrow> raiseIO (RuntimeError ''notification_marker_transition_changed'')
            | Some previous \<Rightarrow>
                if \<not> py_eq (pget previous ''transition_key'') (id_transition_key d)
                then raiseIO (RuntimeError ''notification_marker_transition_changed'')
                else bindIO (ms_compare_and_set ms key (fst r) (delivered_marker receipt previous)) (\<lambda>written.
                     if written then returnIO () else raiseIO concurrent_update)))"

section \<open>Workers that race\<close>

text \<open>
  Any number of workers observe incidents at once. A worker reads with the attempts it has left,
  holds what it read, and has finished with its decision or stopped with an exception. A step is
  a read or a compare-and-set of one worker, or anything that others do to the markers.
\<close>

datatype worker =
    Reading nat
  | Holding nat "int option \<times> pyval dict option"
  | Finished incident_decision
  | Stopped pyexc

definition key_of :: "digest \<Rightarrow> observation_of_incident \<Rightarrow> string" where
  "key_of dg o1 = incident_key dg (oi_event o1)"

inductive tracker_step ::
  "'w marker_store \<Rightarrow> digest \<Rightarrow> ('i \<Rightarrow> observation_of_incident) \<Rightarrow> ('w \<Rightarrow> 'w \<Rightarrow> bool) \<Rightarrow>
   'w \<times> ('i \<Rightarrow> worker) \<Rightarrow> 'w \<times> ('i \<Rightarrow> worker) \<Rightarrow> bool"
  for ms dg obs env where
  reads: "out i = Reading (Suc n) \<Longrightarrow> read_marker ms (key_of dg (obs i)) w = (Inr r, w') \<Longrightarrow>
     tracker_step ms dg obs env (w, out) (w', out(i := Holding n r))"
| read_fails: "out i = Reading (Suc n) \<Longrightarrow> read_marker ms (key_of dg (obs i)) w = (Inl e, w') \<Longrightarrow>
     tracker_step ms dg obs env (w, out) (w', out(i := Stopped e))"
| gives_up: "out i = Reading 0 \<Longrightarrow> tracker_step ms dg obs env (w, out) (w, out(i := Stopped concurrent_update))"
| marks: "out i = Holding n r \<Longrightarrow> try_mark ms dg (key_of dg (obs i)) (obs i) r w = (Inr (Some d), w') \<Longrightarrow>
     tracker_step ms dg obs env (w, out) (w', out(i := Finished d))"
| is_beaten: "out i = Holding n r \<Longrightarrow> try_mark ms dg (key_of dg (obs i)) (obs i) r w = (Inr None, w') \<Longrightarrow>
     tracker_step ms dg obs env (w, out) (w', out(i := Reading n))"
| mark_fails: "out i = Holding n r \<Longrightarrow> try_mark ms dg (key_of dg (obs i)) (obs i) r w = (Inl e, w') \<Longrightarrow>
     tracker_step ms dg obs env (w, out) (w', out(i := Stopped e))"
| others: "env w w' \<Longrightarrow> tracker_step ms dg obs env (w, out) (w', out)"

text \<open>The steps of one worker alone are the loop of the code.\<close>

lemma loop_is_steps:
  assumes "observe_loop n ms dg (key_of dg (obs i)) (obs i) w = (r, w')"
  shows "(tracker_step ms dg obs env)\<^sup>*\<^sup>* (w, out(i := Reading n))
     (w', out(i := (case r of Inr d \<Rightarrow> Finished d | Inl e \<Rightarrow> Stopped e)))"
  using assms
proof (induction n arbitrary: w)
  case 0
  then have r: "r = Inl concurrent_update" "w' = w" by simp_all
  have "tracker_step ms dg obs env (w, out(i := Reading 0)) (w, (out(i := Reading 0))(i := Stopped concurrent_update))"
    by (rule gives_up) simp
  then show ?case unfolding r sum.case fun_upd_upd by (rule r_into_rtranclp)
next
  case (Suc n)
  let ?step = "tracker_step ms dg obs env" and ?out = "\<lambda>x. out(i := x)"
  obtain x w1 where x: "read_marker ms (key_of dg (obs i)) w = (x, w1)" by (rule prod.exhaust)
  show ?case
  proof (cases x)
    case (Inl e)
    then have step: "?step (w, ?out (Reading (Suc n))) (w1, ?out (Stopped e))"
      using read_fails [of "?out (Reading (Suc n))" i n ms dg obs w e w1 env] x by simp
    have r: "r = Inl e" "w' = w1" using Suc.prems by (auto simp: bindIO_case x Inl)
    show ?thesis unfolding r sum.case by (rule r_into_rtranclp [of ?step], rule step)
  next
    case (Inr m)
    then have first: "?step (w, ?out (Reading (Suc n))) (w1, ?out (Holding n m))"
      using reads [of "?out (Reading (Suc n))" i n ms dg obs w m w1 env] x by simp
    obtain y w2 where y: "try_mark ms dg (key_of dg (obs i)) (obs i) m w1 = (y, w2)" by (rule prod.exhaust)
    consider e where "y = Inl e" | d where "y = Inr (Some d)" | "y = Inr None"
      by (metis option.exhaust sum.exhaust)
    then show ?thesis
    proof cases
      case 1
      then have "?step (w1, ?out (Holding n m)) (w2, ?out (Stopped e))"
        using mark_fails [of "?out (Holding n m)" i n m ms dg obs w1 e w2 env] y by simp
      moreover have r: "r = Inl e" "w' = w2" using Suc.prems by (auto simp: bindIO_case x Inr y 1)
      ultimately show ?thesis unfolding r sum.case using first by (meson converse_rtranclp_into_rtranclp r_into_rtranclp)
    next
      case 2
      then have "?step (w1, ?out (Holding n m)) (w2, ?out (Finished d))"
        using marks [of "?out (Holding n m)" i n m ms dg obs w1 d w2 env] y by simp
      moreover have r: "r = Inr d" "w' = w2" using Suc.prems by (auto simp: bindIO_case x Inr y 2 returnIO_eq)
      ultimately show ?thesis unfolding r sum.case using first by (meson converse_rtranclp_into_rtranclp r_into_rtranclp)
    next
      case 3
      then have "?step (w1, ?out (Holding n m)) (w2, ?out (Reading n))"
        using is_beaten [of "?out (Holding n m)" i n m ms dg obs w1 w2 env] y by simp
      moreover have "?step\<^sup>*\<^sup>* (w2, ?out (Reading n)) (w', ?out (case r of Inr d \<Rightarrow> Finished d | Inl e \<Rightarrow> Stopped e))"
        using Suc.prems by (intro Suc.IH) (simp add: bindIO_case x Inr y 3)
      ultimately show ?thesis using first by (meson converse_rtranclp_into_rtranclp)
    qed
  qed
qed

section \<open>Laws of the store and of the digest\<close>

definition generation_of :: "pyval \<Rightarrow> int" where
  "generation_of v = (case v of PDict d \<Rightarrow> natural_of (pget d ''generation'') | _ \<Rightarrow> 0)"

text \<open>
  \<open>held\<close> is what the store keeps: a version and a value. A write takes a version above the one
  it replaces, as generations of objects are, and keeps the fields of a marker; it may add others.
\<close>

definition same_fields :: "pyval dict \<Rightarrow> pyval dict \<Rightarrow> bool" where
  "same_fields d e \<longleftrightarrow> list_all (\<lambda>k. dget e k = dget d k) marker_keys"

lemma same_fields_refl: "same_fields d d"
  by (simp add: same_fields_def list_all_iff)

lemma same_fields_dget: "same_fields d e \<Longrightarrow> k \<in> set marker_keys \<Longrightarrow> dget e k = dget d k"
  by (simp add: same_fields_def list_all_iff)

lemma same_fields_pget: "same_fields d e \<Longrightarrow> k \<in> set marker_keys \<Longrightarrow> pget e k = pget d k"
  by (simp add: pget_def dget_or_def same_fields_dget)

lemma marker_key: "k \<in> {''active'', ''severity'', ''generation'', ''transition_key''} \<Longrightarrow> k \<in> set marker_keys"
  by (auto simp: marker_keys_def)

lemma same_fields_generation: "same_fields d e \<Longrightarrow> natural_of (pget e ''generation'') = natural_of (pget d ''generation'')"
  by (simp add: same_fields_pget marker_key)

definition marker_written ::
  "('w \<Rightarrow> string \<Rightarrow> (int \<times> pyval) option) \<Rightarrow> string \<Rightarrow> int option \<Rightarrow> pyval dict \<Rightarrow> 'w \<Rightarrow> 'w \<Rightarrow> bool" where
  "marker_written held k v d w w' \<longleftrightarrow>
     map_option fst (held w k) = v
     \<and> (\<exists>v' e. held w' = (held w)(k \<mapsto> (v', PDict e)) \<and> same_fields d e \<and> (\<forall>x. v = Some x \<longrightarrow> x < v'))"

lemma marker_written_exact:
  "map_option fst (held w k) = v \<Longrightarrow> held w' = (held w)(k \<mapsto> (v', PDict d)) \<Longrightarrow> (\<And>x. v = Some x \<Longrightarrow> x < v') \<Longrightarrow>
     marker_written held k v d w w'"
  unfolding marker_written_def using same_fields_refl by blast

definition marker_laws :: "'w marker_store \<Rightarrow> ('w \<Rightarrow> string \<Rightarrow> (int \<times> pyval) option) \<Rightarrow> bool" where
  "marker_laws ms held \<longleftrightarrow>
     (\<forall>k w. held (snd (ms_read ms k w)) = held w
        \<and> (\<forall>r. fst (ms_read ms k w) = Inr r \<longrightarrow> r = (map_option fst (held w k), map_option snd (held w k))))
     \<and> (\<forall>k v d w. case ms_compare_and_set ms k v d w of
          (Inr True, w') \<Rightarrow> marker_written held k v d w w'
        | (Inr False, w') \<Rightarrow> held w' = held w
        | (Inl e, w') \<Rightarrow> held w' = held w \<or> marker_written held k v d w w')"

definition digest_tells :: "digest \<Rightarrow> bool" where
  "digest_tells dg \<longleftrightarrow> (\<forall>k g xs k' g' xs'. dg (PStr k # PInt g # xs) = dg (PStr k' # PInt g' # xs') \<longrightarrow> k = k' \<and> g = g')"

text \<open>Others may write markers, but no generation of one goes back.\<close>

definition markers_advance :: "('w \<Rightarrow> string \<Rightarrow> (int \<times> pyval) option) \<Rightarrow> 'w \<Rightarrow> 'w \<Rightarrow> bool" where
  "markers_advance held w w' \<longleftrightarrow>
     (\<forall>k v x. held w k = Some (v, x) \<longrightarrow>
        (\<exists>v' x'. held w' k = Some (v', x') \<and> v \<le> v' \<and> (v = v' \<longrightarrow> x' = x) \<and> generation_of x \<le> generation_of x'))"

lemma markers_advance_refl: "markers_advance held w w"
  by (auto simp: markers_advance_def)

lemma markers_advance_same: "held w' = held w \<Longrightarrow> markers_advance held w w'"
  by (auto simp: markers_advance_def)

lemma marker_laws_cas:
  assumes "marker_laws ms held" "ms_compare_and_set ms k v d w = (y, w1)"
  shows "y = Inr True \<Longrightarrow> marker_written held k v d w w1" "y = Inr False \<Longrightarrow> held w1 = held w"
    "held w1 = held w \<or> marker_written held k v d w w1"
proof -
  have "case ms_compare_and_set ms k v d w of
          (Inr True, w') \<Rightarrow> marker_written held k v d w w'
        | (Inr False, w') \<Rightarrow> held w' = held w
        | (Inl e, w') \<Rightarrow> held w' = held w \<or> marker_written held k v d w w'"
    by (rule assms(1) [unfolded marker_laws_def, THEN conjunct2, THEN spec, THEN spec, THEN spec, THEN spec])
  then show "y = Inr True \<Longrightarrow> marker_written held k v d w w1" "y = Inr False \<Longrightarrow> held w1 = held w"
    "held w1 = held w \<or> marker_written held k v d w w1"
    by (auto simp: assms(2) split: sum.splits bool.splits)
qed

lemma read_marker_result:
  assumes "marker_laws ms held" "read_marker ms k w = (r, w')"
  shows "held w' = held w"
    and "\<And>v d. r = Inr (v, d) \<Longrightarrow> v = map_option fst (held w k) \<and> map_option PDict d = map_option snd (held w k)
       \<and> (\<forall>m. d = Some m \<longrightarrow> marker_complete m = Inr True)"
proof -
  have l: "held (snd (ms_read ms k w)) = held w"
    "\<And>r. fst (ms_read ms k w) = Inr r \<Longrightarrow> r = (map_option fst (held w k), map_option snd (held w k))"
    using assms(1) by (auto simp: marker_laws_def)
  show "held w' = held w" using assms(2) l(1) by (auto simp: read_marker_def bindIO_def liftE_def split: prod.splits sum.splits)
  fix v d assume r: "r = Inr (v, d)"
  then obtain x where x: "fst (ms_read ms k w) = Inr x" "checked_marker x = Inr (v, d)"
    using assms(2) by (auto simp: read_marker_def bindIO_Inr liftE_def)
  from l(2) [OF x(1)] x(2) show "v = map_option fst (held w k) \<and> map_option PDict d = map_option snd (held w k)
       \<and> (\<forall>m. d = Some m \<longrightarrow> marker_complete m = Inr True)"
    by (auto simp: checked_marker_def bindE_Inr_iff split: option.splits pyval.splits if_splits)
qed

section \<open>What one attempt does\<close>

lemma py_eq_field:
  assumes "py_eq (PDict d) (PDict e)" "dget d k = Some v" shows "py_eq v (pget e k)"
  using assms dget_Some_in [OF assms(2)]
  by (fastforce simp: list_all_iff pget_def dget_or_def split: option.splits)

lemma complete_generation: "marker_complete m = Inr True \<Longrightarrow> \<exists>n\<ge>0. pget m ''generation'' = PInt n"
  by (cases "pget m ''generation''") (auto simp: marker_complete_def split: if_splits)

lemma previous_generation:
  assumes "\<forall>m. d = Some m \<longrightarrow> marker_complete m = Inr True"
  shows "\<exists>n\<ge>0. pget (previous_marker d) ''generation'' = PInt n"
  using assms complete_generation by (cases d) (auto simp: previous_marker_def no_marker_def pget_def dget_or_def)

lemma next_marker_send:
  assumes "next_marker dg key o1 previous = (Send, t, value)"
  defines "g \<equiv> natural_of (pget previous ''generation'') + 1"
  shows "\<exists>xs. t = PStr (dg (PStr key # PInt g # xs))" "pget value ''generation'' = PInt g" "pget value ''active'' = PBool True"
    "pget value ''severity'' = PInt (oi_severity o1)" "pget value ''transition_key'' = t" "\<not> oi_recovered o1"
    "dget value ''generation'' = Some (PInt g)"
  using assms by (auto simp: next_marker_def Let_def pget_def dget_or_def split: if_splits)

lemma next_marker_kept:
  assumes "next_marker dg key o1 previous = (act, t, value)" "act \<noteq> Send"
  shows "pget value ''generation'' = pget previous ''generation''" "t = pget previous ''transition_key''"
    "pget value ''transition_key'' = pget previous ''transition_key''"
  using assms by (auto simp: next_marker_def Let_def pget_dset split: if_splits)

lemma send_changes:
  assumes "next_marker dg key o1 previous = (Send, t, value)" "pget previous ''generation'' = PInt n"
  shows "\<not> py_eq (PDict value) (PDict previous)"
proof
  assume "py_eq (PDict value) (PDict previous)"
  from py_eq_field [OF this next_marker_send(7) [OF assms(1)]] assms(2) show False by (simp add: num_eq_def feq_def)
qed

text \<open>What a worker holds was in the store, and still is unless the version has grown.\<close>

definition holds_view :: "('w \<Rightarrow> string \<Rightarrow> (int \<times> pyval) option) \<Rightarrow> 'w \<Rightarrow> string \<Rightarrow> int option \<times> pyval dict option \<Rightarrow> bool" where
  "holds_view held w k r \<longleftrightarrow>
     (case fst r of
        None \<Rightarrow> snd r = None
      | Some v \<Rightarrow> (\<exists>v' x m. snd r = Some m \<and> held w k = Some (v', x) \<and> v \<le> v' \<and> (v = v' \<longrightarrow> x = PDict m)))
     \<and> (\<forall>m. snd r = Some m \<longrightarrow> marker_complete m = Inr True)"

lemma view_read:
  assumes "marker_laws ms held" "read_marker ms k w = (Inr r, w')"
  shows "holds_view held w' k r" "held w' = held w"
  using read_marker_result [OF assms] by (cases r; cases "held w k"; auto simp: holds_view_def)+

lemma view_advances:
  assumes "holds_view held w k r" "markers_advance held w w'"
  shows "holds_view held w' k r"
proof (cases "fst r")
  case (Some v)
  then obtain v1 x m where m: "snd r = Some m" "held w k = Some (v1, x)" "v \<le> v1" "v = v1 \<longrightarrow> x = PDict m"
    using assms(1) by (auto simp: holds_view_def)
  moreover obtain v2 x2 where "held w' k = Some (v2, x2)" "v1 \<le> v2" "v1 = v2 \<longrightarrow> x2 = x"
    using assms(2) m(2) unfolding markers_advance_def by blast
  ultimately show ?thesis using assms(1) Some by (auto simp: holds_view_def)
qed (use assms(1) in \<open>auto simp: holds_view_def\<close>)

lemma written_generation:
  assumes "holds_view held w k r" "marker_written held k (fst r) value w w'"
    and "natural_of (pget (previous_marker (snd r)) ''generation'') \<le> natural_of (pget value ''generation'')"
  shows "markers_advance held w w'"
    and "held w k = Some (v, x) \<Longrightarrow> generation_of x = natural_of (pget (previous_marker (snd r)) ''generation'')"
proof -
  have same: "\<exists>m. snd r = Some m \<and> y = PDict m" if "held w k = Some (u, y)" for u y
    using assms(1,2) that by (cases "fst r") (auto simp: holds_view_def marker_written_def)
  then show "held w k = Some (v, x) \<Longrightarrow> generation_of x = natural_of (pget (previous_marker (snd r)) ''generation'')"
    by (auto simp: generation_of_def previous_marker_def)
  obtain v' e where w': "held w' = (held w)(k \<mapsto> (v', PDict e))" "\<forall>y. fst r = Some y \<longrightarrow> y < v'" "map_option fst (held w k) = fst r"
    and e: "natural_of (pget e ''generation'') = natural_of (pget value ''generation'')"
    using assms(2) same_fields_generation unfolding marker_written_def by blast
  have "generation_of y \<le> natural_of (pget value ''generation'')" if "held w k = Some (u, y)" for u y
    using same [OF that] assms(3) by (auto simp: generation_of_def previous_marker_def)
  moreover have "u < v'" if "held w k = Some (u, y)" for u y using w'(2,3) that by (metis fst_conv option.map(2))
  ultimately show "markers_advance held w w'" by (fastforce simp: markers_advance_def w'(1) generation_of_def e)
qed

lemma mark_outcome:
  assumes "marker_laws ms held" "holds_view held w k r" "try_mark ms dg k o1 r w = (x, w')"
  shows "markers_advance held w w'"
    and "x = Inr (Some d) \<Longrightarrow> id_action d = Send \<Longrightarrow>
       \<exists>g xs v val. id_transition_key d = PStr (dg (PStr k # PInt g # xs)) \<and> id_incident_key d = Some k
         \<and> (\<forall>u y. held w k = Some (u, y) \<longrightarrow> generation_of y < g)
         \<and> held w' k = Some (v, PDict val) \<and> generation_of (PDict val) = g
         \<and> pget val ''active'' = PBool True \<and> pget val ''severity'' = PInt (oi_severity o1)
         \<and> pget val ''transition_key'' = id_transition_key d"
proof -
  let ?prev = "previous_marker (snd r)"
  obtain act t val where n: "next_marker dg k o1 ?prev = (act, t, val)" by (metis prod_cases3)
  obtain m where m: "0 \<le> m" "pget ?prev ''generation'' = PInt m"
    using previous_generation [of "snd r"] assms(2) by (auto simp: holds_view_def)
  have grows: "natural_of (pget ?prev ''generation'') \<le> natural_of (pget val ''generation'')"
    using next_marker_kept(1) [OF n] next_marker_send(2) [of dg k o1 ?prev t val] n by (cases "act = Send") auto
  obtain y w1 where c: "ms_compare_and_set ms k (fst r) val w = (y, w1)" by (rule prod.exhaust)
  note law = marker_laws_cas [OF assms(1) c]
  have run: "if py_eq (PDict val) (PDict ?prev) then w' = w \<and> x = Inr (Some \<lparr> id_action = act, id_incident_key = Some k, id_transition_key = t \<rparr>)
      else w' = w1 \<and> (case y of Inl e \<Rightarrow> x = Inl e
         | Inr b \<Rightarrow> x = Inr (if b then Some \<lparr> id_action = act, id_incident_key = Some k, id_transition_key = t \<rparr> else None))"
    using assms(3) by (auto simp: try_mark_def Let_def n bindIO_case c returnIO_eq split: sum.splits if_splits)
  show "markers_advance held w w'"
  proof (cases "held w' = held w")
    case False
    then have "marker_written held k (fst r) val w w'"
      using run law(3) by (auto split: if_splits)
    then show ?thesis by (rule written_generation(1) [OF assms(2) _ grows])
  qed (rule markers_advance_same)
  assume x: "x = Inr (Some d)" and "id_action d = Send"
  then have act: "act = Send" using run by (auto split: if_splits sum.splits)
  note snd = next_marker_send [OF n [unfolded act]]
  have "\<not> py_eq (PDict val) (PDict ?prev)" by (rule send_changes [OF n [unfolded act] m(2)])
  then have d: "d = \<lparr> id_action = Send, id_incident_key = Some k, id_transition_key = t \<rparr>"
    and w: "marker_written held k (fst r) val w w'"
    using run law(1) x act by (auto split: if_splits sum.splits)
  have less: "\<forall>u y. held w k = Some (u, y) \<longrightarrow> generation_of y < m + 1"
    using written_generation(2) [OF assms(2) w grows] m(2) by auto
  obtain xs where xs: "t = PStr (dg (PStr k # PInt (m + 1) # xs))" using snd(1) m(2) by auto
  obtain v' e where v': "held w' = (held w)(k \<mapsto> (v', PDict e))" and e: "same_fields val e" using w by (auto simp: marker_written_def)
  show "\<exists>g xs v val. id_transition_key d = PStr (dg (PStr k # PInt g # xs)) \<and> id_incident_key d = Some k
         \<and> (\<forall>u y. held w k = Some (u, y) \<longrightarrow> generation_of y < g)
         \<and> held w' k = Some (v, PDict val) \<and> generation_of (PDict val) = g
         \<and> pget val ''active'' = PBool True \<and> pget val ''severity'' = PInt (oi_severity o1)
         \<and> pget val ''transition_key'' = id_transition_key d"
    using d less xs v' snd(2,3,4,5) m(2)
    by (intro exI [of _ "m + 1"] exI [of _ xs] exI [of _ v'] exI [of _ e]) (simp add: generation_of_def same_fields_pget [OF e] marker_key)
qed

section \<open>The invariant of the race\<close>

definition sent_with :: "digest \<Rightarrow> string \<Rightarrow> worker \<Rightarrow> int \<Rightarrow> bool" where
  "sent_with dg k x g \<longleftrightarrow>
     (\<exists>d xs. x = Finished d \<and> id_action d = Send \<and> id_incident_key d = Some k \<and> id_transition_key d = PStr (dg (PStr k # PInt g # xs)))"

definition race_invariant ::
  "('w \<Rightarrow> string \<Rightarrow> (int \<times> pyval) option) \<Rightarrow> digest \<Rightarrow> ('i \<Rightarrow> observation_of_incident) \<Rightarrow> 'w \<times> ('i \<Rightarrow> worker) \<Rightarrow> bool" where
  "race_invariant held dg obs c \<longleftrightarrow>
     (\<forall>i n r. snd c i = Holding n r \<longrightarrow> holds_view held (fst c) (key_of dg (obs i)) r)
     \<and> (\<forall>i d. snd c i = Finished d \<and> id_action d = Send \<longrightarrow> (\<exists>g. sent_with dg (key_of dg (obs i)) (snd c i) g))
     \<and> (\<forall>i g. sent_with dg (key_of dg (obs i)) (snd c i) g \<longrightarrow>
          (\<exists>v x. held (fst c) (key_of dg (obs i)) = Some (v, x) \<and> g \<le> generation_of x))
     \<and> (\<forall>i j g. key_of dg (obs i) = key_of dg (obs j) \<and> sent_with dg (key_of dg (obs i)) (snd c i) g
          \<and> sent_with dg (key_of dg (obs j)) (snd c j) g \<longrightarrow> i = j)"

lemma sent_with_unsent [simp]: "\<not> sent_with dg k (Reading n) g" "\<not> sent_with dg k (Holding n r) g" "\<not> sent_with dg k (Stopped e) g"
  by (auto simp: sent_with_def)

lemma digest_tells_eq:
  "digest_tells dg \<Longrightarrow> dg (PStr k # PInt g # xs) = dg (PStr k' # PInt g' # xs') \<Longrightarrow> k = k' \<and> g = g'"
  unfolding digest_tells_def by blast

lemma sent_with_one:
  assumes "digest_tells dg" "sent_with dg k x g" "sent_with dg k x g'"
  shows "g = g'"
proof -
  obtain xs xs' where "dg (PStr k # PInt g # xs) = dg (PStr k # PInt g' # xs')"
    using assms(2,3) unfolding sent_with_def by (metis worker.inject(3) pyval.inject(4))
  from digest_tells_eq [OF assms(1) this] show ?thesis ..
qed

lemma race_parts:
  assumes "race_invariant held dg obs (w, out)"
  shows "out i = Holding n r \<Longrightarrow> holds_view held w (key_of dg (obs i)) r"
    "out i = Finished d \<Longrightarrow> id_action d = Send \<Longrightarrow> \<exists>g. sent_with dg (key_of dg (obs i)) (out i) g"
    "sent_with dg (key_of dg (obs i)) (out i) g \<Longrightarrow> \<exists>v x. held w (key_of dg (obs i)) = Some (v, x) \<and> g \<le> generation_of x"
    "key_of dg (obs i) = key_of dg (obs j) \<Longrightarrow> sent_with dg (key_of dg (obs i)) (out i) g \<Longrightarrow>
       sent_with dg (key_of dg (obs j)) (out j) g \<Longrightarrow> i = j"
  using assms unfolding race_invariant_def fst_conv snd_conv by blast+

text \<open>A change of the markers that only advances keeps the invariant of workers that stay as they are.\<close>

lemma invariant_advances:
  assumes inv: "race_invariant held dg obs (w, out)" and adv: "markers_advance held w w'"
  shows "race_invariant held dg obs (w', out)"
  unfolding race_invariant_def fst_conv snd_conv
proof (intro conjI allI impI)
  fix i n r assume "out i = Holding n r"
  from view_advances [OF race_parts(1) [OF inv this] adv] show "holds_view held w' (key_of dg (obs i)) r" .
next
  fix i d assume "out i = Finished d \<and> id_action d = Send"
  then show "\<exists>g. sent_with dg (key_of dg (obs i)) (out i) g" using race_parts(2) [OF inv] by blast
next
  fix i g assume "sent_with dg (key_of dg (obs i)) (out i) g"
  from race_parts(3) [OF inv this] obtain u y where "held w (key_of dg (obs i)) = Some (u, y)" "g \<le> generation_of y" by blast
  then show "\<exists>v x. held w' (key_of dg (obs i)) = Some (v, x) \<and> g \<le> generation_of x"
    using adv unfolding markers_advance_def by (meson order_trans)
next
  fix i j g assume "key_of dg (obs i) = key_of dg (obs j) \<and> sent_with dg (key_of dg (obs i)) (out i) g
      \<and> sent_with dg (key_of dg (obs j)) (out j) g"
  then show "i = j" using race_parts(4) [OF inv] by blast
qed

lemma invariant_quiet_step:
  assumes inv: "race_invariant held dg obs (w, out)" and unsent: "\<And>g. \<not> sent_with dg (key_of dg (obs i)) x g"
    and "\<And>n r. x = Holding n r \<Longrightarrow> holds_view held w (key_of dg (obs i)) r" "\<And>d. x = Finished d \<Longrightarrow> id_action d \<noteq> Send"
  shows "race_invariant held dg obs (w, out(i := x))"
  unfolding race_invariant_def fst_conv snd_conv
proof (intro conjI allI impI)
  fix a b g assume s: "key_of dg (obs a) = key_of dg (obs b) \<and> sent_with dg (key_of dg (obs a)) ((out(i := x)) a) g
      \<and> sent_with dg (key_of dg (obs b)) ((out(i := x)) b) g"
  then have "a \<noteq> i" "b \<noteq> i" using unsent by auto
  then have "sent_with dg (key_of dg (obs a)) (out a) g" "sent_with dg (key_of dg (obs b)) (out b) g"
    using s by (metis fun_upd_other)+
  with s show "a = b" using race_parts(4) [OF inv] by blast
next
  fix a g assume s: "sent_with dg (key_of dg (obs a)) ((out(i := x)) a) g"
  then have "a \<noteq> i" using unsent by auto
  with s show "\<exists>v y. held w (key_of dg (obs a)) = Some (v, y) \<and> g \<le> generation_of y" using race_parts(3) [OF inv, of a g] by simp
next
  fix a d assume "(out(i := x)) a = Finished d \<and> id_action d = Send"
  then show "\<exists>g. sent_with dg (key_of dg (obs a)) ((out(i := x)) a) g"
    using assms(4) race_parts(2) [OF inv, of a d] by (cases "a = i") auto
next
  fix a n r assume "(out(i := x)) a = Holding n r"
  then show "holds_view held w (key_of dg (obs a)) r" using assms(3) race_parts(1) [OF inv, of a n r] by (cases "a = i") auto
qed

lemma invariant_send:
  assumes inv: "race_invariant held dg obs (w', out)" and tells: "digest_tells dg" and "\<forall>g. \<not> sent_with dg (key_of dg (obs i)) (out i) g"
    and sent: "sent_with dg (key_of dg (obs i)) (Finished d) g" and held: "held w' (key_of dg (obs i)) = Some (v, x)" "g \<le> generation_of x"
    and fresh: "\<And>j g'. key_of dg (obs j) = key_of dg (obs i) \<Longrightarrow> sent_with dg (key_of dg (obs j)) (out j) g' \<Longrightarrow> g' < g"
  shows "race_invariant held dg obs (w', out(i := Finished d))"
proof -
  have one: "g' = g" if "sent_with dg (key_of dg (obs i)) (Finished d) g'" for g'
    using sent_with_one [OF tells] that sent by blast
  show ?thesis
    unfolding race_invariant_def fst_conv snd_conv
  proof (intro conjI allI impI)
    fix a b g' assume s: "key_of dg (obs a) = key_of dg (obs b) \<and> sent_with dg (key_of dg (obs a)) ((out(i := Finished d)) a) g'
        \<and> sent_with dg (key_of dg (obs b)) ((out(i := Finished d)) b) g'"
    have "b = i" if "a = i"
    proof (rule ccontr)
      assume "b \<noteq> i"
      with s that have "sent_with dg (key_of dg (obs b)) (out b) g'" "key_of dg (obs b) = key_of dg (obs i)"
        "sent_with dg (key_of dg (obs i)) (Finished d) g'" by auto
      from fresh [OF this(2,1)] one [OF this(3)] show False by simp
    qed
    moreover have "a = i" if "b = i"
    proof (rule ccontr)
      assume "a \<noteq> i"
      with s that have "sent_with dg (key_of dg (obs a)) (out a) g'" "key_of dg (obs a) = key_of dg (obs i)"
        "sent_with dg (key_of dg (obs i)) (Finished d) g'" by auto
      from fresh [OF this(2,1)] one [OF this(3)] show False by simp
    qed
    moreover have "a = b" if "a \<noteq> i" "b \<noteq> i"
    proof -
      from s that have "sent_with dg (key_of dg (obs a)) (out a) g'" "sent_with dg (key_of dg (obs b)) (out b) g'"
        by (metis fun_upd_other)+
      with s show ?thesis using race_parts(4) [OF inv] by blast
    qed
    ultimately show "a = b" by blast
  next
    fix a g' assume "sent_with dg (key_of dg (obs a)) ((out(i := Finished d)) a) g'"
    then show "\<exists>v x. held w' (key_of dg (obs a)) = Some (v, x) \<and> g' \<le> generation_of x"
      using race_parts(3) [OF inv, of a g'] held one [of g'] by (cases "a = i") auto
  next
    fix a e assume "(out(i := Finished d)) a = Finished e \<and> id_action e = Send"
    then show "\<exists>g. sent_with dg (key_of dg (obs a)) ((out(i := Finished d)) a) g"
      using race_parts(2) [OF inv, of a e] sent by (cases "a = i") auto
  next
    fix a n r assume "(out(i := Finished d)) a = Holding n r"
    then show "holds_view held w' (key_of dg (obs a)) r" using race_parts(1) [OF inv, of a n r] by (cases "a = i") auto
  qed
qed

lemma invariant_step:
  assumes "marker_laws ms held" "digest_tells dg" "\<And>w w'. env w w' \<Longrightarrow> markers_advance held w w'"
    and "tracker_step ms dg obs env c c'" "race_invariant held dg obs c"
  shows "race_invariant held dg obs c'"
  using assms(4)
proof cases
  case (reads out i n w r w')
  then have "race_invariant held dg obs (w', out)" 
    using invariant_advances [OF _ markers_advance_same] view_read(2) [OF assms(1) reads(4)] assms(5) by simp
  then show ?thesis unfolding reads(2)
    by (rule invariant_quiet_step) (use view_read(1) [OF assms(1) reads(4)] in auto)
next
  case (read_fails out i n w e w')
  then have "race_invariant held dg obs (w', out)"
    using invariant_advances [OF _ markers_advance_same] read_marker_result(1) [OF assms(1) read_fails(4)] assms(5) by simp
  then show ?thesis unfolding read_fails(2) by (rule invariant_quiet_step) auto
next
  case (gives_up out i w)
  then show ?thesis using assms(5) unfolding gives_up(1,2) by (intro invariant_quiet_step) auto
next
  case (is_beaten out i n r w w')
  have v: "holds_view held w (key_of dg (obs i)) r" using race_parts(1) [of held dg obs w out i n r] assms(5) is_beaten(1,3) by simp
  have "race_invariant held dg obs (w', out)"
    using invariant_advances [OF _ mark_outcome(1) [OF assms(1) v is_beaten(4)]] assms(5) is_beaten(1) by simp
  then show ?thesis unfolding is_beaten(2) by (rule invariant_quiet_step) auto
next
  case (mark_fails out i n r w e w')
  have v: "holds_view held w (key_of dg (obs i)) r" using race_parts(1) [of held dg obs w out i n r] assms(5) mark_fails(1,3) by simp
  have "race_invariant held dg obs (w', out)"
    using invariant_advances [OF _ mark_outcome(1) [OF assms(1) v mark_fails(4)]] assms(5) mark_fails(1) by simp
  then show ?thesis unfolding mark_fails(2) by (rule invariant_quiet_step) auto
next
  case (others w w' out)
  then show ?thesis using invariant_advances [OF _ assms(3)] assms(5) by simp
next
  case (marks out i n r w d w')
  have v: "holds_view held w (key_of dg (obs i)) r" using race_parts(1) [of held dg obs w out i n r] assms(5) marks(1,3) by simp
  have inv: "race_invariant held dg obs (w', out)"
    using invariant_advances [OF _ mark_outcome(1) [OF assms(1) v marks(4)]] assms(5) marks(1) by simp
  show ?thesis
  proof (cases "id_action d = Send")
    case False
    then show ?thesis using inv unfolding marks(2) by (intro invariant_quiet_step) (auto simp: sent_with_def)
  next
    case True
    obtain g xs u val where g: "id_transition_key d = PStr (dg (PStr (key_of dg (obs i)) # PInt g # xs))"
      "id_incident_key d = Some (key_of dg (obs i))" "\<forall>u y. held w (key_of dg (obs i)) = Some (u, y) \<longrightarrow> generation_of y < g"
      "held w' (key_of dg (obs i)) = Some (u, PDict val)" "generation_of (PDict val) = g"
      using mark_outcome(2) [OF assms(1) v marks(4) refl True] by blast
    have fresh: "g' < g" if "key_of dg (obs j) = key_of dg (obs i)" "sent_with dg (key_of dg (obs j)) (out j) g'" for j g'
      using race_parts(3) [OF assms(5) [unfolded marks(1)] that(2)] g(3) that(1) by fastforce
    show ?thesis unfolding marks(2)
    proof (rule invariant_send [OF inv assms(2) _ _ g(4)])
      show "sent_with dg (key_of dg (obs i)) (Finished d) g" using True g(1,2) by (auto simp: sent_with_def)
    qed (use marks(3) g(5) fresh in simp_all)
  qed
qed

lemma invariant_reachable:
  assumes "marker_laws ms held" "digest_tells dg" "\<And>w w'. env w w' \<Longrightarrow> markers_advance held w w'"
    and "(tracker_step ms dg obs env)\<^sup>*\<^sup>* (w0, \<lambda>_. Reading 8) c"
  shows "race_invariant held dg obs c"
  using assms(4)
proof (induction rule: rtranclp_induct)
  case base
  then show ?case by (simp add: race_invariant_def)
next
  case (step c1 c2)
  show ?case using invariant_step [OF assms(1,2) _ step(2,3)] assms(3) by blast
qed

section \<open>What one observation returns\<close>

definition found_marker :: "(int \<times> pyval) option \<Rightarrow> pyval dict \<Rightarrow> bool" where
  "found_marker h previous \<longleftrightarrow>
     (case h of None \<Rightarrow> previous = no_marker | Some (v, x) \<Rightarrow> x = PDict previous \<and> marker_complete previous = Inr True)"

lemma found_marker_unique: "found_marker h d \<Longrightarrow> found_marker h e \<Longrightarrow> d = e"
  by (auto simp: found_marker_def split: option.splits prod.splits)

lemma loop_result:
  assumes "marker_laws ms held" "observe_loop n ms dg k o1 w = (Inr d, w')"
  shows "\<exists>previous val. found_marker (held w k) previous \<and> next_marker dg k o1 previous = (id_action d, id_transition_key d, val)
     \<and> id_incident_key d = Some k
     \<and> (py_eq (PDict val) (PDict previous) \<and> held w' = held w \<or> (\<exists>v e. held w' k = Some (v, PDict e) \<and> same_fields val e))"
  using assms(2)
proof (induction n arbitrary: w)
  case (Suc n)
  obtain r w1 where r: "read_marker ms k w = (Inr r, w1)"
    and rest: "bindIO (try_mark ms dg k o1 r) (\<lambda>d. case d of Some x \<Rightarrow> returnIO x | None \<Rightarrow> observe_loop n ms dg k o1) w1 = (Inr d, w')"
    using Suc.prems by (auto simp: bindIO_Inr)
  note same = read_marker_result [OF assms(1) r]
  have found: "found_marker (held w k) (previous_marker (snd r))"
    using same(2) [of "fst r" "snd r"] by (cases "held w k") (auto simp: found_marker_def previous_marker_def)
  obtain act t val where n: "next_marker dg k o1 (previous_marker (snd r)) = (act, t, val)" by (metis prod_cases3)
  obtain y w2 where y: "try_mark ms dg k o1 r w1 = (Inr y, w2)"
    and z: "(case y of Some x \<Rightarrow> returnIO x | None \<Rightarrow> observe_loop n ms dg k o1) w2 = (Inr d, w')"
    using rest by (auto simp: bindIO_Inr)
  obtain b w3 where b: "ms_compare_and_set ms k (fst r) val w1 = (b, w3)" by (rule prod.exhaust)
  note cas = marker_laws_cas [OF assms(1) b]
  let ?d = "\<lparr> id_action = act, id_incident_key = Some k, id_transition_key = t \<rparr>"
  show ?case
  proof (cases "py_eq (PDict val) (PDict (previous_marker (snd r)))")
    case True
    then have "y = Some ?d" "w2 = w1" using y by (auto simp: try_mark_def Let_def n returnIO_eq)
    with z True found n same(1) show ?thesis by (auto simp: returnIO_eq)
  next
    case False
    then have m: "b = Inr (y \<noteq> None)" "w2 = w3" "y \<noteq> None \<Longrightarrow> y = Some ?d"
      using y by (auto simp: try_mark_def Let_def n returnIO_eq bindIO_Inr b split: if_splits)
    show ?thesis
    proof (cases y)
      case None
      with m cas(2) same(1) have "held w2 = held w" by simp
      with Suc.IH [of w2] z None show ?thesis by simp
    next
      case (Some x)
      with m have "marker_written held k (fst r) val w1 w2" using cas(1) by simp
      with Some m z found n show ?thesis by (auto simp: marker_written_def returnIO_eq)
    qed
  qed
qed simp

lemma observe_result:
  assumes "marker_laws ms held" "observe ms dg o1 w = (Inr d, w')" "observable o1"
  shows "\<exists>previous val. found_marker (held w (key_of dg o1)) previous
     \<and> next_marker dg (key_of dg o1) o1 previous = (id_action d, id_transition_key d, val)
     \<and> (py_eq (PDict val) (PDict previous) \<and> held w' = held w \<or> (\<exists>v e. held w' (key_of dg o1) = Some (v, PDict e) \<and> same_fields val e))"
  using loop_result [OF assms(1), of 8 dg "key_of dg o1" o1 w d w'] assms(2,3)
  by (auto simp: observe_def key_of_def split: if_splits)

lemma inactive_found:
  assumes "found_marker h previous" "py_eq (PBool False) (pget previous ''active'')"
  shows "pget previous ''active'' = PBool False"
  using assms by (cases h) (auto simp: found_marker_def marker_complete_def no_marker_def pget_def dget_or_def num_eq_def feq_def split: if_splits)

section \<open>Properties\<close>

text \<open>
  Property C10. A transition of an incident is sent by one worker: however the reads and
  compare-and-sets of any number of workers interleave, with each other and with whatever else
  advances the markers, two workers that both decided to send the same transition are the same
  worker, and the marker of what was sent is in the store. A write that failed with an
  exception, and so may have happened, gives nobody a second send.
\<close>

theorem each_transition_is_sent_once:
  assumes "marker_laws ms held" "digest_tells dg" "\<And>w w'. env w w' \<Longrightarrow> markers_advance held w w'"
    and "(tracker_step ms dg obs env)\<^sup>*\<^sup>* (w0, \<lambda>_. Reading 8) (w, out)"
    and "out i = Finished d" "id_action d = Send" "out j = Finished d'" "id_action d' = Send"
    and "id_transition_key d' = id_transition_key d"
  shows "i = j \<and> (\<exists>v x g xs. held w (key_of dg (obs i)) = Some (v, x) \<and> g \<le> generation_of x
     \<and> id_transition_key d = PStr (dg (PStr (key_of dg (obs i)) # PInt g # xs)))"
proof -
  have inv: "race_invariant held dg obs (w, out)" by (rule invariant_reachable [OF assms(1,2) _ assms(4)]) (rule assms(3))
  obtain g where g: "sent_with dg (key_of dg (obs i)) (out i) g" using race_parts(2) [OF inv assms(5,6)] by blast
  obtain g' where g': "sent_with dg (key_of dg (obs j)) (out j) g'" using race_parts(2) [OF inv assms(7,8)] by blast
  obtain xs xs' where t: "id_transition_key d = PStr (dg (PStr (key_of dg (obs i)) # PInt g # xs))"
    "id_transition_key d' = PStr (dg (PStr (key_of dg (obs j)) # PInt g' # xs'))"
    using g g' by (auto simp: sent_with_def assms(5,7))
  then have "dg (PStr (key_of dg (obs i)) # PInt g # xs) = dg (PStr (key_of dg (obs j)) # PInt g' # xs')" using assms(9) by simp
  from digest_tells_eq [OF assms(2) this] have "key_of dg (obs i) = key_of dg (obs j)" "g = g'" by simp_all
  with race_parts(4) [OF inv _ g] g' have "i = j" by blast
  with race_parts(3) [OF inv g] t(1) show ?thesis by blast
qed


text \<open>A store and a digest to show that the hypotheses can hold.\<close>

definition map_markers :: "(string \<rightharpoonup> int \<times> pyval) marker_store" where
  "map_markers =
     \<lparr> ms_read = (\<lambda>k w. (Inr (map_option fst (w k), map_option snd (w k)), w)),
       ms_compare_and_set = (\<lambda>k v d w.
         if map_option fst (w k) = v then (Inr True, w(k \<mapsto> (case v of None \<Rightarrow> 1 | Some x \<Rightarrow> x + 1, PDict d))) else (Inr False, w)) \<rparr>"

lemma map_markers_laws: "marker_laws map_markers (\<lambda>w. w)"
  by (auto simp: marker_laws_def map_markers_def intro!: marker_written_exact split: option.split)

definition counting_digest :: digest where
  "counting_digest parts =
     (case parts of
        PStr k # PInt g # _ \<Rightarrow> (if g < 0 then ''2'' else []) @ replicate (nat \<bar>g\<bar>) (CHR ''1'') @ CHR ''0'' # k
      | _ \<Rightarrow> ''x'')"

lemma replicate_marker: "a \<noteq> b \<Longrightarrow> replicate n a @ b # xs = replicate m a @ b # ys \<Longrightarrow> n = m \<and> xs = ys"
proof (induction n arbitrary: m)
  case 0
  then show ?case by (cases m) auto
next
  case (Suc n)
  then show ?case by (cases m) auto
qed

lemma replicate_first: "a \<noteq> c \<Longrightarrow> b \<noteq> c \<Longrightarrow> replicate n a @ b # xs \<noteq> c # ys"
  by (cases n) auto

lemma counting_digest_tells: "digest_tells counting_digest"
proof -
  have "k = k' \<and> g = g'" if "counting_digest (PStr k # PInt g # xs) = counting_digest (PStr k' # PInt g' # xs')" for k g xs k' g' xs'
  proof (cases "(g < 0) = (g' < 0)")
    case True
    then have "replicate (nat \<bar>g\<bar>) (CHR ''1'') @ CHR ''0'' # k = replicate (nat \<bar>g'\<bar>) (CHR ''1'') @ CHR ''0'' # k'"
      using that by (auto simp: counting_digest_def split: if_splits)
    from replicate_marker [OF _ this] True show ?thesis by auto
  next
    case False
    then show ?thesis using that replicate_first [of "CHR ''1''" "CHR ''2''" "CHR ''0''"]
      by (auto simp: counting_digest_def split: if_splits) metis+
  qed
  then show ?thesis unfolding digest_tells_def by blast
qed

definition sample_moment :: moment where
  "sample_moment = \<lparr> mo_text = ''2026-03-02T22:00:00+00:00'', mo_micros = (739677 * 24 + 22) * hour_micros \<rparr>"

definition sample_event :: notice_event where
  "sample_event =
     \<lparr> ev_kind = ''real_error'', ev_occurred_at = sample_moment, ev_platform_id = PStr ''firstrade'', ev_opaque_account_uid = PStr ''u'',
       ev_target_id = PStr ''t'', ev_strategy_profile = PStr ''soxl'', ev_source_run_id = PStr ''r'', ev_order_execution_digest = None,
       ev_incident_reason = Some ''cycle_real_error'', ev_order_count = PNone, ev_fill_count = PNone, ev_expected_block_evidence = PNone \<rparr>"

definition sample_incident :: "int \<Rightarrow> bool \<Rightarrow> observation_of_incident" where
  "sample_incident severity recovered =
     \<lparr> oi_event = sample_event, oi_state = ''real_error'', oi_severity = severity, oi_recovered = recovered \<rparr>"

definition observed_after :: "(int \<times> bool) list \<Rightarrow> (string \<rightharpoonup> int \<times> pyval)" where
  "observed_after os = foldl (\<lambda>w (s, r). snd (observe map_markers counting_digest (sample_incident s r) w)) Map.empty os"

lemma sample_observations:
  "map_sum id id_action (fst (observe map_markers counting_digest (sample_incident 1 False) (observed_after []))) = Inr Send"
  "map_sum id id_action (fst (observe map_markers counting_digest (sample_incident 1 False) (observed_after [(1, False)]))) = Inr Duplicate"
  "map_sum id id_action (fst (observe map_markers counting_digest (sample_incident 2 False) (observed_after [(1, False), (1, False)]))) = Inr Send"
  "map_sum id id_action (fst (observe map_markers counting_digest (sample_incident 1 True) (observed_after [(1, False)]))) = Inr Recovered"
  "observable (sample_incident s r)"
  by code_simp+

lemma observed_action:
  assumes "map_sum id id_action (fst m) = Inr a"
  obtains d w' where "m = (Inr d, w')" "id_action d = a"
  using assms by (cases m; cases "fst m") auto


theorem each_transition_is_sent_once_witness:
  "\<exists>w out d d'. (tracker_step map_markers counting_digest (\<lambda>_. sample_incident 1 False) (=))\<^sup>*\<^sup>* (Map.empty, \<lambda>_ :: bool. Reading 8) (w, out)
     \<and> out True = Finished d \<and> id_action d = Send \<and> out False = Finished d' \<and> id_action d' = Duplicate
     \<and> (\<exists>v x. w (key_of counting_digest (sample_incident 1 False)) = Some (v, x) \<and> 1 \<le> generation_of x)"
proof -
  let ?o = "sample_incident 1 False" and ?k = "key_of counting_digest (sample_incident 1 False)"
  let ?step = "tracker_step map_markers counting_digest (\<lambda>_ :: bool. ?o) (=)"
  have loop: "observe map_markers counting_digest ?o = observe_loop 8 map_markers counting_digest ?k ?o"
  proof -
    have "observable ?o" "state_valid ?o" by code_simp+
    then show ?thesis by (simp add: observe_def key_of_def)
  qed
  obtain d w1 where 1: "observe_loop 8 map_markers counting_digest ?k ?o Map.empty = (Inr d, w1)" "id_action d = Send"
    by (rule observed_action [OF sample_observations(1) [unfolded observed_after_def foldl.simps loop]])
  then have w1: "w1 = observed_after [(1, False)]" by (simp add: observed_after_def loop)
  obtain d' w2 where 2: "observe_loop 8 map_markers counting_digest ?k ?o w1 = (Inr d', w2)" "id_action d' = Duplicate"
    unfolding w1 by (rule observed_action [OF sample_observations(2) [unfolded loop]])
  let ?start = "\<lambda>_ :: bool. Reading 8" and ?one = "(\<lambda>_ :: bool. Reading 8)(True := Finished d)"
  have same: "?start(True := Reading 8) = ?start" "?one(False := Reading 8) = ?one" by (auto simp: fun_eq_iff)
  have first: "?step\<^sup>*\<^sup>* (Map.empty, ?start(True := Reading 8)) (w1, ?one)"
    using loop_is_steps [of 8 map_markers counting_digest "\<lambda>_. ?o" True Map.empty "Inr d" w1 "(=)" ?start] 1(1) by (simp only: sum.case)
  have second: "?step\<^sup>*\<^sup>* (w1, ?one(False := Reading 8)) (w2, ?one(False := Finished d'))"
    using loop_is_steps [of 8 map_markers counting_digest "\<lambda>_. ?o" False w1 "Inr d'" w2 "(=)" ?one] 2(1) by (simp only: sum.case)
  have reach: "?step\<^sup>*\<^sup>* (Map.empty, ?start) (w2, ?one(False := Finished d'))"
    by (rule rtranclp_trans [OF first [unfolded same] second [unfolded same]])
  have adv: "w = w' \<Longrightarrow> markers_advance (\<lambda>w. w) w w'" for w w' :: "string \<rightharpoonup> int \<times> pyval" by (simp add: markers_advance_refl)
  have out: "(?one(False := Finished d')) True = Finished d" "(?one(False := Finished d')) False = Finished d'" by simp_all
  from each_transition_is_sent_once [OF map_markers_laws counting_digest_tells adv reach out(1) 1(2) out(1) 1(2) refl]
  obtain v x g xs where "w2 ?k = Some (v, x)" "g \<le> generation_of x" by blast
  moreover have "case observed_after [(1, False), (1, False)] ?k of Some (v, x) \<Rightarrow> 1 \<le> generation_of x | None \<Rightarrow> False" by code_simp
  moreover have "w2 = observed_after [(1, False), (1, False)]" using 1(1) 2(1) w1 by (simp add: observed_after_def loop)
  ultimately have "\<exists>v x. w2 ?k = Some (v, x) \<and> 1 \<le> generation_of x" by auto
  then show ?thesis
    by (intro exI [of _ w2] exI [of _ "?one(False := Finished d')"] exI [of _ d] exI [of _ d'] conjI) (use reach out 1(2) 2(2) in simp_all)
qed

end
