(* ===== verification/CandidateRuns.thy ===== *)
theory CandidateRuns
  imports Incidents SessionCheck
begin

text \<open>
  The daily candidates: the bindings and rows of \<open>notifications/unified.py\<close>, the projection of
  reports in \<open>notifications/digest_snapshot/digest_candidates.py\<close>, and the merge of the runs of a
  day into their object. \<open>loads\<close> is \<open>json.loads\<close>; \<open>from_iso\<close> is \<open>datetime.fromisoformat\<close>, nothing
  where the time has no zone. Keys of the event ledger are texts.
\<close>

section \<open>Values\<close>

definition mapping_of :: "pyval \<Rightarrow> pyval dict exc" where
  "mapping_of v = (case v of PDict d \<Rightarrow> Inr d | _ \<Rightarrow> Inl (no_attribute ''get''))"

text \<open>\<open>d.get(key) or {}\<close> where a mapping is read from it.\<close>

definition mapping_at :: "pyval dict \<Rightarrow> string \<Rightarrow> pyval dict exc" where
  "mapping_at d k = mapping_of (py_or (pget d k) (PDict []))"

text \<open>\<open>value in {...}\<close> of texts; a list or a dictionary cannot be hashed.\<close>

definition is_member :: "pyval \<Rightarrow> string list \<Rightarrow> bool exc" where
  "is_member v xs =
     (case v of
        PStr s \<Rightarrow> Inr (s \<in> set xs)
      | PList _ \<Rightarrow> Inl (TypeError ''unhashable type: list'')
      | PDict _ \<Rightarrow> Inl (TypeError ''unhashable type: dict'')
      | _ \<Rightarrow> Inr False)"

fun py_whole :: "pyval \<Rightarrow> int exc" where
  "py_whole (PInt n) = Inr n"
| "py_whole (PBool b) = Inr (if b then 1 else 0)"
| "py_whole _ = Inl (TypeError ''unsupported operand'')"

definition py_number :: "pyval \<Rightarrow> pyfloat exc" where
  "py_number v = (case v of PFloat x \<Rightarrow> Inr x | _ \<Rightarrow> bindE (py_whole v) float_of_int)"

fun py_add :: "pyval \<Rightarrow> pyval \<Rightarrow> pyval exc" where
  "py_add (PFloat x) b = bindE (py_number b) (\<lambda>y. Inr (PFloat (x + y)))"
| "py_add a (PFloat y) = bindE (py_number a) (\<lambda>x. Inr (PFloat (x + y)))"
| "py_add a b = bindE (py_whole a) (\<lambda>m. bindE (py_whole b) (\<lambda>n. Inr (PInt (m + n))))"

definition later_text :: "pyval \<Rightarrow> pyval \<Rightarrow> pyval exc" where
  "later_text a b =
     (case (a, b) of (PStr s, PStr t) \<Rightarrow> Inr (PStr (if s < t then t else s)) | _ \<Rightarrow> Inl (TypeError ''not comparable''))"

definition json_of :: "(string \<Rightarrow> pyval exc) \<Rightarrow> pyval \<Rightarrow> pyval exc" where
  "json_of loads v = (case v of PStr s \<Rightarrow> loads s | _ \<Rightarrow> Inl (TypeError ''the JSON object must be str, bytes or bytearray''))"

section \<open>Bindings\<close>

definition target_keys :: "string list" where
  "target_keys = [''platform_id'', ''strategy_profile'', ''service_name'', ''account_scope'', ''account_selector'',
     ''deployment_selector'', ''dry_run_only'']"

definition bindings_key :: string where
  "bindings_key = ''DIGEST_TARGET_BINDINGS_JSON''"

definition override_key :: string where
  "override_key = ''DIGEST_CANDIDATES_OVERRIDE_GCS_URI''"

definition marker_uri_key :: string where
  "marker_uri_key = ''QSL_NOTIFICATION_MARKER_GCS_URI''"

definition candidates_uri_key :: string where
  "candidates_uri_key = ''DIGEST_CANDIDATES_GCS_URI''"

text \<open>\<open>gs://[a-z0-9][a-z0-9._-]+/[^\s?#*]+\<close>.\<close>

definition bucket_char :: "char \<Rightarrow> bool" where
  "bucket_char c \<longleftrightarrow> is_digit c \<or> is_lower c"

definition is_store_uri :: "string \<Rightarrow> bool" where
  "is_store_uri s \<longleftrightarrow>
     (case partition_at (CHR ''/'') (drop 5 s) of
        (name, slash, key) \<Rightarrow> starts_with s ''gs://'' \<and> slash \<and> key \<noteq> [] \<and> 2 \<le> length name \<and> bucket_char (hd name)
          \<and> list_all (\<lambda>c. bucket_char c \<or> c \<in> set ''._-'') (tl name)
          \<and> list_all (\<lambda>c. \<not> is_space c \<and> c \<notin> set ''?#*'') key)"

definition override_valid :: "string \<Rightarrow> bool" where
  "override_valid s \<longleftrightarrow>
     is_store_uri s \<and> list_all (\<lambda>part. part \<notin> {[], ''.'', ''..''}) (tl (split_on (CHR ''/'') (rstrip_chars ''/'' (drop 5 s))))"

definition store_missing :: pyexc where
  "store_missing = ValueError ''candidate_store_configuration_missing''"

definition override_binding :: "string \<Rightarrow> pyval dict \<Rightarrow> pyval dict exc" where
  "override_binding uri b =
     (let marker = py_or (pget b marker_uri_key) (pget b candidates_uri_key) in
      if \<not> truthy marker then Inl store_missing
      else Inr (dset (dset (dset b marker_uri_key marker) candidates_uri_key (PStr uri)) override_key (PStr uri)))"

definition bindings_of :: "(string \<Rightarrow> pyval exc) \<Rightarrow> pyval dict \<Rightarrow> pyval dict list exc" where
  "bindings_of loads env =
     bindE (let raw = dget_or env bindings_key (PStr []) in if truthy raw then json_of loads raw else Inr (PList [PDict []])) (\<lambda>values.
     bindE (case values of
         PList (x # xs) \<Rightarrow> if list_all is_dict (x # xs) then mapE as_dict (x # xs) else Inl (ValueError ''candidate_bindings_invalid'')
       | _ \<Rightarrow> Inl (ValueError ''candidate_bindings_invalid'')) (\<lambda>ds.
     let bindings = map (\<lambda>d. dset (dupdate env d) bindings_key (PStr [])) ds;
         override = dget_or env override_key (PStr [])
     in if \<not> truthy override then Inr bindings
        else case override of
          PStr s \<Rightarrow>
            (let uri = rstrip_chars ''/'' s in
             if \<not> override_valid uri then Inl store_missing else mapE (override_binding uri) bindings)
        | _ \<Rightarrow> Inl store_missing))"

definition same_target :: "pyval dict \<Rightarrow> pyval dict \<Rightarrow> bool" where
  "same_target target actual \<longleftrightarrow> list_all (\<lambda>k. py_eq (pget target k) (pget actual k)) target_keys"

text \<open>The target of a binding that names the report's; nothing for another target.\<close>

definition matching_target :: "(string \<Rightarrow> pyval exc) \<Rightarrow> pyval dict \<Rightarrow> pyval dict \<Rightarrow> pyval dict option exc" where
  "matching_target loads report b =
     bindE (bindE (json_of loads (dget_or b ''RUNTIME_TARGET_JSON'' (PStr ''{}''))) mapping_of) (\<lambda>target.
     bindE (mapping_at report ''runtime_target'') (\<lambda>actual.
     if \<not> same_target target actual then Inr None
     else if pget b ''RUNTIME_TARGET_ENABLED'' \<noteq> PStr ''true'' then Inl (ValueError ''candidate_target_enablement_unknown_or_disabled'')
     else if list_ex (\<lambda>k. k \<noteq> ''dry_run_only'' \<and> \<not> truthy (pget target k)) target_keys then Inl (ValueError ''candidate_target_invalid'')
     else if pget target ''platform_id'' \<noteq> PStr ''firstrade'' then Inl (ValueError ''candidate_platform_mismatch'')
     else Inr (Some target)))"

text \<open>\<open>_SAFE\<close>: a letter or digit, then up to forty letters, digits, underscores or dashes.\<close>

definition is_safe_slot :: "string \<Rightarrow> bool" where
  "is_safe_slot s \<longleftrightarrow>
     (case s of [] \<Rightarrow> False | c # r \<Rightarrow> bucket_char c \<and> length r \<le> 40 \<and> list_all (\<lambda>x. bucket_char x \<or> x \<in> set ''_-'') r)"

definition binding_of :: "(string \<Rightarrow> pyval exc) \<Rightarrow> pyval dict \<Rightarrow> pyval dict \<Rightarrow> (pyval dict \<times> pyval dict) exc" where
  "binding_of loads env report =
     bindE (bindings_of loads env) (\<lambda>bs.
     bindE (mapE (\<lambda>b. bindE (matching_target loads report b) (\<lambda>t. Inr (b, t))) bs) (\<lambda>ms.
     case filter (\<lambda>(b, t). t \<noteq> None) ms of
       [(b, Some target)] \<Rightarrow>
         if list_ex (\<lambda>k. py_strip (str_or (pget b k)) = [])
              [''DIGEST_OPAQUE_ACCOUNT_UID'', ''DIGEST_TARGET_ID'', candidates_uri_key, ''DIGEST_STORE_TARGET'']
         then Inl (ValueError ''candidate_store_identity_missing'')
         else (case pget b ''DIGEST_STORE_TARGET'' of
             PStr slot \<Rightarrow> if is_safe_slot slot then Inr (b, target) else Inl (ValueError ''candidate_store_identity_invalid'')
           | _ \<Rightarrow> Inl (TypeError ''expected string or bytes-like object''))
     | _ \<Rightarrow> Inl (ValueError ''candidate_source_identity_mismatch'')))"

section \<open>Projected reports\<close>

type_synonym iso_parser = "string \<Rightarrow> moment option exc"

definition started_at :: "iso_parser \<Rightarrow> pyval dict \<Rightarrow> moment option exc" where
  "started_at from_iso report = from_iso (zulu (py_str (dget_or report ''started_at'' (PStr []))))"

definition is_type_int :: "pyval \<Rightarrow> bool" where
  "is_type_int v \<longleftrightarrow> (case v of PInt _ \<Rightarrow> True | _ \<Rightarrow> False)"

definition expected_target_valid :: "pyval dict \<Rightarrow> bool" where
  "expected_target_valid t \<longleftrightarrow>
     set target_keys \<subseteq> set (dkeys t) \<and> pget t ''dry_run_only'' = PBool False
     \<and> list_all (\<lambda>k. identity_present (pget t k)) [''platform_id'', ''strategy_profile'', ''service_name'', ''account_scope'', ''deployment_selector'']
     \<and> (case pget t ''account_selector'' of PList xs \<Rightarrow> xs \<noteq> [] \<and> list_all identity_present xs | _ \<Rightarrow> False)"

definition facts_known :: "pyval dict \<Rightarrow> bool" where
  "facts_known facts \<longleftrightarrow>
     pget facts ''schema_version'' = PStr ''qsl.notification_cycle.v1'' \<and> pget facts ''dry_run'' = PBool False
     \<and> is_natural (pget facts ''order_count'')
     \<and> (pget facts ''fill_count'' = PNone \<or> is_natural (pget facts ''fill_count''))"

definition fresh_row :: "pyval dict \<Rightarrow> pyval \<Rightarrow> pyval \<Rightarrow> string \<Rightarrow> moment \<Rightarrow> pyval dict" where
  "fresh_row t uid tid day0 stamp0 =
     [(''platform_id'', pget t ''platform_id''), (''strategy_profile'', pget t ''strategy_profile''), (''opaque_account_uid'', uid),
      (''target_id'', tid), (''business_day'', PStr day0), (''actually_ran'', PBool True), (''as_of'', PStr (mo_text stamp0)),
      (''status'', PStr ''ok''), (''fill_count'', PInt 0), (''order_count'', PInt 0), (''cycle_count'', PInt 0), (''field_status'', PDict []),
      (''evidence_provenance'', PStr ''candidates''), (''persistence_status'', PStr ''persisted''),
      (''delivery_status'', PStr ''pending_central'')]"

definition count_field :: "pyval dict \<Rightarrow> bool \<Rightarrow> pyval dict \<Rightarrow> string \<Rightarrow> pyval dict exc" where
  "count_field facts known row k =
     bindE (if known \<and> is_type_int (pget facts k) \<and> pget row k \<noteq> PNone then py_add (pget row k) (pget facts k) else Inr PNone) (\<lambda>n.
     bindE (mapping_of (pget row ''field_status'')) (\<lambda>fs.
     Inr (dset (dset row k n) ''field_status'' (PDict (dset fs k (PStr (if n = PNone then ''counts_unknown'' else ''known'')))))))"

text \<open>What one report adds to the row of its day.\<close>

definition counted_row :: "pyval dict \<Rightarrow> pyval dict \<Rightarrow> bool \<Rightarrow> moment \<Rightarrow> pyval dict \<Rightarrow> pyval dict exc" where
  "counted_row summary facts error stamp0 row =
     (let known = facts_known facts; alert = (error \<or> \<not> known \<or> pget facts ''routine'' \<noteq> PBool True) in
      bindE (py_add (pget row ''cycle_count'') (PInt 1)) (\<lambda>n.
      bindE (later_text (pget row ''as_of'') (PStr (mo_text stamp0))) (\<lambda>as_of.
      bindE (count_field facts known (dset (dset row ''cycle_count'' n) ''as_of'' as_of) ''fill_count'') (\<lambda>row1.
      bindE (count_field facts known row1 ''order_count'') (\<lambda>row2.
      let pending = (py_lower (str_or (pget summary ''execution_status'')) = ''pending_reconciliation''
            \<and> pget facts ''routine'' = PBool True \<and> truthy (pget facts ''order_count''));
          row3 = (if \<not> alert \<and> pget row2 ''status'' = PStr ''ok''
            then dset row2 ''execution_status'' (PStr
                   (if pending \<or> pget row2 ''execution_status'' = PStr ''order_submitted'' then ''order_submitted''
                    else if truthy (pget row2 ''order_count'') then ''executed'' else ''no_action'')) else row2)
      in Inr (if alert
              then dset (dset (dset row3 ''status'' (PStr ''alert''))
                     ''reason_code'' (PStr (if error then ''source_cycle_alert'' else ''execution_evidence_missing_or_attention'')))
                     ''execution_status'' (PStr (if error then ''execution_alert'' else ''execution_unknown''))
              else row3))))))"

definition source_matches :: "pyval dict \<Rightarrow> pyval dict \<Rightarrow> bool exc" where
  "source_matches t report =
     bindE (if pget report ''schema_version'' = PStr ''runtime_report.v1'' \<and> pget report ''dry_run'' = PBool False
            then is_member (pget report ''platform'')
              (case pget t ''platform_id'' of PStr p \<Rightarrow> if p = ''schwab'' then [''schwab'', ''charles_schwab''] else [p] | _ \<Rightarrow> [])
            else Inr False) (\<lambda>platform.
     Inr (platform \<and> py_eq (pget report ''strategy_profile'') (pget t ''strategy_profile'')
        \<and> py_eq (pget report ''service_name'') (pget t ''service_name'')))"

definition source_moment :: "iso_parser \<Rightarrow> moment \<Rightarrow> pyval dict \<Rightarrow> moment exc" where
  "source_moment from_iso now report =
     bindE (started_at from_iso report) (\<lambda>s. case s of
         None \<Rightarrow> Inl (ValueError ''candidate_source_time_invalid'')
       | Some t \<Rightarrow> if 0 \<le> mo_micros now - mo_micros t \<and> mo_micros now - mo_micros t \<le> 36 * hour_micros then Inr t
                   else Inl (ValueError ''candidate_source_time_invalid''))"

definition error_statuses :: "string list" where
  "error_statuses = [''error'', ''failed'', ''aborted'']"

definition source_error :: "pyval dict \<Rightarrow> bool exc" where
  "source_error report =
     bindE (is_member (pget report ''status'') error_statuses) (\<lambda>bad.
     if bad then Inr True else bindE (mapping_at report ''error_summary'') (\<lambda>es. Inr (truthy (pget es ''errors''))))"

definition project_report ::
  "iso_parser \<Rightarrow> pyval dict \<Rightarrow> pyval \<Rightarrow> pyval \<Rightarrow> moment \<Rightarrow> pyval dict dict \<times> string list \<Rightarrow> pyval dict \<Rightarrow>
   (pyval dict dict \<times> string list) exc" where
  "project_report from_iso t uid tid now acc report =
     (case py_or (pget report ''runtime_target'') (PDict []) of
        PDict actual \<Rightarrow>
          if list_ex (\<lambda>k. \<not> py_eq (pget actual k) (pget t k)) target_keys then Inl (ValueError ''candidate_source_identity_mismatch'')
          else bindE (source_matches t report) (\<lambda>ok.
               bindE (guardE ok (ValueError ''candidate_source_invalid'')) (\<lambda>_.
               bindE (source_moment from_iso now report) (\<lambda>stamp0.
               bindE (is_member (pget report ''status'') [''ok'', ''completed'', ''success'', ''error'', ''aborted'', ''failed'']) (\<lambda>final.
               bindE (guardE final (ValueError ''candidate_source_incomplete'')) (\<lambda>_.
               bindE (case pget report ''run_id'' of PStr r \<Rightarrow> if r = [] then Inl (ValueError ''candidate_run_id_missing'') else Inr r
                      | _ \<Rightarrow> Inl (ValueError ''candidate_run_id_missing'')) (\<lambda>run.
               bindE (guardE (run \<notin> set (snd acc)) (ValueError ''candidate_duplicate_run'')) (\<lambda>_.
               bindE (mapping_at report ''summary'') (\<lambda>summary.
               bindE (mapping_at summary ''notification_digest'') (\<lambda>facts.
               bindE (source_error report) (\<lambda>error.
               let day0 = date_isoformat (business_day stamp0);
                   row = dget_or (fst acc) day0 (fresh_row t uid tid day0 stamp0)
               in bindE (counted_row summary facts error stamp0 row) (\<lambda>row'. Inr (dset (fst acc) day0 row', snd acc @ [run]))))))))))))
      | _ \<Rightarrow> Inl (ValueError ''candidate_source_identity_mismatch''))"

fun project_all ::
  "iso_parser \<Rightarrow> pyval dict \<Rightarrow> pyval \<Rightarrow> pyval \<Rightarrow> moment \<Rightarrow> pyval dict dict \<times> string list \<Rightarrow> pyval dict list \<Rightarrow>
   (pyval dict dict \<times> string list) exc" where
  "project_all from_iso t uid tid now acc [] = Inr acc"
| "project_all from_iso t uid tid now acc (r # rs) =
     bindE (project_report from_iso t uid tid now acc r) (\<lambda>acc'. project_all from_iso t uid tid now acc' rs)"

text \<open>\<open>project_reports\<close>: the rows, which the caller puts into its payload.\<close>

definition project_reports :: "iso_parser \<Rightarrow> pyval dict \<Rightarrow> pyval \<Rightarrow> pyval \<Rightarrow> moment \<Rightarrow> pyval dict list \<Rightarrow> pyval dict list exc" where
  "project_reports from_iso t uid tid now reports =
     (if \<not> identity_present uid \<or> \<not> identity_present tid then Inl (ValueError ''candidate_identity_or_time_missing'')
      else if \<not> expected_target_valid t then Inl (ValueError ''candidate_target_invalid'')
      else bindE (project_all from_iso t uid tid now ([], []) reports) (\<lambda>acc. Inr (map snd (fst acc))))"

section \<open>The row of a report\<close>

definition event_of ::
  "iso_parser \<Rightarrow> pyval dict \<Rightarrow> pyval dict \<Rightarrow> string \<Rightarrow> string option \<Rightarrow> string option \<Rightarrow> notice_event exc" where
  "event_of from_iso report b kind reason order_digest =
     bindE (started_at from_iso report) (\<lambda>stamp0.
     bindE (mapping_at report ''summary'') (\<lambda>summary.
     bindE (mapping_at summary ''notification_digest'') (\<lambda>facts.
     bindE (need b ''DIGEST_OPAQUE_ACCOUNT_UID'') (\<lambda>uid.
     bindE (need b ''DIGEST_TARGET_ID'') (\<lambda>tid.
     checked_event stamp0
       \<lparr> ev_kind = kind, ev_occurred_at = \<lparr> mo_text = [], mo_micros = 0 \<rparr>, ev_platform_id = pget report ''platform'', ev_opaque_account_uid = uid,
         ev_target_id = tid, ev_strategy_profile = pget report ''strategy_profile'', ev_source_run_id = pget report ''run_id'',
         ev_order_execution_digest = order_digest, ev_incident_reason = reason, ev_order_count = pget facts ''order_count'',
         ev_fill_count = pget facts ''fill_count'', ev_expected_block_evidence = PNone \<rparr>)))))"

definition known_or_unknown :: "pyval dict \<Rightarrow> pyval" where
  "known_or_unknown row =
     PDict (map (\<lambda>k. (k, PStr (if pget row k \<noteq> PNone then ''known'' else ''unknown''))) [''order_count'', ''fill_count''])"

text \<open>A preview counts no orders and no fills.\<close>

definition preview_row :: "pyval dict \<Rightarrow> notice_event \<Rightarrow> pyval dict" where
  "preview_row report e =
     [(''platform_id'', ev_platform_id e), (''strategy_profile'', ev_strategy_profile e),
      (''opaque_account_uid'', ev_opaque_account_uid e), (''target_id'', ev_target_id e),
      (''business_day'', PStr (date_isoformat (business_day (ev_occurred_at e)))), (''actually_ran'', PBool True), (''dry_run'', PBool True),
      (''as_of'', PStr (mo_text (ev_occurred_at e))), (''status'', PStr (if pget report ''status'' = PStr ''ok'' then ''ok'' else ''alert'')),
      (''execution_status'', PStr ''dry_run''), (''order_count'', PNone), (''fill_count'', PNone), (''cycle_count'', PInt 1),
      (''evidence_provenance'', PStr ''candidates''),
      (''field_status'', PDict [(''order_count'', PStr ''unknown''), (''fill_count'', PStr ''unknown'')]),
      (''persistence_status'', PStr ''persisted''), (''delivery_status'', PStr ''pending_central'')]"

definition observation_keys :: "string list" where
  "observation_keys = [''watch'', ''opportunity_watch'', ''panic_reversal'', ''taco_rebound'']"

definition with_observations :: "pyval \<Rightarrow> pyval dict \<Rightarrow> pyval dict exc" where
  "with_observations observations row =
     (case observations of
        PNone \<Rightarrow> Inr row
      | PDict d \<Rightarrow> if list_all (\<lambda>(k, v). k \<in> set observation_keys \<and> is_natural v) d
                   then Inr (dset row ''routine_observation_counts'' (PDict d)) else Inl (ValueError ''candidate_plugin_observations_invalid'')
      | _ \<Rightarrow> Inl (ValueError ''candidate_plugin_observations_invalid''))"

definition row_of ::
  "digest \<Rightarrow> iso_parser \<Rightarrow> pyval dict \<Rightarrow> pyval dict \<Rightarrow> pyval dict \<Rightarrow> moment \<Rightarrow> pyval dict exc" where
  "row_of dg from_iso report b target now =
     bindE (if pget report ''dry_run'' = PBool True
            then bindE (event_of from_iso report b ''routine_cycle'' None None) (\<lambda>e.
                 if coverage_known dg e \<and> pget target ''dry_run_only'' = PBool True then Inr (preview_row report e)
                 else Inl (ValueError ''candidate_preview_identity_unknown''))
            else bindE (need b ''DIGEST_OPAQUE_ACCOUNT_UID'') (\<lambda>uid. bindE (need b ''DIGEST_TARGET_ID'') (\<lambda>tid.
                 bindE (project_reports from_iso target uid tid now [report]) (\<lambda>rows. Inr (hd rows))))) (\<lambda>row.
     bindE (mapping_at report ''summary'') (\<lambda>summary.
     bindE (with_observations (pget summary ''routine_observation_counts'') row) (\<lambda>row1.
     Inr (dset row1 ''field_status'' (known_or_unknown row1)))))"

section \<open>Merging the runs of a day\<close>

definition run_identity :: "string list" where
  "run_identity = [''platform_id'', ''strategy_profile'', ''opaque_account_uid'', ''target_id'', ''business_day'', ''dry_run'']"

definition one_identity :: "pyval dict list \<Rightarrow> bool" where
  "one_identity rows \<longleftrightarrow>
     (case rows of [] \<Rightarrow> True
      | r # _ \<Rightarrow> list_all (\<lambda>row. list_all (\<lambda>k. py_eq (pget row k) (pget r k)) run_identity) rows)"

fun sum_field :: "string \<Rightarrow> pyval \<Rightarrow> pyval dict list \<Rightarrow> pyval exc" where
  "sum_field k acc [] = Inr acc"
| "sum_field k acc (r # rs) = bindE (need r k) (\<lambda>v. bindE (py_add acc v) (\<lambda>a. sum_field k a rs))"

fun latest_as_of :: "pyval \<Rightarrow> pyval dict list \<Rightarrow> pyval exc" where
  "latest_as_of m [] = Inr m"
| "latest_as_of m (r # rs) = bindE (need r ''as_of'') (\<lambda>v. bindE (later_text m v) (\<lambda>m'. latest_as_of m' rs))"

fun any_alert :: "pyval dict list \<Rightarrow> bool exc" where
  "any_alert [] = Inr False"
| "any_alert (r # rs) = bindE (need r ''status'') (\<lambda>v. if v = PStr ''alert'' then Inr True else any_alert rs)"

definition summed_count :: "pyval dict list \<Rightarrow> string \<Rightarrow> pyval exc" where
  "summed_count rows k =
     (if list_all (\<lambda>r. is_type_int (pget r k)) rows then sum_field k (PInt 0) rows else Inr PNone)"

definition alert_fields :: "string \<Rightarrow> pyval dict" where
  "alert_fields reason = [(''status'', PStr ''alert''), (''execution_status'', PStr ''execution_unknown''), (''reason_code'', PStr reason)]"

definition aggregate :: "pyval dict list \<Rightarrow> pyval dict exc" where
  "aggregate rows =
     bindE (guardE (one_identity rows) (ValueError ''candidate_identity_conflict'')) (\<lambda>_.
     bindE (sum_field ''cycle_count'' (PInt 0) rows) (\<lambda>cycles.
     bindE (bindE (need (hd rows) ''as_of'') (\<lambda>v. latest_as_of v (tl rows))) (\<lambda>as_of.
     bindE (summed_count rows ''order_count'') (\<lambda>ordered.
     bindE (summed_count rows ''fill_count'') (\<lambda>filled.
     let result = dset (dset (dset (dset (hd rows) ''cycle_count'' cycles) ''as_of'' as_of) ''order_count'' ordered) ''fill_count'' filled;
         result1 = dset result ''field_status'' (known_or_unknown result) in
     bindE (any_alert rows) (\<lambda>alert.
     Inr (if alert then dupdate result1 (alert_fields ''source_cycle_alert'')
          else dset result1 ''execution_status'' (PStr
                 (if list_all (\<lambda>r. pget r ''dry_run'' = PBool True) rows then ''dry_run''
                  else if truthy ordered then ''executed'' else ''no_action'')))))))))"

text \<open>The runs and events that an object already holds.\<close>

type_synonym ledger = "pyval dict dict \<times> pyval dict"

definition event_key :: "pyval \<Rightarrow> string exc" where
  "event_key v =
     (case v of
        PDict d \<Rightarrow> bindE (need d ''dedupe_key'') (\<lambda>k. case k of PStr s \<Rightarrow> Inr s | _ \<Rightarrow> Inl (TypeError ''not comparable''))
      | _ \<Rightarrow> Inl (TypeError ''string indices must be integers''))"

fun keyed_events :: "pyval dict \<Rightarrow> pyval list \<Rightarrow> pyval dict exc" where
  "keyed_events facts [] = Inr facts"
| "keyed_events facts (v # vs) = bindE (event_key v) (\<lambda>k. keyed_events (dset facts k v) vs)"

definition take_run :: "bool \<Rightarrow> ledger \<Rightarrow> pyval \<Rightarrow> ledger exc" where
  "take_run archive l original =
     bindE (mapping_of original) (\<lambda>d.
     if pget d ''actually_ran'' \<noteq> PBool True then Inr l
     else case pget d ''source_run_id'' of
       PStr run \<Rightarrow>
         if py_strip run = [] then (if archive then Inr l else Inl (ValueError ''candidate_legacy_aggregate_requires_archive_refresh''))
         else bindE (py_tuple (dget_or d ''notification_events'' (PList []))) (\<lambda>vs.
              bindE (keyed_events (snd l) vs) (\<lambda>facts.
              Inr (dset (fst l) run (ddel (ddel d ''notification_events'') ''source_run_id''), facts)))
     | _ \<Rightarrow> if archive then Inr l else Inl (ValueError ''candidate_legacy_aggregate_requires_archive_refresh''))"

fun take_runs :: "bool \<Rightarrow> ledger \<Rightarrow> pyval list \<Rightarrow> ledger exc" where
  "take_runs archive l [] = Inr l"
| "take_runs archive l (v # vs) = bindE (take_run archive l v) (\<lambda>l'. take_runs archive l' vs)"

definition kept_ledger :: "bool \<Rightarrow> pyval dict \<Rightarrow> ledger exc" where
  "kept_ledger archive previous =
     bindE (mapping_at previous ''notification_source_runs'') (\<lambda>runs.
     bindE (mapping_at previous ''notification_events'') (\<lambda>facts.
     bindE (mapE (\<lambda>(k, v). bindE (mapping_of v) (\<lambda>d. Inr (k, d))) runs) (\<lambda>sources.
     if previous \<noteq> [] \<and> dget previous ''notification_source_runs'' = None
     then bindE (py_tuple (dget_or previous ''runs'' (PList []))) (\<lambda>vs. take_runs archive (sources, facts) vs)
     else Inr (sources, facts))))"

definition renamed_status :: "pyval dict \<Rightarrow> pyval dict exc" where
  "renamed_status row =
     bindE (mapping_of (dget_or row ''field_status'' (PDict []))) (\<lambda>fs.
     Inr (dset row ''field_status'' (PDict (map (\<lambda>(k, v). (k, if v = PStr ''counts_unknown'' then PStr ''unknown'' else v)) fs))))"

definition conflict_fields :: "pyval dict" where
  "conflict_fields = [(''cycle_count'', PInt 1), (''status'', PStr ''alert''), (''reason_code'', PStr ''candidate_source_conflict''),
     (''order_count'', PNone), (''fill_count'', PNone),
     (''field_status'', PDict [(''order_count'', PStr ''unknown''), (''fill_count'', PStr ''unknown'')])]"

definition add_run :: "pyval dict dict \<Rightarrow> string \<Rightarrow> pyval dict \<Rightarrow> pyval dict dict exc" where
  "add_run sources run row =
     (let k = ''routine_observation_counts'' in
      case dget sources run of
        None \<Rightarrow> Inr (dset sources run row)
      | Some old \<Rightarrow>
          if old = [] \<or> py_eq (PDict old) (PDict row) then Inr (dset sources run row)
          else if (dget old k = None) \<noteq> (dget row k = None) \<or> \<not> py_eq (pget old k) (pget row k)
          then Inl (ValueError ''candidate_plugin_observations_conflict'')
          else bindE (aggregate [old, row]) (\<lambda>merged. Inr (dset sources run (dupdate merged conflict_fields))))"

fun add_runs :: "pyval dict dict \<Rightarrow> pyval dict dict \<Rightarrow> pyval dict dict exc" where
  "add_runs sources [] = Inr sources"
| "add_runs sources ((run, row) # rows) = bindE (add_run sources run row) (\<lambda>s. add_runs s rows)"

fun add_events :: "pyval dict \<Rightarrow> (string \<times> pyval dict) list \<Rightarrow> pyval dict exc" where
  "add_events facts [] = Inr facts"
| "add_events facts ((k, e) # es) =
     (case dget facts k of
        Some old \<Rightarrow> if py_eq old (PDict e) then add_events (dset facts k (PDict e)) es else Inl (ValueError ''candidate_notification_event_conflict'')
      | None \<Rightarrow> add_events (dset facts k (PDict e)) es)"

text \<open>The events of each run, in the order of their keys.\<close>

definition events_by_run :: "pyval dict dict \<Rightarrow> pyval dict \<Rightarrow> (string \<times> pyval) list exc" where
  "events_by_run sources facts =
     mapE (\<lambda>k. bindE (mapping_of (pget facts k)) (\<lambda>e.
        bindE (is_member (pget e ''source_run_id'') (dkeys sources)) (\<lambda>known.
        if known then Inr (str_or (pget e ''source_run_id''), PDict e) else Inl (ValueError ''candidate_event_source_run_missing''))))
       (sort (dkeys facts))"

definition run_rows :: "pyval dict dict \<Rightarrow> (string \<times> pyval) list \<Rightarrow> pyval list" where
  "run_rows sources evs =
     map (\<lambda>run. PDict (dset (dset (dget_or sources run []) ''source_run_id'' (PStr run)) ''notification_events''
        (PList (map snd (filter (\<lambda>(r, e). r = run) evs))))) (sort (dkeys sources))"

definition merged_payload ::
  "bool \<Rightarrow> pyval dict option \<Rightarrow> pyval dict dict \<Rightarrow> (string \<times> pyval dict) list \<Rightarrow> pyval dict option \<Rightarrow> pyval dict exc" where
  "merged_payload archive previous rows evs idle =
     bindE (kept_ledger archive (case previous of None \<Rightarrow> [] | Some d \<Rightarrow> d)) (\<lambda>(sources0, facts0).
     bindE (mapE (\<lambda>(run, row). bindE (renamed_status row) (\<lambda>r. Inr (run, r))) sources0) (\<lambda>sources1.
     bindE (add_runs sources1 rows) (\<lambda>sources.
     bindE (add_events facts0 evs) (\<lambda>facts.
     bindE (guardE (one_identity (map snd sources)) (ValueError ''candidate_identity_conflict'')) (\<lambda>_.
     bindE (events_by_run sources facts) (\<lambda>by_run.
     Inr [(''schema_version'', PStr ''qsl.digest_candidates.v1''), (''producer_status'', PStr ''projected''),
          (''runs'', PList (if sources \<noteq> [] then run_rows sources by_run
             else case idle of None \<Rightarrow> [] | Some d \<Rightarrow> if d = [] then [] else [PDict d]))]))))))"

section \<open>The object of a day\<close>

record 'w json_store =
  js_read :: "string \<Rightarrow> ('w, int option \<times> pyval dict option) io"
  js_compare_and_set :: "string \<Rightarrow> int option \<Rightarrow> pyval dict \<Rightarrow> ('w, bool) io"

definition storage_error :: pyexc where
  "storage_error = OtherException ''CandidateStorageError'' ''candidate_persistence_failed''"

definition candidate_concurrent_update :: pyexc where
  "candidate_concurrent_update = RuntimeError ''candidate_concurrent_update''"

fun merge_loop ::
  "nat \<Rightarrow> 'w json_store \<Rightarrow> string \<Rightarrow> bool \<Rightarrow> pyval dict dict \<Rightarrow> (string \<times> pyval dict) list \<Rightarrow> pyval dict option \<Rightarrow> ('w, bool) io" where
  "merge_loop 0 js uri archive rows evs idle = raiseIO candidate_concurrent_update"
| "merge_loop (Suc n) js uri archive rows evs idle =
     bindIO (catchIO (js_read js uri) (\<lambda>_. raiseIO storage_error)) (\<lambda>(version, previous).
     bindIO (liftE (merged_payload archive previous rows evs idle)) (\<lambda>payload.
     bindIO (catchIO (js_compare_and_set js uri version payload) (\<lambda>_. raiseIO storage_error)) (\<lambda>written.
     if written then returnIO True else merge_loop n js uri archive rows evs idle)))"

definition merge_candidates ::
  "'w json_store \<Rightarrow> string \<Rightarrow> bool \<Rightarrow> pyval dict dict \<Rightarrow> (string \<times> pyval dict) list \<Rightarrow> pyval dict option \<Rightarrow> ('w, bool) io" where
  "merge_candidates js = merge_loop 8 js"

definition routine_fact_kinds :: "string list" where
  "routine_fact_kinds = [''routine_cycle'', ''healthy_heartbeat'', ''order_submitted'', ''fill'']"

text \<open>The row and the address of \<open>persist_report_candidate\<close>.\<close>

definition report_candidate ::
  "digest \<Rightarrow> iso_parser \<Rightarrow> (string \<Rightarrow> pyval exc) \<Rightarrow> pyval dict \<Rightarrow> moment \<Rightarrow> pyval dict \<Rightarrow> pyval dict \<Rightarrow> (string \<times> string \<times> string \<times> pyval dict) exc" where
  "report_candidate dg from_iso loads env now report candidate =
     bindE (binding_of loads env report) (\<lambda>(b, target).
     bindE (row_of dg from_iso report b target now) (\<lambda>row.
     bindE (is_member (pget candidate ''event_kind'') routine_fact_kinds) (\<lambda>routine.
     let row1 = (if routine then row
        else dset (dset (dset row ''status'' (PStr ''alert'')) ''execution_status'' (PStr ''execution_unknown'')) ''reason_code'' (pget candidate ''event_kind''))
     in case (pget candidate ''dedupe_key'', pget b candidates_uri_key, pget report ''run_id'', pget row1 ''business_day'', pget b ''DIGEST_STORE_TARGET'') of
          (PStr key, PStr place, PStr run, PStr day0, PStr slot) \<Rightarrow>
            if key = [] then Inl (ValueError ''notification_candidate_identity_unknown'')
            else Inr (rstrip_chars ''/'' place @ ''/firstrade/'' @ day0 @ ''/'' @ slot @ ''.json'', key, run, row1)
        | (key, _) \<Rightarrow>
            if \<not> truthy key then Inl (ValueError ''notification_candidate_identity_unknown'') else Inl (no_attribute ''rstrip''))))"

definition persist_report_candidate ::
  "'w json_store \<Rightarrow> digest \<Rightarrow> iso_parser \<Rightarrow> (string \<Rightarrow> pyval exc) \<Rightarrow> pyval dict \<Rightarrow> moment \<Rightarrow> pyval dict \<Rightarrow> pyval dict \<Rightarrow> ('w, bool) io" where
  "persist_report_candidate js dg from_iso loads env now report candidate =
     bindIO (liftE (report_candidate dg from_iso loads env now report candidate)) (\<lambda>(uri, key, run, row).
     merge_candidates js uri False [(run, row)] [(key, candidate)] None)"

section \<open>Alerts stay\<close>

definition is_alert :: "pyval dict dict \<Rightarrow> string \<Rightarrow> bool" where
  "is_alert sources run \<longleftrightarrow> (\<exists>row. dget sources run = Some row \<and> dget row ''status'' = Some (PStr ''alert''))"

lemma is_alert_dset: "is_alert (dset sources k row) run \<longleftrightarrow> (if run = k then dget row ''status'' = Some (PStr ''alert'') else is_alert sources run)"
  by (simp add: is_alert_def dget_dset)

lemma dget_dupdate_found: "dget e k = Some v \<Longrightarrow> distinct (dkeys e) \<Longrightarrow> dget (dupdate d e) k = Some v"
  by (simp add: dget_dupdate)

lemma conflict_is_alert: "dget (dupdate row conflict_fields) ''status'' = Some (PStr ''alert'')"
  by (rule dget_dupdate_found) (simp_all add: conflict_fields_def)

lemma equal_rows_alert:
  assumes "py_eq (PDict old) (PDict row)" "dget old ''status'' = Some (PStr ''alert'')"
  shows "dget row ''status'' = Some (PStr ''alert'')"
  using py_eq_field [OF assms] by (cases "dget row ''status''") (auto simp: pget_def dget_or_def)

lemma add_run_alert:
  assumes "add_run sources run row = Inr s"
  shows "is_alert sources r \<Longrightarrow> is_alert s r"
    and "dget row ''status'' = Some (PStr ''alert'') \<Longrightarrow> is_alert s run"
    and "dget s r \<noteq> None \<longleftrightarrow> r = run \<or> dget sources r \<noteq> None"
proof -
  have s: "s = dset sources run row \<and> (dget sources run = None \<or> (\<exists>old. dget sources run = Some old \<and> (old = [] \<or> py_eq (PDict old) (PDict row))))
     \<or> (\<exists>merged. s = dset sources run (dupdate merged conflict_fields))"
    using assms by (auto simp: add_run_def Let_def bindE_Inr_iff split: option.splits if_splits)
  show "is_alert s r" if "is_alert sources r"
    using s that equal_rows_alert by (fastforce simp: is_alert_dset conflict_is_alert is_alert_def dget_dset)
  show "dget row ''status'' = Some (PStr ''alert'') \<Longrightarrow> is_alert s run"
    using s by (auto simp: is_alert_dset conflict_is_alert)
  show "dget s r \<noteq> None \<longleftrightarrow> r = run \<or> dget sources r \<noteq> None" using s by (auto simp: dget_dset)
qed

lemma add_runs_kept: "add_runs sources rows = Inr s \<Longrightarrow> is_alert sources r \<Longrightarrow> is_alert s r"
  by (induction sources rows rule: add_runs.induct) (auto simp: bindE_Inr_iff dest: add_run_alert(1))

lemma add_runs_present: "add_runs sources rows = Inr s \<Longrightarrow> dget sources r \<noteq> None \<or> r \<in> fst ` set rows \<Longrightarrow> dget s r \<noteq> None"
proof (induction sources rows rule: add_runs.induct)
  case (2 sources run row rows)
  then obtain s1 where s1: "add_run sources run row = Inr s1" "add_runs s1 rows = Inr s" by (auto simp: bindE_Inr_iff)
  have "dget s1 r \<noteq> None \<or> r \<in> fst ` set rows" using 2(3) unfolding add_run_alert(3) [OF s1(1)] by auto
  with 2(1) [OF s1] show ?case by blast
qed simp

lemma add_runs_new:
  "add_runs sources rows = Inr s \<Longrightarrow> (r, row) \<in> set rows \<Longrightarrow> dget row ''status'' = Some (PStr ''alert'') \<Longrightarrow> is_alert s r"
proof (induction sources rows rule: add_runs.induct)
  case (2 sources run row0 rows)
  then obtain s1 where s1: "add_run sources run row0 = Inr s1" "add_runs s1 rows = Inr s" by (auto simp: bindE_Inr_iff)
  show ?case
  proof (cases "(r, row) \<in> set rows")
    case False
    with 2(3,4) have "is_alert s1 r" using add_run_alert(2) [OF s1(1)] by auto
    then show ?thesis by (rule add_runs_kept [OF s1(2)])
  qed (use 2 s1 in blast)
qed simp

text \<open>The object as a merge writes it: every run with a text of its own for its identity.\<close>

definition run_identity_of :: "pyval \<Rightarrow> pyval" where
  "run_identity_of v = (case v of PDict d \<Rightarrow> pget d ''source_run_id'' | _ \<Rightarrow> PNone)"

definition own_run :: "pyval \<Rightarrow> bool" where
  "own_run v \<longleftrightarrow>
     (case v of PDict d \<Rightarrow> pget d ''actually_ran'' = PBool True \<and> (\<exists>r. pget d ''source_run_id'' = PStr r \<and> py_strip r \<noteq> []) | _ \<Rightarrow> False)"

definition written_runs :: "pyval dict \<Rightarrow> pyval list \<Rightarrow> bool" where
  "written_runs d vs \<longleftrightarrow>
     dget d ''runs'' = Some (PList vs) \<and> dget d ''notification_source_runs'' = None \<and> list_all own_run vs \<and> distinct (map run_identity_of vs)"

definition alert_run :: "pyval dict \<Rightarrow> string \<Rightarrow> bool" where
  "alert_run d r \<longleftrightarrow>
     (\<exists>vs row. dget d ''runs'' = Some (PList vs) \<and> PDict row \<in> set vs \<and> pget row ''source_run_id'' = PStr r
        \<and> dget row ''status'' = Some (PStr ''alert''))"

definition has_run :: "pyval dict \<Rightarrow> string \<Rightarrow> bool" where
  "has_run d r \<longleftrightarrow> (\<exists>vs row. dget d ''runs'' = Some (PList vs) \<and> PDict row \<in> set vs \<and> pget row ''source_run_id'' = PStr r)"

lemma take_run_own:
  assumes "take_run archive l (PDict d) = Inr l'" "own_run (PDict d)" "pget d ''source_run_id'' = PStr r"
  shows "fst l' = dset (fst l) r (ddel (ddel d ''notification_events'') ''source_run_id'')"
  using assms by (auto simp: take_run_def mapping_of_def own_run_def bindE_Inr_iff split: if_splits)

lemma take_runs_own:
  assumes "take_runs archive l vs = Inr l'" "list_all own_run vs" "distinct (map run_identity_of vs)"
  shows "PDict d \<in> set vs \<Longrightarrow> pget d ''source_run_id'' = PStr r \<Longrightarrow>
           dget (fst l') r = Some (ddel (ddel d ''notification_events'') ''source_run_id'')"
    and "PStr r \<notin> run_identity_of ` set vs \<Longrightarrow> dget (fst l') r = dget (fst l) r"
proof -
  have own: "\<exists>e r. v = PDict e \<and> pget e ''source_run_id'' = PStr r" if "own_run v" for v
    using that by (auto simp: own_run_def split: pyval.splits)
  have other: "dget (fst l') r = dget (fst l) r"
    if "take_runs archive l vs = Inr l'" "list_all own_run vs" "PStr r \<notin> run_identity_of ` set vs" for archive l vs r
    using that
  proof (induction archive l vs rule: take_runs.induct)
    case (2 archive l v vs)
    then obtain l1 where l1: "take_run archive l v = Inr l1" "take_runs archive l1 vs = Inr l'" by (auto simp: bindE_Inr_iff)
    obtain e q where e: "v = PDict e" "pget e ''source_run_id'' = PStr q" using own [of v] 2(3) by auto
    with 2(4) have "q \<noteq> r" by (auto simp: run_identity_of_def)
    with take_run_own [of archive l e l1 q] l1(1) 2(3) e have "dget (fst l1) r = dget (fst l) r" by (simp add: dget_dset)
    with 2(1) [OF l1] 2(3,4) show ?case by simp
  qed simp
  then show "PStr r \<notin> run_identity_of ` set vs \<Longrightarrow> dget (fst l') r = dget (fst l) r" using assms by blast
  show "dget (fst l') r = Some (ddel (ddel d ''notification_events'') ''source_run_id'')"
    if "PDict d \<in> set vs" "pget d ''source_run_id'' = PStr r"
    using assms that
  proof (induction archive l vs rule: take_runs.induct)
    case (2 archive l v vs)
    then obtain l1 where l1: "take_run archive l v = Inr l1" "take_runs archive l1 vs = Inr l'" by (auto simp: bindE_Inr_iff)
    show ?case
    proof (cases "v = PDict d")
      case True
      then have "PStr r \<notin> run_identity_of ` set vs" using 2(4,6) by (auto simp: run_identity_of_def)
      from other [OF l1(2) _ this] take_run_own [of archive l d l1 r] l1(1) 2(3,6) True show ?thesis by (simp add: dget_dset)
    next
      case False
      with 2(1) [OF l1] 2(3,4,5,6) show ?thesis by simp
    qed
  qed simp
qed

lemma renamed_rows:
  assumes "mapE (\<lambda>(run, row). bindE (renamed_status row) (\<lambda>r. Inr (run, r))) sources = Inr s" "dget sources run = Some row"
  shows "\<exists>row'. dget s run = Some row' \<and> (\<forall>k. k \<noteq> ''field_status'' \<longrightarrow> dget row' k = dget row k)"
  using assms
  by (induction sources arbitrary: s) (auto simp: bindE_Inr_iff renamed_status_def dget_dset)

lemma shown_run:
  assumes "dget sources run = Some row"
  shows "\<exists>row'. PDict row' \<in> set (run_rows sources evs) \<and> pget row' ''source_run_id'' = PStr run
     \<and> dget row' ''status'' = dget row ''status''"
proof -
  let ?row = "dset (dset row ''source_run_id'' (PStr run)) ''notification_events'' (PList (map snd (filter (\<lambda>(r, e). r = run) evs)))"
  have "run \<in> set (sort (dkeys sources))" using dget_Some_in [OF assms] by force
  then have "PDict ?row \<in> set (run_rows sources evs)"
    using assms by (force simp: run_rows_def dget_or_def)
  moreover have "pget ?row ''source_run_id'' = PStr run" "dget ?row ''status'' = dget row ''status''" by (simp_all add: pget_dset dget_dset)
  ultimately show ?thesis by blast
qed

lemma merged_keeps:
  assumes "merged_payload archive (Some d) rows evs idle = Inr payload" "written_runs d vs"
  shows "alert_run d r \<Longrightarrow> alert_run payload r"
    and "has_run d r \<Longrightarrow> has_run payload r"
    and "(r, row) \<in> set rows \<Longrightarrow> dget row ''status'' = Some (PStr ''alert'') \<Longrightarrow> alert_run payload r"
    and "r \<in> fst ` set rows \<Longrightarrow> has_run payload r"
proof -
  have d: "d \<noteq> []" "dget d ''notification_source_runs'' = None" "dget_or d ''runs'' (PList []) = PList vs"
    using assms(2) by (auto simp: written_runs_def dget_or_def)
  have none: "mapping_at d ''notification_source_runs'' = Inr []"
    by (simp add: mapping_at_def mapping_of_def pget_def dget_or_def d(2) py_or_def)
  obtain sources0 facts0 where kept: "kept_ledger archive d = Inr (sources0, facts0)"
    and rest: "bindE (mapE (\<lambda>(run, row). bindE (renamed_status row) (\<lambda>r. Inr (run, r))) sources0) (\<lambda>sources1.
       bindE (add_runs sources1 rows) (\<lambda>sources.
       bindE (add_events facts0 evs) (\<lambda>facts.
       bindE (guardE (one_identity (map snd sources)) (ValueError ''candidate_identity_conflict'')) (\<lambda>_.
       bindE (events_by_run sources facts) (\<lambda>by_run.
       Inr [(''schema_version'', PStr ''qsl.digest_candidates.v1''), (''producer_status'', PStr ''projected''),
          (''runs'', PList (if sources \<noteq> [] then run_rows sources by_run
             else case idle of None \<Rightarrow> [] | Some d \<Rightarrow> if d = [] then [] else [PDict d]))]))))) = Inr payload"
    using assms(1) by (auto simp: merged_payload_def bindE_Inr_iff)
  obtain facts where taken: "take_runs archive ([], facts) vs = Inr (sources0, facts0)"
    using kept d by (auto simp: kept_ledger_def none bindE_Inr_iff)
  obtain sources1 sources by_run where renamed: "mapE (\<lambda>(run, row). bindE (renamed_status row) (\<lambda>r. Inr (run, r))) sources0 = Inr sources1"
    and added: "add_runs sources1 rows = Inr sources"
    and runs: "dget payload ''runs'' = Some (PList (if sources \<noteq> [] then run_rows sources by_run
             else case idle of None \<Rightarrow> [] | Some i \<Rightarrow> if i = [] then [] else [PDict i]))"
    using rest by (auto simp: bindE_Inr_iff)
  have own: "list_all own_run vs" "distinct (map run_identity_of vs)" using assms(2) by (simp_all add: written_runs_def)
  have shown: "has_run payload run" "dget row ''status'' = Some (PStr ''alert'') \<Longrightarrow> alert_run payload run" if "dget sources run = Some row" for run row
  proof -
    have "sources \<noteq> []" using that by auto
    with runs shown_run [OF that, of by_run] show "has_run payload run" "dget row ''status'' = Some (PStr ''alert'') \<Longrightarrow> alert_run payload run"
      by (auto simp: has_run_def alert_run_def)
  qed
  have kept_row: "\<exists>row'. dget sources1 run = Some row' \<and> dget row' ''status'' = dget row0 ''status''"
    if "PDict row0 \<in> set vs" "pget row0 ''source_run_id'' = PStr run" for row0 run
    using renamed_rows [OF renamed, of run] take_runs_own(1) [OF taken own that] by (auto simp: dget_ddel)
  show "alert_run payload r" if a: "alert_run d r"
  proof -
    obtain row0 where "PDict row0 \<in> set vs" "pget row0 ''source_run_id'' = PStr r" "dget row0 ''status'' = Some (PStr ''alert'')"
      using a assms(2) by (auto simp: alert_run_def written_runs_def)
    with kept_row [of row0 r] have "is_alert sources1 r" by (auto simp: is_alert_def)
    from add_runs_kept [OF added this] show ?thesis using shown(2) by (auto simp: is_alert_def)
  qed
  show "has_run payload r" if a: "has_run d r"
  proof -
    obtain row0 where "PDict row0 \<in> set vs" "pget row0 ''source_run_id'' = PStr r"
      using a assms(2) by (auto simp: has_run_def written_runs_def)
    with kept_row [of row0 r] have "dget sources1 r \<noteq> None" by auto
    with add_runs_present [OF added] show ?thesis using shown(1) by blast
  qed
  show "alert_run payload r" if "(r, row) \<in> set rows" "dget row ''status'' = Some (PStr ''alert'')"
    using add_runs_new [OF added that] shown(2) by (auto simp: is_alert_def)
  show "has_run payload r" if "r \<in> fst ` set rows"
    using add_runs_present [OF added, of r] that shown(1) by blast
qed

text \<open>The laws of the object store, as of markers, over dictionaries.\<close>

definition json_laws :: "'w json_store \<Rightarrow> ('w \<Rightarrow> string \<Rightarrow> (int \<times> pyval dict) option) \<Rightarrow> bool" where
  "json_laws js held \<longleftrightarrow>
     (\<forall>u w. held (snd (js_read js u w)) = held w
        \<and> (\<forall>r. fst (js_read js u w) = Inr r \<longrightarrow> r = (map_option fst (held w u), map_option snd (held w u))))
     \<and> (\<forall>u v d w. let (y, w') = js_compare_and_set js u v d w in
          (y = Inr True \<longrightarrow> map_option fst (held w u) = v \<and> (\<exists>v'. held w' = (held w)(u \<mapsto> (v', d))))
        \<and> (y = Inr False \<longrightarrow> held w' = held w))"

lemma merge_result:
  assumes "json_laws js held" "merge_loop n js uri archive rows evs idle w = (Inr b, w')"
  shows "b \<and> (\<exists>v payload. merged_payload archive (map_option snd (held w uri)) rows evs idle = Inr payload
     \<and> held w' = (held w)(uri \<mapsto> (v, payload)))"
  using assms(2)
proof (induction n arbitrary: w)
  case (Suc n)
  obtain x w1 where x: "js_read js uri w = (x, w1)" by (rule prod.exhaust)
  have "x \<noteq> Inl e" for e using Suc.prems x by (auto simp: bindIO_case catchIO_def raiseIO_eq)
  then obtain version previous where x': "x = Inr (version, previous)" by (cases x) auto
  note r = x [unfolded x']
  have rest: "bindIO (liftE (merged_payload archive previous rows evs idle)) (\<lambda>payload.
     bindIO (catchIO (js_compare_and_set js uri version payload) (\<lambda>_. raiseIO storage_error)) (\<lambda>written.
     if written then returnIO True else merge_loop n js uri archive rows evs idle)) w1 = (Inr b, w')"
    using Suc.prems r by (simp add: bindIO_case catchIO_def)
  have same: "held w1 = held w" "version = map_option fst (held w uri)" "previous = map_option snd (held w uri)"
    using assms(1) [unfolded json_laws_def, THEN conjunct1, THEN spec, THEN spec, of uri w] by (simp_all add: r)
  obtain payload where p: "merged_payload archive previous rows evs idle = Inr payload"
    using rest by (auto simp: bindIO_Inr liftE_def)
  obtain y w2 where c: "js_compare_and_set js uri version payload w1 = (y, w2)" by (rule prod.exhaust)
  have "let (y, w') = js_compare_and_set js uri version payload w1 in
          (y = Inr True \<longrightarrow> map_option fst (held w1 uri) = version \<and> (\<exists>v'. held w' = (held w1)(uri \<mapsto> (v', payload))))
        \<and> (y = Inr False \<longrightarrow> held w' = held w1)"
    by (rule assms(1) [unfolded json_laws_def, THEN conjunct2, THEN spec, THEN spec, THEN spec, THEN spec])
  then have law: "y = Inr True \<Longrightarrow> \<exists>v'. held w2 = (held w1)(uri \<mapsto> (v', payload))" "y = Inr False \<Longrightarrow> held w2 = held w1"
    by (simp_all add: c)
  consider "y = Inr True" | "y = Inr False" | e where "y = Inl e" by (cases y) auto
  then show ?case
  proof cases
    case 1
    then have "b" "w' = w2" using rest p c by (auto simp: bindIO_case catchIO_def returnIO_eq)
    moreover obtain v' where "held w2 = (held w)(uri \<mapsto> (v', payload))" using law(1) 1 same(1) by auto
    ultimately show ?thesis using p [unfolded same(3)] by blast
  next
    case 2
    then have "merge_loop n js uri archive rows evs idle w2 = (Inr b, w')" using rest p c by (simp add: bindIO_case catchIO_def)
    from Suc.IH [OF this] law(2) 2 same(1) show ?thesis by simp
  next
    case 3
    then show ?thesis using rest p c by (simp add: bindIO_case catchIO_def raiseIO_eq)
  qed
qed simp

section \<open>Properties\<close>


text \<open>A store of objects, an object with two runs, and a later row of the first one.\<close>

definition map_objects :: "(string \<rightharpoonup> int \<times> pyval dict) json_store" where
  "map_objects =
     \<lparr> js_read = (\<lambda>u w. (Inr (map_option fst (w u), map_option snd (w u)), w)),
       js_compare_and_set = (\<lambda>u v d w.
         if map_option fst (w u) = v then (Inr True, w(u \<mapsto> (case v of None \<Rightarrow> 1 | Some x \<Rightarrow> x + 1, d))) else (Inr False, w)) \<rparr>"

lemma map_objects_laws: "json_laws map_objects (\<lambda>w. w)"
  by (auto simp: json_laws_def map_objects_def)

definition sample_day_row :: "string \<Rightarrow> int \<Rightarrow> pyval dict" where
  "sample_day_row status0 n =
     [(''platform_id'', PStr ''firstrade''), (''actually_ran'', PBool True), (''status'', PStr status0), (''cycle_count'', PInt 1),
      (''as_of'', PStr ''2026-03-02''), (''order_count'', PInt n), (''fill_count'', PInt 0), (''field_status'', PDict [])]"

definition sample_stored :: "string \<Rightarrow> string \<Rightarrow> int \<Rightarrow> pyval" where
  "sample_stored run status0 n = PDict (sample_day_row status0 n @ [(''source_run_id'', PStr run), (''notification_events'', PList [])])"

definition sample_object :: "pyval dict" where
  "sample_object = [(''schema_version'', PStr ''qsl.digest_candidates.v1''), (''producer_status'', PStr ''projected''),
     (''runs'', PList [sample_stored ''r1'' ''alert'' 0, sample_stored ''r2'' ''ok'' 1])]"

definition sample_objects :: "string \<rightharpoonup> int \<times> pyval dict" where
  "sample_objects = [''u'' \<mapsto> (4, sample_object)]"

lemma sample_merge:
  "fst (merge_candidates map_objects ''u'' False [(''r1'', sample_day_row ''ok'' 2)] [] None sample_objects) = Inr True"
  by code_simp


end
