(* ===== verification/HeartbeatReports.thy ===== *)
theory HeartbeatReports
  imports CandidateRuns
begin

text \<open>
  \<open>scripts/execution_report_heartbeat.py\<close>, the part that reads one report: its status, errors and
  delivery, the filters it must match, whether it is accepted, and whether it is quiet, so that
  no notice of its own is due. Times are moments in UTC; the reader of time texts, the time
  zones, the market calendars and the receipts of \<open>quant_platform_kit\<close> are parameters.
\<close>

section \<open>Parameters\<close>

text \<open>A calendar names its time zone and lists the opening and closing of its sessions.\<close>

record market_calendar =
  mc_zone :: string
  mc_sessions :: "day \<Rightarrow> day \<Rightarrow> (pyval \<times> pyval) list exc"

text \<open>
  \<open>hk_iso\<close> is \<open>datetime.fromisoformat\<close> with the conversion to UTC, telling whether the text has a
  zone; a text without one is taken as UTC. \<open>hk_zone\<close> is \<open>ZoneInfo\<close>, used for the local day.
\<close>

record heartbeat_kit =
  hk_loads :: "string \<Rightarrow> pyval exc"
  hk_iso :: "string \<Rightarrow> (bool \<times> moment) exc"
  hk_zone :: "string \<Rightarrow> (moment \<Rightarrow> day) exc"
  hk_calendar :: "string \<Rightarrow> market_calendar exc"
  hk_receipt :: "pyval \<Rightarrow> pyval dict exc"
  hk_match :: "pyval dict \<Rightarrow> pyval dict list \<Rightarrow> (string \<times> string) exc"

section \<open>Settings\<close>

definition accept_statuses :: "string list" where
  "accept_statuses = [''ok'', ''skipped'', ''success'', ''completed'', ''no_action'']"

definition reject_statuses :: "string list" where
  "reject_statuses = [''error'', ''failed'', ''failure'', ''cancelled'', ''canceled'', ''timed_out'']"

definition accept_stages :: "string list" where
  "accept_stages = [''DRY_RUN_COMPLETED'', ''FUNDING_BLOCKED'', ''NO_ACTION'', ''ORDERS_PLANNED'', ''PARTIAL_SUBMITTED'',
     ''RECONCILED'', ''SUBMITTED'', ''COMPLETED'']"

definition reject_stages :: "string list" where
  "reject_stages = [''ERROR'', ''EXECUTION_BLOCKED'', ''FAILED'', ''FAILURE'']"

text \<open>Commas, semicolons and line ends separate.\<close>

definition split_values :: "string option \<Rightarrow> string list" where
  "split_values raw =
     (case raw of None \<Rightarrow> []
      | Some s \<Rightarrow> filter (\<lambda>p. p \<noteq> []) (map py_strip
          (split_on (CHR '','') (map (\<lambda>c. if c = CHR '';'' \<or> c = CHR 0x0A then CHR '','' else c) s))))"

definition env_bool :: "env \<Rightarrow> string \<Rightarrow> bool \<Rightarrow> bool" where
  "env_bool env k z =
     (let v = py_lower (py_strip (env_or env k [])) in
      if v = [] then z else v \<in> {''1'', ''true'', ''yes'', ''y'', ''on''})"

definition enabled_value :: "pyval \<Rightarrow> bool \<Rightarrow> bool" where
  "enabled_value v z =
     (if v = PNone then z
      else let t = py_lower (py_strip (py_str v)) in
           if t = [] then z else t \<notin> {''0'', ''false'', ''no'', ''n'', ''off''})"

text \<open>The values of a variable, or the code's own where it names none.\<close>

definition configured_values :: "env \<Rightarrow> string \<Rightarrow> string list \<Rightarrow> string list" where
  "configured_values env k z = (let vs = split_values (env k) in if vs = [] then z else vs)"

definition parse_timestamp :: "heartbeat_kit \<Rightarrow> pyval \<Rightarrow> bool \<Rightarrow> moment option exc" where
  "parse_timestamp hk v require_timezone =
     (if \<not> truthy v then Inr None
      else case hk_iso hk (zulu (py_strip (py_str v))) of
        Inl e \<Rightarrow> if is_value_error e then Inr None else Inl e
      | Inr (zoned, t) \<Rightarrow> Inr (if zoned \<or> \<not> require_timezone then Some t else None))"

section \<open>What a report says\<close>

definition report_error_fields :: "string list" where
  "report_error_fields = [''errors'', ''error'', ''plugin_error'', ''persistence_error'', ''report_persistence_error'', ''strategy_plugin_error'',
     ''strategy_plugin_alert_error'', ''strategy_run_persistence_error'', ''market_hours_check_error'']"

definition error_values :: "pyval \<Rightarrow> pyval list" where
  "error_values v = (if \<not> truthy v then [] else case v of PList xs \<Rightarrow> xs | _ \<Rightarrow> [v])"

definition scope_errors :: "pyval \<Rightarrow> pyval list" where
  "scope_errors scope =
     (case scope of
        PDict d \<Rightarrow> concat (map (\<lambda>k. error_values (pget d k)) report_error_fields)
          @ (case pget d ''error_summary'' of PDict es \<Rightarrow> error_values (pget es ''errors'') | _ \<Rightarrow> [])
      | _ \<Rightarrow> [])"

definition report_errors :: "pyval dict \<Rightarrow> pyval list" where
  "report_errors p = concat (map scope_errors [PDict p, pget p ''summary'', pget p ''diagnostics''])"

definition dict_or_empty :: "pyval \<Rightarrow> pyval dict" where
  "dict_or_empty v = (case v of PDict d \<Rightarrow> d | _ \<Rightarrow> [])"

definition status_and_stage :: "pyval dict \<Rightarrow> string \<times> string" where
  "status_and_stage p =
     (let summary = dict_or_empty (pget p ''summary'') in
      (py_strip (str_or (py_or (pget p ''status'') (pget summary ''status''))),
       py_strip (str_or (py_or (pget p ''stage'') (pget summary ''stage'')))))"

definition scope_notification_failure :: "pyval dict \<Rightarrow> string" where
  "scope_notification_failure d =
     (if pget (dict_or_empty (pget d ''notification_delivery_summary'')) ''all_acknowledged'' = PBool False
      then ''notification delivery not acknowledged''
      else if truthy (pget d ''notification_error'') \<and> pget d ''notification_suppressed'' \<noteq> PBool True
      then ''notification delivery failed'' else [])"

definition report_notification_failure :: "pyval dict \<Rightarrow> string" where
  "report_notification_failure p =
     (let own = scope_notification_failure p in
      if own \<noteq> [] then own else scope_notification_failure (dict_or_empty (pget p ''summary'')))"

definition payload_service_name :: "pyval dict \<Rightarrow> string" where
  "payload_service_name p =
     (let service = pget p ''service_name'' in
      py_strip (str_or (if truthy service then service
        else case pget p ''runtime_target'' of PDict t \<Rightarrow> pget t ''service_name'' | _ \<Rightarrow> service)))"

definition payload_account_scope :: "pyval dict \<Rightarrow> string" where
  "payload_account_scope p =
     (case find truthy (map (pget p) [''account_scope'', ''account_group'', ''account_region'']) of
        None \<Rightarrow> [] | Some v \<Rightarrow> py_strip (py_str v))"

definition or_dash :: "string \<Rightarrow> string" where
  "or_dash s = (if s = [] then ''-'' else s)"

definition service_of :: "pyval dict \<Rightarrow> string" where
  "service_of t = py_strip (str_or (pget t ''service''))"

text \<open>Whether a report is one of those asked for, of which key, and why.\<close>

definition payload_matches ::
  "heartbeat_kit \<Rightarrow> env \<Rightarrow> string list \<Rightarrow> pyval dict list \<Rightarrow> pyval dict \<Rightarrow> (bool \<times> string \<times> string) exc" where
  "payload_matches hk env services targets p =
     (let expected_platform = py_lower (py_strip (env_or env ''RUNTIME_HEARTBEAT_REPORT_PLATFORM'' []));
          platform = py_lower (py_strip (str_or (pget p ''platform'')));
          expected_scope = py_lower (py_strip (env_or env ''RUNTIME_HEARTBEAT_ACCOUNT_SCOPE'' []));
          scope = py_lower (payload_account_scope p); service = payload_service_name p in
      if expected_platform \<noteq> [] \<and> platform \<noteq> expected_platform then Inr (False, [], ''platform='' @ or_dash platform)
      else if expected_scope \<noteq> [] \<and> scope \<noteq> expected_scope then Inr (False, [], ''account_scope='' @ or_dash scope)
      else if services \<noteq> [] \<and> service \<notin> set services then Inr (False, service, ''service_name='' @ or_dash service)
      else if targets = [] then Inr (True, service, ''matched filters'')
      else bindE (hk_match hk p targets) (\<lambda>(matched, reason).
           if matched \<noteq> [] then Inr (True, matched, reason)
           else if service \<in> set (map service_of targets) then Inr (False, service, reason)
           else Inr (True, service, ''matched filters'')))"

section \<open>Accepted reports\<close>

definition inner_execution_status :: "pyval dict \<Rightarrow> string" where
  "inner_execution_status p =
     py_lower (py_strip (str_or (py_or (pget (dict_or_empty (pget p ''summary'')) ''execution_status'') (pget p ''execution_status''))))"

definition status_text :: "string \<Rightarrow> string \<Rightarrow> string" where
  "status_text status stage = ''status='' @ or_dash status @ '' stage='' @ or_dash stage"

definition is_accepted_report :: "env \<Rightarrow> pyval dict \<Rightarrow> bool \<times> string" where
  "is_accepted_report env p =
     (let accepted = map py_lower (configured_values env ''RUNTIME_HEARTBEAT_ACCEPT_STATUSES'' accept_statuses);
          rejected = map py_lower (configured_values env ''RUNTIME_HEARTBEAT_REJECT_STATUSES'' reject_statuses);
          accepted_stages = map py_upper (configured_values env ''RUNTIME_HEARTBEAT_ACCEPT_STAGES'' accept_stages);
          rejected_stages = map py_upper (configured_values env ''RUNTIME_HEARTBEAT_REJECT_STAGES'' reject_stages);
          (status, stage) = status_and_stage p; status_key = py_lower status; stage_key = py_upper stage;
          errors = report_errors p; failure = report_notification_failure p; inner = inner_execution_status p in
      if errors \<noteq> [] \<and> \<not> env_bool env ''RUNTIME_HEARTBEAT_ACCEPT_REPORTS_WITH_ERRORS'' False
      then (False, ''errors='' @ int_str (int (length errors)) @ '' '' @ status_text status stage)
      else if failure \<noteq> [] then (False, failure)
      else if status_key \<in> set rejected \<or> stage_key \<in> set rejected_stages then (False, ''rejected '' @ status_text status stage)
      else if inner \<in> {''blocked'', ''error'', ''failed'', ''failure''} \<or> ends_with inner ''_blocked'' then (False, ''rejected inner execution status'')
      else if status_key \<noteq> [] \<and> status_key \<in> set accepted then (True, ''status='' @ status)
      else if stage_key \<noteq> [] \<and> stage_key \<in> set accepted_stages then (True, ''stage='' @ stage)
      else if status_key = [] \<and> stage_key = [] \<and> errors = [] \<and> \<not> env_bool env ''RUNTIME_HEARTBEAT_REQUIRE_STATUS'' False
      then (True, ''report exists'')
      else (False, ''unaccepted '' @ status_text status stage))"

section \<open>The market calendar\<close>

text \<open>Whether the run from \<open>started\<close> to \<open>finished\<close> overlaps none of the sessions.\<close>

fun outside_sessions :: "heartbeat_kit \<Rightarrow> moment \<Rightarrow> moment \<Rightarrow> (pyval \<times> pyval) list \<Rightarrow> bool exc" where
  "outside_sessions hk started finished [] = Inr True"
| "outside_sessions hk started finished ((a, b) # sessions) =
     bindE (parse_timestamp hk a True) (\<lambda>opened.
     bindE (parse_timestamp hk b True) (\<lambda>closed.
     case (opened, closed) of
       (Some x, Some y) \<Rightarrow>
         if mo_micros y \<le> mo_micros x then Inr False
         else if mo_micros started < mo_micros y \<and> mo_micros x \<le> mo_micros finished then Inr False
         else outside_sessions hk started finished sessions
     | _ \<Rightarrow> Inr False))"

definition calendar_says_closed :: "heartbeat_kit \<Rightarrow> pyval dict \<Rightarrow> bool exc" where
  "calendar_says_closed hk p =
     (let zone = str_or (pget p ''market_timezone'') in
      bindE (hk_zone hk zone) (\<lambda>local.
      bindE (parse_timestamp hk (pget p ''started_at'') True) (\<lambda>started.
      bindE (parse_timestamp hk (pget p ''finished_at'') True) (\<lambda>finished.
      case (started, finished) of
        (Some s, Some f) \<Rightarrow>
          if mo_micros f < mo_micros s then Inr False
          else bindE (hk_calendar hk (str_or (pget p ''market_calendar''))) (\<lambda>calendar.
               if mc_zone calendar \<noteq> zone then Inr False
               else bindE (mc_sessions calendar (local s) (local f)) (outside_sessions hk s f))
      | _ \<Rightarrow> Inr False))))"

definition market_closed_by_calendar :: "heartbeat_kit \<Rightarrow> pyval dict \<Rightarrow> bool" where
  "market_closed_by_calendar hk p = (case calendar_says_closed hk p of Inl e \<Rightarrow> False | Inr b \<Rightarrow> b)"

section \<open>Quiet reports\<close>

definition calm_statuses :: "string list" where
  "calm_statuses = [''ok'', ''success'', ''completed'', ''no_action'']"

definition quiet_execution_statuses :: "string list" where
  "quiet_execution_statuses = [''no_op'', ''no_action'', ''completed'', ''dry_run_completed'', ''executed'', ''submitted'',
     ''broker_acknowledged'', ''partially_filled'', ''pending'']"

definition attention_fields :: "string list" where
  "attention_fields = [''pending_reconciliation'', ''reconciliation_required'', ''execution_blocked'', ''plugin_error'',
     ''persistence_error'', ''report_persistence_error'', ''notification_error'']"

definition order_counts :: "string list" where
  "order_counts = [''order_events_count'', ''orders_pending_count'', ''orders_filled_count'', ''orders_partially_filled_count'']"

definition order_lists :: "string list" where
  "order_lists = [''orders_submitted'', ''submitted_orders'', ''orders_pending'', ''orders_filled'', ''orders_partially_filled'',
     ''option_orders_submitted'', ''option_orders_pending'', ''option_orders_filled'', ''option_orders_partially_filled'']"

text \<open>The tests that the report, its summary and its diagnostics each must pass.\<close>

definition scope_quiet :: "pyval dict \<Rightarrow> bool" where
  "scope_quiet d \<longleftrightarrow>
     (let status = py_lower (py_strip (str_or (pget d ''status''))); stage = py_upper (py_strip (str_or (pget d ''stage'')));
          execution = py_lower (py_strip (str_or (pget d ''execution_status''))) in
      (status = [] \<or> status \<in> set calm_statuses \<or> status = ''skipped'')
      \<and> stage \<noteq> ''FUNDING_BLOCKED'' \<and> (stage = [] \<or> stage \<in> set accept_stages)
      \<and> list_all (\<lambda>k. \<not> truthy (pget d k)) attention_fields
      \<and> list_all (\<lambda>k. dget d k = None \<or> is_natural (pget d k)) order_counts
      \<and> (execution = [] \<or> execution \<in> set quiet_execution_statuses))"

definition receipt_platform :: "pyval \<Rightarrow> pyval exc" where
  "receipt_platform v =
     bindE (is_member v [''interactive_brokers'']) (\<lambda>ib. bindE (is_member v [''charles_schwab'']) (\<lambda>cs.
     Inr (if ib then PStr ''ibkr'' else if cs then PStr ''schwab'' else v)))"

text \<open>The receipt of a report, and whether it is one of a settled run of this strategy.\<close>

definition quiet_receipt :: "heartbeat_kit \<Rightarrow> pyval dict \<Rightarrow> pyval dict option exc" where
  "quiet_receipt hk p =
     (case hk_receipt hk (pget p ''execution_receipt'') of
        Inl e \<Rightarrow> if is_type_or_value_error e then Inr None else Inl e
      | Inr receipt \<Rightarrow>
          bindE (bindE (need receipt ''outcome'') (\<lambda>v. is_member v [''reconciliation_required'', ''failed'', ''risk_blocked''])) (\<lambda>bad.
          if bad then Inr None
          else bindE (need receipt ''strategy_profile'') (\<lambda>profile.
               if \<not> py_eq profile (pget p ''strategy_profile'') then Inr None
               else bindE (need receipt ''platform'') (\<lambda>platform. bindE (receipt_platform (pget p ''platform'')) (\<lambda>expected.
                    Inr (if py_eq platform expected then Some receipt else None))))))"

text \<open>The market fields of a skipped report; nothing where report and target contradict each other.\<close>

fun closure_payload :: "pyval dict \<Rightarrow> pyval dict \<Rightarrow> string list \<Rightarrow> pyval dict \<Rightarrow> pyval dict option" where
  "closure_payload p target [] acc = Some acc"
| "closure_payload p target (k # ks) acc =
     (let v = pget p k; nested = pget target k in
      if truthy v \<and> truthy nested \<and> \<not> py_eq v nested then None
      else closure_payload p target ks (dset acc k (py_or v nested)))"

definition scope_idle :: "pyval dict \<Rightarrow> bool" where
  "scope_idle d \<longleftrightarrow>
     list_all (\<lambda>k. \<not> truthy (pget d k)) order_lists
     \<and> list_all (\<lambda>k. py_eq (dget_or d k (PInt 0)) (PInt 0)) order_counts
     \<and> py_lower (str_or (pget d ''execution_status'')) \<in> {[], ''no_op'', ''no_action''}"

definition is_zone_error :: "pyexc \<Rightarrow> bool" where
  "is_zone_error e \<longleftrightarrow> is_value_error e \<or> (case e of OtherException n m \<Rightarrow> n = ''ZoneInfoNotFoundError'' | _ \<Rightarrow> False)"

definition skipped_quietly :: "heartbeat_kit \<Rightarrow> pyval dict \<Rightarrow> pyval dict \<Rightarrow> pyval dict \<Rightarrow> pyval dict option \<Rightarrow> bool exc" where
  "skipped_quietly hk p summary diagnostics receipt =
     (case closure_payload p (dict_or_empty (pget p ''runtime_target'')) [''market'', ''market_calendar'', ''market_timezone''] p of
        None \<Rightarrow> Inr False
      | Some closure \<Rightarrow>
          if pget diagnostics ''skip_reason'' \<noteq> PStr ''market_closed'' then Inr False
          else if \<not> list_all scope_idle [p, summary, diagnostics] then Inr False
          else bindE (case receipt of None \<Rightarrow> Inr True
                 | Some r \<Rightarrow> bindE (need r ''outcome'') (\<lambda>v. is_member v [''not_due'', ''no_action'', ''no_signal'', ''no_rebalance''])) (\<lambda>settled.
               if \<not> settled \<or> \<not> truthy (pget closure ''market'') \<or> \<not> truthy (pget closure ''market_calendar'') then Inr False
               else case hk_zone hk (str_or (pget closure ''market_timezone'')) of
                 Inl e \<Rightarrow> if is_zone_error e then Inr False else Inl e
               | Inr local \<Rightarrow> Inr (market_closed_by_calendar hk closure)))"

definition five_minutes :: int where
  "five_minutes = 300 * 10 ^ 6"

definition is_quiet_report :: "heartbeat_kit \<Rightarrow> moment \<Rightarrow> pyval dict \<Rightarrow> bool exc" where
  "is_quiet_report hk now p =
     (if pget p ''errors'' \<noteq> PList [] then Inr False
      else if report_errors p \<noteq> [] \<or> report_notification_failure p \<noteq> [] then Inr False
      else bindE (parse_timestamp hk (pget p ''started_at'') True) (\<lambda>started.
           bindE (parse_timestamp hk (pget p ''finished_at'') True) (\<lambda>finished.
           case (started, finished) of
             (Some s, Some f) \<Rightarrow>
               if mo_micros f < mo_micros s \<or> mo_micros now + five_minutes < mo_micros f then Inr False
               else (case (pget p ''summary'', pget p ''diagnostics'') of
                 (PDict summary, PDict diagnostics) \<Rightarrow>
                   if \<not> list_all scope_quiet [p, summary, diagnostics] then Inr False
                   else bindE (if dget p ''execution_receipt'' = None then Inr (True, None)
                          else bindE (quiet_receipt hk p) (\<lambda>r. Inr (r \<noteq> None, r))) (\<lambda>(settled, receipt).
                        if \<not> settled then Inr False
                        else let status = py_lower (fst (status_and_stage p)) in
                             if status = ''skipped'' then skipped_quietly hk p summary diagnostics receipt
                             else Inr (status \<in> set calm_statuses
                                \<and> py_lower (str_or (pget summary ''execution_status'')) \<in> set quiet_execution_statuses
                                \<and> is_natural (pget summary ''order_events_count'')))
               | _ \<Rightarrow> Inr False)
           | _ \<Rightarrow> Inr False)))"

end
