(* ===== verification/HeartbeatWindow.thy ===== *)
theory HeartbeatWindow
  imports HeartbeatReports
begin

text \<open>
  \<open>scripts/execution_report_heartbeat.py\<close>, the part that decides which reports a heartbeat looks
  for: the runtime target and the days of its schedule, the months of the reports, the services
  that must report, and the objects that \<open>gcloud\<close> lists and reads. The loops over days and
  months are recursions with a measure.
\<close>

section \<open>Days of the month\<close>

text \<open>The days \<open>range(start, end + 1, step)\<close> that a month can have.\<close>

definition range_days :: "int \<Rightarrow> int \<Rightarrow> int \<Rightarrow> int list" where
  "range_days a b step = filter (\<lambda>d. a \<le> d \<and> d \<le> b \<and> (d - a) mod step = 0) [1..31]"

text \<open>One part of the field; nothing where it cannot be read.\<close>

definition day_of_month_part :: "string \<Rightarrow> int list option" where
  "day_of_month_part part =
     (case partition_at (CHR ''/'') part of (days, slash, step_text) \<Rightarrow>
      case (if slash then map_option (max 1) (parse_int step_text) else Some 1) of
        None \<Rightarrow> None
      | Some step \<Rightarrow>
          (case partition_at (CHR ''-'') days of (start_text, dash, end_text) \<Rightarrow>
           if dash
           then (case (parse_int start_text, parse_int end_text) of
                   (Some a, Some b) \<Rightarrow> if b < a then None else Some (range_days a b step)
                 | _ \<Rightarrow> None)
           else map_option (\<lambda>d. if 1 \<le> d \<and> d \<le> 31 then [d] else []) (parse_int days)))"

fun day_of_month_parts :: "string list \<Rightarrow> int list option" where
  "day_of_month_parts [] = Some []"
| "day_of_month_parts (p # ps) =
     (let part = py_strip p in
      if part = [] then day_of_month_parts ps
      else case day_of_month_part part of
        None \<Rightarrow> None
      | Some days \<Rightarrow> map_option ((@) days) (day_of_month_parts ps))"

definition parse_day_of_month_field :: "string \<Rightarrow> int list option" where
  "parse_day_of_month_field raw =
     (let t = py_strip raw in
      if t \<in> {[], ''*'', ''?''} then None
      else case day_of_month_parts (split_on (CHR '','') t) of
        None \<Rightarrow> None
      | Some days \<Rightarrow> if days = [] then None else Some (sort (dedup days)))"

section \<open>The schedule of the target\<close>

text \<open>\<open>json.loads\<close> with \<open>JSONDecodeError\<close>, a \<open>ValueError\<close>, as nothing.\<close>

definition json_or_nothing :: "heartbeat_kit \<Rightarrow> string \<Rightarrow> pyval option exc" where
  "json_or_nothing hk raw = (case hk_loads hk raw of Inl e \<Rightarrow> if is_value_error e then Inr None else Inl e | Inr v \<Rightarrow> Inr (Some v))"

definition runtime_target_payload :: "heartbeat_kit \<Rightarrow> env \<Rightarrow> pyval dict exc" where
  "runtime_target_payload hk env =
     (let raw = py_strip (env_or env ''RUNTIME_TARGET_JSON'' []) in
      if raw = [] then Inr []
      else bindE (json_or_nothing hk raw) (\<lambda>v. Inr (case v of None \<Rightarrow> [] | Some p \<Rightarrow> dict_or_empty p)))"

definition runtime_target_enabled :: "heartbeat_kit \<Rightarrow> env \<Rightarrow> bool exc" where
  "runtime_target_enabled hk env =
     bindE (case env ''RUNTIME_TARGET_ENABLED'' of Some s \<Rightarrow> Inr (PStr s)
            | None \<Rightarrow> bindE (runtime_target_payload hk env) (\<lambda>p. Inr (pget p ''runtime_target_enabled''))) (\<lambda>v.
     Inr (enabled_value v True))"

definition runtime_target_scheduler :: "heartbeat_kit \<Rightarrow> env \<Rightarrow> pyval dict exc" where
  "runtime_target_scheduler hk env = bindE (runtime_target_payload hk env) (\<lambda>p. Inr (dict_or_empty (pget p ''scheduler'')))"

text \<open>\<open>str.split()\<close>.\<close>

definition words_of :: "string \<Rightarrow> string list" where
  "words_of s = filter (\<lambda>w. w \<noteq> []) (split_on (CHR '' '') (map (\<lambda>c. if is_space c then CHR '' '' else c) s))"

definition day_of_month :: "day \<Rightarrow> int" where
  "day_of_month d = snd (snd (ymd_of d))"

text \<open>The loop over the days of the window: whether one of them is expected.\<close>

function due_in_window :: "int list \<Rightarrow> day \<Rightarrow> day \<Rightarrow> bool" where
  "due_in_window days cursor final =
     (if cursor \<le> final then if day_of_month cursor \<in> set days then True else due_in_window days (cursor + 1) final
      else False)"
  by pat_completeness auto
termination by (relation "measure (\<lambda>(days, cursor, final). nat (final + 1 - cursor))") auto

declare due_in_window.simps [simp del]

definition idle_text :: "string \<Rightarrow> day \<Rightarrow> day \<Rightarrow> int list \<Rightarrow> string" where
  "idle_text zone a b days =
     ''runtime scheduler main_time is not due today ('' @ zone @ '' date_window='' @ date_isoformat a @ ''..'' @ date_isoformat b
       @ ''; expected day(s)='' @ join_with '','' (map int_str days) @ '')''"

text \<open>Why no report is due from \<open>since\<close> to \<open>now\<close>; nothing where one may be.\<close>

definition heartbeat_skip_reason_for_schedule :: "heartbeat_kit \<Rightarrow> env \<Rightarrow> moment \<Rightarrow> moment \<Rightarrow> string option exc" where
  "heartbeat_skip_reason_for_schedule hk env since now =
     bindE (runtime_target_scheduler hk env) (\<lambda>scheduler.
     let fields = words_of (py_strip (str_or (pget scheduler ''main_time''))) in
     if length fields \<noteq> 5 \<or> fields ! 4 \<noteq> ''*'' then Inr None
     else case parse_day_of_month_field (fields ! 2) of
       None \<Rightarrow> Inr None
     | Some days \<Rightarrow>
         (let given = py_strip (py_str (py_or (pget scheduler ''timezone'') (PStr ''UTC'')));
              zone = (if given = [] then ''UTC'' else given)
          in case hk_zone hk zone of
               Inl e \<Rightarrow> if is_zone_error e then Inr None else Inl e
             | Inr local \<Rightarrow>
                 Inr (if due_in_window days (local since) (local now) then None
                      else Some (idle_text zone (local since) (local now) days))))"

section \<open>The months of the reports\<close>

definition month_of :: "moment \<Rightarrow> int \<times> int" where
  "month_of t = (case ymd_of (mo_micros t div (24 * hour_micros)) of (y, m, d) \<Rightarrow> (y, m))"

definition month_names :: "int \<Rightarrow> int \<Rightarrow> string list" where
  "month_names y m = [zero_padded 4 y @ ''-'' @ zero_padded 2 m, zero_padded 4 y @ ''_'' @ zero_padded 2 m]"

text \<open>The loop over the first days of the months, in UTC.\<close>

function months_from :: "int \<Rightarrow> int \<Rightarrow> int \<Rightarrow> int \<Rightarrow> string list" where
  "months_from y m last_y last_m =
     (if y * 12 + m \<le> last_y * 12 + last_m
      then month_names y m @ (if m = 12 then months_from (y + 1) 1 last_y last_m else months_from y (m + 1) last_y last_m)
      else [])"
  by pat_completeness auto
termination by (relation "measure (\<lambda>(y, m, last_y, last_m). nat (last_y * 12 + last_m + 1 - (y * 12 + m)))") auto

declare months_from.simps [simp del]

definition month_segments :: "moment \<Rightarrow> moment \<Rightarrow> string list" where
  "month_segments a b = (case (month_of a, month_of b) of ((y, m), (last_y, last_m)) \<Rightarrow> months_from y m last_y last_m)"

definition base_report_uris :: "env \<Rightarrow> string list" where
  "base_report_uris env =
     (let named = split_values (env ''RUNTIME_HEARTBEAT_GCS_URIS'') @ split_values (env ''EXECUTION_REPORT_GCS_URI'');
          state_bucket = py_strip (env_or env ''FIRSTRADE_GCS_STATE_BUCKET'' []);
          state_prefix = strip_chars ''/'' (env_or env ''FIRSTRADE_STATE_PREFIX'' ''firstrade-platform'');
          uris = (if named = [] \<and> state_bucket \<noteq> []
            then [''gs://'' @ state_bucket @ (if state_prefix = [] then [] else ''/'' @ state_prefix) @ ''/strategy-runs''] else named)
      in dedup (filter (\<lambda>u. u \<noteq> []) (map (rstrip_chars ''/'') uris)))"

definition report_globs :: "env \<Rightarrow> moment \<Rightarrow> moment \<Rightarrow> string list" where
  "report_globs env since now =
     (let explicit = split_values (env ''RUNTIME_HEARTBEAT_GCS_GLOBS'');
          platform = strip_chars ''/'' (env_or env ''RUNTIME_HEARTBEAT_REPORT_PLATFORM'' []) in
      if explicit \<noteq> [] then explicit
      else concat (map (\<lambda>b.
             let base = (if platform \<noteq> [] \<and> \<not> ends_with (rstrip_chars ''/'' b) (''/'' @ platform) then b @ ''/'' @ platform else b) in
             map (\<lambda>month. base @ ''/**/'' @ month @ ''/*.json'') (month_segments since now)) (base_report_uris env)))"

section \<open>The services that must report\<close>

definition nested_target :: "heartbeat_kit \<Rightarrow> pyval dict \<Rightarrow> pyval exc" where
  "nested_target hk target =
     (case py_or (pget target ''runtime_target'') (pget target ''runtime_target_json'') of
        PStr s \<Rightarrow> bindE (json_or_nothing hk s) (\<lambda>v. Inr (case v of None \<Rightarrow> PDict [] | Some x \<Rightarrow> x))
      | v \<Rightarrow> Inr v)"

fun first_set :: "pyval list \<Rightarrow> pyval" where
  "first_set [] = PNone"
| "first_set (v # vs) = (if v = PNone then first_set vs else v)"

text \<open>Whether a target is enabled, and the services it names.\<close>

definition services_of_target :: "heartbeat_kit \<Rightarrow> pyval dict \<Rightarrow> (bool \<times> string list) exc" where
  "services_of_target hk target =
     bindE (nested_target hk target) (\<lambda>v.
     let nested = dict_or_empty v;
         enabled = first_set [pget target ''runtime_target_enabled'', pget target ''RUNTIME_TARGET_ENABLED'', pget nested ''runtime_target_enabled''];
         named = find truthy (map (\<lambda>k. py_or (pget target k) (pget nested k)) [''service'', ''service_name'', ''cloud_run_service''])
     in Inr (enabled_value enabled True, case named of None \<Rightarrow> [] | Some x \<Rightarrow> split_values (Some (py_str x))))"

definition listed_targets :: "heartbeat_kit \<Rightarrow> env \<Rightarrow> (bool \<times> string list) list exc" where
  "listed_targets hk env =
     (let raw = py_strip (env_or env ''CLOUD_RUN_SERVICE_TARGETS_JSON'' []) in
      if raw = [] then Inr []
      else bindE (json_or_nothing hk raw) (\<lambda>payload.
           case (case payload of None \<Rightarrow> PNone | Some (PDict d) \<Rightarrow> pget d ''targets'' | Some v \<Rightarrow> v) of
             PList vs \<Rightarrow> mapE (\<lambda>v. services_of_target hk (dict_or_empty v)) (filter is_dict vs)
           | _ \<Rightarrow> Inr []))"

text \<open>\<open>load\<close> is what \<open>load_runtime_targets\<close> makes of the environment, the disabled targets included.\<close>

definition load_required_services :: "heartbeat_kit \<Rightarrow> env \<Rightarrow> pyval dict list exc \<Rightarrow> string list exc" where
  "load_required_services hk env load =
     bindE (listed_targets hk env) (\<lambda>listed. bindE load (\<lambda>configured.
     let named = concat (map (\<lambda>k. split_values (env k)) [''RUNTIME_HEARTBEAT_REQUIRED_SERVICES'', ''CLOUD_RUN_SERVICES'', ''CLOUD_RUN_SERVICE'']);
         with = (\<lambda>b. if configured \<noteq> [] then map service_of (filter (\<lambda>t. pget t ''enabled'' = PBool b) configured)
           else concat (map snd (filter (\<lambda>t. fst t = b) listed)));
         enabled = with True; disabled = filter (\<lambda>s. s \<notin> set enabled) (with False)
     in Inr (filter (\<lambda>s. s \<notin> set disabled) (dedup (named @ enabled)))))"

section \<open>Calls of gcloud\<close>

record process =
  pr_code :: int
  pr_out :: string
  pr_err :: string

type_synonym 'w gcloud = "string list \<Rightarrow> ('w, process) io"

definition process_detail :: "process \<Rightarrow> string" where
  "process_detail r = py_strip (if pr_err r = [] then pr_out r else pr_err r)"

definition with_project :: "string option \<Rightarrow> string list \<Rightarrow> string list" where
  "with_project project command = (case project of None \<Rightarrow> command | Some p \<Rightarrow> if p = [] then command else command @ [''--project'', p])"

definition runtime_error_or :: "string \<Rightarrow> string \<Rightarrow> pyexc" where
  "runtime_error_or detail z = RuntimeError (if detail = [] then z else detail)"

definition scheduler_location :: "env \<Rightarrow> string" where
  "scheduler_location env = env_or env ''RUNTIME_HEARTBEAT_SCHEDULER_LOCATION'' (env_or env ''CLOUD_RUN_REGION'' ''us-central1'')"

definition scheduler_job_name_candidates :: "string \<Rightarrow> string list" where
  "scheduler_job_name_candidates service =
     (let name = py_strip service in
      if name = [] then []
      else dedup ([name @ ''-scheduler''] @ (if ends_with name ''-service'' then [remove_suffix ''-service'' name @ ''-scheduler''] else [])))"

definition describe_scheduler_job ::
  "'w gcloud \<Rightarrow> heartbeat_kit \<Rightarrow> env \<Rightarrow> string option \<Rightarrow> string \<Rightarrow> ('w, pyval dict option) io" where
  "describe_scheduler_job gcloud hk env project job =
     bindIO (gcloud (with_project project [''gcloud'', ''scheduler'', ''jobs'', ''describe'', job, ''--location'', scheduler_location env, ''--format=json''])) (\<lambda>r.
     let detail = process_detail r in
     if pr_code r \<noteq> 0
     then (if contains (py_lower detail) ''not_found'' \<or> contains (py_lower detail) ''not found'' then returnIO None
           else raiseIO (runtime_error_or detail (''gcloud scheduler jobs describe failed for '' @ job)))
     else if py_strip (pr_out r) = [] then returnIO None
     else bindIO (liftE (json_or_nothing hk (pr_out r))) (\<lambda>v. case v of
            None \<Rightarrow> raiseIO (RuntimeError (''gcloud scheduler jobs describe returned invalid JSON for '' @ job))
          | Some (PDict d) \<Rightarrow> returnIO (Some d)
          | Some _ \<Rightarrow> returnIO None))"

fun first_scheduler_job ::
  "'w gcloud \<Rightarrow> heartbeat_kit \<Rightarrow> env \<Rightarrow> string option \<Rightarrow> string list \<Rightarrow> ('w, pyval dict option) io" where
  "first_scheduler_job gcloud hk env project [] = returnIO None"
| "first_scheduler_job gcloud hk env project (job # jobs) =
     bindIO (describe_scheduler_job gcloud hk env project job) (\<lambda>d.
     if d \<noteq> None then returnIO d else first_scheduler_job gcloud hk env project jobs)"

text \<open>A target without a cron text of five fields takes the one of its scheduler job.\<close>

definition hydrated_target :: "'w gcloud \<Rightarrow> heartbeat_kit \<Rightarrow> env \<Rightarrow> string option \<Rightarrow> pyval dict \<Rightarrow> ('w, pyval dict) io" where
  "hydrated_target gcloud hk env project target =
     (let scheduler = dict_or_empty (pget target ''scheduler''); service = service_of target in
      if length (words_of (str_or (pget scheduler ''main_time''))) = 5 then returnIO target
      else if \<not> env_bool env ''RUNTIME_HEARTBEAT_SCHEDULER_AWARE'' True
      then raiseIO (RuntimeError ''runtime target schedule is incomplete and scheduler lookup is disabled'')
      else bindIO (first_scheduler_job gcloud hk env project (scheduler_job_name_candidates service)) (\<lambda>found.
           let job = (case found of None \<Rightarrow> [] | Some d \<Rightarrow> d);
               schedule = py_strip (str_or (pget job ''schedule'')); zone = py_strip (str_or (pget job ''timeZone''));
               timed = dset scheduler ''main_time'' (PStr schedule) in
           if length (words_of schedule) \<noteq> 5
           then raiseIO (RuntimeError (''unable to resolve effective five-field scheduler cron for '' @ (if service = [] then ''<unknown-service>'' else service)))
           else returnIO (dset target ''scheduler'' (PDict (if zone = [] then timed else dset timed ''timezone'' (PStr zone))))))"

fun hydrate_runtime_target_schedules ::
  "'w gcloud \<Rightarrow> heartbeat_kit \<Rightarrow> env \<Rightarrow> string option \<Rightarrow> pyval dict list \<Rightarrow> ('w, pyval dict list) io" where
  "hydrate_runtime_target_schedules gcloud hk env project [] = returnIO []"
| "hydrate_runtime_target_schedules gcloud hk env project (t # ts) =
     bindIO (hydrated_target gcloud hk env project t) (\<lambda>x.
     bindIO (hydrate_runtime_target_schedules gcloud hk env project ts) (\<lambda>xs. returnIO (x # xs)))"

definition list_gcs_objects :: "'w gcloud \<Rightarrow> heartbeat_kit \<Rightarrow> string option \<Rightarrow> string \<Rightarrow> ('w, pyval list) io" where
  "list_gcs_objects gcloud hk project glob =
     bindIO (gcloud (with_project project [''gcloud'', ''storage'', ''ls'', ''--json'', glob])) (\<lambda>r.
     let detail = process_detail r in
     if pr_code r \<noteq> 0
     then (if contains (py_lower detail) ''matched no objects'' \<or> contains (py_lower detail) ''no urls matched'' then returnIO []
           else raiseIO (runtime_error_or detail (''gcloud storage ls failed for '' @ glob)))
     else if py_strip (pr_out r) = [] then returnIO []
     else bindIO (liftE (json_or_nothing hk (pr_out r))) (\<lambda>v. case v of
            None \<Rightarrow> raiseIO (RuntimeError (''gcloud storage ls returned invalid JSON for '' @ glob))
          | Some (PList xs) \<Rightarrow> returnIO xs
          | Some _ \<Rightarrow> returnIO []))"

definition without_fragment :: "string \<Rightarrow> string" where
  "without_fragment s = fst (partition_at (CHR ''#'') s)"

definition cat_gcs_json :: "'w gcloud \<Rightarrow> heartbeat_kit \<Rightarrow> string option \<Rightarrow> string \<Rightarrow> ('w, pyval dict option) io" where
  "cat_gcs_json gcloud hk project uri =
     bindIO (gcloud (with_project project [''gcloud'', ''storage'', ''cat'', without_fragment uri])) (\<lambda>r.
     if pr_code r \<noteq> 0 then returnIO None
     else bindIO (liftE (json_or_nothing hk (pr_out r))) (\<lambda>v. returnIO (case v of Some (PDict d) \<Rightarrow> Some d | _ \<Rightarrow> None)))"

text \<open>The address and the time of a listed object.\<close>

definition listed_object :: "heartbeat_kit \<Rightarrow> pyval \<Rightarrow> (string \<times> moment option) exc" where
  "listed_object hk entry =
     bindE (mapping_of entry) (\<lambda>d.
     bindE (mapping_at d ''metadata'') (\<lambda>metadata.
     bindE (parse_timestamp hk (py_or (pget metadata ''updated'') (pget metadata ''timeCreated'')) False) (\<lambda>updated.
     Inr (without_fragment (str_or (pget d ''url'')), updated))))"

end
