(* ===== verification/Heartbeat.thy ===== *)
theory Heartbeat
  imports HeartbeatWindow
begin

text \<open>
  \<open>scripts/execution_report_heartbeat.py\<close>, the part that runs: the window and the targets of a
  heartbeat, the reports from the latest one back, and the verdict. The texts of the notices are left
  out; \<open>hp_heartbeat\<close> is \<open>_send_normal_heartbeat\<close> and \<open>hp_alert\<close> is \<open>_deliver_alert\<close>.
\<close>

section \<open>Parameters\<close>

text \<open>The functions of \<open>quant_platform_kit\<close> on runtime targets.\<close>

record target_kit =
  tk_load :: "env \<Rightarrow> bool \<Rightarrow> pyval dict list exc"
  tk_present :: "env \<Rightarrow> bool exc"
  tk_any_enabled :: "env \<Rightarrow> bool exc"
  tk_due :: "pyval dict list \<Rightarrow> moment \<Rightarrow> moment \<Rightarrow> bool \<Rightarrow> int \<Rightarrow> (pyval dict list \<times> bool) exc"
  tk_services :: "string list \<Rightarrow> pyval dict list \<Rightarrow> pyval dict list \<Rightarrow> string list exc"
  tk_key :: "pyval dict \<Rightarrow> string"
  tk_latest_due :: "pyval dict \<Rightarrow> moment option exc"

record 'w heartbeat_ports =
  hp_gcloud :: "'w gcloud"
  hp_alert :: "string \<Rightarrow> string list option \<Rightarrow> ('w, bool) io"
  hp_heartbeat :: "bool \<Rightarrow> pyval dict list \<Rightarrow> string list option \<Rightarrow> ('w, int) io"

section \<open>Spans of time\<close>

definition utc_isoformat :: "int \<Rightarrow> string" where
  "utc_isoformat n =
     (let r = n mod (24 * hour_micros); s = r div 10 ^ 6; f = r mod 10 ^ 6 in
      date_isoformat (n div (24 * hour_micros)) @ ''T'' @ zero_padded 2 (s div 3600) @ '':'' @ zero_padded 2 (s div 60 mod 60)
        @ '':'' @ zero_padded 2 (s mod 60) @ (if f = 0 then [] else ''.'' @ zero_padded 6 f) @ ''+00:00'')"

text \<open>
  \<open>timedelta(hours=x)\<close>, or of another unit, in microseconds: the whole units exactly, the fraction
  of one as a float, and the sum rounded half to even.
\<close>

fun timedelta_of :: "int \<Rightarrow> pyfloat \<Rightarrow> int exc" where
  "timedelta_of unit0 (Fin q) =
     (let n = rhe (of_int (rtrunc q * unit0) + (case fl ((q - of_int (rtrunc q)) * of_int unit0) of Fin p \<Rightarrow> p | _ \<Rightarrow> 0)) in
      if \<bar>n div (24 * hour_micros)\<bar> \<le> 999999999 then Inr n else Inl OverflowError)"
| "timedelta_of unit0 NaN = Inl (ValueError ''cannot convert float NaN to integer'')"
| "timedelta_of unit0 _ = Inl OverflowError"

text \<open>\<open>now - delta\<close> raises outside the years 1 to 9999.\<close>

definition moment_minus :: "moment \<Rightarrow> int \<Rightarrow> moment exc" where
  "moment_minus t n =
     (let m = mo_micros t - n; d = m div (24 * hour_micros) in
      if 1 \<le> d \<and> d \<le> 3652059 then Inr \<lparr> mo_text = utc_isoformat m, mo_micros = m \<rparr> else Inl OverflowError)"

definition env_float :: "env \<Rightarrow> string \<Rightarrow> string \<Rightarrow> pyfloat exc" where
  "env_float env k z = py_float (PStr (env_or env k z))"

section \<open>What a heartbeat looks for\<close>

record window =
  wi_now :: moment
  wi_since :: moment
  wi_due_since :: moment
  wi_targets :: "pyval dict list"
  wi_services :: "string list"
  wi_keys :: "string list"
  wi_due_at :: "moment dict"
  wi_max_reports :: int

datatype search = Skip | Unscheduled | Look window

definition heartbeat_project :: "env \<Rightarrow> string option" where
  "heartbeat_project env =
     Some (env_or env ''RUNTIME_HEARTBEAT_GCP_PROJECT_ID'' (env_or env ''GCP_PROJECT_ID'' (env_or env ''GOOGLE_CLOUD_PROJECT'' [])))"

definition publication_grace :: "env \<Rightarrow> int exc" where
  "publication_grace env =
     bindE (env_float env ''RUNTIME_HEARTBEAT_PUBLICATION_GRACE_MINUTES'' ''30'') (\<lambda>x.
     if x < 0 then Inl (ValueError ''RUNTIME_HEARTBEAT_PUBLICATION_GRACE_MINUTES must be non-negative'')
     else timedelta_of (60 * 10 ^ 6) x)"

text \<open>The targets and services whose reports must be there, each with its key.\<close>

definition window_of ::
  "target_kit \<Rightarrow> moment \<Rightarrow> moment \<Rightarrow> moment \<Rightarrow> int \<Rightarrow> string list \<Rightarrow> pyval dict list \<Rightarrow> pyval dict list \<Rightarrow> window exc" where
  "window_of tk now since due_since max_reports services0 targets due =
     bindE (if due = [] then Inr services0 else tk_services tk services0 due targets) (\<lambda>services.
     let required = filter (\<lambda>t. services = [] \<or> service_of t \<in> set services) due;
         keys = map (tk_key tk) required @ filter (\<lambda>s. s \<notin> set (map service_of required)) services in
     bindE (mapE (\<lambda>t. bindE (tk_latest_due tk t) (\<lambda>d. Inr (tk_key tk t, d))) required) (\<lambda>dues.
     Inr \<lparr> wi_now = now, wi_since = since, wi_due_since = due_since, wi_targets = required, wi_services = services, wi_keys = keys,
           wi_due_at = dict_of (map (\<lambda>(k, d). (k, the d)) (filter (\<lambda>(k, d). d \<noteq> None) dues)),
           wi_max_reports = (if keys = [] then max_reports else max max_reports (min 200 (int (length keys) * 4))) \<rparr>))"

definition is_runtime_error :: "pyexc \<Rightarrow> bool" where
  "is_runtime_error e \<longleftrightarrow> (case e of RuntimeError _ \<Rightarrow> True | _ \<Rightarrow> False)"

text \<open>The targets with their schedules; nothing where one cannot be resolved.\<close>

definition scheduled_targets ::
  "'w gcloud \<Rightarrow> heartbeat_kit \<Rightarrow> env \<Rightarrow> pyval dict list \<Rightarrow> ('w, pyval dict list option) io" where
  "scheduled_targets gcloud hk env targets =
     catchIO (bindIO (hydrate_runtime_target_schedules gcloud hk env (heartbeat_project env) targets) (\<lambda>ts. returnIO (Some ts)))
       (\<lambda>e. if is_runtime_error e then returnIO None else raiseIO e)"

definition due_search ::
  "heartbeat_kit \<Rightarrow> target_kit \<Rightarrow> env \<Rightarrow> moment \<Rightarrow> moment \<Rightarrow> moment \<Rightarrow> int \<Rightarrow> string list \<Rightarrow> pyval dict list \<Rightarrow> search exc" where
  "due_search hk tk env now since due_since max_reports services targets =
     bindE (publication_grace env) (\<lambda>grace.
     bindE (tk_due tk targets due_since now (env_bool env ''RUNTIME_HEARTBEAT_MARKET_AWARE'' True) grace) (\<lambda>(due, evaluated).
     if targets \<noteq> [] \<and> evaluated \<and> due = []
     then bindE (heartbeat_skip_reason_for_schedule hk env due_since now) (\<lambda>_. Inr Skip)
     else bindE (if targets = [] then heartbeat_skip_reason_for_schedule hk env due_since now else Inr None) (\<lambda>reason.
          if reason \<noteq> None then Inr Skip
          else bindE (window_of tk now since due_since max_reports services targets due) (\<lambda>wi. Inr (Look wi)))))"

definition heartbeat_disabled :: "heartbeat_kit \<Rightarrow> target_kit \<Rightarrow> env \<Rightarrow> bool exc" where
  "heartbeat_disabled hk tk env =
     bindE (runtime_target_enabled hk env) (\<lambda>enabled.
     if \<not> enabled then Inr True
     else bindE (tk_present tk env) (\<lambda>present.
          if \<not> present then Inr False else bindE (tk_any_enabled tk env) (\<lambda>any. Inr (\<not> any))))"

text \<open>The number of reports to read, the services, the start of the window and of the last day, and the targets.\<close>

definition heartbeat_settings ::
  "heartbeat_kit \<Rightarrow> target_kit \<Rightarrow> env \<Rightarrow> moment \<Rightarrow> (int \<times> string list \<times> moment \<times> moment \<times> pyval dict list) exc" where
  "heartbeat_settings hk tk env now =
     bindE (env_float env ''RUNTIME_HEARTBEAT_LOOKBACK_HOURS'' ''36'') (\<lambda>hours.
     bindE (py_int (PStr (env_or env ''RUNTIME_HEARTBEAT_MAX_REPORTS_TO_READ'' ''20''))) (\<lambda>max_reports.
     bindE (load_required_services hk env (tk_load tk env True)) (\<lambda>services.
     bindE (bindE (timedelta_of hour_micros hours) (moment_minus now)) (\<lambda>since.
     bindE (moment_minus now (24 * hour_micros)) (\<lambda>due_since.
     bindE (tk_load tk env False) (\<lambda>targets.
     Inr (max_reports, services, since, due_since, targets)))))))"

definition heartbeat_search ::
  "'w gcloud \<Rightarrow> heartbeat_kit \<Rightarrow> target_kit \<Rightarrow> env \<Rightarrow> moment \<Rightarrow> ('w, search) io" where
  "heartbeat_search gcloud hk tk env now =
     bindIO (liftE (heartbeat_disabled hk tk env)) (\<lambda>skip.
     if skip then returnIO Skip
     else bindIO (liftE (heartbeat_settings hk tk env now)) (\<lambda>(max_reports, services, since, due_since, targets).
          bindIO (scheduled_targets gcloud hk env targets) (\<lambda>scheduled. case scheduled of
            None \<Rightarrow> returnIO Unscheduled
          | Some ts \<Rightarrow> liftE (due_search hk tk env now since due_since max_reports services ts))))"

section \<open>The reports\<close>

text \<open>The objects that a glob lists, nothing where the listing failed.\<close>

definition listed_reports :: "'w gcloud \<Rightarrow> heartbeat_kit \<Rightarrow> env \<Rightarrow> string \<Rightarrow> ('w, (string \<times> moment option) list option) io" where
  "listed_reports gcloud hk env glob =
     bindIO (catchIO (bindIO (list_gcs_objects gcloud hk (heartbeat_project env) glob) (\<lambda>es. returnIO (Some es)))
         (\<lambda>e. if is_runtime_error e then returnIO None else raiseIO e)) (\<lambda>r. case r of
       None \<Rightarrow> returnIO None
     | Some es \<Rightarrow> bindIO (liftE (mapE (listed_object hk) es)) (\<lambda>os. returnIO (Some os)))"

definition recent_objects :: "moment \<Rightarrow> (string \<times> moment option) list \<Rightarrow> moment dict \<Rightarrow> moment dict" where
  "recent_objects since os found =
     foldl (\<lambda>d (u, t). case t of None \<Rightarrow> d | Some m \<Rightarrow> if u \<noteq> [] \<and> mo_micros since \<le> mo_micros m then dset d u m else d) found os"

fun collect_reports ::
  "'w gcloud \<Rightarrow> heartbeat_kit \<Rightarrow> env \<Rightarrow> moment \<Rightarrow> string list \<Rightarrow> moment dict \<Rightarrow> bool \<Rightarrow> ('w, moment dict \<times> bool) io" where
  "collect_reports gcloud hk env since [] found failed = returnIO (found, failed)"
| "collect_reports gcloud hk env since (g # gs) found failed =
     bindIO (listed_reports gcloud hk env g) (\<lambda>r. case r of
         None \<Rightarrow> collect_reports gcloud hk env since gs found True
       | Some os \<Rightarrow> collect_reports gcloud hk env since gs (recent_objects since os found) failed)"

text \<open>\<open>xs[:n]\<close>.\<close>

definition py_take :: "int \<Rightarrow> 'a list \<Rightarrow> 'a list" where
  "py_take n xs = take (nat (if n < 0 then int (length xs) + n else n)) xs"

text \<open>From the latest report back, as many as are to be read.\<close>

definition latest_first :: "int \<Rightarrow> moment dict \<Rightarrow> moment dict" where
  "latest_first n found = py_take n (sort_key (\<lambda>(u, t). - mo_micros t) found)"

record scan =
  sc_accepted :: "moment dict"
  sc_payloads :: "pyval dict dict"
  sc_by_key :: "moment dict"
  sc_quiet_by :: "bool dict"
  sc_quiet :: "bool list"
  sc_seen :: "string list"
  sc_services_seen :: "string list"
  sc_unreadable :: "moment list"
  sc_issues :: "string list"
  sc_unacceptable :: "string list"

definition no_scan :: scan where
  "no_scan = \<lparr> sc_accepted = [], sc_payloads = [], sc_by_key = [], sc_quiet_by = [], sc_quiet = [], sc_seen = [], sc_services_seen = [],
     sc_unreadable = [], sc_issues = [], sc_unacceptable = [] \<rparr>"

definition set_default :: "'v dict \<Rightarrow> string \<Rightarrow> 'v \<Rightarrow> 'v dict" where
  "set_default d k v = (if dget d k = None then dset d k v else d)"

text \<open>Whether a report of a key is new enough: in the last day, and not before the latest due time of the key.\<close>

definition in_time :: "window \<Rightarrow> string \<Rightarrow> moment \<Rightarrow> bool" where
  "in_time wi key t \<longleftrightarrow>
     mo_micros (wi_due_since wi) \<le> mo_micros t
     \<and> (case dget (wi_due_at wi) key of None \<Rightarrow> True | Some due \<Rightarrow> mo_micros due \<le> mo_micros t)"

definition add_conflict :: "window \<Rightarrow> pyval dict \<Rightarrow> string \<Rightarrow> scan \<Rightarrow> scan" where
  "add_conflict wi p reason st =
     (let service = payload_service_name p in
      if service \<in> set (wi_services wi) \<union> set (map service_of (wi_targets wi)) \<and> service \<notin> set (sc_services_seen st)
      then st \<lparr> sc_services_seen := sc_services_seen st @ [service],
                sc_issues := sc_issues st @ [service @ '': conflicting report identity ('' @ reason @ '')''],
                sc_unacceptable := sc_unacceptable st @ [service] \<rparr>
      else st)"

text \<open>A quiet report must also have finished after the latest due time.\<close>

definition quiet_in_time :: "heartbeat_kit \<Rightarrow> window \<Rightarrow> string \<Rightarrow> pyval dict \<Rightarrow> bool exc" where
  "quiet_in_time hk wi key p =
     bindE (is_quiet_report hk (wi_now wi) p) (\<lambda>calm.
     case dget (wi_due_at wi) key of
       Some due \<Rightarrow> if \<not> calm then Inr False
         else bindE (parse_timestamp hk (pget p ''finished_at'') True) (\<lambda>f.
              Inr (case f of None \<Rightarrow> False | Some x \<Rightarrow> mo_micros due \<le> mo_micros x))
     | None \<Rightarrow> Inr calm)"

definition add_accepted :: "window \<Rightarrow> string \<Rightarrow> moment \<Rightarrow> string \<Rightarrow> pyval dict \<Rightarrow> bool \<Rightarrow> scan \<Rightarrow> scan" where
  "add_accepted wi uri t key p calm st =
     (let st1 = st \<lparr> sc_payloads := dset (sc_payloads st) key p \<rparr> in
      if wi_keys wi \<noteq> [] then st1 \<lparr> sc_quiet_by := set_default (sc_quiet_by st1) key calm, sc_by_key := set_default (sc_by_key st1) key t \<rparr>
      else st1 \<lparr> sc_accepted := sc_accepted st1 @ [(uri, t)], sc_quiet := sc_quiet st1 @ [calm] \<rparr>)"

text \<open>One step of the loop over the reports; the first in-time report of a key decides.\<close>

definition scan_report :: "heartbeat_kit \<Rightarrow> env \<Rightarrow> window \<Rightarrow> scan \<Rightarrow> string \<Rightarrow> moment \<Rightarrow> pyval dict option \<Rightarrow> scan exc" where
  "scan_report hk env wi st uri t found =
     (case found of
        None \<Rightarrow> Inr (st \<lparr> sc_unreadable := sc_unreadable st @ [t] \<rparr>)
      | Some p \<Rightarrow>
          bindE (payload_matches hk env (wi_services wi) (wi_targets wi) p) (\<lambda>(matches, key, reason).
          if \<not> matches then Inr (add_conflict wi p reason st)
          else if \<not> in_time wi key t then Inr st
          else let (ok, why) = is_accepted_report env p; latest = (key \<notin> set (sc_seen st));
                   st1 = st \<lparr> sc_services_seen := sc_services_seen st @ [payload_service_name p] \<rparr>;
                   st2 = (if latest then st1 \<lparr> sc_seen := sc_seen st1 @ [key] \<rparr> else st1) in
               if \<not> latest then Inr st2
               else if \<not> ok then Inr (st2 \<lparr> sc_issues := sc_issues st2 @ [key @ '': '' @ why], sc_unacceptable := sc_unacceptable st2 @ [key] \<rparr>)
               else bindE (quiet_in_time hk wi key p) (\<lambda>calm. Inr (add_accepted wi uri t key p calm st2))))"

fun scan_reports :: "'w gcloud \<Rightarrow> heartbeat_kit \<Rightarrow> env \<Rightarrow> window \<Rightarrow> scan \<Rightarrow> moment dict \<Rightarrow> ('w, scan) io" where
  "scan_reports gcloud hk env wi st [] = returnIO st"
| "scan_reports gcloud hk env wi st ((uri, t) # os) =
     bindIO (cat_gcs_json gcloud hk (heartbeat_project env) uri) (\<lambda>p.
     bindIO (liftE (scan_report hk env wi st uri t p)) (\<lambda>st'. scan_reports gcloud hk env wi st' os))"

section \<open>The verdict\<close>

datatype heartbeat_outcome =
    Idle
  | Unknown_schedule
  | Healthy bool "pyval dict list" "string list option"
  | Attention string "string list option"

definition all_quiet :: "window \<Rightarrow> scan \<Rightarrow> bool" where
  "all_quiet wi st \<longleftrightarrow> list_all (\<lambda>k. dget (sc_quiet_by st) k = Some True) (wi_keys wi)"

definition read_incomplete :: "window \<Rightarrow> scan \<Rightarrow> bool" where
  "read_incomplete wi st \<longleftrightarrow>
     (if wi_keys wi \<noteq> [] \<and> list_all (\<lambda>k. dget (sc_by_key st) k \<noteq> None) (wi_keys wi) \<and> all_quiet wi st \<and> sc_issues st = []
      then list_ex (\<lambda>u. list_ex (\<lambda>k. case dget (sc_by_key st) k of None \<Rightarrow> False | Some t \<Rightarrow> mo_micros t \<le> mo_micros u) (wi_keys wi)) (sc_unreadable st)
      else sc_unreadable st \<noteq> [])"

definition heartbeat_verdict :: "window \<Rightarrow> bool \<Rightarrow> bool \<Rightarrow> scan \<Rightarrow> heartbeat_outcome" where
  "heartbeat_verdict wi any_object failed st =
     (let missing = filter (\<lambda>k. dget (sc_by_key st) k = None) (wi_keys wi); payloads = map snd (sc_payloads st);
          complete = (\<not> failed \<and> \<not> read_incomplete wi st \<and> sc_issues st = []) in
      if wi_keys wi \<noteq> [] \<and> missing = [] \<and> complete
      then (if all_quiet wi st then Healthy True payloads None
            else Healthy False [] (Some (filter (\<lambda>k. dget (sc_quiet_by st) k \<noteq> Some True) (wi_keys wi))))
      else if sc_accepted st \<noteq> [] \<and> complete
      then (if list_all id (sc_quiet st) then Healthy True payloads None else Healthy False [] (Some (dkeys (sc_payloads st))))
      else Attention (if any_object then ''receipt_unacceptable'' else ''receipt_missing'')
        (if failed \<or> read_incomplete wi st then None
         else if wi_keys wi \<noteq> [] \<or> sc_unacceptable st \<noteq> [] then Some (dedup (sc_unacceptable st @ missing)) else None))"

definition heartbeat_look :: "'w gcloud \<Rightarrow> heartbeat_kit \<Rightarrow> env \<Rightarrow> window \<Rightarrow> ('w, heartbeat_outcome) io" where
  "heartbeat_look gcloud hk env wi =
     (let globs = report_globs env (wi_since wi) (wi_now wi) in
      if globs = [] then raiseIO (OtherException ''SystemExit'' ''No heartbeat GCS report URI configured'')
      else bindIO (collect_reports gcloud hk env (wi_since wi) globs [] False) (\<lambda>(found, failed).
           bindIO (scan_reports gcloud hk env wi no_scan (latest_first (wi_max_reports wi) found)) (\<lambda>st.
           returnIO (heartbeat_verdict wi (found \<noteq> []) failed st))))"

definition heartbeat_run :: "'w gcloud \<Rightarrow> heartbeat_kit \<Rightarrow> target_kit \<Rightarrow> env \<Rightarrow> moment \<Rightarrow> ('w, heartbeat_outcome) io" where
  "heartbeat_run gcloud hk tk env now =
     bindIO (heartbeat_search gcloud hk tk env now) (\<lambda>search. case search of
         Skip \<Rightarrow> returnIO Idle
       | Unscheduled \<Rightarrow> returnIO Unknown_schedule
       | Look wi \<Rightarrow> heartbeat_look gcloud hk env wi)"

definition heartbeat_main :: "'w heartbeat_ports \<Rightarrow> heartbeat_kit \<Rightarrow> target_kit \<Rightarrow> env \<Rightarrow> moment \<Rightarrow> ('w, int) io" where
  "heartbeat_main hp hk tk env now =
     (let failing = (if env_bool env ''RUNTIME_HEARTBEAT_FAIL_WORKFLOW_ON_ALERT'' True then 1 else 0) in
      bindIO (heartbeat_run (hp_gcloud hp) hk tk env now) (\<lambda>outcome. case outcome of
        Idle \<Rightarrow> returnIO 0
      | Unknown_schedule \<Rightarrow> bindIO (hp_alert hp ''real_error'' None) (\<lambda>_. returnIO failing)
      | Healthy calm reports affected \<Rightarrow> hp_heartbeat hp calm reports affected
      | Attention kind affected \<Rightarrow> bindIO (hp_alert hp kind affected) (\<lambda>_. returnIO failing)))"

section \<open>Windows are walked to their end\<close>

lemma month_day_bounds: "0 \<le> n \<Longrightarrow> n < sum_list ls \<Longrightarrow> month_day m n ls = (a, b) \<Longrightarrow> m \<le> a \<and> a < m + int (length ls)"
  by (induction m n ls rule: month_day.induct) (auto split: if_splits)

lemma year_month_bounds:
  assumes "0 \<le> r" "r < 365" "month_day 1 r (month_lengths y) = (m, k)" shows "1 \<le> m \<and> m \<le> 12"
proof -
  have "365 \<le> sum_list (month_lengths y)" by (simp add: month_lengths_def)
  then show ?thesis using month_day_bounds [OF assms(1) _ assms(3)] assms(2) by (simp add: month_lengths_def)
qed

lemma month_of_bounds: assumes "month_of t = (y, m)" shows "1 \<le> m \<and> m \<le> 12"
proof -
  obtain d where d: "ymd_of (mo_micros t div (24 * hour_micros)) = (y, m, d)"
    using assms by (auto simp: month_of_def split: prod.splits)
  define r where "r = (mo_micros t div (24 * hour_micros) - 1) mod 146097 mod 36524 mod 1461 mod 365"
  have r: "0 \<le> r" "r < 365" by (simp_all add: r_def)
  from d [unfolded ymd_of_def Let_def, folded r_def] show ?thesis
    by (auto split: if_splits dest: year_month_bounds [OF r])
qed

lemma upto_split: "i \<le> j \<Longrightarrow> [i..j] = i # [i + 1..j]"
  by (simp add: upto_rec1)

lemma months_from_closed:
  "1 \<le> m \<Longrightarrow> m \<le> 12 \<Longrightarrow> months_from y m last_y last_m
     = concat (map (\<lambda>n. month_names (n div 12) (n mod 12 + 1)) [y * 12 + m - 1..last_y * 12 + last_m - 1])"
proof (induction y m last_y last_m rule: months_from.induct)
  case (1 y m last_y last_m)
  have d: "(y * 12 + m - 1) div 12 = y" "(y * 12 + m - 1) mod 12 + 1 = m" using 1(3,4) by presburger+
  show ?case
  proof (cases "y * 12 + m \<le> last_y * 12 + last_m")
    case True
    then have "[y * 12 + m - 1..last_y * 12 + last_m - 1] = (y * 12 + m - 1) # [y * 12 + m..last_y * 12 + last_m - 1]"
      using upto_split [of "y * 12 + m - 1"] by simp
    moreover have "months_from y m last_y last_m = month_names y m @ (if m = 12 then months_from (y + 1) 1 last_y last_m else months_from y (m + 1) last_y last_m)"
      using True by (subst months_from.simps) simp
    ultimately show ?thesis using 1(1) [OF True] 1(2) [OF True] 1(3,4) d by (auto simp: algebra_simps)
  qed (subst months_from.simps, simp)
qed

lemma due_in_window_iff: "due_in_window days a b \<longleftrightarrow> (\<exists>d. a \<le> d \<and> d \<le> b \<and> day_of_month d \<in> set days)"
proof (induction days a b rule: due_in_window.induct)
  case (1 days a b)
  show ?case
  proof (cases "a \<le> b \<and> day_of_month a \<notin> set days")
    case True
    then have "due_in_window days a b \<longleftrightarrow> due_in_window days (a + 1) b" by (subst due_in_window.simps) simp
    with 1 True show ?thesis by (metis add1_zle_eq order_le_less)
  qed (subst due_in_window.simps, auto)
qed

section \<open>What a healthy heartbeat rests on\<close>

text \<open>The archive answers with the same content for an address whenever it is asked.\<close>

definition still_archive :: "'w gcloud \<Rightarrow> heartbeat_kit \<Rightarrow> env \<Rightarrow> (string \<Rightarrow> pyval dict option) \<Rightarrow> bool" where
  "still_archive gcloud hk env content \<longleftrightarrow> (\<forall>u w. fst (cat_gcs_json gcloud hk (heartbeat_project env) u w) = Inr (content u))"

text \<open>A report of the key that is new enough.\<close>

definition counts_for :: "heartbeat_kit \<Rightarrow> env \<Rightarrow> window \<Rightarrow> string \<Rightarrow> pyval dict option \<Rightarrow> moment \<Rightarrow> bool" where
  "counts_for hk env wi key found t \<longleftrightarrow>
     in_time wi key t
     \<and> (\<exists>p why. found = Some p \<and> payload_matches hk env (wi_services wi) (wi_targets wi) p = Inr (True, key, why))"

text \<open>The report of \<open>done\<close> that decides for a key: the first one that counts for it, accepted, and quiet where that was found.\<close>

definition decided_by ::
  "heartbeat_kit \<Rightarrow> env \<Rightarrow> window \<Rightarrow> (string \<Rightarrow> pyval dict option) \<Rightarrow> moment dict \<Rightarrow> string \<Rightarrow> moment \<Rightarrow> bool \<Rightarrow> bool" where
  "decided_by hk env wi content done k t calm \<longleftrightarrow>
     (\<exists>pre u post p. done = pre @ (u, t) # post \<and> content u = Some p \<and> counts_for hk env wi k (Some p) t
        \<and> fst (is_accepted_report env p) \<and> (calm \<longrightarrow> is_quiet_report hk (wi_now wi) p = Inr True)
        \<and> (\<forall>(u', t')\<in>set pre. \<not> counts_for hk env wi k (content u') t'))"

lemma decided_by_append: "decided_by hk env wi content done k t calm \<Longrightarrow> decided_by hk env wi content (done @ os) k t calm"
  unfolding decided_by_def by (metis append_Cons append_assoc)

text \<open>What the scan of \<open>done\<close> has established.\<close>

definition scan_invariant ::
  "heartbeat_kit \<Rightarrow> env \<Rightarrow> window \<Rightarrow> (string \<Rightarrow> pyval dict option) \<Rightarrow> moment dict \<Rightarrow> scan \<Rightarrow> bool" where
  "scan_invariant hk env wi content done st \<longleftrightarrow>
     (\<forall>k u t. (u, t) \<in> set done \<and> counts_for hk env wi k (content u) t \<longrightarrow> k \<in> set (sc_seen st))
     \<and> (\<forall>u t. (u, t) \<in> set done \<and> content u = None \<longrightarrow> t \<in> set (sc_unreadable st))
     \<and> (wi_keys wi \<noteq> [] \<longrightarrow> sc_accepted st = [])
     \<and> (\<forall>k t. dget (sc_by_key st) k = Some t \<longrightarrow>
          k \<in> set (sc_seen st) \<and> decided_by hk env wi content done k t (dget (sc_quiet_by st) k = Some True))
     \<and> (\<forall>k. dget (sc_quiet_by st) k \<noteq> None \<longrightarrow> dget (sc_by_key st) k \<noteq> None)"

lemma scan_invariant_start: "scan_invariant hk env wi content [] no_scan"
  by (simp add: scan_invariant_def no_scan_def)

lemma quiet_in_time_quiet: "quiet_in_time hk wi key p = Inr True \<Longrightarrow> is_quiet_report hk (wi_now wi) p = Inr True"
  by (auto simp: quiet_in_time_def bindE_Inr_iff split: option.splits if_splits)

text \<open>The cases of a step.\<close>

lemma scan_report_cases:
  assumes "scan_report hk env wi st u t found = Inr st'"
  obtains (unreadable) "found = None" "st' = st \<lparr> sc_unreadable := sc_unreadable st @ [t] \<rparr>"
  | (other) p where "found = Some p" "\<And>k. \<not> counts_for hk env wi k found t" "sc_seen st' = sc_seen st" "sc_by_key st' = sc_by_key st"
      "sc_quiet_by st' = sc_quiet_by st" "sc_accepted st' = sc_accepted st" "sc_unreadable st' = sc_unreadable st"
  | (seen) p key where "found = Some p" "\<And>k. counts_for hk env wi k found t \<Longrightarrow> k = key" "set (sc_seen st') = insert key (set (sc_seen st))"
      "sc_by_key st' = sc_by_key st" "sc_quiet_by st' = sc_quiet_by st" "sc_accepted st' = sc_accepted st" "sc_unreadable st' = sc_unreadable st"
  | (accepted) p key calm where "found = Some p" "counts_for hk env wi key found t" "\<And>k. counts_for hk env wi k found t \<Longrightarrow> k = key"
      "key \<notin> set (sc_seen st)" "fst (is_accepted_report env p)" "quiet_in_time hk wi key p = Inr calm"
      "set (sc_seen st') = insert key (set (sc_seen st))" "sc_unreadable st' = sc_unreadable st"
      "if wi_keys wi = [] then sc_by_key st' = sc_by_key st \<and> sc_quiet_by st' = sc_quiet_by st
       else sc_accepted st' = sc_accepted st \<and> sc_by_key st' = set_default (sc_by_key st) key t
         \<and> sc_quiet_by st' = set_default (sc_quiet_by st) key calm"
proof (cases found)
  case None
  with assms show ?thesis by (intro unreadable) (simp_all add: scan_report_def)
next
  case (Some p)
  obtain m key why where m: "payload_matches hk env (wi_services wi) (wi_targets wi) p = Inr (m, key, why)"
    using assms Some by (auto simp: scan_report_def bindE_Inr_iff)
  have only: "k = key \<and> m \<and> in_time wi key t" if "counts_for hk env wi k found t" for k
    using that m Some by (auto simp: counts_for_def)
  show ?thesis
  proof (cases "m \<and> in_time wi key t")
    case False
    then show ?thesis using assms Some m only
      by (intro other [of p]) (auto simp: scan_report_def add_conflict_def Let_def split: if_splits)
  next
    case True
    then have c: "counts_for hk env wi key found t" using m Some by (auto simp: counts_for_def)
    show ?thesis
    proof (cases "key \<notin> set (sc_seen st) \<and> fst (is_accepted_report env p)")
      case False
      then show ?thesis using assms Some m only True
        by (intro seen [of p key]) (auto simp: scan_report_def Let_def split: if_splits prod.splits)
    next
      case fresh: True
      then obtain calm where calm: "quiet_in_time hk wi key p = Inr calm"
        using assms Some m True by (auto simp: scan_report_def Let_def bindE_Inr_iff split: prod.splits)
      have st': "st' = add_accepted wi u t key p calm
          (st \<lparr> sc_services_seen := sc_services_seen st @ [payload_service_name p], sc_seen := sc_seen st @ [key] \<rparr>)"
        using assms Some m True fresh calm by (cases "is_accepted_report env p") (simp add: scan_report_def Let_def)
      show ?thesis
        by (rule accepted [OF Some c]) (use only fresh calm in \<open>auto simp: st' add_accepted_def Let_def\<close>)
    qed
  qed
qed

lemma scan_invariant_keep:
  assumes inv: "scan_invariant hk env wi content done st"
    and same: "sc_by_key st' = sc_by_key st" "sc_quiet_by st' = sc_quiet_by st" "sc_accepted st' = sc_accepted st"
    and grown: "set (sc_seen st) \<subseteq> set (sc_seen st')" "set (sc_unreadable st) \<subseteq> set (sc_unreadable st')"
    and new: "\<And>k. counts_for hk env wi k (content u) t \<Longrightarrow> k \<in> set (sc_seen st')" "content u = None \<Longrightarrow> t \<in> set (sc_unreadable st')"
  shows "scan_invariant hk env wi content (done @ [(u, t)]) st'"
proof -
  note i = inv [unfolded scan_invariant_def]
  have "\<forall>k u' t'. (u', t') \<in> set (done @ [(u, t)]) \<and> counts_for hk env wi k (content u') t' \<longrightarrow> k \<in> set (sc_seen st')"
    using i [THEN conjunct1] grown(1) new(1) by auto
  moreover have "\<forall>u' t'. (u', t') \<in> set (done @ [(u, t)]) \<and> content u' = None \<longrightarrow> t' \<in> set (sc_unreadable st')"
    using i [THEN conjunct2, THEN conjunct1] grown(2) new(2) by auto
  moreover have "k \<in> set (sc_seen st') \<and> decided_by hk env wi content (done @ [(u, t)]) k t' (dget (sc_quiet_by st) k = Some True)"
    if "dget (sc_by_key st) k = Some t'" for k t'
    using i that grown(1) decided_by_append by blast
  ultimately show ?thesis using i by (simp add: scan_invariant_def same)
qed

lemma scan_invariant_step:
  assumes inv: "scan_invariant hk env wi content done st" and step: "scan_report hk env wi st u t (content u) = Inr st'"
  shows "scan_invariant hk env wi content (done @ [(u, t)]) st'"
  using step
proof (cases rule: scan_report_cases)
  case unreadable
  then show ?thesis by (intro scan_invariant_keep [OF inv]) (auto simp: counts_for_def)
next
  case (other p)
  then show ?thesis by (intro scan_invariant_keep [OF inv]) auto
next
  case (seen p key)
  then show ?thesis by (intro scan_invariant_keep [OF inv]) auto
next
  case (accepted p key calm)
  have old: "dget (sc_by_key st) key = None"
    using inv accepted(4) unfolding scan_invariant_def by (metis option.exhaust)
  then have old2: "dget (sc_quiet_by st) key = None" using inv unfolding scan_invariant_def by blast
  have "\<forall>(u', t')\<in>set done. \<not> counts_for hk env wi key (content u') t'"
    using inv accepted(4) unfolding scan_invariant_def by blast
  then have new: "decided_by hk env wi content (done @ [(u, t)]) key t calm"
    unfolding decided_by_def using accepted(1,2,5,6) quiet_in_time_quiet
    by (intro exI [of _ "done"] exI [of _ u] exI [of _ "[]"] exI [of _ p]) auto
  have seen: "\<forall>k u' t'. (u', t') \<in> set (done @ [(u, t)]) \<and> counts_for hk env wi k (content u') t' \<longrightarrow> k \<in> set (sc_seen st')"
    "\<forall>u' t'. (u', t') \<in> set (done @ [(u, t)]) \<and> content u' = None \<longrightarrow> t' \<in> set (sc_unreadable st')"
    using inv [unfolded scan_invariant_def, THEN conjunct1] inv [unfolded scan_invariant_def, THEN conjunct2, THEN conjunct1]
      accepted(1,3,7,8) by auto
  have kept: "k \<in> set (sc_seen st') \<and> decided_by hk env wi content (done @ [(u, t)]) k t' (dget (sc_quiet_by st) k = Some True)"
    if "dget (sc_by_key st) k = Some t'" for k t'
    using inv that accepted(7) decided_by_append unfolding scan_invariant_def by blast
  show ?thesis
  proof (cases "wi_keys wi = []")
    case True
    then show ?thesis using inv seen kept accepted(9) unfolding scan_invariant_def by simp
  next
    case False
    then have st': "sc_accepted st' = sc_accepted st" "sc_by_key st' = dset (sc_by_key st) key t" "sc_quiet_by st' = dset (sc_quiet_by st) key calm"
      using accepted(9) old old2 by (simp_all add: set_default_def)
    have "k \<in> set (sc_seen st') \<and> decided_by hk env wi content (done @ [(u, t)]) k t' (dget (sc_quiet_by st') k = Some True)"
      if "dget (sc_by_key st') k = Some t'" for k t'
      using that kept [of k t'] new accepted(7) by (auto simp: st' dget_dset split: if_splits)
    then show ?thesis using inv seen by (simp add: scan_invariant_def st' dget_dset)
  qed
qed

lemma scan_reports_invariant:
  assumes "still_archive gcloud hk env content" "scan_reports gcloud hk env wi st os w = (Inr st', w')" "scan_invariant hk env wi content done st"
  shows "scan_invariant hk env wi content (done @ os) st'"
  using assms(2,3)
proof (induction os arbitrary: w st "done")
  case (Cons x os)
  obtain u t where x: "x = (u, t)" by (rule prod.exhaust)
  obtain w1 st1 w2 where r: "cat_gcs_json gcloud hk (heartbeat_project env) u w = (Inr (content u), w1)"
    "scan_report hk env wi st u t (content u) = Inr st1" "scan_reports gcloud hk env wi st1 os w2 = (Inr st', w')"
    using Cons.prems(1) assms(1) by (auto simp: x bindIO_Inr still_archive_def liftE_def) (metis fst_conv sum.inject(2))
  show ?case using Cons.IH [OF r(3) scan_invariant_step [OF Cons.prems(2) r(2)]] by (simp add: x)
qed (simp add: returnIO_eq)

text \<open>What is later than an object of the scanned part was scanned before it.\<close>

lemma later_is_before:
  assumes "latest_first n found = pre @ (u, t) # post" "(u', t') \<in> set found" "mo_micros t < mo_micros t'"
  shows "(u', t') \<in> set pre"
proof -
  let ?f = "\<lambda>(u, t). - mo_micros t"
  let ?L = "sort_key ?f found"
  obtain m where "take m ?L = pre @ (u, t) # post" using assms(1) by (auto simp: latest_first_def py_take_def)
  then have L: "?L = pre @ (u, t) # (post @ drop m ?L)" using append_take_drop_id [of m ?L] by simp
  have "sorted (map ?f (pre @ (u, t) # (post @ drop m ?L)))" using sorted_sort_key [of ?f found] L by simp
  then have "\<forall>x\<in>set (post @ drop m ?L). ?f (u, t) \<le> ?f x" by (simp only: map_append list.map sorted_append sorted_wrt.simps set_map) auto
  then have "mo_micros t' \<le> mo_micros t" if "(u', t') \<in> set (post @ drop m ?L)" using that by fastforce
  moreover have "(u', t') \<in> set (pre @ (u, t) # (post @ drop m ?L))" using assms(2) L set_sort [of ?f found] by metis
  ultimately show ?thesis using assms(3) by auto
qed

lemma healthy_verdict:
  assumes "heartbeat_verdict wi any_object failed st = Healthy calm reports affected" "wi_keys wi \<noteq> []" "sc_accepted st = []" "k \<in> set (wi_keys wi)"
  shows "\<not> failed" "\<exists>t. dget (sc_by_key st) k = Some t" "calm \<Longrightarrow> dget (sc_quiet_by st) k = Some True"
    "dget (sc_by_key st) k = Some t \<Longrightarrow> x \<in> set (sc_unreadable st) \<Longrightarrow> mo_micros x < mo_micros t"
proof -
  have v: "\<not> failed" "\<not> read_incomplete wi st" "sc_issues st = []" "calm \<longrightarrow> all_quiet wi st"
    "filter (\<lambda>k. dget (sc_by_key st) k = None) (wi_keys wi) = []"
    using assms(1,3) by (auto simp: heartbeat_verdict_def Let_def split: if_splits)
  then have m: "list_all (\<lambda>k. dget (sc_by_key st) k \<noteq> None) (wi_keys wi)"
    by (simp add: filter_empty_conv list_all_iff)
  show "\<not> failed" "\<exists>t. dget (sc_by_key st) k = Some t" using v(1) m assms(4) by (auto simp: list_all_iff)
  show "calm \<Longrightarrow> dget (sc_quiet_by st) k = Some True" using v(4) assms(4) by (auto simp: all_quiet_def list_all_iff)
  show "mo_micros x < mo_micros t" if "dget (sc_by_key st) k = Some t" "x \<in> set (sc_unreadable st)"
  proof (rule ccontr)
    assume "\<not> mo_micros x < mo_micros t"
    then have "list_ex (\<lambda>u. list_ex (\<lambda>k. case dget (sc_by_key st) k of None \<Rightarrow> False | Some t \<Rightarrow> mo_micros t \<le> mo_micros u) (wi_keys wi)) (sc_unreadable st)"
      using that assms(4) by (force simp: list_ex_iff intro!: bexI [of _ x] bexI [of _ k])
    moreover have "sc_unreadable st \<noteq> []" using that(2) by auto
    ultimately show False using v(2) by (simp add: read_incomplete_def split: if_splits)
  qed
qed

lemma healthy_lists_all: "heartbeat_verdict wi any_object failed st = Healthy calm reports affected \<Longrightarrow> \<not> failed"
  by (auto simp: heartbeat_verdict_def Let_def split: if_splits)

text \<open>
  Property C11. A heartbeat that finds everything in order rests on the reports: no listing had
  failed, and each key that must report has, among the objects listed, a report that matches it,
  is in time and is accepted, and is quiet where the heartbeat is a quiet one; every object newer
  than that report was read and is not an in-time report of the key. So neither an older report
  nor one behind an unreadable object passes for the latest.
\<close>

theorem healthy_heartbeat_has_every_report:
  assumes "still_archive gcloud hk env content"
    and "heartbeat_run gcloud hk tk env now w = (Inr (Healthy calm reports affected), w')"
  shows "\<exists>wi found w1 w2. heartbeat_search gcloud hk tk env now w = (Inr (Look wi), w1)
     \<and> collect_reports gcloud hk env (wi_since wi) (report_globs env (wi_since wi) (wi_now wi)) [] False w1 = (Inr (found, False), w2)
     \<and> (\<forall>k\<in>set (wi_keys wi). \<exists>u t p. (u, t) \<in> set found \<and> content u = Some p \<and> counts_for hk env wi k (Some p) t
          \<and> fst (is_accepted_report env p) \<and> (calm \<longrightarrow> is_quiet_report hk (wi_now wi) p = Inr True)
          \<and> (\<forall>(u', t')\<in>set found. mo_micros t < mo_micros t' \<longrightarrow> content u' \<noteq> None \<and> \<not> counts_for hk env wi k (content u') t'))"
proof -
  obtain wi w1 where s: "heartbeat_search gcloud hk tk env now w = (Inr (Look wi), w1)"
    "heartbeat_look gcloud hk env wi w1 = (Inr (Healthy calm reports affected), w')"
    using assms(2) unfolding heartbeat_run_def bindIO_Inr by (fastforce simp: returnIO_eq split: search.splits)
  then obtain found failed w2 st w3 where c:
    "collect_reports gcloud hk env (wi_since wi) (report_globs env (wi_since wi) (wi_now wi)) [] False w1 = (Inr (found, failed), w2)"
    "scan_reports gcloud hk env wi no_scan (latest_first (wi_max_reports wi) found) w2 = (Inr st, w3)"
    "heartbeat_verdict wi (found \<noteq> []) failed st = Healthy calm reports affected"
    by (auto simp: heartbeat_look_def Let_def bindIO_Inr returnIO_eq raiseIO_def split: if_splits)
  let ?os = "latest_first (wi_max_reports wi) found"
  have inv: "scan_invariant hk env wi content ?os st"
    using scan_reports_invariant [OF assms(1) c(2) scan_invariant_start] by simp
  have key: "\<exists>u t p. (u, t) \<in> set found \<and> content u = Some p \<and> counts_for hk env wi k (Some p) t
          \<and> fst (is_accepted_report env p) \<and> (calm \<longrightarrow> is_quiet_report hk (wi_now wi) p = Inr True)
          \<and> (\<forall>(u', t')\<in>set found. mo_micros t < mo_micros t' \<longrightarrow> content u' \<noteq> None \<and> \<not> counts_for hk env wi k (content u') t')"
    if k: "k \<in> set (wi_keys wi)" for k
  proof -
    have keys: "wi_keys wi \<noteq> []" "sc_accepted st = []" using k inv by (auto simp: scan_invariant_def)
    note h = healthy_verdict [OF c(3) keys k]
    obtain t where t: "dget (sc_by_key st) k = Some t" using h(2) by blast
    then have "decided_by hk env wi content ?os k t (dget (sc_quiet_by st) k = Some True)" using inv unfolding scan_invariant_def by blast
    then obtain pre u post p where d: "?os = pre @ (u, t) # post" "content u = Some p" "counts_for hk env wi k (Some p) t"
      "fst (is_accepted_report env p)" "calm \<longrightarrow> is_quiet_report hk (wi_now wi) p = Inr True"
      "\<forall>(u', t')\<in>set pre. \<not> counts_for hk env wi k (content u') t'"
      unfolding decided_by_def using h(3) by blast
    have os: "set ?os \<subseteq> set found" using set_take_subset by (fastforce simp: latest_first_def py_take_def)
    have "content u' \<noteq> None \<and> \<not> counts_for hk env wi k (content u') t'" if o: "(u', t') \<in> set found" "mo_micros t < mo_micros t'" for u' t'
    proof -
      have pre: "(u', t') \<in> set pre" by (rule later_is_before [OF d(1) o])
      then have "content u' = None \<Longrightarrow> t' \<in> set (sc_unreadable st)" using inv d(1) unfolding scan_invariant_def by auto
      then show ?thesis using h(4) [OF t, of t'] o(2) d(6) pre by fastforce
    qed
    then show ?thesis using d os by (intro exI [of _ u] exI [of _ t] exI [of _ p]) auto
  qed
  show ?thesis
    by (rule exI [of _ wi], rule exI [of _ found], rule exI [of _ w1], rule exI [of _ w2])
      (use s(1) c(1) healthy_lists_all [OF c(3)] key in simp)
qed

text \<open>One service, one listing and one quiet report.\<close>

definition sample_now :: moment where
  "sample_now = \<lparr> mo_text = ''now'', mo_micros = 739000 * 24 * hour_micros \<rparr>"

definition sample_report :: "pyval dict" where
  "sample_report = [(''service_name'', PStr ''svc''), (''status'', PStr ''ok''), (''errors'', PList []), (''started_at'', PStr ''early''),
     (''finished_at'', PStr ''late''), (''diagnostics'', PDict []),
     (''summary'', PDict [(''execution_status'', PStr ''no_action''), (''order_events_count'', PInt 0)])]"

definition heartbeat_sample_kit :: heartbeat_kit where
  "heartbeat_sample_kit =
     \<lparr> hk_loads = (\<lambda>s. Inr (if s = ''listing'' then PList [PDict [(''url'', PStr ''gs://b/r.json#1''), (''metadata'', PDict [(''updated'', PStr ''late'')])]]
         else PDict sample_report)),
       hk_iso = (\<lambda>s. Inr (True, \<lparr> mo_text = s, mo_micros = mo_micros sample_now - (if s = ''late'' then 1 else 2) * hour_micros \<rparr>)),
       hk_zone = (\<lambda>z. Inl (ValueError z)), hk_calendar = (\<lambda>c. Inl (KeyError c)), hk_receipt = (\<lambda>v. Inl (ValueError [])),
       hk_match = (\<lambda>p ts. Inr ([], [])) \<rparr>"

definition sample_targets :: target_kit where
  "sample_targets =
     \<lparr> tk_load = (\<lambda>env all. Inr []), tk_present = (\<lambda>env. Inr False), tk_any_enabled = (\<lambda>env. Inr False),
       tk_due = (\<lambda>ts a b m g. Inr ([], False)), tk_services = (\<lambda>ss due ts. Inr ss), tk_key = service_of, tk_latest_due = (\<lambda>t. Inr None) \<rparr>"

definition sample_gcloud :: "unit gcloud" where
  "sample_gcloud = (\<lambda>args. returnIO \<lparr> pr_code = 0, pr_out = (if args ! 2 = ''ls'' then ''listing'' else ''report''), pr_err = [] \<rparr>)"

definition heartbeat_env :: env where
  "heartbeat_env = [''RUNTIME_HEARTBEAT_GCS_GLOBS'' \<mapsto> ''gs://b/*.json'', ''RUNTIME_HEARTBEAT_REQUIRED_SERVICES'' \<mapsto> ''svc'']"

lemma sample_healthy: "fst (heartbeat_run sample_gcloud heartbeat_sample_kit sample_targets heartbeat_env sample_now ()) = Inr (Healthy True [sample_report] None)"
  by code_simp

lemma sample_still: "still_archive sample_gcloud heartbeat_sample_kit heartbeat_env (\<lambda>u. Some sample_report)"
  by (simp add: still_archive_def cat_gcs_json_def sample_gcloud_def heartbeat_sample_kit_def bindIO_case returnIO_eq with_project_def
      json_or_nothing_def heartbeat_project_def)

lemma sample_keys:
  "(case fst (heartbeat_search sample_gcloud heartbeat_sample_kit sample_targets heartbeat_env sample_now ()) of Inr (Look wi) \<Rightarrow> wi_keys wi | _ \<Rightarrow> []) = [''svc'']"
  by code_simp

theorem healthy_heartbeat_has_every_report_witness:
  "\<exists>wi t. fst (heartbeat_search sample_gcloud heartbeat_sample_kit sample_targets heartbeat_env sample_now ()) = Inr (Look wi)
     \<and> wi_keys wi = [''svc''] \<and> counts_for heartbeat_sample_kit heartbeat_env wi ''svc'' (Some sample_report) t
     \<and> is_quiet_report heartbeat_sample_kit (wi_now wi) sample_report = Inr True"
proof -
  have run: "heartbeat_run sample_gcloud heartbeat_sample_kit sample_targets heartbeat_env sample_now () = (Inr (Healthy True [sample_report] None), ())"
    using sample_healthy by (metis (full_types) old.unit.exhaust prod.collapse)
  note all = healthy_heartbeat_has_every_report [OF sample_still run]
  obtain wi w1 where h: "heartbeat_search sample_gcloud heartbeat_sample_kit sample_targets heartbeat_env sample_now () = (Inr (Look wi), w1)"
    and k: "\<forall>k\<in>set (wi_keys wi). \<exists>t. counts_for heartbeat_sample_kit heartbeat_env wi k (Some sample_report) t
          \<and> is_quiet_report heartbeat_sample_kit (wi_now wi) sample_report = Inr True"
    by (rule exE [OF all]) (metis option.inject)
  have keys: "wi_keys wi = [''svc'']" using sample_keys by (simp add: h)
  then show ?thesis using k h by auto
qed

text \<open>
  Property C40. The windows of a heartbeat are walked to their end: the loop over the days finds an
  expected day if and only if the window has one, however far apart its ends are, and the loop over
  the months names each month from the first to the last once in each spelling and no other, and
  names none where the window is empty.
\<close>

theorem heartbeat_windows_are_walked:
  "(due_in_window days a b \<longleftrightarrow> (\<exists>d. a \<le> d \<and> d \<le> b \<and> day_of_month d \<in> set days))
     \<and> month_segments since now =
         (case (month_of since, month_of now) of ((y, m), (last_y, last_m)) \<Rightarrow>
            concat (map (\<lambda>n. month_names (n div 12) (n mod 12 + 1)) [y * 12 + m - 1..last_y * 12 + last_m - 1]))"
proof (rule conjI [OF due_in_window_iff])
  obtain y m where s: "month_of since = (y, m)" by (rule prod.exhaust)
  show "month_segments since now =
         (case (month_of since, month_of now) of ((y, m), (last_y, last_m)) \<Rightarrow>
            concat (map (\<lambda>n. month_names (n div 12) (n mod 12 + 1)) [y * 12 + m - 1..last_y * 12 + last_m - 1]))"
    using months_from_closed month_of_bounds [OF s] by (simp add: month_segments_def s split: prod.split)
qed

end
