(* ===== verification/Spec2Isabelle.thy ===== *)
theory Spec2Isabelle
  imports RunProperties OrderGuard PaperCommands SessionSafety StatementReconciliation ClaimRace Reconciliation RuntimeSettings Heartbeat
begin

text \<open>
  A verification library of FirstradePlatform, the service that runs trading strategies on one
  Firstrade account.

  \<^bold>\<open>The program.\<close> A scheduler calls the routes of \<open>main.py\<close>. A request to \<open>/run\<close> or \<open>/dry-run\<close>
  passes the gate of the market hours (\<open>entrypoints/cloud_run.py\<close>) and, for a paper dry run, the
  admission (\<open>application/paper_execution_admission.py\<close>); then \<open>_run_strategy_cycle_with_report\<close>
  runs \<open>run_strategy_cycle\<close> (\<open>application/rebalance_service.py\<close>): it logs in
  (\<open>application/firstrade_client.py\<close>), picks the account, reads the portfolio
  (\<open>application/runtime_broker_adapters.py\<close>), evaluates the strategy, maps its decision to a plan
  (\<open>decision_mapper.py\<close>), looks for a run of the same period in the state store
  (\<open>application/strategy_run_persistence.py\<close> over \<open>application/state_persistence.py\<close>), executes
  the plan (\<open>application/execution_service.py\<close>), stores the state and decides which message the
  run deserves (\<open>notifications\<close>). Beside it stand the paper command consumer, the read-only
  session with its history read, the analysis of fees and statements, the publication of
  account facts, the check of the cached session, the reconciliation of an unknown paper order,
  the notifications with their daily candidates and incidents, and the heartbeat that looks
  for the reports of the runs.

  \<^bold>\<open>How the model reads.\<close> A computation that may raise is a sum: \<open>'a exc\<close> is \<open>pyexc + 'a\<close> with
  one constructor of \<open>pyexc\<close> per exception class the code raises or tells apart. A computation
  with effects is \<open>('w, 'a) io\<close>, a function from a world to a result and a world, so what was
  done before an exception stays done. The world has any type: the theorems hold for every
  environment, and what is assumed of it is a named hypothesis (\<open>object_store_laws\<close>,
  \<open>broker_effects\<close>, \<open>only_place_sends\<close>, \<open>only_strategy_sends\<close>,
  \<open>only_publishing_posts\<close>, \<open>marker_laws\<close> and \<open>json_laws\<close> of the stores with compare-and-set,
  \<open>digest_tells\<close> that a digest tells its input apart, \<open>still_archive\<close>), instantiated by each witness.
  Payloads are \<open>pyval\<close>, dictionaries are association lists in insertion order, floats are
  \<open>pyfloat\<close> with an exact rational for a finite value and correct rounding of every operation,
  decimals are rationals with the 28 digits of the default context, dates are day numbers of
  the proleptic Gregorian calendar. Names are those of the code.

  \<^bold>\<open>The theories.\<close>
  Language: \<open>Prelude\<close> (exceptions, sequencing, dictionaries, the locale of a keyed store),
  \<open>PyText\<close>, \<open>PyFloat\<close> over \<open>Rounding\<close>, \<open>PyValue\<close> (values, truth, conversions), \<open>PyDate\<close>,
  \<open>PyDecimal\<close>.
  Client (\<open>firstrade_client.py\<close>, \<open>account_payload_utils.py\<close>): \<open>PayloadUtils\<close> (searching broker
  payloads), \<open>OrderGuard\<close> (credentials, the order request, its validation and the one call
  that sends an order), \<open>BrokerClient\<close> (accounts, balances, positions, orders, order status),
  \<open>SessionCache\<close> (the cached login), \<open>ClientSession\<close> (login, cached login, the read-only
  connection and its guarded transport, the history read, closing), \<open>SessionSafety\<close> (the client
  as a state machine and its properties).
  Store: \<open>StateStore\<close> (object URIs, reads, writes, conditional creates; the interpretation of
  the keyed-store locale), \<open>RunPersistence\<close> (keys, states, claims, periods), \<open>ClaimRace\<close> (any
  number of processes that race for claims).
  Execution: \<open>ExecPolicy\<close> (sizing and small-account rules), \<open>ExecCycle\<close> (the cycle of
  \<open>execute_value_target_plan\<close>), \<open>ExecTrace\<close> (the order of its calls), \<open>ExecBudget\<close> (its bounds).
  Run: \<open>BrokerAdapters\<close>, \<open>DecisionPlan\<close>, \<open>RunCycle\<close> (\<open>run_strategy_cycle\<close> from its plan on),
  \<open>RunSafety\<close>, \<open>RunProperties\<close> and \<open>RunTickets\<close> (what it sends), \<open>StrategyCycle\<close> (the whole of
  \<open>run_strategy_cycle\<close>), \<open>NotificationKind\<close> (\<open>cycle_kind\<close>, \<open>known_pending_orders\<close>,
  \<open>defer_routine_cycle_to_digest\<close>), \<open>ExecutionReceipt\<close>, \<open>CycleReport\<close> (the private report around
  a cycle), \<open>PaperCommands\<close> (admission and consumer), \<open>RunRoutes\<close> (market hours and the routes).
  Analysis: \<open>FeeSchedule\<close> (\<open>application/firstrade_fee_schedule.py\<close>), \<open>StatementReconciliation\<close>
  (\<open>application/statement_reconciliation.py\<close>).
  Facts: \<open>AccountFacts\<close> (\<open>application/account_facts_readonly.py\<close>: the allowlisted account, its
  decimals as canonical texts), \<open>FactsPublisher\<close> (\<open>application/account_facts_publisher.py\<close>: the
  configuration, the request and its answer), \<open>FactsRoute\<close> (\<open>account_facts_sync\<close> of \<open>main.py\<close> and
  the log entry it leaves), \<open>SessionCheck\<close> (\<open>application/session_check_service.py\<close>: one probe of
  the cached session per market period and its stored outcome), \<open>Reconciliation\<close>
  (\<open>application/broker_reconciliation.py\<close> and the route \<open>/reconcile\<close>).
  Settings: \<open>RuntimeSettings\<close> (\<open>runtime_config_support.py\<close>, \<open>runtime_execution_policy.py\<close> and the
  premiums of limit buys).
  Notifications (\<open>notifications\<close>): \<open>Incidents\<close> (\<open>digest_snapshot/unified_contract.py\<close>: events, routes and the
  tracker of incidents over its markers, with any number of workers that race), \<open>CandidateRuns\<close>
  (\<open>digest_snapshot/digest_candidates.py\<close> and the bindings, rows and merge of \<open>unified.py\<close>).
  Heartbeat (\<open>scripts/execution_report_heartbeat.py\<close>): \<open>HeartbeatReports\<close> (what one report says),
  \<open>HeartbeatWindow\<close> (the window, the services and the calls of gcloud), \<open>Heartbeat\<close> (the scan of the
  reports and its verdict).

  \<^bold>\<open>What is shown.\<close> Orders: a ticket that reaches the SDK is valid, within the cap and behind both
  live switches; in a live cycle it comes after the granted claim and none follows an order
  whose outcome is unknown; of all live runs of a claim key at most one sends, claims refine
  a register written once per key, and a key that was asked for is held by somebody. Routes:
  \<open>/run\<close> sends only behind all its gates, \<open>/dry-run\<close> sends only previews, a cycle acts for the one
  account of its target. Sizing: buys stay within cash and cap, sells within the position,
  reserved cash is not investable. Reports: \<open>action_done\<close> is true only of settled orders, stored
  states are finite, routine messages are free of trouble. Session: the read-only connection
  sends only the allowed reads, never logs in and never writes; the fields of a client agree
  in every reachable state. Analysis: lookups agree with a reference, fees are rounded up to
  the cent, a difference of quotes never hides a break of quantities. Facts: the route posts at most
  once, for the one account of its configuration, and what it observes is publishable as a
  canonical decimal text. Session check: a period that was checked is not checked again, a
  session that was renewed is the one that is loaded. Reconciliation: its report never permits
  recovery, and the hash over the positions binds the holdings. Settings: only an environment that
  enables the target, live trading and its acknowledgement gives a run that sends live orders,
  and settings that load are within their bounds. Notifications: however workers interleave,
  a transition of an incident is sent by one of them and not again until it ends or gets worse, and a
  merge keeps every alert of the day. Heartbeat: a healthy verdict rests on an accepted report
  of each key that must report, the latest one, with every newer object read; the loops
  over its windows end with what the windows hold. Some theorems show where
  the code does not do what it means to, by a concrete input.

  \<^bold>\<open>Bounds and termination.\<close> Every definition is total: loops of the code run over lists and
  are recursions on them, and no fuel is added to what the code counts itself; where the recursion is not structural (the
  decimal places of a quotient, the days and months of a heartbeat's window) a measure ends it.
  The loops that repeat a compare-and-set stop after eight attempts, as in the code, with an
  exception. A transport is any finite program of requests
  (\<open>reader\<close>), so the history read ends. Counters are \<open>int\<close>, as in Python. Text is ASCII for
  upper and lower case and for white space.

  \<^bold>\<open>Not modelled, and why.\<close> The packages quant_platform_kit, us_equity_strategies and the broker SDK
  are not part of the sources: what the code calls of them is a parameter, as are SHA-256 over a JSON
  text, the reader of time texts and the time zones. Of the notifications the texts and their delivery
  (\<open>notifications/telegram.py\<close>, \<open>compact_adapter.py\<close>), the client of Cloud Storage, the archive
  (\<open>digest_snapshot/digest_archive.py\<close>) and the functions of \<open>unified.py\<close> that join the tracker with
  the senders (\<open>notify_cycle\<close>, \<open>notify_heartbeat\<close>) are left out; of the heartbeat, the texts and
  the sending of its notices. \<open>strategy_*.py\<close> and \<open>application/signal_snapshot.py\<close> are thin calls of the
  packages above, and the other programs under \<open>scripts\<close> run outside the service, around gcloud, GitHub and
  the file system. Concurrency inside one request does not occur; between requests it is the
  interleaving of \<open>ClaimRace\<close> and, for notifications, of \<open>Incidents\<close>.
\<close>

end
